(* ===== verification/Prelude.thy ===== *)
theory Prelude
  imports Complex_Main "HOL-Library.AList" "HOL-Library.List_Lexorder" "HOL-Library.Multiset" "HOL-Library.Sublist"
begin

text \<open>
  Shared vocabulary of the development.

  \<^item> A Python \<open>str\<close> is a list of code points (\<open>pystr\<close>); \<open>lit\<close> turns an
    ASCII literal into one, and characters outside ASCII are written as their code point.
  \<^item> A Python \<open>dict\<close> is an association list in insertion order: reading is
    \<open>map_of\<close>, \<open>d[k] = v\<close> is \<open>AList.update\<close>, which keeps the position of an
    existing key and appends a new one, as CPython does.
  \<^item> A JSON value (or a value loaded from YAML) is a \<open>json\<close>.
  \<^item> An operation that may raise returns \<open>'e + 'a\<close>: \<open>Inl\<close> the exception.
  \<^item> A timezone-aware UTC \<open>datetime\<close> is a \<open>datetime\<close>, ordered as Python orders it.

  \<open>dict_simps\<close> and \<open>res_simps\<close> collect the rewrite rules the component theories share.
\<close>

named_theorems dict_simps \<open>reading and updating dictionaries\<close>
named_theorems res_simps \<open>results of operations that may raise\<close>

section \<open>Strings\<close>

type_synonym pystr = "int list"

definition lit :: "string \<Rightarrow> pystr" where
  "lit s = map of_char s"

lemma lit_eq_iff [simp]: "lit s = lit t \<longleftrightarrow> s = t"
  by (simp add: lit_def inj_def inj_map_eq_map)

lemma lit_Nil_iff [simp]: "lit s = [] \<longleftrightarrow> s = []" "[] = lit s \<longleftrightarrow> s = []"
  by (auto simp: lit_def)

lemma length_lit [simp]: "length (lit s) = length s"
  by (simp add: lit_def)

lemma lit_append: "lit (s @ t) = lit s @ lit t"
  by (simp add: lit_def)

text \<open>\<open>str(n)\<close> for a natural number.\<close>

fun str_of_nat :: "nat \<Rightarrow> pystr" where
  "str_of_nat n =
     (if n < 10 then [48 + int n] else str_of_nat (n div 10) @ [48 + int (n mod 10)])"

declare str_of_nat.simps [simp del]

lemma str_of_nat_nonempty [simp]: "str_of_nat n \<noteq> []"
  by (subst str_of_nat.simps) simp

definition is_digit :: "int \<Rightarrow> bool" where
  "is_digit c \<longleftrightarrow> 48 \<le> c \<and> c \<le> 57"

lemma str_of_nat_digits: "c \<in> set (str_of_nat n) \<Longrightarrow> is_digit c"
proof (induction n rule: str_of_nat.induct)
  case (1 n)
  then show ?case
    by (cases "n < 10") (auto simp: str_of_nat.simps [of n] is_digit_def)
qed

text \<open>Decimal digits padded on the left with zeros to width \<open>w\<close>, as \<open>%0wd\<close>.\<close>

definition zpad :: "nat \<Rightarrow> nat \<Rightarrow> pystr" where
  "zpad w n = replicate (w - length (str_of_nat n)) 48 @ str_of_nat n"

lemma zpad_digits: "c \<in> set (zpad w n) \<Longrightarrow> is_digit c"
  by (auto simp: zpad_def str_of_nat_digits) (simp add: is_digit_def)

lemma length_str_of_nat: "n < 10 ^ w \<Longrightarrow> 0 < w \<Longrightarrow> length (str_of_nat n) \<le> w"
proof (induction w arbitrary: n)
  case 0
  then show ?case by simp
next
  case (Suc w)
  show ?case
  proof (cases "n < 10")
    case True
    then show ?thesis by (simp add: str_of_nat.simps [of n])
  next
    case False
    with Suc.prems have "0 < w" by (cases w) auto
    moreover from Suc.prems have "n div 10 < 10 ^ w"
      by (simp add: less_mult_imp_div_less mult.commute)
    ultimately show ?thesis
      using False Suc.IH [of "n div 10"] by (simp add: str_of_nat.simps [of n])
  qed
qed

lemma length_zpad: "n < 10 ^ w \<Longrightarrow> 0 < w \<Longrightarrow> length (zpad w n) = w"
  using length_str_of_nat [of n w] by (simp add: zpad_def)

section \<open>Dictionaries\<close>

type_synonym 'v dict = "(pystr \<times> 'v) list"

text \<open>A dictionary has each key once; every operation below keeps that.\<close>

abbreviation wf_dict :: "('k \<times> 'v) list \<Rightarrow> bool" where
  "wf_dict d \<equiv> distinct (map fst d)"

abbreviation dict_set :: "'k \<Rightarrow> 'v \<Rightarrow> ('k \<times> 'v) list \<Rightarrow> ('k \<times> 'v) list" where
  "dict_set \<equiv> AList.update"

text \<open>A dict display or comprehension: the pairs are stored from left to right.\<close>

definition dict_of :: "('k \<times> 'v) list \<Rightarrow> ('k \<times> 'v) list" where
  "dict_of kvs = fold (\<lambda>(k, v) d. dict_set k v d) kvs []"

text \<open>Lookups stay lookups: the library would turn them into membership in the pair list.\<close>

declare map_of_eq_Some_iff [simp del] Some_eq_map_of_iff [simp del]

declare AList.update_conv' [dict_simps] AList.distinct_update [dict_simps]

lemma dom_dict_set [dict_simps]: "dom (map_of (dict_set k v d)) = insert k (dom (map_of d))"
  by (simp add: AList.update_conv')

lemma fst_set_dict_set [dict_simps]: "fst ` set (dict_set k v d) = insert k (fst ` set d)"
  by (metis AList.update_conv' dom_fun_upd dom_map_of_conv_image_fst option.discI)

lemma set_dict_set: "set (dict_set k v d) \<subseteq> insert (k, v) (set d)"
  by (induction d) auto

lemma keys_dict_set_old [dict_simps]:
  "map_of d k \<noteq> None \<Longrightarrow> map fst (dict_set k v d) = map fst d"
  by (auto simp: AList.update_keys map_of_eq_None_iff)

lemma fold_dict_set_map_of:
  "map_of (fold (\<lambda>(k, v) d. dict_set k v d) kvs d) = map_of d ++ map_of (rev kvs)"
  by (induction kvs arbitrary: d) (auto simp: AList.update_conv' map_add_assoc)

lemma fold_dict_set_wf:
  "wf_dict d \<Longrightarrow> wf_dict (fold (\<lambda>(k, v) d. dict_set k v d) kvs d)"
  by (induction kvs arbitrary: d) (auto simp: AList.distinct_update)

text \<open>The last pair of a key wins.\<close>

lemma map_of_dict_of [dict_simps]: "map_of (dict_of kvs) = map_of (rev kvs)"
  by (simp add: dict_of_def fold_dict_set_map_of)

lemma wf_dict_of [dict_simps]: "wf_dict (dict_of kvs)"
  by (simp add: dict_of_def fold_dict_set_wf)

lemma dom_dict_of [dict_simps]: "dom (map_of (dict_of kvs)) = fst ` set kvs"
  by (simp add: map_of_dict_of dom_map_of_conv_image_fst)

lemma map_of_rev_distinct: "wf_dict d \<Longrightarrow> map_of (rev d) = map_of d"
  by (metis distinct_rev map_of_eqI map_of_inject_set rev_map set_rev)

lemma dict_of_append: "dict_of (xs @ [(k, v)]) = dict_set k v (dict_of xs)"
  by (simp add: dict_of_def)

lemma dict_set_new: "k \<notin> fst ` set d \<Longrightarrow> dict_set k v d = d @ [(k, v)]"
  by (induction d) auto

lemma dict_of_distinct: "wf_dict kvs \<Longrightarrow> dict_of kvs = kvs"
proof (induction kvs rule: rev_induct)
  case Nil
  then show ?case by (simp add: dict_of_def)
next
  case (snoc x xs)
  then show ?case by (cases x) (auto simp: dict_of_append dict_set_new)
qed

lemma map_of_map_value: "map_of (map (\<lambda>(k, v). (k, f v)) d) = map_option f \<circ> map_of d"
  by (induction d) auto

section \<open>JSON values\<close>

datatype json =
    JNull
  | JBool bool
  | JInt int
  | JFloat rat
  | JStr pystr
  | JArr "json list"
  | JObj "(pystr \<times> json) list"

text \<open>\<open>d.get(k, default)\<close> on a decoded object; \<open>None\<close> when the value is no object.\<close>

definition jget :: "json \<Rightarrow> pystr \<Rightarrow> json \<Rightarrow> json option" where
  "jget j k dflt = (case j of JObj d \<Rightarrow> Some (case map_of d k of None \<Rightarrow> dflt | Some v \<Rightarrow> v) | _ \<Rightarrow> None)"

lemma jget_JObj [simp]: "jget (JObj d) k dflt = Some (case map_of d k of None \<Rightarrow> dflt | Some v \<Rightarrow> v)"
  by (simp add: jget_def)

fun truthy :: "json \<Rightarrow> bool" where
  "truthy JNull = False"
| "truthy (JBool b) = b"
| "truthy (JInt i) = (i \<noteq> 0)"
| "truthy (JFloat q) = (q \<noteq> 0)"
| "truthy (JStr s) = (s \<noteq> [])"
| "truthy (JArr xs) = (xs \<noteq> [])"
| "truthy (JObj d) = (d \<noteq> [])"

definition jopt :: "pystr option \<Rightarrow> json" where
  "jopt s = (case s of None \<Rightarrow> JNull | Some t \<Rightarrow> JStr t)"

section \<open>Operations that may raise\<close>

definition bind_res :: "'e + 'a \<Rightarrow> ('a \<Rightarrow> 'e + 'b) \<Rightarrow> 'e + 'b" where
  "bind_res r f = (case r of Inl e \<Rightarrow> Inl e | Inr x \<Rightarrow> f x)"

lemma bind_res_Inr [simp, res_simps]: "bind_res (Inr x) f = f x"
  by (simp add: bind_res_def)

lemma bind_res_Inl [simp, res_simps]: "bind_res (Inl e) f = Inl e"
  by (simp add: bind_res_def)

lemma bind_res_eq_Inr [res_simps]:
  "bind_res r f = Inr y \<longleftrightarrow> (\<exists>x. r = Inr x \<and> f x = Inr y)"
  by (cases r) auto

text \<open>A loop that stops at the first exception.\<close>

fun map_res :: "('a \<Rightarrow> 'e + 'b) \<Rightarrow> 'a list \<Rightarrow> 'e + 'b list" where
  "map_res f [] = Inr []"
| "map_res f (x # xs) = bind_res (f x) (\<lambda>y. bind_res (map_res f xs) (\<lambda>ys. Inr (y # ys)))"

lemma map_res_Inr_iff [res_simps]:
  "map_res f xs = Inr ys \<longleftrightarrow> list_all2 (\<lambda>x y. f x = Inr y) xs ys"
  by (induction xs arbitrary: ys) (auto simp: bind_res_eq_Inr list_all2_Cons1)

lemma map_res_total:
  "(\<And>x. x \<in> set xs \<Longrightarrow> f x = Inr (g x)) \<Longrightarrow> map_res f xs = Inr (map g xs)"
  by (induction xs) auto

text \<open>
  \<open>HTTPException(status, detail)\<close>. A message that quotes an id with \<open>repr\<close> or an exception
  is kept as a constructor applied to it. \<open>http_exn\<close> are the exceptions of the HTTP client
  (\<open>httpx.HTTPError\<close>): no response, or \<open>raise_for_status\<close> on one that is not 2xx.
\<close>

datatype http_exn = TransportError | HTTPStatusError nat

datatype detail =
    Detail pystr
  | McpToolsError http_exn
  | UnknownAsset pystr
  | UnknownScenario pystr
  | AssetNotFound pystr
  | NoActiveScenario pystr

datatype http_exc = HTTPException (http_status: nat) (http_detail: detail)

definition status_ok :: "nat \<Rightarrow> bool" where
  "status_ok code \<longleftrightarrow> 200 \<le> code \<and> code < 300"

definition raise_for_status :: "nat \<Rightarrow> http_exn + unit" where
  "raise_for_status code = (if status_ok code then Inr () else Inl (HTTPStatusError code))"

section \<open>Timestamps\<close>

text \<open>\<open>datetime.now(UTC)\<close>: the fields of an aware datetime whose zone is UTC.\<close>

datatype datetime = DateTime (dt_year: nat) (dt_month: nat) (dt_day: nat)
  (dt_hour: nat) (dt_minute: nat) (dt_second: nat) (dt_micro: nat)

definition dt_key :: "datetime \<Rightarrow> nat list" where
  "dt_key t = [dt_year t, dt_month t, dt_day t, dt_hour t, dt_minute t, dt_second t, dt_micro t]"

lemma dt_key_inject: "dt_key s = dt_key t \<Longrightarrow> s = t"
  by (cases s; cases t) (simp add: dt_key_def)

fun lex_le :: "nat list \<Rightarrow> nat list \<Rightarrow> bool" where
  "lex_le [] ys = True"
| "lex_le (x # xs) [] = False"
| "lex_le (x # xs) (y # ys) = (x < y \<or> x = y \<and> lex_le xs ys)"

lemma lex_le_refl: "lex_le xs xs"
  by (induction xs) auto

lemma lex_le_trans: "lex_le xs ys \<Longrightarrow> lex_le ys zs \<Longrightarrow> lex_le xs zs"
proof (induction xs ys arbitrary: zs rule: lex_le.induct)
  case (3 x xs y ys)
  then show ?case by (cases zs) auto
qed auto

lemma lex_le_antisym: "lex_le xs ys \<Longrightarrow> lex_le ys xs \<Longrightarrow> xs = ys"
proof (induction xs ys rule: lex_le.induct)
  case (1 ys)
  then show ?case by (cases ys) auto
qed auto

lemma lex_le_total: "lex_le xs ys \<or> lex_le ys xs"
  by (induction xs ys rule: lex_le.induct) auto

instantiation datetime :: linorder
begin

definition less_eq_datetime :: "datetime \<Rightarrow> datetime \<Rightarrow> bool" where
  "less_eq_datetime s t \<longleftrightarrow> lex_le (dt_key s) (dt_key t)"

definition less_datetime :: "datetime \<Rightarrow> datetime \<Rightarrow> bool" where
  "less_datetime s t \<longleftrightarrow> lex_le (dt_key s) (dt_key t) \<and> \<not> lex_le (dt_key t) (dt_key s)"

instance
proof
  fix x y z :: datetime
  show "(x < y) = (x \<le> y \<and> \<not> y \<le> x)"
    by (simp add: less_datetime_def less_eq_datetime_def)
  show "x \<le> x"
    by (simp add: less_eq_datetime_def lex_le_refl)
  show "x \<le> y \<Longrightarrow> y \<le> z \<Longrightarrow> x \<le> z"
    unfolding less_eq_datetime_def by (rule lex_le_trans)
  show "x \<le> y \<Longrightarrow> y \<le> x \<Longrightarrow> x = y"
    by (simp add: less_eq_datetime_def dt_key_inject lex_le_antisym)
  show "x \<le> y \<or> y \<le> x"
    by (simp add: less_eq_datetime_def lex_le_total)
qed

end

text \<open>\<open>strftime("%Y-%m-%d")\<close> and \<open>isoformat()\<close> (microseconds only when not zero).\<close>

definition iso_date :: "datetime \<Rightarrow> pystr" where
  "iso_date t = zpad 4 (dt_year t) @ [45] @ zpad 2 (dt_month t) @ [45] @ zpad 2 (dt_day t)"

definition isoformat :: "datetime \<Rightarrow> pystr" where
  "isoformat t = iso_date t @ lit ''T'' @ zpad 2 (dt_hour t) @ lit '':'' @ zpad 2 (dt_minute t)
     @ lit '':'' @ zpad 2 (dt_second t)
     @ (if dt_micro t = 0 then [] else lit ''.'' @ zpad 6 (dt_micro t)) @ lit ''+00:00''"

text \<open>The ranges \<open>datetime\<close> enforces on its fields, as far as formatting depends on them.\<close>

definition valid_datetime :: "datetime \<Rightarrow> bool" where
  "valid_datetime t \<longleftrightarrow> dt_year t < 10000 \<and> dt_month t < 100 \<and> dt_day t < 100"

lemma length_iso_date: "valid_datetime t \<Longrightarrow> length (iso_date t) = 10"
  by (simp add: iso_date_def valid_datetime_def length_zpad)

section \<open>Sorting with a key\<close>

text \<open>\<open>sorted(xs, key=f, reverse=True)\<close> keeps the order of elements with equal keys.\<close>

definition sorted_desc :: "('a \<Rightarrow> 'k::linorder) \<Rightarrow> 'a list \<Rightarrow> 'a list" where
  "sorted_desc f xs = rev (sort_key f (rev xs))"

lemma set_sorted_desc [simp]: "set (sorted_desc f xs) = set xs"
  by (simp add: sorted_desc_def)

lemma length_sorted_desc [simp]: "length (sorted_desc f xs) = length xs"
  by (simp add: sorted_desc_def)

lemma sorted_desc_ordered: "sorted_wrt (\<lambda>x y. f y \<le> f x) (sorted_desc f xs)"
  using sorted_sort_key [of f "rev xs"]
  by (simp add: sorted_desc_def sorted_wrt_rev sorted_map)

end
