(* ===== verification/Models.thy ===== *)
theory Models
  imports Prelude
begin

text \<open>
  The shared data model, \<open>libs/common/models.py\<close>: one \<open>record\<close> per pydantic model
  (fields in the source's order, with a prefix that names the model), one \<open>datatype\<close> per
  \<open>str\<close> enum with the string value of each member. The \<open>Field(min_length=1)\<close>
  constraints are the predicates \<open>pack_fields_ok\<close>, \<open>scenario_fields_ok\<close> and
  \<open>profile_fields_ok\<close>. Ids (\<open>uuid4\<close>) and timestamps (\<open>_now\<close>) come from the
  environment, so the constructors take them as arguments.
\<close>

section \<open>Authored models\<close>

datatype MonitoringAdapterType = Redfish | Generic | Opcua

record AssetNoun =
  noun_singular :: pystr
  noun_plural :: pystr

record PackAsset =
  pa_id :: pystr
  pa_display_name :: "pystr option"
  pa_image_url :: "pystr option"

datatype FleetLayout = Grid | ListLayout

record Pack =
  pk_id :: pystr
  pk_name :: pystr
  pk_asset_noun :: AssetNoun
  pk_fleet_label :: pystr
  pk_monitoring_adapter :: MonitoringAdapterType
  pk_theme :: pystr
  pk_sentinel_name :: pystr
  pk_asset_image_url :: "pystr option"
  pk_asset_spec_label :: "pystr option"
  pk_fleet_layout :: FleetLayout
  pk_assets :: "PackAsset list"

record EmitEvent =
  ee_severity :: pystr
  ee_message_id :: pystr

record EmitLogEntry =
  le_severity :: pystr
  le_message :: pystr

record ScenarioEmit =
  em_event :: EmitEvent
  em_log_entries :: "EmitLogEntry list"

record RemediationStep =
  rs_id :: pystr
  rs_label :: pystr

record ScenarioImpact =
  im_summary :: pystr
  im_workload_impact :: pystr
  im_service_risk :: pystr
  im_estimated_duration :: pystr

datatype ScenarioStatus = Active | Scaffold

record Scenario =
  sc_id :: pystr
  sc_pack_id :: pystr
  sc_target_asset :: pystr
  sc_fault_type :: pystr
  sc_emit :: ScenarioEmit
  sc_log_bundle_ref :: pystr
  sc_error_signatures :: "pystr list"
  sc_kb_article_ref :: pystr
  sc_remediation_steps :: "RemediationStep list"
  sc_impact :: "ScenarioImpact option"
  sc_log_extract :: "pystr option"
  sc_status :: ScenarioStatus

record SimulatorAssetHealthyState =
  hs_system_status :: pystr
  hs_power_status :: pystr
  hs_gpu_count :: int

record SimulatorAsset =
  sa_id :: pystr
  sa_type :: pystr
  sa_healthy_state :: SimulatorAssetHealthyState

record SimulatorProfile =
  sp_pack_id :: pystr
  sp_assets :: "SimulatorAsset list"

record KBArticle =
  kb_id :: pystr
  kb_pack_id :: pystr
  kb_title :: pystr
  kb_body_md :: pystr
  kb_remediation_step_ids :: "pystr list"

definition pack_fields_ok :: "Pack \<Rightarrow> bool" where
  "pack_fields_ok p \<longleftrightarrow> pk_assets p \<noteq> []"

definition scenario_fields_ok :: "Scenario \<Rightarrow> bool" where
  "scenario_fields_ok s \<longleftrightarrow> sc_error_signatures s \<noteq> [] \<and> sc_remediation_steps s \<noteq> []"

definition profile_fields_ok :: "SimulatorProfile \<Rightarrow> bool" where
  "profile_fields_ok p \<longleftrightarrow> sp_assets p \<noteq> []"

section \<open>Runtime entities\<close>

datatype AssetState = healthy | faulted

fun AssetState_value :: "AssetState \<Rightarrow> pystr" where
  "AssetState_value healthy = lit ''healthy''"
| "AssetState_value faulted = lit ''faulted''"

datatype FaultEventStatus =
    detected
  | diagnosing
  | awaiting_approval
  | remediating
  | resolved
  | denied

record FaultEvent =
  fe_id :: pystr
  fe_scenario_id :: pystr
  fe_asset_id :: pystr
  fe_detected_at :: datetime
  fe_status :: FaultEventStatus
  fe_kb_article_id :: "pystr option"
  fe_log_extract :: "pystr option"
  fe_remediation_step_labels :: "pystr list"
  fe_error_signature :: "pystr option"
  fe_analysis :: "pystr option"
  fe_kb_title :: "pystr option"
  fe_kb_score :: "rat option"
  fe_impact :: "ScenarioImpact option"

record Notification =
  nt_id :: pystr
  nt_fault_event_id :: pystr
  nt_title :: pystr
  nt_body :: pystr
  nt_read :: bool
  nt_ts :: datetime

record ActivityEvent =
  ac_id :: pystr
  ac_fault_event_id :: pystr
  ac_step :: pystr
  ac_message :: pystr
  ac_ts :: datetime

datatype ApprovalDecision = decision_approved | decision_denied

fun ApprovalDecision_value :: "ApprovalDecision \<Rightarrow> pystr" where
  "ApprovalDecision_value decision_approved = lit ''approved''"
| "ApprovalDecision_value decision_denied = lit ''denied''"

text \<open>\<open>ApprovalDecision(s)\<close>: the member with that value, else \<open>ValueError\<close>.\<close>

definition ApprovalDecision_of :: "pystr \<Rightarrow> ApprovalDecision option" where
  "ApprovalDecision_of s =
     (if s = lit ''approved'' then Some decision_approved
      else if s = lit ''denied'' then Some decision_denied else None)"

lemma ApprovalDecision_of_value [simp]:
  "ApprovalDecision_of (ApprovalDecision_value d) = Some d"
  by (cases d) (simp_all add: ApprovalDecision_of_def)

lemma ApprovalDecision_of_Some:
  "ApprovalDecision_of s = Some d \<longleftrightarrow> s = ApprovalDecision_value d"
  by (cases d) (auto simp: ApprovalDecision_of_def)

record ApprovalToken =
  at_token :: pystr
  at_fault_event_id :: pystr
  at_decision :: ApprovalDecision
  at_decided_by :: pystr
  at_decided_at :: datetime
  at_consumed :: bool

end
