(* ===== verification/Token_Store.thy ===== *)
theory Token_Store
  imports Models
begin

text \<open>
  The two registries of the MCP tools service: \<open>services/mcp_tools/token_store.py\<close>
  (single-use approval tokens) and \<open>services/mcp_tools/fault_registry.py\<close> (the steps the
  Gateway allows for a fault event). Both are a dictionary with a few operations; the token
  string of \<open>secrets.token_urlsafe\<close> and the time of \<open>_now\<close> are arguments of
  \<open>mint\<close>. The locale \<open>token_registry\<close> states what a client of the token store relies on.
\<close>

section \<open>ApprovalTokenStore\<close>

type_synonym token_store = "ApprovalToken dict"

datatype value_error = ValueError pystr

definition token_get :: "token_store \<Rightarrow> pystr \<Rightarrow> ApprovalToken option" where
  "token_get ts token_str = map_of ts token_str"

definition token_put :: "ApprovalToken \<Rightarrow> token_store \<Rightarrow> token_store" where
  "token_put tok ts = dict_set (at_token tok) tok ts"

text \<open>
  \<open>decision\<close> may be a plain string; a member of the \<open>str\<close> enum is its value, so
  converting it again changes nothing.
\<close>

definition token_mint ::
  "pystr \<Rightarrow> datetime \<Rightarrow> pystr \<Rightarrow> pystr \<Rightarrow> pystr \<Rightarrow> token_store
     \<Rightarrow> value_error + ApprovalToken \<times> token_store" where
  "token_mint urlsafe now fault_event_id decision decided_by ts =
     (case ApprovalDecision_of decision of
        None \<Rightarrow> Inl (ValueError decision)
      | Some d \<Rightarrow>
          (let tok = \<lparr>at_token = urlsafe, at_fault_event_id = fault_event_id, at_decision = d,
                      at_decided_by = decided_by, at_decided_at = now, at_consumed = False\<rparr>
           in Inr (tok, dict_set (at_token tok) tok ts)))"

definition token_consume :: "pystr \<Rightarrow> token_store \<Rightarrow> token_store" where
  "token_consume token_str ts =
     (case map_of ts token_str of
        None \<Rightarrow> ts
      | Some tok \<Rightarrow> dict_set token_str (tok\<lparr>at_consumed := True\<rparr>) ts)"

definition token_clear :: "token_store \<Rightarrow> token_store" where
  "token_clear ts = []"

definition token_len :: "token_store \<Rightarrow> nat" where
  "token_len ts = length ts"

section \<open>The interface the remediation tool relies on\<close>

locale token_registry =
  fixes get :: "'s \<Rightarrow> pystr \<Rightarrow> ApprovalToken option"
    and put :: "ApprovalToken \<Rightarrow> 's \<Rightarrow> 's"
    and consume :: "pystr \<Rightarrow> 's \<Rightarrow> 's"
    and clear :: "'s \<Rightarrow> 's"
  assumes get_put: "get (put t s) k = (if k = at_token t then Some t else get s k)"
    and get_consume: "get (consume k s) k' =
      (if k' = k then map_option (\<lambda>t. t\<lparr>at_consumed := True\<rparr>) (get s k) else get s k')"
    and get_clear: "get (clear s) k = None"
begin

text \<open>A token a remediation of \<open>f\<close> may present: bound to it, approved, not used yet.\<close>

definition usable :: "'s \<Rightarrow> pystr \<Rightarrow> pystr \<Rightarrow> bool" where
  "usable s k f \<longleftrightarrow>
     (\<exists>t. get s k = Some t \<and> at_fault_event_id t = f \<and> at_decision t = decision_approved
          \<and> \<not> at_consumed t)"

lemma usable_consume: "\<not> usable (consume k s) k f"
  by (auto simp: usable_def get_consume)

lemma usable_consume_other: "k' \<noteq> k \<Longrightarrow> usable (consume k s) k' f = usable s k' f"
  by (simp add: usable_def get_consume)

lemma usable_consumeD: "usable (consume k s) k' f \<Longrightarrow> usable s k' f"
  by (cases "k' = k") (auto simp: usable_consume usable_consume_other)

lemma usable_clear: "\<not> usable (clear s) k f"
  by (simp add: usable_def get_clear)

lemma usable_put_other: "k \<noteq> at_token t \<Longrightarrow> usable (put t s) k f = usable s k f"
  by (simp add: usable_def get_put)

lemma usable_binding: "usable s k f \<Longrightarrow> usable s k f' \<Longrightarrow> f = f'"
  by (auto simp: usable_def)

lemma consume_twice: "get (consume k (consume k s)) k' = get (consume k s) k'"
  by (auto simp: get_consume option.map_comp intro: option.map_cong split: if_splits)

text \<open>What every operation keeps: a token that is spent stays spent or is forgotten.\<close>

definition spent :: "'s \<Rightarrow> pystr \<Rightarrow> bool" where
  "spent s k \<longleftrightarrow> (\<forall>t. get s k = Some t \<longrightarrow> at_consumed t)"

lemma spent_consume: "spent (consume k s) k"
  by (auto simp: spent_def get_consume)

lemma spent_consume_mono: "spent s k \<Longrightarrow> spent (consume k' s) k"
  by (auto simp: spent_def get_consume split: if_splits)

lemma spent_clear: "spent (clear s) k"
  by (simp add: spent_def get_clear)

lemma spent_put: "spent s k \<Longrightarrow> at_token t \<noteq> k \<Longrightarrow> spent (put t s) k"
  by (auto simp: spent_def get_put)

lemma spent_not_usable: "spent s k \<Longrightarrow> \<not> usable s k f"
  by (auto simp: spent_def usable_def)

end

interpretation tokens: token_registry token_get token_put token_consume token_clear
  by unfold_locales
    (auto simp: token_get_def token_put_def token_consume_def token_clear_def dict_simps
      split: option.splits)

lemma token_mint_Inr_iff:
  "token_mint w now f d by ts = Inr (tok, ts') \<longleftrightarrow>
     (\<exists>dec. ApprovalDecision_of d = Some dec
        \<and> tok = \<lparr>at_token = w, at_fault_event_id = f, at_decision = dec, at_decided_by = by,
                 at_decided_at = now, at_consumed = False\<rparr>
        \<and> ts' = token_put tok ts)"
  by (auto simp: token_mint_def token_put_def Let_def split: option.splits)

text \<open>A dictionary of tokens files each token under its own string.\<close>

definition token_store_ok :: "token_store \<Rightarrow> bool" where
  "token_store_ok ts \<longleftrightarrow> wf_dict ts \<and> (\<forall>k t. map_of ts k = Some t \<longrightarrow> at_token t = k)"

lemma token_store_ok_put: "token_store_ok ts \<Longrightarrow> token_store_ok (token_put t ts)"
  by (auto simp: token_store_ok_def token_put_def dict_simps)

lemma token_store_ok_consume: "token_store_ok ts \<Longrightarrow> token_store_ok (token_consume k ts)"
  by (auto simp: token_store_ok_def token_consume_def dict_simps split: option.splits)

lemma token_store_ok_clear: "token_store_ok (token_clear ts)"
  by (simp add: token_store_ok_def token_clear_def)

lemma token_len_consume [simp]: "token_store_ok ts \<Longrightarrow> token_len (token_consume k ts) = token_len ts"
  by (auto simp: token_len_def token_consume_def length_map [of fst, symmetric] dict_simps
      simp del: length_map split: option.splits)

section \<open>FaultEventRegistry\<close>

record FaultEventRecord =
  fr_fault_event_id :: pystr
  fr_asset_id :: pystr
  fr_scenario_id :: pystr
  fr_allowed_step_ids :: "pystr list"

type_synonym fault_registry = "FaultEventRecord dict"

definition registry_register ::
  "pystr \<Rightarrow> pystr \<Rightarrow> pystr \<Rightarrow> pystr list \<Rightarrow> fault_registry
     \<Rightarrow> FaultEventRecord \<times> fault_registry" where
  "registry_register fault_event_id asset_id scenario_id allowed_step_ids fr =
     (let r = \<lparr>fr_fault_event_id = fault_event_id, fr_asset_id = asset_id,
               fr_scenario_id = scenario_id, fr_allowed_step_ids = allowed_step_ids\<rparr>
      in (r, dict_set fault_event_id r fr))"

definition registry_get :: "fault_registry \<Rightarrow> pystr \<Rightarrow> FaultEventRecord option" where
  "registry_get fr fault_event_id = map_of fr fault_event_id"

definition registry_clear :: "fault_registry \<Rightarrow> fault_registry" where
  "registry_clear fr = []"

lemma registry_get_register:
  "registry_get (snd (registry_register f a s ids fr)) f' =
     (if f' = f then Some (fst (registry_register f a s ids fr)) else registry_get fr f')"
  by (simp add: registry_get_def registry_register_def Let_def dict_simps)

lemma registry_get_clear [simp]: "registry_get (registry_clear fr) f = None"
  by (simp add: registry_get_def registry_clear_def)

lemma registry_register_fields [simp]:
  "fr_fault_event_id (fst (registry_register f a s ids fr)) = f"
  "fr_asset_id (fst (registry_register f a s ids fr)) = a"
  "fr_allowed_step_ids (fst (registry_register f a s ids fr)) = ids"
  by (simp_all add: registry_register_def Let_def)

end
