(* ===== verification/Py_Text.thy ===== *)
theory Py_Text
  imports Prelude
begin

text \<open>
  The \<open>str\<close> methods of Python 3.11 the sources use, on code-point lists: white space is
  \<open>str.isspace\<close> (Unicode 14), \<open>splitlines\<close> breaks at every boundary CPython knows,
  \<open>cut\<close> finds the leftmost occurrence of a separator and carries \<open>split\<close> and
  \<open>partition\<close>. The lemmas give each function's specification.
\<close>

definition py_isspace :: "int \<Rightarrow> bool" where
  "py_isspace c \<longleftrightarrow> 9 \<le> c \<and> c \<le> 13 \<or> 28 \<le> c \<and> c \<le> 32 \<or> c = 133 \<or> c = 160 \<or> c = 5760
     \<or> 8192 \<le> c \<and> c \<le> 8202 \<or> c = 8232 \<or> c = 8233 \<or> c = 8239 \<or> c = 8287 \<or> c = 12288"

definition is_line_break :: "int \<Rightarrow> bool" where
  "is_line_break c \<longleftrightarrow> 10 \<le> c \<and> c \<le> 13 \<or> 28 \<le> c \<and> c \<le> 30 \<or> c = 133 \<or> c = 8232 \<or> c = 8233"

section \<open>Prefixes, suffixes, substrings\<close>

definition startswith :: "pystr \<Rightarrow> pystr \<Rightarrow> bool" where
  "startswith p s \<longleftrightarrow> take (length p) s = p"

definition endswith :: "pystr \<Rightarrow> pystr \<Rightarrow> bool" where
  "endswith p s \<longleftrightarrow> startswith (rev p) (rev s)"

fun contains :: "pystr \<Rightarrow> pystr \<Rightarrow> bool" where
  "contains p [] \<longleftrightarrow> p = []"
| "contains p (c # s) \<longleftrightarrow> startswith p (c # s) \<or> contains p s"

definition removesuffix :: "pystr \<Rightarrow> pystr \<Rightarrow> pystr" where
  "removesuffix p s = (if p \<noteq> [] \<and> endswith p s then take (length s - length p) s else s)"

lemma startswith_iff: "startswith p s \<longleftrightarrow> (\<exists>t. s = p @ t)"
  by (auto simp: startswith_def) (metis append_take_drop_id)

lemma startswith_append [simp]: "startswith p (p @ t)"
  by (simp add: startswith_def)

lemma endswith_iff: "endswith p s \<longleftrightarrow> (\<exists>t. s = t @ p)"
proof
  assume "endswith p s"
  then obtain t where "rev s = rev p @ t" by (auto simp: endswith_def startswith_iff)
  then have "s = rev t @ p" by (metis rev_append rev_rev_ident)
  then show "\<exists>t. s = t @ p" ..
qed (auto simp: endswith_def)

lemma contains_iff: "contains p s \<longleftrightarrow> (\<exists>a b. s = a @ p @ b)"
proof (induction s)
  case Nil
  then show ?case by auto
next
  case (Cons c s)
  show ?case
  proof
    assume "contains p (c # s)"
    then consider "startswith p (c # s)" | "contains p s" by auto
    then show "\<exists>a b. c # s = a @ p @ b"
    proof cases
      case 1
      then show ?thesis by (metis append_Nil startswith_iff)
    next
      case 2
      then show ?thesis using Cons.IH by (metis append_Cons)
    qed
  next
    assume "\<exists>a b. c # s = a @ p @ b"
    then obtain a b where ab: "c # s = a @ p @ b" by blast
    show "contains p (c # s)"
    proof (cases a)
      case Nil
      with ab have "startswith p (c # s)" by simp
      then show ?thesis by simp
    next
      case (Cons x xs)
      with ab have "s = xs @ p @ b" by simp
      with Cons.IH show ?thesis by auto
    qed
  qed
qed

lemma removesuffix_append [simp]: "removesuffix p (s @ p) = s"
  by (simp add: removesuffix_def endswith_iff)

lemma removesuffix_other: "\<not> endswith p s \<Longrightarrow> removesuffix p s = s"
  by (simp add: removesuffix_def)

section \<open>Stripping\<close>

definition lstrip_by :: "(int \<Rightarrow> bool) \<Rightarrow> pystr \<Rightarrow> pystr" where
  "lstrip_by P s = dropWhile P s"

definition rstrip_by :: "(int \<Rightarrow> bool) \<Rightarrow> pystr \<Rightarrow> pystr" where
  "rstrip_by P s = rev (dropWhile P (rev s))"

definition lstrip :: "pystr \<Rightarrow> pystr" where
  "lstrip s = lstrip_by py_isspace s"

definition rstrip :: "pystr \<Rightarrow> pystr" where
  "rstrip s = rstrip_by py_isspace s"

definition strip :: "pystr \<Rightarrow> pystr" where
  "strip s = rstrip (lstrip s)"

definition lstrip_chars :: "pystr \<Rightarrow> pystr \<Rightarrow> pystr" where
  "lstrip_chars cs s = lstrip_by (\<lambda>c. c \<in> set cs) s"

definition rstrip_chars :: "pystr \<Rightarrow> pystr \<Rightarrow> pystr" where
  "rstrip_chars cs s = rstrip_by (\<lambda>c. c \<in> set cs) s"

lemma length_dropWhile_le': "length (dropWhile P s) \<le> length s"
  by (induction s) auto

lemma length_rstrip_by: "length (rstrip_by P s) \<le> length s"
  using length_dropWhile_le' [of P "rev s"] by (simp add: rstrip_by_def)

lemma length_lstrip_by: "length (lstrip_by P s) \<le> length s"
  by (simp add: lstrip_by_def length_dropWhile_le')

lemma length_strip: "length (strip s) \<le> length s"
  unfolding strip_def rstrip_def lstrip_def
  by (meson length_lstrip_by length_rstrip_by le_trans)

lemma length_rstrip_chars: "length (rstrip_chars cs s) \<le> length s"
  by (simp add: rstrip_chars_def length_rstrip_by)

lemma strip_Nil_iff: "strip s = [] \<longleftrightarrow> (\<forall>c \<in> set s. py_isspace c)"
proof -
  have "strip s = [] \<longleftrightarrow> (\<forall>c \<in> set (dropWhile py_isspace s). py_isspace c)"
    by (simp add: strip_def rstrip_def lstrip_def lstrip_by_def rstrip_by_def)
  also have "\<dots> \<longleftrightarrow> (\<forall>c \<in> set s. py_isspace c)"
    by (metis dropWhile_eq_Nil_conv hd_dropWhile list.set_sel(1) set_dropWhileD)
  finally show ?thesis .
qed

lemma rstrip_by_last: "rstrip_by P s \<noteq> [] \<Longrightarrow> \<not> P (last (rstrip_by P s))"
  by (metis hd_dropWhile hd_rev rev_is_Nil_conv rev_rev_ident rstrip_by_def)

section \<open>Splitting and joining\<close>

text \<open>The leftmost occurrence of \<open>sep\<close>: what is before it and what is after it.\<close>

fun cut :: "pystr \<Rightarrow> pystr \<Rightarrow> (pystr \<times> pystr) option" where
  "cut sep [] = (if sep = [] then Some ([], []) else None)"
| "cut sep (c # s) =
     (if startswith sep (c # s) then Some ([], drop (length sep) (c # s))
      else map_option (\<lambda>(a, b). (c # a, b)) (cut sep s))"

lemma cut_Some: "cut sep s = Some (a, b) \<Longrightarrow> s = a @ sep @ b"
proof (induction s arbitrary: a)
  case Nil
  then show ?case by (simp split: if_splits)
next
  case (Cons c s)
  show ?case
  proof (cases "startswith sep (c # s)")
    case True
    with Cons.prems show ?thesis
      by (auto simp: startswith_def) (metis append_take_drop_id)
  next
    case False
    with Cons show ?thesis by auto
  qed
qed

lemma cut_None: "cut sep s = None \<longleftrightarrow> \<not> contains sep s"
  by (induction s) auto

lemma cut_no_earlier: "cut sep s = Some (a, b) \<Longrightarrow> sep \<noteq> [] \<Longrightarrow> i < length a \<Longrightarrow> \<not> startswith sep (drop i s)"
proof (induction s arbitrary: a i)
  case Nil
  then show ?case by simp
next
  case (Cons c s)
  from Cons.prems(1,3) obtain a' where a': "\<not> startswith sep (c # s)"
    "cut sep s = Some (a', b)" "a = c # a'"
    by (auto split: if_splits)
  then show ?case
    using Cons.IH [of a' "i - 1"] Cons.prems by (cases i) auto
qed

text \<open>\<open>s.split(sep, n)\<close> and \<open>s.split(sep)\<close> (at most \<open>len(s)\<close> pieces are cut off).\<close>

fun split_max :: "nat \<Rightarrow> pystr \<Rightarrow> pystr \<Rightarrow> pystr list" where
  "split_max 0 sep s = [s]"
| "split_max (Suc n) sep s =
     (case cut sep s of None \<Rightarrow> [s] | Some (a, b) \<Rightarrow> a # split_max n sep b)"

definition split_on :: "pystr \<Rightarrow> pystr \<Rightarrow> pystr list" where
  "split_on sep s = split_max (length s) sep s"

fun join :: "pystr \<Rightarrow> pystr list \<Rightarrow> pystr" where
  "join sep [] = []"
| "join sep [s] = s"
| "join sep (s # t # ss) = s @ sep @ join sep (t # ss)"

lemma split_max_nonempty [simp]: "split_max n sep s \<noteq> []"
  by (cases n) (auto split: option.splits)

lemma join_Cons: "ss \<noteq> [] \<Longrightarrow> join sep (s # ss) = s @ sep @ join sep ss"
  by (cases ss) auto

lemma join_split_max: "join sep (split_max n sep s) = s"
proof (induction n arbitrary: s)
  case 0
  then show ?case by simp
next
  case (Suc n)
  show ?case
  proof (cases "cut sep s")
    case None
    then show ?thesis by simp
  next
    case (Some ab)
    then obtain a b where "cut sep s = Some (a, b)" by (cases ab) auto
    then show ?thesis using Suc.IH [of b] cut_Some [of sep s a b] by (simp add: join_Cons)
  qed
qed

lemma join_split_on: "join sep (split_on sep s) = s"
  by (simp add: split_on_def join_split_max)

lemma split_max_parts:
  "sep \<noteq> [] \<Longrightarrow> length s \<le> n \<Longrightarrow> p \<in> set (split_max n sep s) \<Longrightarrow> \<not> contains sep p"
proof (induction n arbitrary: s)
  case 0
  then show ?case by simp
next
  case (Suc n)
  show ?case
  proof (cases "cut sep s")
    case None
    with Suc.prems show ?thesis by (simp add: cut_None)
  next
    case (Some ab)
    then obtain a b where ab: "cut sep s = Some (a, b)" by (cases ab) auto
    then have s: "s = a @ sep @ b" by (rule cut_Some)
    have "\<not> contains sep a"
    proof
      assume "contains sep a"
      then obtain x y where a: "a = x @ sep @ y" by (auto simp: contains_iff)
      with Suc.prems(1) have "length x < length a" by simp
      moreover have "startswith sep (drop (length x) s)" by (simp add: s a)
      ultimately show False using cut_no_earlier [OF ab Suc.prems(1)] by blast
    qed
    moreover from s Suc.prems have "length b \<le> n" by (cases sep) auto
    ultimately show ?thesis using Suc ab by auto
  qed
qed

lemma split_on_parts: "sep \<noteq> [] \<Longrightarrow> p \<in> set (split_on sep s) \<Longrightarrow> \<not> contains sep p"
  unfolding split_on_def by (rule split_max_parts) auto

text \<open>\<open>s.rsplit(c, 1)[-1]\<close> and \<open>s.rsplit(c, 1)[0]\<close> for a one-character separator.\<close>

definition after_last :: "int \<Rightarrow> pystr \<Rightarrow> pystr" where
  "after_last c s = rev (takeWhile (\<lambda>d. d \<noteq> c) (rev s))"

definition before_last :: "int \<Rightarrow> pystr \<Rightarrow> pystr" where
  "before_last c s = (if c \<in> set s then rev (tl (dropWhile (\<lambda>d. d \<noteq> c) (rev s))) else s)"

lemma after_last_notin: "c \<notin> set t \<Longrightarrow> after_last c (s @ [c] @ t) = t"
  by (simp add: after_last_def, subst takeWhile_append2) auto

lemma after_last_id: "c \<notin> set t \<Longrightarrow> after_last c t = t"
  unfolding after_last_def by (subst takeWhile_eq_all_conv [THEN iffD2]) auto

lemma before_last_notin: "c \<notin> set t \<Longrightarrow> before_last c (s @ [c] @ t) = s"
  by (simp add: before_last_def, subst dropWhile_append2) auto

lemma after_last_no_sep: "c \<notin> set (after_last c s)"
  by (auto simp: after_last_def dest: set_takeWhileD)

section \<open>Lines\<close>

text \<open>\<open>s.splitlines()\<close>; \<open>acc\<close> holds the current line backwards.\<close>

fun splitlines_from :: "pystr \<Rightarrow> pystr \<Rightarrow> pystr list" where
  "splitlines_from acc [] = (if acc = [] then [] else [rev acc])"
| "splitlines_from acc (c # s) =
     (if is_line_break c
      then rev acc # splitlines_from [] (if c = 13 \<and> take 1 s = [10] then tl s else s)
      else splitlines_from (c # acc) s)"

definition splitlines :: "pystr \<Rightarrow> pystr list" where
  "splitlines s = splitlines_from [] s"

lemma splitlines_from_no_break:
  "l \<in> set (splitlines_from acc s) \<Longrightarrow> (\<forall>c \<in> set acc. \<not> is_line_break c)
    \<Longrightarrow> c \<in> set l \<Longrightarrow> \<not> is_line_break c"
proof (induction acc s rule: splitlines_from.induct)
  case (1 acc)
  then show ?case by (auto split: if_splits)
next
  case (2 acc c' s)
  then show ?case by (cases "is_line_break c'") auto
qed

lemma splitlines_no_break: "l \<in> set (splitlines s) \<Longrightarrow> c \<in> set l \<Longrightarrow> \<not> is_line_break c"
  unfolding splitlines_def by (rule splitlines_from_no_break) auto

lemma splitlines_from_sub:
  "l \<in> set (splitlines_from acc s) \<Longrightarrow> contains l (rev acc @ s)"
proof (induction acc s rule: splitlines_from.induct)
  case (1 acc)
  then show ?case by (auto simp: contains_iff split: if_splits) (metis append_Nil append_Nil2)
next
  case (2 acc c s)
  show ?case
  proof (cases "is_line_break c")
    case True
    let ?r = "if c = 13 \<and> take 1 s = [10] then tl s else s"
    have "s = (if c = 13 \<and> take 1 s = [10] then [hd s] else []) @ ?r"
      by (cases s) auto
    then obtain x where r: "s = x @ ?r" by blast
    from True 2 consider "l = rev acc" | "contains l ?r" by auto
    then show ?thesis
    proof cases
      case 1
      then show ?thesis by (metis append_Nil contains_iff)
    next
      case 2
      then obtain a b where "?r = a @ l @ b" by (auto simp: contains_iff)
      with r have "rev acc @ c # s = (rev acc @ c # x @ a) @ l @ b" by simp
      then show ?thesis by (metis contains_iff)
    qed
  next
    case False
    with 2 show ?thesis by simp
  qed
qed

text \<open>Every line is a substring of the text.\<close>

lemma splitlines_contains: "l \<in> set (splitlines s) \<Longrightarrow> contains l s"
  using splitlines_from_sub [of l "[]" s] by (simp add: splitlines_def)

section \<open>Replacing\<close>

text \<open>\<open>s.replace(old, new)\<close> with a non-empty \<open>old\<close>.\<close>

definition replace :: "pystr \<Rightarrow> pystr \<Rightarrow> pystr \<Rightarrow> pystr" where
  "replace old new s = join new (split_on old s)"

lemma replace_absent: "\<not> contains old s \<Longrightarrow> replace old new s = s"
proof -
  assume "\<not> contains old s"
  then have "split_on old s = [s]"
    by (cases "length s") (simp_all add: split_on_def cut_None [symmetric])
  then show ?thesis by (simp add: replace_def)
qed

end
