(* ===== verification/Pack_Loader.thy ===== *)
theory Pack_Loader
  imports Models Py_Text
begin

text \<open>
  \<open>libs/common/pack_loader.py\<close>: a Domain Pack is read from its directory, validated and
  checked for referential integrity; the first failure stops the load with an exception.

  The file system is a parameter (\<open>filesystem\<close>), so are the third-party libraries
  (\<open>libs\<close>): \<open>yaml.safe_load\<close>, whose \<open>None\<close> is a \<open>YAMLError\<close>, and the
  pydantic validators of the three YAML models, whose \<open>None\<close> is a \<open>ValidationError\<close>.
  A path is the list of its components. \<open>wf_loaded\<close> is the integrity a loaded pack has.
\<close>

section \<open>Paths and files\<close>

type_synonym path = "pystr list"

record filesystem =
  fs_is_dir :: "path \<Rightarrow> bool"
  fs_exists :: "path \<Rightarrow> bool"
  fs_read_text :: "path \<Rightarrow> pystr option"
  fs_list :: "path \<Rightarrow> pystr list"
  fs_resolve :: "path \<Rightarrow> path"

record libs =
  yaml_load :: "pystr \<Rightarrow> json option"
  validate_pack :: "json \<Rightarrow> Pack option"
  validate_profile :: "json \<Rightarrow> SimulatorProfile option"
  validate_scenario :: "json \<Rightarrow> Scenario option"

text \<open>Components of \<open>Path(ref)\<close>; an absolute \<open>ref\<close> replaces what it is joined to.\<close>

definition path_parts :: "pystr \<Rightarrow> path" where
  "path_parts ref = filter (\<lambda>c. c \<noteq> [] \<and> c \<noteq> lit ''.'') (split_on (lit ''/'') ref)"

definition path_join :: "path \<Rightarrow> pystr \<Rightarrow> path" where
  "path_join dir ref = (if startswith (lit ''/'') ref then path_parts ref else dir @ path_parts ref)"

definition path_name :: "path \<Rightarrow> pystr" where
  "path_name p = (if p = [] then [] else last p)"

definition name_stem :: "pystr \<Rightarrow> pystr" where
  "name_stem name =
     (if 46 \<in> set name \<and> before_last 46 name \<noteq> [] \<and> after_last 46 name \<noteq> []
      then before_last 46 name else name)"

definition path_stem :: "path \<Rightarrow> pystr" where
  "path_stem p = name_stem (path_name p)"

text \<open>\<open>sorted(dir.glob("*" + suffix))\<close>\<close>

definition sorted_glob :: "filesystem \<Rightarrow> path \<Rightarrow> pystr \<Rightarrow> path list" where
  "sorted_glob fs dir ext =
     map (\<lambda>n. dir @ [n]) (sort (filter (endswith ext) (fs_list fs dir)))"

section \<open>Exceptions and the loaded pack\<close>

datatype load_exn =
    PackDirNotFound path
  | MissingPackYaml
  | PackSchemaError
  | MissingProfile
  | ProfileSchemaError
  | ProfilePackMismatch pystr pystr
  | MissingScenariosDir
  | ScenarioSchemaError pystr
  | ScenarioPackMismatch pystr pystr pystr
  | ScenarioUnknownTarget pystr pystr
  | NoScenarios pystr
  | MissingKbDir
  | KbRefNotFound pystr pystr
  | KbIdNotLoaded pystr pystr
  | LogRefNotFound pystr pystr
  | InvalidYaml pystr
  | OSError path
  | AttributeError
  | KbValidationError

text \<open>All but the last three are \<open>PackLoadError\<close>; those escape as they are.\<close>

fun is_PackLoadError :: "load_exn \<Rightarrow> bool" where
  "is_PackLoadError (OSError _) = False"
| "is_PackLoadError AttributeError = False"
| "is_PackLoadError KbValidationError = False"
| "is_PackLoadError _ = True"

record LoadedPack =
  lp_pack :: Pack
  lp_scenarios :: "Scenario list"
  lp_kb_articles :: "KBArticle dict"
  lp_log_bundles :: "pystr dict"
  lp_simulator_profile :: SimulatorProfile
  lp_signature_index :: "pystr dict"
  lp_scenarios_by_id :: "Scenario dict"

section \<open>Loading\<close>

definition read_text :: "filesystem \<Rightarrow> path \<Rightarrow> load_exn + pystr" where
  "read_text fs p = (case fs_read_text fs p of None \<Rightarrow> Inl (OSError p) | Some t \<Rightarrow> Inr t)"

definition read_yaml :: "filesystem \<Rightarrow> libs \<Rightarrow> path \<Rightarrow> load_exn + json" where
  "read_yaml fs lb p =
     bind_res (read_text fs p) (\<lambda>t.
       case yaml_load lb t of
         None \<Rightarrow> Inl (InvalidYaml (path_name p))
       | Some v \<Rightarrow> Inr (if truthy v then v else JObj []))"

definition load_pack_yaml :: "filesystem \<Rightarrow> libs \<Rightarrow> path \<Rightarrow> load_exn + Pack" where
  "load_pack_yaml fs lb dir =
     (let p = dir @ [lit ''pack.yaml''] in
      if \<not> fs_exists fs p then Inl MissingPackYaml
      else bind_res (read_yaml fs lb p) (\<lambda>raw.
        case validate_pack lb raw of None \<Rightarrow> Inl PackSchemaError | Some pack \<Rightarrow> Inr pack))"

definition load_simulator_profile ::
  "filesystem \<Rightarrow> libs \<Rightarrow> path \<Rightarrow> pystr \<Rightarrow> load_exn + SimulatorProfile" where
  "load_simulator_profile fs lb dir pack_id =
     (let p = dir @ [lit ''simulator-profile.yaml''] in
      if \<not> fs_exists fs p then Inl MissingProfile
      else bind_res (read_yaml fs lb p) (\<lambda>raw.
        case validate_profile lb raw of
          None \<Rightarrow> Inl ProfileSchemaError
        | Some prof \<Rightarrow>
            if sp_pack_id prof \<noteq> pack_id then Inl (ProfilePackMismatch (sp_pack_id prof) pack_id)
            else Inr prof))"

definition load_scenario :: "filesystem \<Rightarrow> libs \<Rightarrow> Pack \<Rightarrow> path \<Rightarrow> load_exn + Scenario" where
  "load_scenario fs lb pack p =
     bind_res (read_yaml fs lb p) (\<lambda>raw.
       case validate_scenario lb raw of
         None \<Rightarrow> Inl (ScenarioSchemaError (path_name p))
       | Some sc \<Rightarrow>
           if sc_pack_id sc \<noteq> pk_id pack
           then Inl (ScenarioPackMismatch (path_name p) (sc_pack_id sc) (pk_id pack))
           else if sc_target_asset sc \<notin> set (map pa_id (pk_assets pack))
           then Inl (ScenarioUnknownTarget (path_name p) (sc_target_asset sc))
           else Inr sc)"

definition load_scenarios :: "filesystem \<Rightarrow> libs \<Rightarrow> path \<Rightarrow> Pack \<Rightarrow> load_exn + Scenario list" where
  "load_scenarios fs lb dir pack =
     (let scenarios_dir = dir @ [lit ''scenarios''] in
      if \<not> fs_is_dir fs scenarios_dir then Inl MissingScenariosDir
      else bind_res (map_res (load_scenario fs lb pack) (sorted_glob fs scenarios_dir (lit ''.yaml'')))
        (\<lambda>scs. if scs = [] then Inl (NoScenarios (pk_id pack)) else Inr scs))"

text \<open>The first \<open># \<close> heading of the body.\<close>

fun first_h1 :: "pystr list \<Rightarrow> pystr option" where
  "first_h1 [] = None"
| "first_h1 (l # ls) = (if startswith (lit ''# '') l then Some (strip (drop 2 l)) else first_h1 ls)"

definition extract_h1 :: "pystr \<Rightarrow> pystr option" where
  "extract_h1 body_md = first_h1 (splitlines body_md)"

text \<open>The front matter and the body; bad YAML leaves no metadata.\<close>

definition split_frontmatter :: "libs \<Rightarrow> pystr \<Rightarrow> json \<times> pystr" where
  "split_frontmatter lb txt =
     (if startswith (lit ''---'') txt then
        (case split_max 2 (lit ''---'') txt of
           (_ # meta # body # _) \<Rightarrow>
             ((case yaml_load lb meta of None \<Rightarrow> JObj [] | Some v \<Rightarrow> if truthy v then v else JObj []),
              strip body)
         | _ \<Rightarrow> (JObj [], txt))
      else (JObj [], txt))"

text \<open>\<open>KBArticle(...)\<close> accepts a string title and a list of strings only.\<close>

fun json_str_list :: "json list \<Rightarrow> pystr list option" where
  "json_str_list [] = Some []"
| "json_str_list (JStr s # xs) = map_option ((#) s) (json_str_list xs)"
| "json_str_list (_ # xs) = None"

definition kb_step_ids :: "json \<Rightarrow> load_exn + pystr list" where
  "kb_step_ids j =
     (if \<not> truthy j then Inr []
      else (case j of
        JArr xs \<Rightarrow> (case json_str_list xs of None \<Rightarrow> Inl KbValidationError | Some ids \<Rightarrow> Inr ids)
      | _ \<Rightarrow> Inl KbValidationError))"

definition kb_article_title :: "json \<Rightarrow> pystr \<Rightarrow> pystr \<Rightarrow> load_exn + pystr" where
  "kb_article_title j body stem =
     (if truthy j then (case j of JStr t \<Rightarrow> Inr t | _ \<Rightarrow> Inl KbValidationError)
      else (case extract_h1 body of
        Some h \<Rightarrow> if h \<noteq> [] then Inr h else Inr stem
      | None \<Rightarrow> Inr stem))"

definition parse_kb_article :: "filesystem \<Rightarrow> libs \<Rightarrow> pystr \<Rightarrow> path \<Rightarrow> load_exn + KBArticle" where
  "parse_kb_article fs lb pack_id p =
     bind_res (read_text fs p) (\<lambda>txt.
       (let (metadata, body) = split_frontmatter lb txt in
        case (jget metadata (lit ''title'') JNull, jget metadata (lit ''remediation_step_ids'') JNull) of
          (Some jt, Some js) \<Rightarrow>
            bind_res (kb_article_title jt body (path_stem p)) (\<lambda>title.
            bind_res (kb_step_ids js) (\<lambda>ids.
              Inr \<lparr>kb_id = path_stem p, kb_pack_id = pack_id, kb_title = title, kb_body_md = body,
                   kb_remediation_step_ids = ids\<rparr>))
        | _ \<Rightarrow> Inl AttributeError))"

definition load_kb_articles :: "filesystem \<Rightarrow> libs \<Rightarrow> path \<Rightarrow> pystr \<Rightarrow> load_exn + KBArticle dict" where
  "load_kb_articles fs lb dir pack_id =
     (let kb_dir = dir @ [lit ''kb''] in
      if \<not> fs_is_dir fs kb_dir then Inl MissingKbDir
      else bind_res (map_res (parse_kb_article fs lb pack_id) (sorted_glob fs kb_dir (lit ''.md'')))
        (\<lambda>articles. Inr (dict_of (map (\<lambda>a. (kb_id a, a)) articles))))"

definition check_kb_ref :: "filesystem \<Rightarrow> path \<Rightarrow> KBArticle dict \<Rightarrow> Scenario \<Rightarrow> load_exn + unit" where
  "check_kb_ref fs dir kb sc =
     (let kb_path = fs_resolve fs (path_join dir (sc_kb_article_ref sc)) in
      if \<not> fs_exists fs kb_path then Inl (KbRefNotFound (sc_id sc) (sc_kb_article_ref sc))
      else if map_of kb (path_stem kb_path) = None then Inl (KbIdNotLoaded (sc_id sc) (path_stem kb_path))
      else Inr ())"

definition check_kb_refs ::
  "filesystem \<Rightarrow> path \<Rightarrow> KBArticle dict \<Rightarrow> Scenario list \<Rightarrow> load_exn + unit" where
  "check_kb_refs fs dir kb scs = bind_res (map_res (check_kb_ref fs dir kb) scs) (\<lambda>_. Inr ())"

definition load_log_bundle :: "filesystem \<Rightarrow> path \<Rightarrow> Scenario \<Rightarrow> load_exn + pystr \<times> pystr" where
  "load_log_bundle fs dir sc =
     (let ref = sc_log_bundle_ref sc; bundle_path = fs_resolve fs (path_join dir ref) in
      if \<not> fs_exists fs bundle_path then Inl (LogRefNotFound (sc_id sc) ref)
      else bind_res (read_text fs bundle_path) (\<lambda>t. Inr (ref, t)))"

definition load_log_bundles :: "filesystem \<Rightarrow> path \<Rightarrow> Scenario list \<Rightarrow> load_exn + pystr dict" where
  "load_log_bundles fs dir scs =
     bind_res (map_res (load_log_bundle fs dir) scs) (\<lambda>kvs. Inr (dict_of kvs))"

definition backfill_log_extract :: "Scenario \<Rightarrow> Scenario" where
  "backfill_log_extract s =
     (case (sc_log_extract s, em_log_entries (sc_emit s)) of
        (None, e # _) \<Rightarrow> s\<lparr>sc_log_extract := Some (le_message e)\<rparr>
      | _ \<Rightarrow> s)"

definition backfill_log_extracts :: "Scenario list \<Rightarrow> Scenario list" where
  "backfill_log_extracts scs = map backfill_log_extract scs"

definition signature_pairs :: "Scenario \<Rightarrow> (pystr \<times> pystr) list" where
  "signature_pairs sc =
     map (\<lambda>sig. (sig, path_stem (path_parts (sc_kb_article_ref sc)))) (sc_error_signatures sc)"

definition build_signature_index :: "Scenario list \<Rightarrow> pystr dict" where
  "build_signature_index scs = dict_of (concat (map signature_pairs scs))"

definition index_scenarios :: "Scenario list \<Rightarrow> Scenario dict" where
  "index_scenarios scs = dict_of (map (\<lambda>s. (sc_id s, s)) scs)"

definition load_pack :: "filesystem \<Rightarrow> libs \<Rightarrow> path \<Rightarrow> load_exn + LoadedPack" where
  "load_pack fs lb dir0 =
     (let dir = fs_resolve fs dir0 in
      if \<not> fs_is_dir fs dir then Inl (PackDirNotFound dir)
      else
        bind_res (load_pack_yaml fs lb dir) (\<lambda>pack.
        bind_res (load_simulator_profile fs lb dir (pk_id pack)) (\<lambda>prof.
        bind_res (load_scenarios fs lb dir pack) (\<lambda>scs.
        bind_res (load_kb_articles fs lb dir (pk_id pack)) (\<lambda>kb.
        bind_res (check_kb_refs fs dir kb scs) (\<lambda>_.
        bind_res (load_log_bundles fs dir scs) (\<lambda>bundles.
          (let scs' = backfill_log_extracts scs in
           Inr \<lparr>lp_pack = pack, lp_scenarios = scs', lp_kb_articles = kb, lp_log_bundles = bundles,
                lp_simulator_profile = prof, lp_signature_index = build_signature_index scs',
                lp_scenarios_by_id = index_scenarios scs'\<rparr>))))))))"

section \<open>Facts about the steps\<close>

lemma backfill_fields [simp]:
  "sc_id (backfill_log_extract s) = sc_id s"
  "sc_pack_id (backfill_log_extract s) = sc_pack_id s"
  "sc_target_asset (backfill_log_extract s) = sc_target_asset s"
  "sc_fault_type (backfill_log_extract s) = sc_fault_type s"
  "sc_emit (backfill_log_extract s) = sc_emit s"
  "sc_kb_article_ref (backfill_log_extract s) = sc_kb_article_ref s"
  "sc_log_bundle_ref (backfill_log_extract s) = sc_log_bundle_ref s"
  "sc_error_signatures (backfill_log_extract s) = sc_error_signatures s"
  "sc_remediation_steps (backfill_log_extract s) = sc_remediation_steps s"
  by (auto simp: backfill_log_extract_def split: option.splits list.splits)

lemma backfill_extract:
  "sc_log_extract (backfill_log_extract s) = None \<longleftrightarrow>
     sc_log_extract s = None \<and> em_log_entries (sc_emit s) = []"
  by (auto simp: backfill_log_extract_def split: option.splits list.splits)

lemma backfill_idem [simp]: "backfill_log_extract (backfill_log_extract s) = backfill_log_extract s"
  by (auto simp: backfill_log_extract_def split: option.splits list.splits)

lemma load_scenario_Inr:
  "load_scenario fs lb pack p = Inr sc \<Longrightarrow>
     sc_pack_id sc = pk_id pack \<and> sc_target_asset sc \<in> set (map pa_id (pk_assets pack))"
  by (auto simp: load_scenario_def bind_res_eq_Inr split: option.splits if_splits)

lemma load_scenarios_Inr:
  assumes "load_scenarios fs lb dir pack = Inr scs"
  shows "scs \<noteq> []" and "s \<in> set scs \<Longrightarrow>
    sc_pack_id s = pk_id pack \<and> sc_target_asset s \<in> set (map pa_id (pk_assets pack))"
  using assms
  by (auto simp: load_scenarios_def Let_def bind_res_eq_Inr map_res_Inr_iff list_all2_conv_all_nth
      in_set_conv_nth simp del: set_map split: if_splits dest!: load_scenario_Inr)

lemma check_kb_refs_Inr:
  "check_kb_refs fs dir kb scs = Inr () \<longleftrightarrow>
     (\<forall>s \<in> set scs. fs_exists fs (fs_resolve fs (path_join dir (sc_kb_article_ref s)))
        \<and> path_stem (fs_resolve fs (path_join dir (sc_kb_article_ref s))) \<in> dom (map_of kb))"
  by (induction scs)
    (auto simp: check_kb_refs_def check_kb_ref_def Let_def bind_res_def split: sum.splits if_splits)

lemma load_log_bundles_Inr:
  assumes "load_log_bundles fs dir scs = Inr bundles"
  shows "dom (map_of bundles) = sc_log_bundle_ref ` set scs"
proof -
  from assms obtain kvs where
    all2: "list_all2 (\<lambda>s kv. load_log_bundle fs dir s = Inr kv) scs kvs" and b: "bundles = dict_of kvs"
    by (auto simp: load_log_bundles_def bind_res_eq_Inr map_res_Inr_iff)
  from all2 have "map fst kvs = map sc_log_bundle_ref scs"
    by (induction rule: list_all2_induct)
      (auto simp: load_log_bundle_def Let_def bind_res_eq_Inr split: if_splits)
  then have "fst ` set kvs = sc_log_bundle_ref ` set scs"
    by (metis set_map)
  then show ?thesis by (simp add: b dom_dict_of)
qed

lemma dom_signature_index:
  "dom (map_of (build_signature_index scs)) = (\<Union>s \<in> set scs. set (sc_error_signatures s))"
  unfolding build_signature_index_def dom_dict_of by (auto simp: signature_pairs_def image_iff)

lemma signature_index_Some:
  "map_of (build_signature_index scs) sig = Some kid \<Longrightarrow>
     \<exists>s \<in> set scs. sig \<in> set (sc_error_signatures s)
       \<and> kid = path_stem (path_parts (sc_kb_article_ref s))"
  by (auto simp: build_signature_index_def signature_pairs_def map_of_dict_of dest!: map_of_SomeD)

lemma index_scenarios_Some:
  "map_of (index_scenarios scs) i = Some s \<Longrightarrow> s \<in> set scs \<and> sc_id s = i"
  by (auto simp: index_scenarios_def map_of_dict_of dest!: map_of_SomeD)

lemma dom_index_scenarios: "dom (map_of (index_scenarios scs)) = sc_id ` set scs"
  unfolding index_scenarios_def dom_dict_of by (auto simp: image_iff)

lemma parse_kb_article_Inr:
  assumes "parse_kb_article fs lb pack_id p = Inr a"
  shows "kb_id a = path_stem p \<and> kb_pack_id a = pack_id"
proof -
  obtain t where t: "read_text fs p = Inr t"
    using assms by (auto simp: parse_kb_article_def bind_res_eq_Inr)
  obtain m b where mb: "split_frontmatter lb t = (m, b)" by (cases "split_frontmatter lb t")
  show ?thesis
    using assms t mb
    by (cases "jget m (lit ''title'') JNull"; cases "jget m (lit ''remediation_step_ids'') JNull")
      (auto simp: parse_kb_article_def bind_res_eq_Inr)
qed

lemma load_kb_articles_Inr:
  assumes "load_kb_articles fs lb dir pack_id = Inr kb" and "map_of kb k = Some a"
  shows "kb_id a = k \<and> kb_pack_id a = pack_id"
proof -
  from assms obtain arts where
    all2: "list_all2 (\<lambda>p a. parse_kb_article fs lb pack_id p = Inr a)
             (sorted_glob fs (dir @ [lit ''kb'']) (lit ''.md'')) arts"
    and kb: "kb = dict_of (map (\<lambda>a. (kb_id a, a)) arts)"
    by (auto simp: load_kb_articles_def Let_def bind_res_eq_Inr map_res_Inr_iff split: if_splits)
  from assms(2) kb have "a \<in> set arts" "kb_id a = k"
    by (auto simp: map_of_dict_of dest!: map_of_SomeD)
  moreover from all2 have "\<forall>a \<in> set arts. kb_pack_id a = pack_id"
    by (induction rule: list_all2_induct) (auto dest: parse_kb_article_Inr)
  ultimately show ?thesis by blast
qed

section \<open>The integrity of a loaded pack\<close>

definition wf_loaded :: "LoadedPack \<Rightarrow> bool" where
  "wf_loaded lp \<longleftrightarrow>
     lp_scenarios lp \<noteq> []
   \<and> sp_pack_id (lp_simulator_profile lp) = pk_id (lp_pack lp)
   \<and> (\<forall>s \<in> set (lp_scenarios lp).
        sc_pack_id s = pk_id (lp_pack lp)
      \<and> sc_target_asset s \<in> set (map pa_id (pk_assets (lp_pack lp)))
      \<and> sc_log_bundle_ref s \<in> dom (map_of (lp_log_bundles lp))
      \<and> (sc_log_extract s = None \<longrightarrow> em_log_entries (sc_emit s) = []))
   \<and> (\<forall>k a. map_of (lp_kb_articles lp) k = Some a \<longrightarrow> kb_id a = k \<and> kb_pack_id a = pk_id (lp_pack lp))
   \<and> lp_signature_index lp = build_signature_index (lp_scenarios lp)
   \<and> lp_scenarios_by_id lp = index_scenarios (lp_scenarios lp)"

lemma wf_loadedD:
  assumes "wf_loaded lp" "s \<in> set (lp_scenarios lp)"
  shows "sc_target_asset s \<in> set (map pa_id (pk_assets (lp_pack lp)))"
    and "sc_log_bundle_ref s \<in> dom (map_of (lp_log_bundles lp))"
  using assms unfolding wf_loaded_def by blast+

lemma wf_loaded_by_id:
  assumes "wf_loaded lp"
  shows "map_of (lp_scenarios_by_id lp) i = Some s \<Longrightarrow> s \<in> set (lp_scenarios lp) \<and> sc_id s = i"
    and "dom (map_of (lp_scenarios_by_id lp)) = sc_id ` set (lp_scenarios lp)"
  using assms unfolding wf_loaded_def by (auto simp: index_scenarios_Some dom_index_scenarios)

text \<open>Where references are resolved to the file they name, the article check carries over.\<close>

definition refs_resolved :: "filesystem \<Rightarrow> path \<Rightarrow> LoadedPack \<Rightarrow> bool" where
  "refs_resolved fs dir lp \<longleftrightarrow>
     (\<forall>s \<in> set (lp_scenarios lp).
        path_stem (fs_resolve fs (path_join dir (sc_kb_article_ref s))) \<in> dom (map_of (lp_kb_articles lp)))"

lemma load_pack_Inr:
  assumes "load_pack fs lb dir = Inr lp"
  shows "wf_loaded lp" and "refs_resolved fs (fs_resolve fs dir) lp"
proof -
  let ?dir = "fs_resolve fs dir"
  from assms obtain pack prof scs kb bundles where
    pack: "load_pack_yaml fs lb ?dir = Inr pack" and
    prof: "load_simulator_profile fs lb ?dir (pk_id pack) = Inr prof" and
    scs: "load_scenarios fs lb ?dir pack = Inr scs" and
    kb: "load_kb_articles fs lb ?dir (pk_id pack) = Inr kb" and
    refs: "check_kb_refs fs ?dir kb scs = Inr ()" and
    bundles: "load_log_bundles fs ?dir scs = Inr bundles" and
    lp: "lp = \<lparr>lp_pack = pack, lp_scenarios = backfill_log_extracts scs, lp_kb_articles = kb,
           lp_log_bundles = bundles, lp_simulator_profile = prof,
           lp_signature_index = build_signature_index (backfill_log_extracts scs),
           lp_scenarios_by_id = index_scenarios (backfill_log_extracts scs)\<rparr>"
    by (auto simp: load_pack_def Let_def bind_res_eq_Inr split: if_splits)
  have "sp_pack_id prof = pk_id pack"
    using prof by (auto simp: load_simulator_profile_def Let_def bind_res_eq_Inr split: if_splits option.splits)
  then show "wf_loaded lp"
    using load_scenarios_Inr [OF scs] load_log_bundles_Inr [OF bundles] load_kb_articles_Inr [OF kb]
    by (auto simp: wf_loaded_def lp backfill_log_extracts_def backfill_extract)
  show "refs_resolved fs ?dir lp"
    using refs by (auto simp: refs_resolved_def lp check_kb_refs_Inr backfill_log_extracts_def)
qed

section \<open>A pack on disk\<close>

definition demo_meta :: Pack where
  "demo_meta = \<lparr>pk_id = lit ''dc'', pk_name = lit ''Datacenter'', pk_asset_noun = \<lparr>noun_singular = lit ''server'',
     noun_plural = lit ''servers''\<rparr>, pk_fleet_label = lit ''Fleet'', pk_monitoring_adapter = Redfish,
     pk_theme = lit ''dark'', pk_sentinel_name = lit ''Sentinel'', pk_asset_image_url = None,
     pk_asset_spec_label = None, pk_fleet_layout = Grid,
     pk_assets = [\<lparr>pa_id = lit ''gpu-1'', pa_display_name = None, pa_image_url = None\<rparr>,
                  \<lparr>pa_id = lit ''gpu-2'', pa_display_name = None, pa_image_url = None\<rparr>]\<rparr>"

definition demo_profile :: SimulatorProfile where
  "demo_profile = \<lparr>sp_pack_id = lit ''dc'', sp_assets =
     [\<lparr>sa_id = lit ''gpu-1'', sa_type = lit ''xe9680'', sa_healthy_state =
        \<lparr>hs_system_status = lit ''OK'', hs_power_status = lit ''On'', hs_gpu_count = 8\<rparr>\<rparr>]\<rparr>"

definition demo_scenario :: Scenario where
  "demo_scenario = \<lparr>sc_id = lit ''s1'', sc_pack_id = lit ''dc'', sc_target_asset = lit ''gpu-1'',
     sc_fault_type = lit ''thermal'', sc_emit = \<lparr>em_event = \<lparr>ee_severity = lit ''Critical'', ee_message_id = lit ''T1''\<rparr>,
     em_log_entries = [\<lparr>le_severity = lit ''Critical'', le_message = lit ''hot''\<rparr>]\<rparr>,
     sc_log_bundle_ref = lit ''logs/s1.log'', sc_error_signatures = [lit ''Xid 79''],
     sc_kb_article_ref = lit ''kb/K1.md'', sc_remediation_steps = [\<lparr>rs_id = lit ''drain'', rs_label = lit ''Drain''\<rparr>],
     sc_impact = None, sc_log_extract = None, sc_status = Active\<rparr>"

definition demo_fs :: filesystem where
  "demo_fs = \<lparr>fs_is_dir = (\<lambda>_. True), fs_exists = (\<lambda>_. True),
     fs_read_text = (\<lambda>p. Some (lit ''# Hot'')),
     fs_list = (\<lambda>p. if last p = lit ''kb'' then [lit ''K1.md''] else [lit ''s1.yaml'', lit ''README'']),
     fs_resolve = (\<lambda>p. p)\<rparr>"

definition demo_libs :: libs where
  "demo_libs = \<lparr>yaml_load = (\<lambda>t. Some (JObj [])), validate_pack = (\<lambda>_. Some demo_meta),
     validate_profile = (\<lambda>_. Some demo_profile), validate_scenario = (\<lambda>_. Some demo_scenario)\<rparr>"

definition demo_pack :: LoadedPack where
  "demo_pack = \<lparr>lp_pack = demo_meta, lp_scenarios = [backfill_log_extract demo_scenario],
     lp_kb_articles = [(lit ''K1'', \<lparr>kb_id = lit ''K1'', kb_pack_id = lit ''dc'', kb_title = lit ''Hot'',
        kb_body_md = lit ''# Hot'', kb_remediation_step_ids = []\<rparr>)],
     lp_log_bundles = [(lit ''logs/s1.log'', lit ''# Hot'')], lp_simulator_profile = demo_profile,
     lp_signature_index = [(lit ''Xid 79'', lit ''K1'')],
     lp_scenarios_by_id = [(lit ''s1'', backfill_log_extract demo_scenario)]\<rparr>"

lemma load_demo_pack: "load_pack demo_fs demo_libs [lit ''p''] = Inr demo_pack"
  by code_simp

text \<open>The same directory with a front matter that is a YAML list, not a mapping.\<close>

definition demo_list_libs :: libs where
  "demo_list_libs = demo_libs\<lparr>yaml_load := \<lambda>t. Some (if t = lit ''list'' then JArr [JNull] else JObj [])\<rparr>"

definition demo_list_fs :: filesystem where
  "demo_list_fs = demo_fs\<lparr>fs_read_text := \<lambda>p. Some (lit ''---list---body'')\<rparr>"

section \<open>Properties\<close>

text \<open>
  C23: A pack that loads has referential integrity: at least one scenario, one pack id
  throughout, every target asset declared in \<open>pack.yaml\<close>, every log bundle loaded under the
  reference that names it, every article filed under its own id, every reference to an article
  resolved to a loaded one, a log extract wherever a log entry exists, and an id index with exactly
  the scenarios' ids whose entries are scenarios of the pack with that id.
\<close>
theorem load_pack_integrity:
  assumes "load_pack fs lb dir = Inr lp"
  shows "lp_scenarios lp \<noteq> []
     \<and> sp_pack_id (lp_simulator_profile lp) = pk_id (lp_pack lp)
     \<and> (\<forall>s \<in> set (lp_scenarios lp).
          sc_pack_id s = pk_id (lp_pack lp)
        \<and> sc_target_asset s \<in> set (map pa_id (pk_assets (lp_pack lp)))
        \<and> sc_log_bundle_ref s \<in> dom (map_of (lp_log_bundles lp))
        \<and> (em_log_entries (sc_emit s) \<noteq> [] \<longrightarrow> sc_log_extract s \<noteq> None)
        \<and> (\<exists>a. map_of (lp_kb_articles lp)
                 (path_stem (fs_resolve fs (path_join (fs_resolve fs dir) (sc_kb_article_ref s)))) = Some a))
     \<and> (\<forall>k a. map_of (lp_kb_articles lp) k = Some a \<longrightarrow> kb_id a = k)
     \<and> dom (map_of (lp_scenarios_by_id lp)) = sc_id ` set (lp_scenarios lp)
     \<and> (\<forall>i s. map_of (lp_scenarios_by_id lp) i = Some s \<longrightarrow> s \<in> set (lp_scenarios lp) \<and> sc_id s = i)"
proof -
  have wf: "wf_loaded lp" and refs: "refs_resolved fs (fs_resolve fs dir) lp"
    using load_pack_Inr [OF assms] by auto
  have "\<exists>a. map_of (lp_kb_articles lp)
      (path_stem (fs_resolve fs (path_join (fs_resolve fs dir) (sc_kb_article_ref s)))) = Some a"
    if "s \<in> set (lp_scenarios lp)" for s
    using refs that unfolding refs_resolved_def by blast
  moreover note wf_loaded_by_id [OF wf]
  ultimately show ?thesis
    using wf unfolding wf_loaded_def by blast
qed

theorem load_pack_integrity_witness:
  "\<exists>s \<in> set (lp_scenarios demo_pack). sc_target_asset s \<in> set (map pa_id (pk_assets (lp_pack demo_pack)))
     \<and> sc_log_extract s \<noteq> None"
proof -
  note p = load_pack_integrity [OF load_demo_pack]
  have "backfill_log_extract demo_scenario \<in> set (lp_scenarios demo_pack)"
    "em_log_entries (sc_emit (backfill_log_extract demo_scenario)) \<noteq> []"
    by (simp_all add: demo_pack_def) (simp add: demo_scenario_def)
  with p [THEN conjunct2, THEN conjunct2, THEN conjunct1] show ?thesis by blast
qed

text \<open>
  The deterministic fallback of \<open>kb.search\<close> always lands on a loaded article: in a pack
  whose article references resolve to files of the same name (no symlink renames the article),
  every error signature of every scenario is a key of the signature index, and every article id in
  the index is loaded and is the article of a scenario that has the signature.
\<close>
theorem signature_index_resolves:
  assumes "load_pack fs lb dir = Inr lp"
    and "\<And>s. s \<in> set (lp_scenarios lp) \<Longrightarrow>
       path_stem (fs_resolve fs (path_join (fs_resolve fs dir) (sc_kb_article_ref s)))
         = path_stem (path_parts (sc_kb_article_ref s))"
  shows "(\<forall>s \<in> set (lp_scenarios lp). \<forall>sig \<in> set (sc_error_signatures s).
            \<exists>kid. map_of (lp_signature_index lp) sig = Some kid)
     \<and> (\<forall>sig kid. map_of (lp_signature_index lp) sig = Some kid \<longrightarrow>
          (\<exists>a. map_of (lp_kb_articles lp) kid = Some a \<and> kb_id a = kid)
        \<and> (\<exists>s \<in> set (lp_scenarios lp). sig \<in> set (sc_error_signatures s)
             \<and> kid = path_stem (path_parts (sc_kb_article_ref s))))"
proof -
  have wf: "wf_loaded lp" and refs: "refs_resolved fs (fs_resolve fs dir) lp"
    using load_pack_Inr [OF assms(1)] by auto
  from wf have idx: "lp_signature_index lp = build_signature_index (lp_scenarios lp)"
    and kb: "\<forall>k a. map_of (lp_kb_articles lp) k = Some a \<longrightarrow> kb_id a = k"
    unfolding wf_loaded_def by blast+
  have keys: "\<exists>kid. map_of (lp_signature_index lp) sig = Some kid"
    if "s \<in> set (lp_scenarios lp)" "sig \<in> set (sc_error_signatures s)" for s sig
    using dom_signature_index [of "lp_scenarios lp"] that unfolding idx by blast
  have loaded: "\<exists>a. map_of (lp_kb_articles lp) (path_stem (path_parts (sc_kb_article_ref s))) = Some a"
    if "s \<in> set (lp_scenarios lp)" for s
    using bspec [OF refs [unfolded refs_resolved_def] that] assms(2) [OF that] by (simp add: domIff)
  have vals: "(\<exists>a. map_of (lp_kb_articles lp) kid = Some a \<and> kb_id a = kid)
      \<and> (\<exists>s \<in> set (lp_scenarios lp). sig \<in> set (sc_error_signatures s)
           \<and> kid = path_stem (path_parts (sc_kb_article_ref s)))"
    if hit: "map_of (lp_signature_index lp) sig = Some kid" for sig kid
  proof -
    obtain s where s: "s \<in> set (lp_scenarios lp)" "sig \<in> set (sc_error_signatures s)"
        "kid = path_stem (path_parts (sc_kb_article_ref s))"
      using signature_index_Some [OF hit [unfolded idx]] by blast
    obtain a where a: "map_of (lp_kb_articles lp) kid = Some a" using loaded [OF s(1)] s(3) by blast
    with kb have "kb_id a = kid" by blast
    with s a show ?thesis by blast
  qed
  show ?thesis by (intro conjI ballI allI impI keys vals)
qed

theorem signature_index_resolves_witness:
  "\<exists>kid a. map_of (lp_signature_index demo_pack) (lit ''Xid 79'') = Some kid
     \<and> map_of (lp_kb_articles demo_pack) kid = Some a"
proof -
  have scs: "lp_scenarios demo_pack = [backfill_log_extract demo_scenario]" by (simp add: demo_pack_def)
  have "path_stem (fs_resolve demo_fs (path_join (fs_resolve demo_fs [lit ''p'']) (sc_kb_article_ref demo_scenario)))
      = path_stem (path_parts (sc_kb_article_ref demo_scenario))"
    by code_simp
  then have "path_stem (fs_resolve demo_fs (path_join (fs_resolve demo_fs [lit ''p'']) (sc_kb_article_ref s)))
      = path_stem (path_parts (sc_kb_article_ref s))" if "s \<in> set (lp_scenarios demo_pack)" for s
    using that by (simp add: scs)
  note p = signature_index_resolves [OF load_demo_pack this]
  have "lit ''Xid 79'' \<in> set (sc_error_signatures (backfill_log_extract demo_scenario))"
    by (simp add: demo_scenario_def backfill_log_extract_def)
  then obtain kid where "map_of (lp_signature_index demo_pack) (lit ''Xid 79'') = Some kid"
    using p scs by auto
  with p show ?thesis by blast
qed

text \<open>
  Not every bad pack is reported as a \<open>PackLoadError\<close>: the front matter of an article may
  be any YAML value, and when it is a non-empty one that is no mapping, \<open>metadata.get\<close> raises
  an \<open>AttributeError\<close> that leaves \<open>load_pack\<close>. (The docstring promises
  \<open>PackLoadError\<close> on any schema violation.)
\<close>
theorem frontmatter_error_escapes:
  "(\<forall>fs lb pack_id p meta body rest xs t.
      read_text fs p = Inr t \<and> startswith (lit ''---'') t \<and> split_max 2 (lit ''---'') t = rest # meta # body # []
      \<and> yaml_load lb meta = Some (JArr xs) \<and> xs \<noteq> [] \<longrightarrow>
        parse_kb_article fs lb pack_id p = Inl AttributeError)
   \<and> load_pack demo_list_fs demo_list_libs [lit ''p''] = Inl AttributeError
   \<and> \<not> is_PackLoadError AttributeError"
proof -
  have "load_pack demo_list_fs demo_list_libs [lit ''p''] = Inl AttributeError" by code_simp
  moreover have "parse_kb_article fs lb pack_id p = Inl AttributeError"
    if "read_text fs p = Inr t" "startswith (lit ''---'') t" "split_max 2 (lit ''---'') t = [r, m, b]"
      "yaml_load lb m = Some (JArr xs)" "xs \<noteq> []" for fs lb pack_id p m b r xs t
    using that by (simp add: parse_kb_article_def split_frontmatter_def jget_def)
  ultimately show ?thesis by auto
qed

theorem frontmatter_error_escapes_witness:
  "parse_kb_article demo_list_fs demo_list_libs (lit ''dc'') [lit ''K1.md''] = Inl AttributeError"
proof -
  have "read_text demo_list_fs [lit ''K1.md''] = Inr (lit ''---list---body'')"
    by (simp add: read_text_def demo_list_fs_def)
  moreover have "startswith (lit ''---'') (lit ''---list---body'')" by code_simp
  moreover have "split_max 2 (lit ''---'') (lit ''---list---body'') = [[], lit ''list'', lit ''body'']" by code_simp
  moreover have "yaml_load demo_list_libs (lit ''list'') = Some (JArr [JNull])"
    by (simp add: demo_list_libs_def)
  ultimately show ?thesis
    using frontmatter_error_escapes by blast
qed

end
