(* ===== verification/Service_Contracts.thy ===== *)
theory Service_Contracts
  imports Prelude
begin

text \<open>
  The interfaces between services. \<open>clear_service\<close> is what the remediation tool relies on
  when it calls its \<open>clear_fn\<close>; \<open>simulator_client\<close> extends it to the protocol
  \<open>SimulatorClient\<close> of \<open>services/orchestrator/simulator_client.py\<close>.

  \<open>'s\<close> is the state behind the interface and \<open>fault_of s a\<close> the scenario active on asset
  \<open>a\<close>. A call returns \<open>True\<close> when it was acknowledged and \<open>False\<close> when it raised (or
  \<open>clear_fn\<close> reported failure); a call that was not acknowledged may still have had its
  effect, because the answer can be lost on the way.
\<close>

locale clear_service =
  fixes clear_fn :: "pystr \<Rightarrow> 's \<Rightarrow> bool \<times> 's"
    and fault_of :: "'s \<Rightarrow> pystr \<Rightarrow> pystr option"
  assumes clear_ok: "clear_fn a s = (True, s') \<Longrightarrow> fault_of s' a = None"
    and clear_fail: "clear_fn a s = (False, s') \<Longrightarrow> fault_of s' a \<in> {None, fault_of s a}"
    and clear_frame: "clear_fn a s = (b, s') \<Longrightarrow> a' \<noteq> a \<Longrightarrow> fault_of s' a' = fault_of s a'"
begin

lemma clear_never_faults: "clear_fn a s = (b, s') \<Longrightarrow> fault_of s' a' \<in> {None, fault_of s a'}"
  using clear_ok [of a s s'] clear_fail [of a s s'] clear_frame [of a s b s' a']
  by (cases "a' = a"; cases b) auto

lemma clear_keeps_healthy: "clear_fn a s = (b, s') \<Longrightarrow> fault_of s a' = None \<Longrightarrow> fault_of s' a' = None"
  using clear_never_faults [of a s b s' a'] by auto

end

locale simulator_client = clear_service +
  fixes inject_fn :: "pystr \<Rightarrow> pystr \<Rightarrow> 's \<Rightarrow> bool \<times> 's"
  assumes inject_ok: "inject_fn a sid s = (True, s') \<Longrightarrow> fault_of s' a = Some sid"
    and inject_fail: "inject_fn a sid s = (False, s') \<Longrightarrow> fault_of s' a \<in> {Some sid, fault_of s a}"
    and inject_frame: "inject_fn a sid s = (b, s') \<Longrightarrow> a' \<noteq> a \<Longrightarrow> fault_of s' a' = fault_of s a'"
begin

lemma inject_only: "inject_fn a sid s = (b, s') \<Longrightarrow> fault_of s' a' \<in> {Some sid, fault_of s a'}"
  using inject_ok [of a sid s s'] inject_fail [of a sid s s'] inject_frame [of a sid s b s' a']
  by (cases "a' = a"; cases b) auto

lemma inject_then_clear:
  "inject_fn a sid s = (b, s1) \<Longrightarrow> clear_fn a s1 = (True, s2) \<Longrightarrow> fault_of s a = None \<Longrightarrow>
     fault_of s2 a' = fault_of s a'"
  using clear_ok [of a s1 s2] clear_frame [of a s1 True s2 a'] inject_frame [of a sid s b s1 a']
  by (cases "a' = a") auto

end

text \<open>
  A client on a network that never loses an answer after the request was handled: an injection
  that raises had no effect. \<open>reliable\<close> is the part of the state that says so, and every call
  keeps it.
\<close>

locale reliable_client = simulator_client +
  fixes reliable :: "'s \<Rightarrow> bool"
  assumes inject_reliable:
      "reliable s \<Longrightarrow> inject_fn a sid s = (False, s') \<Longrightarrow> fault_of s' a = fault_of s a"
    and reliable_clear: "reliable s \<Longrightarrow> clear_fn a s = (b, s') \<Longrightarrow> reliable s'"
    and reliable_inject: "reliable s \<Longrightarrow> inject_fn a sid s = (b, s') \<Longrightarrow> reliable s'"

end
