(* ===== verification/Sim_Engine.thy ===== *)
theory Sim_Engine
  imports Pack_Loader Service_Contracts
begin

text \<open>
  The simulator: \<open>services/simulator/engine.py\<close> (the asset state machine) and
  \<open>services/simulator/control.py\<close> (its HTTP control API), with the two HTTP clients of that
  API in \<open>services/orchestrator/simulator_client.py\<close>. \<open>sim_world\<close> is an engine behind a
  network: each request takes the next outcome of \<open>sw_net\<close> and the next reading of the clock.
  The clients are an instance of \<open>simulator_client\<close>.
\<close>

section \<open>The engine\<close>

record InjectedFault =
  if_scenario_id :: pystr
  if_asset_id :: pystr
  if_fault_type :: pystr
  if_injected_at :: datetime
  if_event_severity :: pystr
  if_event_message_id :: pystr
  if_log_entries :: "(pystr \<times> pystr) list"

record engine =
  en_scenarios :: "Scenario dict"
  en_faults :: "InjectedFault option dict"
  en_asset_types :: "pystr dict"

definition engine_init :: "LoadedPack \<Rightarrow> engine" where
  "engine_init lp =
     \<lparr>en_scenarios = dict_of (map (\<lambda>s. (sc_id s, s)) (lp_scenarios lp)),
      en_faults = dict_of (map (\<lambda>a. (pa_id a, None)) (pk_assets (lp_pack lp))),
      en_asset_types = dict_of (map (\<lambda>a. (sa_id a, sa_type a)) (sp_assets (lp_simulator_profile lp)))\<rparr>"

definition asset_ids :: "engine \<Rightarrow> pystr list" where
  "asset_ids e = map fst (en_faults e)"

definition asset_type :: "engine \<Rightarrow> pystr \<Rightarrow> pystr" where
  "asset_type e a = (case map_of (en_asset_types e) a of None \<Rightarrow> lit ''unknown'' | Some t \<Rightarrow> t)"

definition get_fault :: "engine \<Rightarrow> pystr \<Rightarrow> InjectedFault option" where
  "get_fault e a = (case map_of (en_faults e) a of None \<Rightarrow> None | Some f \<Rightarrow> f)"

definition is_faulted :: "engine \<Rightarrow> pystr \<Rightarrow> bool" where
  "is_faulted e a \<longleftrightarrow> get_fault e a \<noteq> None"

definition state_name :: "InjectedFault option \<Rightarrow> pystr" where
  "state_name f = (if f \<noteq> None then lit ''faulted'' else lit ''healthy'')"

definition all_states :: "engine \<Rightarrow> pystr dict" where
  "all_states e = map (\<lambda>(a, f). (a, state_name f)) (en_faults e)"

definition known_scenario_ids :: "engine \<Rightarrow> pystr list" where
  "known_scenario_ids e = map fst (en_scenarios e)"

text \<open>The two mutations; \<open>KeyError\<close> carries what it names.\<close>

datatype key_error = KeyUnknownAsset pystr | KeyUnknownScenario pystr

definition make_fault :: "datetime \<Rightarrow> pystr \<Rightarrow> pystr \<Rightarrow> Scenario \<Rightarrow> InjectedFault" where
  "make_fault now asset_id scenario_id sc =
     \<lparr>if_scenario_id = scenario_id, if_asset_id = asset_id, if_fault_type = sc_fault_type sc,
      if_injected_at = now, if_event_severity = ee_severity (em_event (sc_emit sc)),
      if_event_message_id = ee_message_id (em_event (sc_emit sc)),
      if_log_entries = map (\<lambda>l. (le_severity l, le_message l)) (em_log_entries (sc_emit sc))\<rparr>"

definition inject :: "datetime \<Rightarrow> pystr \<Rightarrow> pystr \<Rightarrow> engine \<Rightarrow> key_error + InjectedFault \<times> engine" where
  "inject now asset_id scenario_id e =
     (if map_of (en_faults e) asset_id = None then Inl (KeyUnknownAsset asset_id)
      else (case map_of (en_scenarios e) scenario_id of
        None \<Rightarrow> Inl (KeyUnknownScenario scenario_id)
      | Some sc \<Rightarrow>
          (let f = make_fault now asset_id scenario_id sc
           in Inr (f, e\<lparr>en_faults := dict_set asset_id (Some f) (en_faults e)\<rparr>))))"

definition clear_asset :: "pystr \<Rightarrow> engine \<Rightarrow> key_error + engine" where
  "clear_asset asset_id e =
     (if map_of (en_faults e) asset_id = None then Inl (KeyUnknownAsset asset_id)
      else Inr (e\<lparr>en_faults := dict_set asset_id None (en_faults e)\<rparr>))"

section \<open>Facts about the engine\<close>

lemma inject_Inr_iff:
  "inject now a sid e = Inr (f, e') \<longleftrightarrow>
     a \<in> dom (map_of (en_faults e)) \<and>
     (\<exists>sc. map_of (en_scenarios e) sid = Some sc \<and> f = make_fault now a sid sc
        \<and> e' = e\<lparr>en_faults := dict_set a (Some f) (en_faults e)\<rparr>)"
  by (auto simp: inject_def Let_def split: option.splits)

lemma clear_asset_Inr_iff:
  "clear_asset a e = Inr e' \<longleftrightarrow>
     a \<in> dom (map_of (en_faults e)) \<and> e' = e\<lparr>en_faults := dict_set a None (en_faults e)\<rparr>"
  by (auto simp: clear_asset_def)

lemma get_fault_set [simp]:
  "get_fault (e\<lparr>en_faults := dict_set a f (en_faults e)\<rparr>) a' = (if a' = a then f else get_fault e a')"
  by (simp add: get_fault_def dict_simps)

lemma make_fault_fields [simp]:
  "if_scenario_id (make_fault now a sid sc) = sid"
  "if_asset_id (make_fault now a sid sc) = a"
  "if_fault_type (make_fault now a sid sc) = sc_fault_type sc"
  "if_injected_at (make_fault now a sid sc) = now"
  by (simp_all add: make_fault_def)

lemma dom_get_fault: "get_fault e a \<noteq> None \<Longrightarrow> a \<in> dom (map_of (en_faults e))"
  by (auto simp: get_fault_def split: option.splits)

lemma inject_get_fault:
  "inject now a sid e = Inr (f, e') \<Longrightarrow> get_fault e' a' = (if a' = a then Some f else get_fault e a')"
  by (auto simp: inject_Inr_iff)

lemma clear_get_fault:
  "clear_asset a e = Inr e' \<Longrightarrow> get_fault e' a' = (if a' = a then None else get_fault e a')"
  by (auto simp: clear_asset_Inr_iff)

lemma asset_ids_set: "map_of (en_faults e) a \<noteq> None \<Longrightarrow>
    asset_ids (e\<lparr>en_faults := dict_set a f (en_faults e)\<rparr>) = asset_ids e"
  by (simp add: asset_ids_def keys_dict_set_old)

lemma inject_asset_ids: "inject now a sid e = Inr (f, e') \<Longrightarrow> asset_ids e' = asset_ids e"
  by (auto simp: inject_Inr_iff asset_ids_set)

lemma clear_asset_ids: "clear_asset a e = Inr e' \<Longrightarrow> asset_ids e' = asset_ids e"
  by (auto simp: clear_asset_Inr_iff asset_ids_set)

lemma set_asset_ids: "set (asset_ids e) = dom (map_of (en_faults e))"
  by (simp add: asset_ids_def dom_map_of_conv_image_fst)

lemma map_of_all_states:
  "map_of (all_states e) a =
     (if a \<in> set (asset_ids e) then Some (state_name (get_fault e a)) else None)"
  unfolding all_states_def map_of_map_value set_asset_ids
  by (auto simp: get_fault_def split: option.splits)

lemma fst_all_states [simp]: "map fst (all_states e) = asset_ids e"
  by (auto simp: all_states_def asset_ids_def)

lemma engine_init_get_fault: "get_fault (engine_init lp) a = None"
proof -
  have "map_of (en_faults (engine_init lp)) a = Some f \<Longrightarrow> f = None" for f
    by (auto simp: engine_init_def map_of_dict_of dest!: map_of_SomeD)
  then show ?thesis by (auto simp: get_fault_def split: option.splits)
qed

lemma engine_init_assets: "set (asset_ids (engine_init lp)) = set (map pa_id (pk_assets (lp_pack lp)))"
  unfolding set_asset_ids by (simp add: engine_init_def dom_dict_of image_image)

text \<open>
  The invariant: keys are unique, and a stored fault names its own asset and a known scenario
  whose data it carries.
\<close>

definition engine_ok :: "engine \<Rightarrow> bool" where
  "engine_ok e \<longleftrightarrow> wf_dict (en_faults e) \<and>
     (\<forall>a f. get_fault e a = Some f \<longrightarrow>
        (\<exists>sc. map_of (en_scenarios e) (if_scenario_id f) = Some sc
            \<and> f = make_fault (if_injected_at f) a (if_scenario_id f) sc))"

lemma engine_ok_init: "engine_ok (engine_init lp)"
  by (simp add: engine_ok_def engine_init_get_fault) (simp add: engine_init_def wf_dict_of)

lemma engine_ok_inject: "engine_ok e \<Longrightarrow> inject now a sid e = Inr (f, e') \<Longrightarrow> engine_ok e'"
  by (auto simp: engine_ok_def inject_Inr_iff AList.distinct_update split: if_splits)

lemma engine_ok_clear: "engine_ok e \<Longrightarrow> clear_asset a e = Inr e' \<Longrightarrow> engine_ok e'"
  by (auto simp: engine_ok_def clear_asset_Inr_iff AList.distinct_update split: if_splits)

section \<open>The control API\<close>

record InjectResponse =
  ir_asset_id :: pystr
  ir_scenario_id :: pystr
  ir_fault_type :: pystr
  ir_injected_at :: pystr

fun key_error_detail :: "key_error \<Rightarrow> detail" where
  "key_error_detail (KeyUnknownAsset a) = UnknownAsset a"
| "key_error_detail (KeyUnknownScenario s) = UnknownScenario s"

definition inject_fault ::
  "datetime \<Rightarrow> pystr \<Rightarrow> pystr \<Rightarrow> engine \<Rightarrow> (http_exc + InjectResponse) \<times> engine" where
  "inject_fault now asset_id scenario_id e =
     (case inject now asset_id scenario_id e of
        Inl exc \<Rightarrow> (Inl (HTTPException 404 (key_error_detail exc)), e)
      | Inr (f, e') \<Rightarrow>
          (Inr \<lparr>ir_asset_id = if_asset_id f, ir_scenario_id = if_scenario_id f,
                ir_fault_type = if_fault_type f, ir_injected_at = isoformat (if_injected_at f)\<rparr>, e'))"

definition clear_fault :: "pystr \<Rightarrow> engine \<Rightarrow> (http_exc + pystr dict) \<times> engine" where
  "clear_fault asset_id e =
     (case clear_asset asset_id e of
        Inl exc \<Rightarrow> (Inl (HTTPException 404 (key_error_detail exc)), e)
      | Inr e' \<Rightarrow>
          (Inr [(lit ''asset_id'', asset_id), (lit ''state'', lit ''healthy'')], e'))"

definition get_state :: "engine \<Rightarrow> pystr dict" where
  "get_state e = all_states e"

definition response_code :: "http_exc + 'a \<Rightarrow> nat" where
  "response_code r = (case r of Inl exc \<Rightarrow> http_status exc | Inr _ \<Rightarrow> 200)"

section \<open>The simulator behind a network\<close>

text \<open>A request arrives and is answered, never arrives, or its answer is lost.\<close>

datatype delivery = Delivered | Refused | Reply_lost

record sim_world =
  sw_engine :: engine
  sw_net :: "delivery list"
  sw_clock :: "nat \<Rightarrow> datetime"
  sw_ticks :: nat

definition deliver :: "(datetime \<Rightarrow> engine \<Rightarrow> nat \<times> engine) \<Rightarrow> sim_world \<Rightarrow> nat option \<times> sim_world" where
  "deliver handler w =
     (let outcome = (case sw_net w of [] \<Rightarrow> Delivered | d # _ \<Rightarrow> d);
          w1 = w\<lparr>sw_net := tl (sw_net w), sw_ticks := Suc (sw_ticks w)\<rparr>;
          (code, e') = handler (sw_clock w (sw_ticks w)) (sw_engine w)
      in case outcome of
           Delivered \<Rightarrow> (Some code, w1\<lparr>sw_engine := e'\<rparr>)
         | Refused \<Rightarrow> (None, w1)
         | Reply_lost \<Rightarrow> (None, w1\<lparr>sw_engine := e'\<rparr>))"

definition post_clear :: "pystr \<Rightarrow> sim_world \<Rightarrow> nat option \<times> sim_world" where
  "post_clear asset_id =
     deliver (\<lambda>_ e. let (r, e') = clear_fault asset_id e in (response_code r, e'))"

definition post_inject :: "pystr \<Rightarrow> pystr \<Rightarrow> sim_world \<Rightarrow> nat option \<times> sim_world" where
  "post_inject asset_id scenario_id =
     deliver (\<lambda>now e. let (r, e') = inject_fault now asset_id scenario_id e in (response_code r, e'))"

text \<open>
  The clients: \<open>raise_for_status\<close> raises on everything but 2xx. \<open>True\<close> is a call that
  returned, \<open>False\<close> one that raised.
\<close>

definition returned :: "nat option \<times> 's \<Rightarrow> bool \<times> 's" where
  "returned r = (case fst r of None \<Rightarrow> False | Some code \<Rightarrow> status_ok code, snd r)"

definition http_clear :: "pystr \<Rightarrow> sim_world \<Rightarrow> bool \<times> sim_world" where
  "http_clear asset_id w = returned (post_clear asset_id w)"

definition http_inject :: "pystr \<Rightarrow> pystr \<Rightarrow> sim_world \<Rightarrow> bool \<times> sim_world" where
  "http_inject asset_id scenario_id w = returned (post_inject asset_id scenario_id w)"

definition sim_fault_of :: "sim_world \<Rightarrow> pystr \<Rightarrow> pystr option" where
  "sim_fault_of w a = map_option if_scenario_id (get_fault (sw_engine w) a)"

lemma http_clear_cases:
  assumes "http_clear a w = (b, w')"
  shows "sw_engine w' = sw_engine w \<and> \<not> b
    \<or> clear_asset a (sw_engine w) = Inr (sw_engine w')"
  using assms
  by (auto simp: http_clear_def returned_def post_clear_def deliver_def Let_def clear_fault_def
      response_code_def status_ok_def
      split: sum.splits delivery.splits list.splits)

lemma http_inject_cases:
  assumes "http_inject a sid w = (b, w')"
  shows "sw_engine w' = sw_engine w \<and> \<not> b
    \<or> (\<exists>f. inject (sw_clock w (sw_ticks w)) a sid (sw_engine w) = Inr (f, sw_engine w'))"
  using assms
  by (auto simp: http_inject_def returned_def post_inject_def deliver_def Let_def inject_fault_def
      response_code_def status_ok_def
      split: sum.splits delivery.splits list.splits)

interpretation sim: simulator_client http_clear sim_fault_of http_inject
proof unfold_locales
  fix a s s' b a' sid
  show "http_clear a s = (True, s') \<Longrightarrow> sim_fault_of s' a = None"
    by (drule http_clear_cases) (auto simp: sim_fault_of_def clear_get_fault)
  show "http_clear a s = (False, s') \<Longrightarrow> sim_fault_of s' a \<in> {None, sim_fault_of s a}"
    by (drule http_clear_cases) (auto simp: sim_fault_of_def clear_get_fault)
  show "http_clear a s = (b, s') \<Longrightarrow> a' \<noteq> a \<Longrightarrow> sim_fault_of s' a' = sim_fault_of s a'"
    by (drule http_clear_cases) (auto simp: sim_fault_of_def clear_get_fault)
  show "http_inject a sid s = (True, s') \<Longrightarrow> sim_fault_of s' a = Some sid"
    by (drule http_inject_cases) (auto simp: sim_fault_of_def inject_get_fault inject_Inr_iff)
  show "http_inject a sid s = (False, s') \<Longrightarrow> sim_fault_of s' a \<in> {Some sid, sim_fault_of s a}"
    by (drule http_inject_cases) (auto simp: sim_fault_of_def inject_get_fault inject_Inr_iff)
  show "http_inject a sid s = (b, s') \<Longrightarrow> a' \<noteq> a \<Longrightarrow> sim_fault_of s' a' = sim_fault_of s a'"
    by (drule http_inject_cases) (auto simp: sim_fault_of_def inject_get_fault)
qed

text \<open>A network that loses no answers is reliable.\<close>

definition no_lost_replies :: "sim_world \<Rightarrow> bool" where
  "no_lost_replies w \<longleftrightarrow> Reply_lost \<notin> set (sw_net w)"

lemma in_set_tlD: "x \<in> set (tl xs) \<Longrightarrow> x \<in> set xs"
  by (cases xs) auto

lemma deliver_net: "deliver h w = (code, w') \<Longrightarrow> sw_net w' = tl (sw_net w)"
  by (auto simp: deliver_def Let_def split: prod.splits delivery.splits list.splits)

lemma http_clear_net: "http_clear a w = (b, w') \<Longrightarrow> sw_net w' = tl (sw_net w)"
  by (auto simp: http_clear_def returned_def post_clear_def prod_eq_iff intro: deliver_net)

lemma http_inject_net: "http_inject a sid w = (b, w') \<Longrightarrow> sw_net w' = tl (sw_net w)"
  by (auto simp: http_inject_def returned_def post_inject_def prod_eq_iff intro: deliver_net)

lemma http_inject_refused:
  assumes "no_lost_replies w" "http_inject a sid w = (False, w')"
  shows "sw_engine w' = sw_engine w"
  using assms
  by (auto simp: no_lost_replies_def http_inject_def returned_def post_inject_def deliver_def Let_def
      inject_fault_def response_code_def status_ok_def
      split: sum.splits delivery.splits list.splits)

interpretation rel: reliable_client http_clear sim_fault_of http_inject no_lost_replies
proof unfold_locales
  fix a sid s s' b
  show "no_lost_replies s \<Longrightarrow> http_inject a sid s = (False, s') \<Longrightarrow> sim_fault_of s' a = sim_fault_of s a"
    by (simp add: sim_fault_of_def http_inject_refused)
  show "no_lost_replies s \<Longrightarrow> http_clear a s = (b, s') \<Longrightarrow> no_lost_replies s'"
    by (auto simp: no_lost_replies_def dest!: http_clear_net intro: in_set_tlD)
  show "no_lost_replies s \<Longrightarrow> http_inject a sid s = (b, s') \<Longrightarrow> no_lost_replies s'"
    by (auto simp: no_lost_replies_def dest!: http_inject_net intro: in_set_tlD)
qed

section \<open>A session of control calls\<close>

datatype control_call = PostInject datetime pystr pystr | PostClear pystr

fun control_step :: "engine \<Rightarrow> control_call \<Rightarrow> engine" where
  "control_step e (PostInject now a sid) = snd (inject_fault now a sid e)"
| "control_step e (PostClear a) = snd (clear_fault a e)"

text \<open>What the simulator promises: a map from assets to the scenario active on them.\<close>

fun fault_spec :: "pystr set \<Rightarrow> pystr set \<Rightarrow> (pystr \<Rightarrow> pystr option) \<Rightarrow> control_call \<Rightarrow> pystr \<Rightarrow> pystr option" where
  "fault_spec assets scenarios m (PostInject now a sid) =
     (if a \<in> assets \<and> sid \<in> scenarios then m(a := Some sid) else m)"
| "fault_spec assets scenarios m (PostClear a) = (if a \<in> assets then m(a := None) else m)"

definition active_faults :: "engine \<Rightarrow> pystr \<Rightarrow> pystr option" where
  "active_faults e a = map_option if_scenario_id (get_fault e a)"

lemma inject_fault_cases:
  obtains (unknown) d where "inject_fault now a sid e = (Inl (HTTPException 404 d), e)"
      "a \<notin> set (asset_ids e) \<or> sid \<notin> set (known_scenario_ids e)"
    | (injected) sc e' where "map_of (en_scenarios e) sid = Some sc"
      "inject now a sid e = Inr (make_fault now a sid sc, e')"
      "inject_fault now a sid e = (Inr \<lparr>ir_asset_id = a, ir_scenario_id = sid, ir_fault_type = sc_fault_type sc,
          ir_injected_at = isoformat now\<rparr>, e')"
      "a \<in> set (asset_ids e)" "sid \<in> set (known_scenario_ids e)"
proof (cases "inject now a sid e")
  case (Inl x)
  then have "a \<notin> set (asset_ids e) \<or> sid \<notin> set (known_scenario_ids e)"
    by (auto simp: inject_def set_asset_ids known_scenario_ids_def Let_def dom_map_of_conv_image_fst
        map_of_eq_None_iff split: if_splits option.splits)
  with Inl show ?thesis using unknown by (simp add: inject_fault_def)
next
  case (Inr y)
  obtain f e' where y: "y = (f, e')" by (cases y)
  with Inr obtain sc where sc: "map_of (en_scenarios e) sid = Some sc" "f = make_fault now a sid sc"
    "a \<in> set (asset_ids e)"
    by (auto simp: inject_Inr_iff set_asset_ids)
  have "sid \<in> set (known_scenario_ids e)"
    using sc(1) by (auto simp: known_scenario_ids_def image_iff dest!: map_of_SomeD intro!: bexI)
  with Inr y sc show ?thesis using injected by (simp add: inject_fault_def)
qed

lemma clear_fault_cases:
  obtains (unknown) "clear_fault a e = (Inl (HTTPException 404 (UnknownAsset a)), e)" "a \<notin> set (asset_ids e)"
    | (cleared) e' where "clear_asset a e = Inr e'" "a \<in> set (asset_ids e)"
      "clear_fault a e = (Inr [(lit ''asset_id'', a), (lit ''state'', lit ''healthy'')], e')"
  by (cases "clear_asset a e") (auto simp: clear_fault_def clear_asset_def set_asset_ids domIff split: if_splits)

lemma control_step_inv:
  assumes "engine_ok e"
  shows "engine_ok (control_step e c) \<and> asset_ids (control_step e c) = asset_ids e
    \<and> en_scenarios (control_step e c) = en_scenarios e"
proof (cases c)
  case (PostInject now a sid)
  show ?thesis
    by (rule inject_fault_cases [of now a sid e])
      (use assms PostInject in \<open>auto simp: engine_ok_inject inject_asset_ids\<close>, auto simp: inject_Inr_iff)
next
  case (PostClear a)
  show ?thesis
    by (rule clear_fault_cases [of a e])
      (use assms PostClear in \<open>auto simp: engine_ok_clear clear_asset_ids\<close>, auto simp: clear_asset_Inr_iff)
qed

lemma control_step_spec:
  "active_faults (control_step e c) =
     fault_spec (set (asset_ids e)) (set (known_scenario_ids e)) (active_faults e) c"
proof (cases c)
  case (PostInject now a sid)
  show ?thesis
  proof (cases rule: inject_fault_cases [of now a sid e])
    case (unknown d)
    with PostInject show ?thesis by auto
  next
    case (injected sc e')
    with PostInject show ?thesis
      by (auto simp: active_faults_def inject_get_fault [OF injected(2)] fun_eq_iff)
  qed
next
  case (PostClear a)
  show ?thesis
  proof (cases rule: clear_fault_cases [of a e])
    case unknown
    with PostClear show ?thesis by auto
  next
    case (cleared e')
    with PostClear show ?thesis
      by (auto simp: active_faults_def clear_get_fault [OF cleared(1)] fun_eq_iff)
  qed
qed

lemma control_run:
  assumes "engine_ok e"
  shows "engine_ok (foldl control_step e cs) \<and> asset_ids (foldl control_step e cs) = asset_ids e
    \<and> en_scenarios (foldl control_step e cs) = en_scenarios e
    \<and> active_faults (foldl control_step e cs) =
        foldl (fault_spec (set (asset_ids e)) (set (known_scenario_ids e))) (active_faults e) cs"
  using assms
proof (induction cs arbitrary: e)
  case (Cons c cs)
  note inv = control_step_inv [OF Cons.prems, of c]
  then have "known_scenario_ids (control_step e c) = known_scenario_ids e"
    by (simp add: known_scenario_ids_def)
  with Cons.IH [of "control_step e c"] inv control_step_spec [of e c] show ?case by simp
qed simp

section \<open>Properties\<close>

text \<open>
  C20: The simulator refines a map from assets to active scenarios: after any sequence of
  \<open>POST /control/inject\<close> and \<open>POST /control/clear\<close> from start-up, the fault on each
  asset is what the abstract map says (an inject sets the asset's entry, a clear empties it, a call
  with an unknown id changes nothing), the assets are the pack's, and each fault names its own
  asset and carries the data of the scenario it names.
\<close>
theorem simulator_refines_fault_map:
  "active_faults (foldl control_step (engine_init lp) cs) =
     foldl (fault_spec (set (map pa_id (pk_assets (lp_pack lp)))) (set (map sc_id (lp_scenarios lp)))) Map.empty cs
   \<and> set (asset_ids (foldl control_step (engine_init lp) cs)) = set (map pa_id (pk_assets (lp_pack lp)))
   \<and> engine_ok (foldl control_step (engine_init lp) cs)"
proof -
  have "set (known_scenario_ids (engine_init lp)) = set (map sc_id (lp_scenarios lp))"
    unfolding known_scenario_ids_def set_map dom_map_of_conv_image_fst [symmetric]
    by (simp add: engine_init_def dom_dict_of image_image)
  moreover have "active_faults (engine_init lp) = Map.empty"
    by (simp add: active_faults_def engine_init_get_fault fun_eq_iff)
  ultimately show ?thesis
    using control_run [OF engine_ok_init, of lp cs] engine_init_assets [of lp] by simp
qed

text \<open>
  Each control call does exactly what its answer says. \<open>200\<close> on inject: that asset now
  has that fault, with the time of the call, and no other asset changed. \<open>200\<close> on clear: that
  asset is healthy, whether or not it was faulted, and no other asset changed. Otherwise the answer
  is a \<open>404\<close>, an id is unknown, and nothing changed.
\<close>
theorem control_calls_exact:
  "(case inject_fault now a sid e of
      (Inr r, e') \<Rightarrow> ir_asset_id r = a \<and> ir_scenario_id r = sid \<and> ir_injected_at r = isoformat now
        \<and> (\<exists>sc. map_of (en_scenarios e) sid = Some sc \<and> ir_fault_type r = sc_fault_type sc
             \<and> (\<forall>a'. get_fault e' a' = (if a' = a then Some (make_fault now a sid sc) else get_fault e a')))
    | (Inl exc, e') \<Rightarrow> e' = e \<and> http_status exc = 404
        \<and> \<not> (a \<in> set (asset_ids e) \<and> sid \<in> set (known_scenario_ids e)))
   \<and> (case clear_fault a e of
      (Inr r, e') \<Rightarrow> r = [(lit ''asset_id'', a), (lit ''state'', lit ''healthy'')] \<and> a \<in> set (asset_ids e)
        \<and> (\<forall>a'. get_fault e' a' = (if a' = a then None else get_fault e a'))
        \<and> (\<forall>a'. map_of (get_state e') a' = (if a' = a then Some (lit ''healthy'') else map_of (get_state e) a'))
    | (Inl exc, e') \<Rightarrow> e' = e \<and> exc = HTTPException 404 (UnknownAsset a) \<and> a \<notin> set (asset_ids e))"
proof (intro conjI)
  show "case inject_fault now a sid e of
      (Inr r, e') \<Rightarrow> ir_asset_id r = a \<and> ir_scenario_id r = sid \<and> ir_injected_at r = isoformat now
        \<and> (\<exists>sc. map_of (en_scenarios e) sid = Some sc \<and> ir_fault_type r = sc_fault_type sc
             \<and> (\<forall>a'. get_fault e' a' = (if a' = a then Some (make_fault now a sid sc) else get_fault e a')))
    | (Inl exc, e') \<Rightarrow> e' = e \<and> http_status exc = 404
        \<and> \<not> (a \<in> set (asset_ids e) \<and> sid \<in> set (known_scenario_ids e))"
    by (cases rule: inject_fault_cases [of now a sid e]) (auto simp: inject_get_fault)
  show "case clear_fault a e of
      (Inr r, e') \<Rightarrow> r = [(lit ''asset_id'', a), (lit ''state'', lit ''healthy'')] \<and> a \<in> set (asset_ids e)
        \<and> (\<forall>a'. get_fault e' a' = (if a' = a then None else get_fault e a'))
        \<and> (\<forall>a'. map_of (get_state e') a' = (if a' = a then Some (lit ''healthy'') else map_of (get_state e) a'))
    | (Inl exc, e') \<Rightarrow> e' = e \<and> exc = HTTPException 404 (UnknownAsset a) \<and> a \<notin> set (asset_ids e)"
    by (cases rule: clear_fault_cases [of a e])
      (simp_all add: clear_get_fault get_state_def map_of_all_states clear_asset_ids state_name_def)
qed

end
