(* ===== verification/Remediation.thy ===== *)
theory Remediation
  imports Token_Store Sim_Engine
begin

text \<open>
  The human-in-the-loop gate: \<open>services/mcp_tools/tools/remediation.py\<close>,
  \<open>services/mcp_tools/tools/notify.py\<close> and the two tools of
  \<open>services/mcp_tools/server.py\<close> that call them.

  \<open>remediation_execute\<close> is one coroutine with one suspension point, the call of
  \<open>clear_fn\<close>. \<open>exec_check\<close> is what runs before it, \<open>exec_finish\<close> what runs after
  it; the tool is their composition, and the interleaving model of the service runs them as
  separate steps. The simulator behind \<open>clear_fn\<close> is the state \<open>'s\<close>. The facts about the
  tool are proved in the locale \<open>clear_service\<close>, for any clear function that keeps its contract,
  and reach the simulator through the interpretation \<open>sim\<close>.
\<close>

section \<open>Errors\<close>

text \<open>\<open>RemediationError(error, **extra)\<close>, or another exception that escapes the tool.\<close>

datatype exec_exn =
    RemediationError pystr "(pystr \<times> json) list"
  | TypeError

fun to_dict :: "exec_exn \<Rightarrow> json option" where
  "to_dict (RemediationError error extra) =
     Some (JObj (fold (\<lambda>(k, v) d. dict_set k v d) extra
       [(lit ''status'', JStr (lit ''error'')), (lit ''error'', JStr error)]))"
| "to_dict TypeError = None"

text \<open>Iterating over a decoded JSON value; numbers, booleans and \<open>null\<close> are no iterables.\<close>

fun py_iter :: "json \<Rightarrow> json list option" where
  "py_iter (JArr xs) = Some xs"
| "py_iter (JStr s) = Some (map (\<lambda>c. JStr [c]) s)"
| "py_iter (JObj d) = Some (map (JStr \<circ> fst) d)"
| "py_iter _ = None"

section \<open>remediation.execute\<close>

definition exec_check ::
  "pystr \<Rightarrow> pystr option \<Rightarrow> json \<Rightarrow> token_store \<Rightarrow> fault_registry
     \<Rightarrow> exec_exn + FaultEventRecord \<times> json list" where
  "exec_check fault_event_id approval_token step_ids ts fr =
     (case approval_token of
        None \<Rightarrow> Inl (RemediationError (lit ''not_approved'') [])
      | Some tok_str \<Rightarrow>
          if tok_str = [] then Inl (RemediationError (lit ''not_approved'') [])
          else (case token_get ts tok_str of
            None \<Rightarrow> Inl (RemediationError (lit ''token_invalid'') [])
          | Some token \<Rightarrow>
              if at_fault_event_id token \<noteq> fault_event_id
              then Inl (RemediationError (lit ''token_invalid'') [])
              else if at_decision token \<noteq> decision_approved
              then Inl (RemediationError (lit ''not_approved'') [])
              else if at_consumed token
              then Inl (RemediationError (lit ''token_consumed'') [])
              else (case registry_get fr fault_event_id of
                None \<Rightarrow> Inl (RemediationError (lit ''not_approved'') [])
              | Some rcd \<Rightarrow>
                  (case py_iter step_ids of
                    None \<Rightarrow> Inl TypeError
                  | Some sids \<Rightarrow>
                      (let invalid = filter (\<lambda>s. s \<notin> JStr ` set (fr_allowed_step_ids rcd)) sids
                       in if invalid \<noteq> []
                          then Inl (RemediationError (lit ''step_not_allowed'')
                                 [(lit ''invalid_steps'', JArr invalid)])
                          else Inr (rcd, sids))))))"

definition executed_entry :: "json \<Rightarrow> json" where
  "executed_entry sid = JObj [(lit ''step_id'', sid), (lit ''status'', JStr (lit ''executed''))]"

definition exec_result :: "pystr \<Rightarrow> json list \<Rightarrow> json" where
  "exec_result fault_event_id sids =
     JObj [(lit ''status'', JStr (lit ''resolved'')),
           (lit ''fault_event_id'', JStr fault_event_id),
           (lit ''executed'', JArr (map executed_entry sids)),
           (lit ''asset_state'', JStr (lit ''healthy''))]"

definition exec_finish ::
  "pystr \<Rightarrow> pystr \<Rightarrow> json list \<Rightarrow> bool \<Rightarrow> token_store \<Rightarrow> (exec_exn + json) \<times> token_store" where
  "exec_finish fault_event_id tok_str sids cleared ts =
     (if \<not> cleared
      then (Inl (RemediationError (lit ''simulator_clear_failed'')
              [(lit ''fault_event_id'', JStr fault_event_id)]), ts)
      else (Inr (exec_result fault_event_id sids), token_consume tok_str ts))"

type_synonym 's clear_fn = "pystr \<Rightarrow> 's \<Rightarrow> bool \<times> 's"

definition remediation_execute ::
  "'s clear_fn \<Rightarrow> pystr \<Rightarrow> pystr option \<Rightarrow> json \<Rightarrow> fault_registry \<Rightarrow> token_store \<Rightarrow> 's
     \<Rightarrow> (exec_exn + json) \<times> token_store \<times> 's" where
  "remediation_execute clear_fn fault_event_id approval_token step_ids fr ts s =
     (case exec_check fault_event_id approval_token step_ids ts fr of
        Inl e \<Rightarrow> (Inl e, ts, s)
      | Inr (rcd, sids) \<Rightarrow>
          (let (cleared, s') = clear_fn (fr_asset_id rcd) s;
               (r, ts') = exec_finish fault_event_id (the approval_token) sids cleared ts
           in (r, ts', s')))"

text \<open>What passing the checks means: SEC-01 to SEC-05 all hold.\<close>

definition exec_authorised ::
  "token_store \<Rightarrow> fault_registry \<Rightarrow> pystr \<Rightarrow> pystr option \<Rightarrow> json \<Rightarrow> FaultEventRecord \<Rightarrow> json list \<Rightarrow> bool" where
  "exec_authorised ts fr f tok steps rcd sids \<longleftrightarrow>
     (\<exists>k. tok = Some k \<and> k \<noteq> [] \<and> tokens.usable ts k f)
     \<and> registry_get fr f = Some rcd \<and> py_iter steps = Some sids
     \<and> set sids \<subseteq> JStr ` set (fr_allowed_step_ids rcd)"

lemma exec_check_Inr_iff:
  "exec_check f tok steps ts fr = Inr (rcd, sids) \<longleftrightarrow> exec_authorised ts fr f tok steps rcd sids"
  by (auto simp: exec_check_def exec_authorised_def tokens.usable_def Let_def filter_empty_conv
      split: option.splits if_splits)

text \<open>The first check that fails decides the error.\<close>

lemma exec_check_no_token:
  "tok = None \<or> tok = Some [] \<Longrightarrow>
     exec_check f tok steps ts fr = Inl (RemediationError (lit ''not_approved'') [])"
  by (auto simp: exec_check_def)

lemma exec_check_unknown_token:
  "k \<noteq> [] \<Longrightarrow> token_get ts k = None \<Longrightarrow>
     exec_check f (Some k) steps ts fr = Inl (RemediationError (lit ''token_invalid'') [])"
  by (simp add: exec_check_def)

lemma exec_check_wrong_fault:
  "k \<noteq> [] \<Longrightarrow> token_get ts k = Some t \<Longrightarrow> at_fault_event_id t \<noteq> f \<Longrightarrow>
     exec_check f (Some k) steps ts fr = Inl (RemediationError (lit ''token_invalid'') [])"
  by (simp add: exec_check_def)

lemma exec_check_denied:
  "k \<noteq> [] \<Longrightarrow> token_get ts k = Some t \<Longrightarrow> at_fault_event_id t = f \<Longrightarrow> at_decision t = decision_denied \<Longrightarrow>
     exec_check f (Some k) steps ts fr = Inl (RemediationError (lit ''not_approved'') [])"
  by (simp add: exec_check_def)

lemma exec_check_consumed:
  "k \<noteq> [] \<Longrightarrow> token_get ts k = Some t \<Longrightarrow> at_fault_event_id t = f \<Longrightarrow>
     at_decision t = decision_approved \<Longrightarrow> at_consumed t \<Longrightarrow>
     exec_check f (Some k) steps ts fr = Inl (RemediationError (lit ''token_consumed'') [])"
  by (simp add: exec_check_def)

lemma exec_check_unregistered:
  "k \<noteq> [] \<Longrightarrow> tokens.usable ts k f \<Longrightarrow> registry_get fr f = None \<Longrightarrow>
     exec_check f (Some k) steps ts fr = Inl (RemediationError (lit ''not_approved'') [])"
  by (auto simp: exec_check_def tokens.usable_def)

lemma exec_check_bad_steps:
  "k \<noteq> [] \<Longrightarrow> tokens.usable ts k f \<Longrightarrow> registry_get fr f = Some rcd \<Longrightarrow> py_iter steps = Some sids \<Longrightarrow>
     filter (\<lambda>s. s \<notin> JStr ` set (fr_allowed_step_ids rcd)) sids = invalid \<Longrightarrow> invalid \<noteq> [] \<Longrightarrow>
     exec_check f (Some k) steps ts fr =
       Inl (RemediationError (lit ''step_not_allowed'') [(lit ''invalid_steps'', JArr invalid)])"
  by (auto simp: exec_check_def tokens.usable_def)

text \<open>A spent token never passes, whatever else the call carries.\<close>

lemma exec_check_spent:
  "tokens.spent ts k \<Longrightarrow> \<exists>e. exec_check f (Some k) steps ts fr = Inl e"
  using exec_check_Inr_iff [of f "Some k" steps ts fr]
  by (cases "exec_check f (Some k) steps ts fr")
    (auto simp: exec_authorised_def dest: tokens.spent_not_usable)

section \<open>What any clear service guarantees\<close>

context clear_service
begin

lemma execute_cases:
  assumes "remediation_execute clear_fn f tok steps fr ts s = (r, ts', s')"
  obtains (rejected) e where "r = Inl e" "ts' = ts" "s' = s"
      "exec_check f tok steps ts fr = Inl e"
    | (failed) rcd sids where "exec_authorised ts fr f tok steps rcd sids"
      "clear_fn (fr_asset_id rcd) s = (False, s')" "ts' = ts"
      "r = Inl (RemediationError (lit ''simulator_clear_failed'') [(lit ''fault_event_id'', JStr f)])"
    | (success) rcd sids where "exec_authorised ts fr f tok steps rcd sids"
      "clear_fn (fr_asset_id rcd) s = (True, s')" "ts' = token_consume (the tok) ts"
      "r = Inr (exec_result f sids)"
proof (cases "exec_check f tok steps ts fr")
  case (Inl e)
  with assms show ?thesis by (intro rejected) (auto simp: remediation_execute_def)
next
  case (Inr p)
  obtain rcd sids where p: "p = (rcd, sids)" by (cases p)
  obtain b s1 where b: "clear_fn (fr_asset_id rcd) s = (b, s1)" by (cases "clear_fn (fr_asset_id rcd) s")
  have "exec_authorised ts fr f tok steps rcd sids"
    using Inr p exec_check_Inr_iff by metis
  with assms Inr p b show ?thesis
    by (cases b) (auto simp: remediation_execute_def exec_finish_def intro: failed success)
qed

text \<open>A resolved execution was authorised, and its asset is healthy.\<close>

lemma execute_resolved:
  assumes "remediation_execute clear_fn f tok steps fr ts s = (Inr res, ts', s')"
  shows "\<exists>rcd sids. exec_authorised ts fr f tok steps rcd sids
     \<and> fault_of s' (fr_asset_id rcd) = None \<and> tokens.spent ts' (the tok)"
  using assms by (cases rule: execute_cases) (auto dest: clear_ok intro: tokens.spent_consume)

text \<open>An execution that is not resolved keeps the token: the approval is not burned.\<close>

lemma execute_error_keeps_tokens:
  assumes "remediation_execute clear_fn f tok steps fr ts s = (Inl e, ts', s')"
  shows "ts' = ts"
  using assms by (cases rule: execute_cases) auto

text \<open>Only the registered asset of an authorised fault can change.\<close>

lemma execute_frame:
  assumes "remediation_execute clear_fn f tok steps fr ts s = (r, ts', s')"
    and "\<And>rcd sids. exec_authorised ts fr f tok steps rcd sids \<Longrightarrow> fr_asset_id rcd \<noteq> a"
  shows "fault_of s' a = fault_of s a"
  using assms(1)
proof (cases rule: execute_cases)
  case (failed rcd sids)
  with assms(2) show ?thesis by (metis clear_frame)
next
  case (success rcd sids)
  with assms(2) show ?thesis by (metis clear_frame)
qed simp

lemma execute_unauthorised:
  assumes "\<And>rcd sids. \<not> exec_authorised ts fr f tok steps rcd sids"
  shows "\<exists>e. remediation_execute clear_fn f tok steps fr ts s = (Inl e, ts, s)"
proof -
  obtain r ts' s' where eq: "remediation_execute clear_fn f tok steps fr ts s = (r, ts', s')"
    by (cases "remediation_execute clear_fn f tok steps fr ts s")
  from eq show ?thesis
  proof (cases rule: execute_cases)
    case (rejected e)
    with eq show ?thesis by blast
  qed (use assms in blast)+
qed

text \<open>A spent token is refused before the clear service is called.\<close>

lemma execute_spent:
  assumes "tokens.spent ts k"
  shows "\<exists>e. remediation_execute clear_fn f (Some k) steps fr ts s = (Inl e, ts, s)"
  using assms by (intro execute_unauthorised)
    (auto simp: exec_authorised_def dest: tokens.spent_not_usable)

text \<open>No execution makes a healthy asset faulty.\<close>

lemma execute_never_faults:
  assumes "remediation_execute clear_fn f tok steps fr ts s = (r, ts', s')"
  shows "fault_of s' a \<in> {None, fault_of s a}"
  using assms by (cases rule: execute_cases) (auto dest: clear_never_faults)

end

section \<open>The MCP tool\<close>

text \<open>
  \<open>_clear\<close> of \<open>server.py\<close> over a simulator that answers \<open>POST /control/clear\<close> with a
  status code, or not at all (\<open>None\<close>: a transport error). \<open>raise_for_status\<close> accepts 2xx.
\<close>

definition server_clear :: "(pystr \<Rightarrow> 's \<Rightarrow> nat option \<times> 's) \<Rightarrow> 's clear_fn" where
  "server_clear post asset_id s =
     (case post asset_id s of
        (None, s') \<Rightarrow> (False, s')
      | (Some code, s') \<Rightarrow> (status_ok code, s'))"

lemma server_clear_http [simp]: "server_clear post_clear = http_clear"
  by (auto simp: server_clear_def http_clear_def returned_def fun_eq_iff split: prod.splits option.splits)

text \<open>
  \<open>_remediation_execute\<close>: \<open>loads\<close> is \<open>json.loads\<close>, \<open>None\<close> its \<open>JSONDecodeError\<close>. A
  \<open>RemediationError\<close> becomes an error object; any other exception escapes (\<open>None\<close>).
\<close>

definition server_remediation_execute ::
  "(pystr \<Rightarrow> json option) \<Rightarrow> (pystr \<Rightarrow> 's \<Rightarrow> nat option \<times> 's) \<Rightarrow> pystr \<Rightarrow> pystr \<Rightarrow> pystr
     \<Rightarrow> fault_registry \<Rightarrow> token_store \<Rightarrow> 's \<Rightarrow> json option \<times> token_store \<times> 's" where
  "server_remediation_execute loads post fault_event_id approval_token step_ids fr ts s =
     (case loads step_ids of
        None \<Rightarrow> (Some (JObj [(lit ''status'', JStr (lit ''error'')),
                           (lit ''error'', JStr (lit ''invalid_step_ids_json''))]), ts, s)
      | Some parsed_steps \<Rightarrow>
          (case remediation_execute (server_clear post) fault_event_id (Some approval_token)
                  parsed_steps fr ts s of
             (Inl e, ts', s') \<Rightarrow> (to_dict e, ts', s')
           | (Inr result, ts', s') \<Rightarrow> (Some result, ts', s')))"

definition json_status :: "json \<Rightarrow> json option" where
  "json_status j = jget j (lit ''status'') JNull"

lemma json_status_exec_result [simp]: "json_status (exec_result f sids) = Some (JStr (lit ''resolved''))"
  by (simp add: json_status_def exec_result_def)

lemma exec_check_error_not_resolved:
  "exec_check f tok steps ts fr = Inl e \<Longrightarrow> to_dict e = Some j \<Longrightarrow> json_status j = Some (JStr (lit ''error''))"
  by (auto simp: exec_check_def json_status_def Let_def split: option.splits if_splits)

section \<open>remediation.propose and notify.post\_activity\<close>

text \<open>
  A Gateway client call: method, path and body, answered with a status code or a transport
  error (\<open>None\<close>), and a new Gateway state \<open>'g\<close>.
\<close>

type_synonym 'g gateway_client = "pystr \<Rightarrow> pystr \<Rightarrow> json \<Rightarrow> 'g \<Rightarrow> nat option \<times> 'g"

definition fault_path :: "pystr \<Rightarrow> pystr \<Rightarrow> pystr" where
  "fault_path fault_event_id what = lit ''/api/faults/'' @ fault_event_id @ what"

definition proposal_message :: "pystr list \<Rightarrow> pystr" where
  "proposal_message step_ids =
     [9208] @ lit '' Remediation plan proposed '' @ [8212] @ lit '' awaiting operator approval: ''
     @ (if step_ids \<noteq> [] then join (lit '', '') step_ids else lit ''(scenario defaults)'')"

definition activity_body :: "pystr \<Rightarrow> pystr \<Rightarrow> pystr \<Rightarrow> json" where
  "activity_body fault_event_id step message =
     JObj [(lit ''fault_event_id'', JStr fault_event_id), (lit ''step'', JStr step),
           (lit ''message'', JStr message)]"

definition error_dict :: "pystr \<Rightarrow> json" where
  "error_dict error = JObj [(lit ''status'', JStr (lit ''error'')), (lit ''error'', JStr error)]"

text \<open>The second half of the tool, after the optional diagnosis update.\<close>

definition propose_request ::
  "'g gateway_client \<Rightarrow> pystr \<Rightarrow> pystr list \<Rightarrow> 'g \<Rightarrow> (http_exn + json) \<times> 'g" where
  "propose_request client fault_event_id step_ids g =
     (case client (lit ''PATCH'') (fault_path fault_event_id (lit ''/status''))
             (JObj [(lit ''status'', JStr (lit ''awaiting_approval''))]) g of
        (None, g1) \<Rightarrow> (Inl TransportError, g1)
      | (Some code, g1) \<Rightarrow>
          if code = 404 then (Inr (error_dict (lit ''fault_not_found'')), g1)
          else (case raise_for_status code of
            Inl e \<Rightarrow> (Inl e, g1)
          | Inr _ \<Rightarrow>
              (case client (lit ''POST'') (lit ''/api/agent/activity'')
                      (activity_body fault_event_id (lit ''present'') (proposal_message step_ids)) g1 of
                 (None, g2) \<Rightarrow> (Inl TransportError, g2)
               | (Some _, g2) \<Rightarrow>
                   (Inr (JObj [(lit ''status'', JStr (lit ''proposal_recorded'')),
                               (lit ''fault_event_id'', JStr fault_event_id),
                               (lit ''step_ids'', JArr (map JStr step_ids)),
                               (lit ''note'', JStr (lit ''Execution requires human approval. Stop calling tools and wait.''))]),
                    g2))))"

definition remediation_propose ::
  "'g gateway_client \<Rightarrow> pystr \<Rightarrow> pystr list \<Rightarrow> pystr \<Rightarrow> 'g \<Rightarrow> (http_exn + json) \<times> 'g" where
  "remediation_propose client fault_event_id step_ids summary g =
     (if summary \<noteq> [] then
        (case client (lit ''PATCH'') (fault_path fault_event_id (lit ''/diagnosis''))
                (JObj [(lit ''analysis'', JStr (take 1000 summary))]) g of
           (None, g1) \<Rightarrow> (Inl TransportError, g1)
         | (Some _, g1) \<Rightarrow> propose_request client fault_event_id step_ids g1)
      else propose_request client fault_event_id step_ids g)"

definition allowed_steps :: "pystr list" where
  "allowed_steps = [lit ''detect'', lit ''diagnose'', lit ''search_kb'', lit ''present'',
     lit ''remediate'', lit ''resolved'', lit ''denied'']"

definition max_message_len :: nat where
  "max_message_len = 500"

definition notify_post_activity ::
  "'g gateway_client \<Rightarrow> pystr \<Rightarrow> pystr \<Rightarrow> pystr \<Rightarrow> 'g \<Rightarrow> (http_exn + json) \<times> 'g" where
  "notify_post_activity client fault_event_id step message g =
     (let step' = (if step \<in> set allowed_steps then step else lit ''diagnose'')
      in case client (lit ''POST'') (lit ''/api/agent/activity'')
                (activity_body fault_event_id step' (take max_message_len message)) g of
           (None, g1) \<Rightarrow> (Inl TransportError, g1)
         | (Some code, g1) \<Rightarrow>
             if 400 \<le> code
             then (Inr (error_dict (lit ''gateway_'' @ str_of_nat code)), g1)
             else (Inr (JObj [(lit ''status'', JStr (lit ''posted'')),
                              (lit ''fault_event_id'', JStr fault_event_id)]), g1))"

text \<open>A client that records its calls shows what a tool may do to the Gateway.\<close>

type_synonym call = "pystr \<times> pystr \<times> json"

definition recording :: "(call list \<Rightarrow> nat option) \<Rightarrow> call list gateway_client" where
  "recording answer m p body calls = (answer (calls @ [(m, p, body)]), calls @ [(m, p, body)])"

definition propose_calls :: "pystr \<Rightarrow> pystr list \<Rightarrow> pystr \<Rightarrow> call list" where
  "propose_calls f step_ids summary =
     (if summary \<noteq> []
      then [(lit ''PATCH'', fault_path f (lit ''/diagnosis''), JObj [(lit ''analysis'', JStr (take 1000 summary))])]
      else [])
     @ [(lit ''PATCH'', fault_path f (lit ''/status''), JObj [(lit ''status'', JStr (lit ''awaiting_approval''))]),
        (lit ''POST'', lit ''/api/agent/activity'',
           activity_body f (lit ''present'') (proposal_message step_ids))]"

section \<open>Properties of the gate\<close>

lemma execute_error_status:
  assumes "remediation_execute http_clear f tok steps fr ts w = (Inl e, ts', w')" "to_dict e = Some j"
  shows "json_status j = Some (JStr (lit ''error''))"
  using assms(1)
proof (cases rule: sim.execute_cases)
  case (rejected e')
  with assms(2) show ?thesis by (auto dest: exec_check_error_not_resolved)
next
  case (failed rcd sids)
  with assms(2) show ?thesis by (auto simp: json_status_def)
qed simp

lemma server_execute_cases:
  assumes "server_remediation_execute loads post_clear f k steps_text fr ts w = (j, ts', w')"
  obtains (bad_json) "loads steps_text = None" "j = Some (error_dict (lit ''invalid_step_ids_json''))"
      "ts' = ts" "w' = w"
    | (refused) steps e where "loads steps_text = Some steps" "j = to_dict e"
      "remediation_execute http_clear f (Some k) steps fr ts w = (Inl e, ts', w')"
    | (resolved) steps res where "loads steps_text = Some steps" "j = Some res"
      "remediation_execute http_clear f (Some k) steps fr ts w = (Inr res, ts', w')"
proof (cases "loads steps_text")
  case None
  with assms show ?thesis by (intro bad_json) (auto simp: server_remediation_execute_def error_dict_def)
next
  case (Some steps)
  obtain r ts1 w1 where r: "remediation_execute http_clear f (Some k) steps fr ts w = (r, ts1, w1)"
    by (cases "remediation_execute http_clear f (Some k) steps fr ts w")
  with Some assms show ?thesis
    by (cases r) (auto simp: server_remediation_execute_def intro: refused resolved)
qed

text \<open>
  C4: \<open>remediation.execute\<close> answers \<open>resolved\<close> only when all of SEC-01 to SEC-05 held: the
  token is in the store, bound to this fault event, approved and unused, the fault event is
  registered, and every step is in its allowlist. Then the registered asset is healthy in the
  simulator and the token is spent.
\<close>

theorem execute_resolved_authorised:
  assumes "server_remediation_execute loads post_clear f k steps_text fr ts w = (Some j, ts', w')"
    and "json_status j = Some (JStr (lit ''resolved''))"
  shows "\<exists>tok rcd steps sids. k \<noteq> [] \<and> token_get ts k = Some tok
     \<and> at_fault_event_id tok = f \<and> at_decision tok = decision_approved \<and> \<not> at_consumed tok
     \<and> registry_get fr f = Some rcd
     \<and> loads steps_text = Some steps \<and> py_iter steps = Some sids
     \<and> set sids \<subseteq> JStr ` set (fr_allowed_step_ids rcd)
     \<and> j = exec_result f sids
     \<and> sim_fault_of w' (fr_asset_id rcd) = None
     \<and> token_get ts' k = Some (tok\<lparr>at_consumed := True\<rparr>)"
  using assms(1)
proof (cases rule: server_execute_cases)
  case bad_json
  with assms(2) show ?thesis by (simp add: json_status_def error_dict_def)
next
  case (refused steps e)
  with assms(2) show ?thesis using execute_error_status [of f "Some k" steps fr ts w e ts' w' j] by simp
next
  case (resolved steps res)
  from resolved(3) show ?thesis
  proof (cases rule: sim.execute_cases)
    case (success rcd sids)
    then obtain tok where "token_get ts k = Some tok" "at_fault_event_id tok = f"
      "at_decision tok = decision_approved" "\<not> at_consumed tok"
      by (auto simp: exec_authorised_def tokens.usable_def)
    with success resolved show ?thesis
      by (intro exI [of _ tok] exI [of _ rcd] exI [of _ steps] exI [of _ sids])
        (auto simp: exec_authorised_def tokens.get_consume dest: sim.clear_ok)
  qed auto
qed

text \<open>A concrete lab: one asset, one scenario, an approved token for fault event \<open>f1\<close>.\<close>

definition demo_clock :: "nat \<Rightarrow> datetime" where
  "demo_clock n = DateTime 2026 1 1 0 0 n 0"

definition demo_token :: ApprovalToken where
  "demo_token = \<lparr>at_token = lit ''tok'', at_fault_event_id = lit ''f1'', at_decision = decision_approved,
     at_decided_by = lit ''human'', at_decided_at = demo_clock 0, at_consumed = False\<rparr>"

definition demo_registry :: fault_registry where
  "demo_registry = [(lit ''f1'', \<lparr>fr_fault_event_id = lit ''f1'', fr_asset_id = lit ''gpu-1'',
     fr_scenario_id = lit ''s1'', fr_allowed_step_ids = [lit ''drain'', lit ''reset'']\<rparr>)]"

definition demo_world :: "delivery list \<Rightarrow> sim_world" where
  "demo_world net = \<lparr>sw_engine = \<lparr>en_scenarios = [], en_faults = [(lit ''gpu-1'', None)],
     en_asset_types = []\<rparr>, sw_net = net, sw_clock = demo_clock, sw_ticks = 0\<rparr>"

definition demo_loads :: "pystr \<Rightarrow> json option" where
  "demo_loads t = (if t = lit ''x'' then None else Some (JArr [JStr t]))"

lemmas demo_defs = demo_clock_def demo_token_def demo_registry_def demo_world_def demo_loads_def

lemmas execute_defs = server_remediation_execute_def remediation_execute_def exec_check_def exec_finish_def
  token_get_def token_put_def token_consume_def registry_get_def http_clear_def returned_def post_clear_def
  deliver_def clear_fault_def clear_asset_def response_code_def status_ok_def

theorem execute_resolved_authorised_witness:
  "\<exists>j ts' w'. server_remediation_execute demo_loads post_clear (lit ''f1'') (lit ''tok'') (lit ''drain'')
       demo_registry [(lit ''tok'', demo_token)] (demo_world []) = (Some j, ts', w')
     \<and> token_get ts' (lit ''tok'') = Some (demo_token\<lparr>at_consumed := True\<rparr>)"
proof -
  let ?r = "server_remediation_execute demo_loads post_clear (lit ''f1'') (lit ''tok'') (lit ''drain'')
       demo_registry [(lit ''tok'', demo_token)] (demo_world [])"
  have h: "\<exists>ts' w'. ?r = (Some (exec_result (lit ''f1'') [JStr (lit ''drain'')]), ts', w')"
    by (simp add: execute_defs demo_defs)
  then obtain ts' w' where r: "?r = (Some (exec_result (lit ''f1'') [JStr (lit ''drain'')]), ts', w')"
    by blast
  show ?thesis
    using execute_resolved_authorised [OF r json_status_exec_result] r
    by (auto simp: token_get_def)
qed

text \<open>
  C8: a call that fails any check of the gate changes nothing: no token is consumed, the
  simulator is not called, and the answer is not \<open>resolved\<close>.
\<close>

theorem execute_refused_no_effect:
  assumes "\<And>steps rcd sids. loads steps_text = Some steps \<Longrightarrow> \<not> exec_authorised ts fr f (Some k) steps rcd sids"
  shows "\<exists>r. server_remediation_execute loads post_clear f k steps_text fr ts w = (r, ts, w)
     \<and> (\<forall>j. r = Some j \<longrightarrow> json_status j = Some (JStr (lit ''error'')))"
proof (cases "loads steps_text")
  case None
  then show ?thesis by (simp add: server_remediation_execute_def json_status_def)
next
  case (Some steps)
  obtain e where e: "remediation_execute http_clear f (Some k) steps fr ts w = (Inl e, ts, w)"
    using sim.execute_unauthorised [of ts fr f "Some k" steps w] assms Some by auto
  with Some execute_error_status [OF e] show ?thesis
    by (auto simp: server_remediation_execute_def)
qed

theorem execute_refused_no_effect_witness:
  "\<exists>r. server_remediation_execute demo_loads post_clear (lit ''f2'') (lit ''tok'') (lit ''drain'')
      demo_registry [(lit ''tok'', demo_token)] (demo_world []) = (r, [(lit ''tok'', demo_token)], demo_world [])"
proof -
  have "\<not> exec_authorised [(lit ''tok'', demo_token)] demo_registry (lit ''f2'') (Some (lit ''tok'')) steps rcd sids"
    for steps rcd sids
    by (simp add: exec_authorised_def tokens.usable_def token_get_def demo_token_def)
  then show ?thesis
    using execute_refused_no_effect [of demo_loads "lit ''drain''" "[(lit ''tok'', demo_token)]" demo_registry
        "lit ''f2''" "lit ''tok''" "demo_world []"]
    by blast
qed

text \<open>Everything that can happen to the token store between two calls of the tool.\<close>

datatype token_op =
    OpMint pystr datetime pystr pystr pystr
  | OpStore ApprovalToken
  | OpConsume pystr
  | OpClear

fun token_step :: "token_store \<Rightarrow> token_op \<Rightarrow> token_store" where
  "token_step ts (OpMint w now f d by) =
     (case token_mint w now f d by ts of Inl _ \<Rightarrow> ts | Inr (_, ts') \<Rightarrow> ts')"
| "token_step ts (OpStore t) = token_put t ts"
| "token_step ts (OpConsume k) = token_consume k ts"
| "token_step ts OpClear = token_clear ts"

text \<open>An operation that does not file a new token under the string \<open>k\<close>.\<close>

fun op_avoids :: "pystr \<Rightarrow> token_op \<Rightarrow> bool" where
  "op_avoids k (OpMint w _ _ _ _) = (w \<noteq> k)"
| "op_avoids k (OpStore t) = (at_token t \<noteq> k)"
| "op_avoids k _ = True"

lemma token_step_spent: "tokens.spent ts k \<Longrightarrow> op_avoids k op \<Longrightarrow> tokens.spent (token_step ts op) k"
  by (cases op)
    (auto simp: token_mint_Inr_iff tokens.spent_clear intro: tokens.spent_put tokens.spent_consume_mono
      split: sum.splits)

lemma token_run_spent:
  "tokens.spent ts k \<Longrightarrow> (\<And>op. op \<in> set ops \<Longrightarrow> op_avoids k op) \<Longrightarrow> tokens.spent (foldl token_step ts ops) k"
  by (induction ops arbitrary: ts) (auto simp: token_step_spent)

text \<open>
  An approval token is single-use. After an execution that resolved, whatever happens to the
  token store (as long as the token string is not issued again), every further execution with the
  same token is refused, without consuming anything and without touching the simulator.
\<close>

theorem token_single_use:
  assumes "remediation_execute http_clear f (Some k) steps fr ts w = (Inr res, ts', w')"
    and "\<And>op. op \<in> set ops \<Longrightarrow> op_avoids k op"
  shows "\<exists>e. remediation_execute http_clear f2 (Some k) steps2 fr2 (foldl token_step ts' ops) w2
     = (Inl e, foldl token_step ts' ops, w2)"
proof -
  have "tokens.spent ts' k"
    using sim.execute_resolved [OF assms(1)] by auto
  then have "tokens.spent (foldl token_step ts' ops) k"
    using assms(2) by (rule token_run_spent)
  then show ?thesis by (rule sim.execute_spent)
qed

theorem token_single_use_witness:
  "\<exists>res ts' w' e. remediation_execute http_clear (lit ''f1'') (Some (lit ''tok'')) (JArr [JStr (lit ''drain'')])
       demo_registry [(lit ''tok'', demo_token)] (demo_world []) = (Inr res, ts', w')
     \<and> remediation_execute http_clear (lit ''f1'') (Some (lit ''tok'')) (JArr [JStr (lit ''drain'')])
       demo_registry (foldl token_step ts' [OpConsume (lit ''z''), OpClear]) w'
       = (Inl e, foldl token_step ts' [OpConsume (lit ''z''), OpClear], w')"
proof -
  have "\<exists>res ts' w'. remediation_execute http_clear (lit ''f1'') (Some (lit ''tok'')) (JArr [JStr (lit ''drain'')])
       demo_registry [(lit ''tok'', demo_token)] (demo_world []) = (Inr res, ts', w')"
    by (simp add: execute_defs demo_defs)
  then obtain res ts' w' where r: "remediation_execute http_clear (lit ''f1'') (Some (lit ''tok''))
       (JArr [JStr (lit ''drain'')]) demo_registry [(lit ''tok'', demo_token)] (demo_world []) = (Inr res, ts', w')"
    by blast
  have avoid: "op_avoids (lit ''tok'') op" if "op \<in> set [OpConsume (lit ''z''), OpClear]" for op
    using that by auto
  show ?thesis
    using token_single_use [OF r, of "[OpConsume (lit ''z''), OpClear]" "lit ''f1''"
        "JArr [JStr (lit ''drain'')]" demo_registry w'] r avoid by blast
qed

text \<open>
  A simulator outage does not burn the approval. When the clear was not confirmed, the token
  is untouched, and the same call resolves as soon as the simulator answers again.
\<close>

theorem failed_clear_can_be_retried:
  assumes "remediation_execute http_clear f (Some k) steps fr ts w
      = (Inl (RemediationError (lit ''simulator_clear_failed'') extra), ts', w')"
    and "registry_get fr f = Some rcd" and "fr_asset_id rcd \<in> set (asset_ids (sw_engine w'))"
    and "sw_net w' = []"
  shows "ts' = ts \<and> (\<exists>sids w2. remediation_execute http_clear f (Some k) steps fr ts' w'
      = (Inr (exec_result f sids), token_consume k ts', w2) \<and> sim_fault_of w2 (fr_asset_id rcd) = None)"
  using assms(1)
proof (cases rule: sim.execute_cases)
  case (rejected e)
  then show ?thesis by (auto simp: exec_check_def Let_def split: option.splits if_splits)
next
  case (failed rcd' sids)
  then have auth: "exec_authorised ts fr f (Some k) steps rcd sids" and "ts' = ts"
    using assms(2) by (auto simp: exec_authorised_def)
  have "map_of (en_faults (sw_engine w')) (fr_asset_id rcd) \<noteq> None"
    using assms(3) by (auto simp: set_asset_ids)
  then obtain w2 where w2: "http_clear (fr_asset_id rcd) w' = (True, w2)"
    using assms(4)
    by (auto simp: http_clear_def returned_def post_clear_def deliver_def clear_fault_def clear_asset_def
        response_code_def status_ok_def)
  have chk: "exec_check f (Some k) steps ts fr = Inr (rcd, sids)"
    using auth by (simp add: exec_check_Inr_iff)
  show ?thesis
    using chk w2 sim.clear_ok [OF w2] \<open>ts' = ts\<close>
    by (intro conjI exI [of _ sids] exI [of _ w2]) (simp_all add: remediation_execute_def exec_finish_def)
qed simp

theorem failed_clear_can_be_retried_witness:
  "\<exists>w' sids w2. remediation_execute http_clear (lit ''f1'') (Some (lit ''tok'')) (JArr [JStr (lit ''drain'')])
       demo_registry [(lit ''tok'', demo_token)] (demo_world [Refused])
       = (Inl (RemediationError (lit ''simulator_clear_failed'') [(lit ''fault_event_id'', JStr (lit ''f1''))]),
          [(lit ''tok'', demo_token)], w')
     \<and> remediation_execute http_clear (lit ''f1'') (Some (lit ''tok'')) (JArr [JStr (lit ''drain'')])
       demo_registry [(lit ''tok'', demo_token)] w'
       = (Inr (exec_result (lit ''f1'') sids), token_consume (lit ''tok'') [(lit ''tok'', demo_token)], w2)"
proof -
  let ?w = "(demo_world [])\<lparr>sw_ticks := 1\<rparr>"
  have r: "remediation_execute http_clear (lit ''f1'') (Some (lit ''tok'')) (JArr [JStr (lit ''drain'')])
       demo_registry [(lit ''tok'', demo_token)] (demo_world [Refused])
       = (Inl (RemediationError (lit ''simulator_clear_failed'') [(lit ''fault_event_id'', JStr (lit ''f1''))]),
          [(lit ''tok'', demo_token)], ?w)"
    by (simp add: execute_defs demo_defs)
  have reg: "\<exists>rcd. registry_get demo_registry (lit ''f1'') = Some rcd \<and> fr_asset_id rcd \<in> set (asset_ids (sw_engine ?w))"
    by (simp add: registry_get_def demo_registry_def demo_world_def asset_ids_def)
  then obtain rcd where "registry_get demo_registry (lit ''f1'') = Some rcd"
      "fr_asset_id rcd \<in> set (asset_ids (sw_engine ?w))"
    by blast
  moreover have "sw_net ?w = []" by (simp add: demo_world_def)
  ultimately show ?thesis
    using failed_clear_can_be_retried [OF r] r by blast
qed

lemma propose_request_calls:
  fixes f :: pystr and step_ids :: "pystr list"
  defines "c1 \<equiv> (lit ''PATCH'', fault_path f (lit ''/status''), JObj [(lit ''status'', JStr (lit ''awaiting_approval''))])"
    and "c2 \<equiv> (lit ''POST'', lit ''/api/agent/activity'', activity_body f (lit ''present'') (proposal_message step_ids))"
  shows "snd (propose_request (recording answer) f step_ids g) \<in> {g @ [c1], g @ [c1, c2]}"
proof (cases "answer (g @ [c1])")
  case None
  then show ?thesis by (simp add: propose_request_def recording_def c1_def)
next
  case (Some code)
  then show ?thesis
    by (cases "status_ok code"; cases "answer (g @ [c1, c2])")
      (simp_all add: propose_request_def recording_def raise_for_status_def c1_def c2_def)
qed

text \<open>
  \<open>remediation.propose\<close> is a proposal, not an action. Whatever the Gateway answers, the
  tool's calls are a prefix of: record the summary (only when there is one, cut to 1000
  characters), set the fault to \<open>awaiting_approval\<close>, post the proposal to the activity feed.
\<close>

theorem propose_calls_only:
  "prefix (snd (remediation_propose (recording answer) f step_ids summary []))
     (propose_calls f step_ids summary)"
proof (cases "summary = []")
  case True
  with propose_request_calls [of answer f step_ids "[]"] show ?thesis
    by (auto simp: remediation_propose_def propose_calls_def)
next
  case False
  let ?c0 = "(lit ''PATCH'', fault_path f (lit ''/diagnosis''), JObj [(lit ''analysis'', JStr (take 1000 summary))])"
  from False propose_request_calls [of answer f step_ids "[?c0]"] show ?thesis
    by (cases "answer [?c0]") (auto simp: remediation_propose_def propose_calls_def recording_def)
qed

text \<open>
  \<open>notify.post_activity\<close> makes one call, a post to the activity feed for the given fault
  event, whose step is one of the seven feed categories and whose message has at most 500
  characters and is a prefix of the given one.
\<close>

theorem notify_display_only:
  "\<exists>step' rest message'. snd (notify_post_activity (recording answer) f step message [])
       = [(lit ''POST'', lit ''/api/agent/activity'', activity_body f step' message')]
     \<and> step' \<in> set allowed_steps \<and> length message' \<le> 500 \<and> message = message' @ rest
     \<and> (step \<in> set allowed_steps \<longrightarrow> step' = step)"
proof -
  let ?step = "if step \<in> set allowed_steps then step else lit ''diagnose''"
  have "snd (notify_post_activity (recording answer) f step message [])
      = [(lit ''POST'', lit ''/api/agent/activity'', activity_body f ?step (take max_message_len message))]"
    by (auto simp: notify_post_activity_def recording_def Let_def split: option.splits)
  moreover have "?step \<in> set allowed_steps" by (simp add: allowed_steps_def)
  moreover have "length (take max_message_len message) \<le> 500" by (simp add: max_message_len_def)
  ultimately show ?thesis
    by (intro exI [of _ ?step] exI [of _ "drop max_message_len message"]
        exI [of _ "take max_message_len message"]) auto
qed

theorem notify_display_only_witness:
  "\<exists>step' rest message'. snd (notify_post_activity (recording (\<lambda>_. Some 201)) (lit ''f1'') (lit ''chat'') (lit ''hello'') [])
       = [(lit ''POST'', lit ''/api/agent/activity'', activity_body (lit ''f1'') step' message')]
     \<and> step' \<in> set allowed_steps \<and> length message' \<le> 500 \<and> lit ''hello'' = message' @ rest"
  using notify_display_only [of "\<lambda>_. Some 201" "lit ''f1''" "lit ''chat''" "lit ''hello''"] by blast

end
