(* ===== verification/Mcp_Service.thy ===== *)
theory Mcp_Service
  imports Remediation
begin

text \<open>
  The MCP tools service as a whole: the internal endpoints of \<open>services/mcp_tools/main.py\<close>
  (register a fault event, mint a token, reset) and concurrent executions of
  \<open>remediation.execute\<close>. The service is one asyncio process, so what runs between two
  suspension points is atomic: an execution is the check, the simulator's handling of the clear
  request, and the finish, with other requests in between. \<open>mcp_step\<close> is that interleaving;
  its first argument asks for executions with the same token not to overlap.
\<close>

section \<open>State and endpoints\<close>

record exec_call =
  ec_fault :: pystr
  ec_token :: pystr
  ec_sids :: "json list"
  ec_record :: FaultEventRecord
  ec_answer :: "bool option"

text \<open>
  \<open>ms_issued\<close>, \<open>ms_approvals\<close>, \<open>ms_registered\<close> and \<open>ms_log\<close> are history: the token strings
  handed out, the approvals (token and fault event) minted, the records registered, and the
  executions that answered \<open>resolved\<close>.
\<close>

record mcp_state =
  ms_tokens :: token_store
  ms_registry :: fault_registry
  ms_sim :: sim_world
  ms_calls :: "exec_call list"
  ms_issued :: "pystr list"
  ms_approvals :: "(pystr \<times> pystr) list"
  ms_registered :: "FaultEventRecord list"
  ms_log :: "exec_call list"

definition mcp_init :: "sim_world \<Rightarrow> mcp_state" where
  "mcp_init w = \<lparr>ms_tokens = [], ms_registry = [], ms_sim = w, ms_calls = [], ms_issued = [],
     ms_approvals = [], ms_registered = [], ms_log = []\<rparr>"

definition register_fault_event ::
  "pystr \<Rightarrow> pystr \<Rightarrow> pystr \<Rightarrow> pystr list \<Rightarrow> mcp_state \<Rightarrow> json \<times> mcp_state" where
  "register_fault_event f a sid allowed s =
     (let (rcd, fr') = registry_register f a sid allowed (ms_registry s)
      in (JObj [(lit ''status'', JStr (lit ''registered'')), (lit ''fault_event_id'', JStr f)],
          s\<lparr>ms_registry := fr', ms_registered := rcd # ms_registered s\<rparr>))"

definition mint_token ::
  "pystr \<Rightarrow> datetime \<Rightarrow> pystr \<Rightarrow> ApprovalDecision \<Rightarrow> pystr \<Rightarrow> mcp_state \<Rightarrow> (value_error + json) \<times> mcp_state" where
  "mint_token urlsafe now f d by s =
     (case token_mint urlsafe now f (ApprovalDecision_value d) by (ms_tokens s) of
        Inl e \<Rightarrow> (Inl e, s)
      | Inr (token, ts') \<Rightarrow>
          (Inr (JObj [(lit ''token'', JStr (at_token token)),
                      (lit ''fault_event_id'', JStr (at_fault_event_id token)),
                      (lit ''decision'', JStr (ApprovalDecision_value (at_decision token))),
                      (lit ''consumed'', JBool (at_consumed token))]),
           s\<lparr>ms_tokens := ts', ms_issued := urlsafe # ms_issued s,
             ms_approvals := (if d = decision_approved then (urlsafe, f) # ms_approvals s
                              else ms_approvals s)\<rparr>))"

definition reset_state :: "mcp_state \<Rightarrow> json \<times> mcp_state" where
  "reset_state s =
     (JObj [(lit ''status'', JStr (lit ''cleared''))],
      s\<lparr>ms_tokens := token_clear (ms_tokens s), ms_registry := registry_clear (ms_registry s)\<rparr>)"

lemma mint_token_eq:
  "mint_token k now f d by s =
     (Inr (JObj [(lit ''token'', JStr k), (lit ''fault_event_id'', JStr f),
                 (lit ''decision'', JStr (ApprovalDecision_value d)), (lit ''consumed'', JBool False)]),
      s\<lparr>ms_tokens := token_put \<lparr>at_token = k, at_fault_event_id = f, at_decision = d,
           at_decided_by = by, at_decided_at = now, at_consumed = False\<rparr> (ms_tokens s),
        ms_issued := k # ms_issued s,
        ms_approvals := (if d = decision_approved then (k, f) # ms_approvals s else ms_approvals s)\<rparr>)"
  by (simp add: mint_token_def token_mint_def token_put_def Let_def)

lemma register_fault_event_eq:
  "register_fault_event f a sid allowed s =
     (JObj [(lit ''status'', JStr (lit ''registered'')), (lit ''fault_event_id'', JStr f)],
      s\<lparr>ms_registry := snd (registry_register f a sid allowed (ms_registry s)),
        ms_registered := fst (registry_register f a sid allowed (ms_registry s)) # ms_registered s\<rparr>)"
  by (simp add: register_fault_event_def case_prod_beta)

section \<open>Interleaved executions\<close>

text \<open>Answering a call: \<open>exec_finish\<close> on the token store as it is by then.\<close>

definition finish_call :: "exec_call \<Rightarrow> bool \<Rightarrow> mcp_state \<Rightarrow> (exec_exn + json) \<times> mcp_state" where
  "finish_call c b s =
     (let (r, ts') = exec_finish (ec_fault c) (ec_token c) (ec_sids c) b (ms_tokens s)
      in (r, s\<lparr>ms_tokens := ts', ms_calls := remove1 c (ms_calls s),
               ms_log := (case r of Inl _ \<Rightarrow> ms_log s | Inr _ \<Rightarrow> c # ms_log s)\<rparr>))"

lemma finish_call_eq:
  "finish_call c b s =
     (if b then (Inr (exec_result (ec_fault c) (ec_sids c)),
            s\<lparr>ms_tokens := token_consume (ec_token c) (ms_tokens s),
              ms_calls := remove1 c (ms_calls s), ms_log := c # ms_log s\<rparr>)
      else (Inl (RemediationError (lit ''simulator_clear_failed'') [(lit ''fault_event_id'', JStr (ec_fault c))]),
            s\<lparr>ms_calls := remove1 c (ms_calls s)\<rparr>))"
  by (simp add: finish_call_def exec_finish_def)

definition begin_call :: "pystr \<Rightarrow> pystr \<Rightarrow> FaultEventRecord \<Rightarrow> json list \<Rightarrow> exec_call" where
  "begin_call f k rcd sids =
     \<lparr>ec_fault = f, ec_token = k, ec_sids = sids, ec_record = rcd, ec_answer = None\<rparr>"

inductive mcp_step :: "bool \<Rightarrow> mcp_state \<Rightarrow> mcp_state \<Rightarrow> bool" for serial where
  mint: "k \<notin> set (ms_issued s) \<Longrightarrow> mcp_step serial s (snd (mint_token k now f d by s))"
| register: "mcp_step serial s (snd (register_fault_event f a sid allowed s))"
| start: "exec_check f (Some k) steps (ms_tokens s) (ms_registry s) = Inr (rcd, sids) \<Longrightarrow>
     (serial \<Longrightarrow> k \<notin> ec_token ` set (ms_calls s)) \<Longrightarrow>
     mcp_step serial s (s\<lparr>ms_calls := begin_call f k rcd sids # ms_calls s\<rparr>)"
| clear: "c \<in> set (ms_calls s) \<Longrightarrow> ec_answer c = None \<Longrightarrow>
     http_clear (fr_asset_id (ec_record c)) (ms_sim s) = (b, w') \<Longrightarrow>
     mcp_step serial s
       (s\<lparr>ms_sim := w', ms_calls := (c\<lparr>ec_answer := Some b\<rparr>) # remove1 c (ms_calls s)\<rparr>)"
| finish: "c \<in> set (ms_calls s) \<Longrightarrow> ec_answer c = Some b \<Longrightarrow>
     mcp_step serial s (snd (finish_call c b s))"
| reset: "mcp_step serial s (snd (reset_state s))"
| inject: "http_inject a sid (ms_sim s) = (b, w') \<Longrightarrow> mcp_step serial s (s\<lparr>ms_sim := w'\<rparr>)"

inductive mcp_reachable :: "bool \<Rightarrow> mcp_state \<Rightarrow> bool" for serial where
  init: "mcp_reachable serial (mcp_init w)"
| step: "mcp_reachable serial s \<Longrightarrow> mcp_step serial s t \<Longrightarrow> mcp_reachable serial t"

section \<open>Every execution is covered by an approval\<close>

text \<open>
  A call is covered when its token was minted as an approval of its fault event, its record was
  registered for that fault event, and its steps are in the record's allowlist.
\<close>

definition covered :: "mcp_state \<Rightarrow> exec_call \<Rightarrow> bool" where
  "covered s c \<longleftrightarrow> (ec_token c, ec_fault c) \<in> set (ms_approvals s)
     \<and> ec_record c \<in> set (ms_registered s) \<and> fr_fault_event_id (ec_record c) = ec_fault c
     \<and> set (ec_sids c) \<subseteq> JStr ` set (fr_allowed_step_ids (ec_record c))"

definition mcp_inv :: "mcp_state \<Rightarrow> bool" where
  "mcp_inv s \<longleftrightarrow>
     (\<forall>k t. token_get (ms_tokens s) k = Some t \<longrightarrow>
        k \<in> set (ms_issued s) \<and>
        (at_decision t = decision_approved \<longrightarrow> (k, at_fault_event_id t) \<in> set (ms_approvals s)))
   \<and> (\<forall>k f. (k, f) \<in> set (ms_approvals s) \<longrightarrow> k \<in> set (ms_issued s))
   \<and> (\<forall>f r. registry_get (ms_registry s) f = Some r \<longrightarrow>
        r \<in> set (ms_registered s) \<and> fr_fault_event_id r = f)
   \<and> (\<forall>c \<in> set (ms_calls s) \<union> set (ms_log s). covered s c)"

lemma mcp_inv_init: "mcp_inv (mcp_init w)"
  by (simp add: mcp_inv_def mcp_init_def token_get_def registry_get_def)

lemma in_set_remove1D: "x \<in> set (remove1 y xs) \<Longrightarrow> x \<in> set xs"
  by (meson notin_set_remove1)

lemma covered_mono:
  "covered s c \<Longrightarrow> set (ms_approvals s) \<subseteq> set (ms_approvals t) \<Longrightarrow>
     set (ms_registered s) \<subseteq> set (ms_registered t) \<Longrightarrow> covered t c"
  by (auto simp: covered_def)

lemma covered_answer [simp]: "covered s (c\<lparr>ec_answer := x\<rparr>) = covered s c"
  by (simp add: covered_def)

lemma covered_same:
  "ms_approvals t = ms_approvals s \<Longrightarrow> ms_registered t = ms_registered s \<Longrightarrow> covered t c = covered s c"
  by (simp add: covered_def)

lemma mcp_inv_step: "mcp_step serial s t \<Longrightarrow> mcp_inv s \<Longrightarrow> mcp_inv t"
proof (induction rule: mcp_step.induct)
  case (mint k s now f d "by")
  let ?t = "snd (mint_token k now f d by s)"
  have "\<forall>c \<in> set (ms_calls s) \<union> set (ms_log s). covered ?t c"
    using mint by (auto simp: mcp_inv_def mint_token_eq intro: covered_mono)
  then show ?case
    using mint by (auto simp: mcp_inv_def mint_token_eq tokens.get_put)
next
  case (register s f a sid allowed)
  let ?t = "snd (register_fault_event f a sid allowed s)"
  have "\<forall>c \<in> set (ms_calls s) \<union> set (ms_log s). covered ?t c"
    using register by (auto simp: mcp_inv_def register_fault_event_eq intro: covered_mono)
  then show ?case
    using register by (auto simp: mcp_inv_def register_fault_event_eq registry_get_register)
next
  case (start f k steps s rcd sids)
  then have auth: "exec_authorised (ms_tokens s) (ms_registry s) f (Some k) steps rcd sids"
    by (simp add: exec_check_Inr_iff)
  then have "covered s (begin_call f k rcd sids)"
    using start.prems by (auto simp: covered_def begin_call_def exec_authorised_def tokens.usable_def mcp_inv_def)
  then show ?case
    using start.prems by (auto simp: mcp_inv_def covered_def)
next
  case (clear c s b w')
  then show ?case
    by (auto simp: mcp_inv_def covered_def dest: in_set_remove1D)
next
  case (finish c s b)
  then show ?case
    by (auto simp: mcp_inv_def covered_def finish_call_eq tokens.get_consume dest: in_set_remove1D)
next
  case (reset s)
  then show ?case
    by (auto simp: mcp_inv_def covered_def reset_state_def tokens.get_clear)
next
  case (inject a sid s b w')
  then show ?case by (simp add: mcp_inv_def covered_def)
qed

lemma reachable_mcp_inv: "mcp_reachable serial s \<Longrightarrow> mcp_inv s"
  by (induction rule: mcp_reachable.induct) (auto intro: mcp_inv_init mcp_inv_step)

text \<open>
  C5: no interleaving lets the service act without a human. In every reachable state, every
  execution that answered \<open>resolved\<close> used a token that was minted as an approval of its fault
  event, ran on the asset registered for that fault event, and executed only steps allowed there.
\<close>

theorem resolved_was_approved:
  assumes "mcp_reachable serial s" and "c \<in> set (ms_log s)"
  shows "(ec_token c, ec_fault c) \<in> set (ms_approvals s)
     \<and> ec_record c \<in> set (ms_registered s) \<and> fr_fault_event_id (ec_record c) = ec_fault c
     \<and> set (ec_sids c) \<subseteq> JStr ` set (fr_allowed_step_ids (ec_record c))"
  using reachable_mcp_inv [OF assms(1)] assms(2) by (auto simp: mcp_inv_def covered_def)

section \<open>Single use, with and without overlap\<close>

text \<open>
  Without overlap: the tokens in flight are distinct, the tokens that resolved are spent, out of
  flight and distinct.
\<close>

definition serial_inv :: "mcp_state \<Rightarrow> bool" where
  "serial_inv s \<longleftrightarrow>
     distinct (map ec_token (ms_calls s)) \<and> distinct (map ec_token (ms_log s))
   \<and> (\<forall>c \<in> set (ms_log s). tokens.spent (ms_tokens s) (ec_token c)
        \<and> ec_token c \<notin> ec_token ` set (ms_calls s))
   \<and> ec_token ` (set (ms_calls s) \<union> set (ms_log s)) \<subseteq> set (ms_issued s)"

lemma remove1_tokens:
  assumes "distinct (map ec_token cs)" "c \<in> set cs"
  shows "distinct (map ec_token (remove1 c cs))" "ec_token c \<notin> ec_token ` set (remove1 c cs)"
  using assms by (auto simp: distinct_map inj_on_def)

lemma serial_inv_step:
  "mcp_step True s t \<Longrightarrow> mcp_inv s \<Longrightarrow> serial_inv s \<Longrightarrow> serial_inv t"
proof (induction rule: mcp_step.induct)
  case (mint k s now f d "by")
  then show ?case
    by (auto simp: serial_inv_def mint_token_eq intro!: tokens.spent_put)
next
  case (register s f a sid allowed)
  then show ?case by (simp add: serial_inv_def register_fault_event_eq)
next
  case (start f k steps s rcd sids)
  then have "tokens.usable (ms_tokens s) k f"
    by (auto simp: exec_check_Inr_iff exec_authorised_def)
  then have "k \<in> set (ms_issued s)" "k \<notin> ec_token ` set (ms_log s)"
    using start.prems tokens.spent_not_usable
    by (auto simp: mcp_inv_def serial_inv_def tokens.usable_def tokens.spent_def)
  then show ?case
    using start by (auto simp: serial_inv_def begin_call_def)
next
  case (clear c s b w')
  then show ?case
    using remove1_tokens [of "ms_calls s" c]
    by (auto simp: serial_inv_def dest!: in_set_remove1D)
next
  case (finish c s b)
  then have "ec_token c \<notin> ec_token ` set (ms_log s)"
    by (metis (no_types, lifting) imageE imageI serial_inv_def)
  with finish show ?case
    using remove1_tokens [of "ms_calls s" c]
    by (auto simp: serial_inv_def finish_call_eq dest!: in_set_remove1D
        intro: tokens.spent_consume tokens.spent_consume_mono)
next
  case (reset s)
  then show ?case by (simp add: serial_inv_def reset_state_def tokens.spent_clear)
next
  case (inject a sid s b w')
  then show ?case by (simp add: serial_inv_def)
qed

lemma reachable_serial_inv: "mcp_reachable True s \<Longrightarrow> serial_inv s"
proof (induction rule: mcp_reachable.induct)
  case (init w)
  then show ?case by (simp add: serial_inv_def mcp_init_def)
next
  case (step s t)
  then show ?case by (blast intro: serial_inv_step reachable_mcp_inv)
qed

text \<open>
  C6: as long as two executions with the same token do not overlap, a token resolves at most one
  execution, in every reachable state of the service, resets and re-registrations included.
\<close>

theorem serial_single_use:
  assumes "mcp_reachable True s"
  shows "distinct (map ec_token (ms_log s))"
  using reachable_serial_inv [OF assms] by (simp add: serial_inv_def)

text \<open>A concrete service: one registered fault event, one approval token.\<close>

definition demo_record :: FaultEventRecord where
  "demo_record = \<lparr>fr_fault_event_id = lit ''f1'', fr_asset_id = lit ''gpu-1'', fr_scenario_id = lit ''s1'',
     fr_allowed_step_ids = [lit ''drain'']\<rparr>"

definition demo_call :: "bool option \<Rightarrow> exec_call" where
  "demo_call ans = \<lparr>ec_fault = lit ''f1'', ec_token = lit ''tok'', ec_sids = [JStr (lit ''drain'')],
     ec_record = demo_record, ec_answer = ans\<rparr>"

definition demo_state :: "nat \<Rightarrow> token_store \<Rightarrow> exec_call list \<Rightarrow> exec_call list \<Rightarrow> mcp_state" where
  "demo_state n ts calls lg =
     \<lparr>ms_tokens = ts, ms_registry = [(lit ''f1'', demo_record)],
      ms_sim = (demo_world [])\<lparr>sw_ticks := n\<rparr>, ms_calls = calls, ms_issued = [lit ''tok''],
      ms_approvals = [(lit ''tok'', lit ''f1'')], ms_registered = [demo_record], ms_log = lg\<rparr>"

abbreviation demo_fresh :: token_store where
  "demo_fresh \<equiv> [(lit ''tok'', demo_token)]"

lemmas demo_service_defs = demo_state_def demo_record_def demo_call_def demo_token_def demo_clock_def
  demo_world_def begin_call_def

lemma demo_ready: "mcp_reachable serial (demo_state 0 demo_fresh [] [])"
proof -
  let ?s0 = "mcp_init (demo_world [])"
  let ?s1 = "snd (register_fault_event (lit ''f1'') (lit ''gpu-1'') (lit ''s1'') [lit ''drain''] ?s0)"
  have "mcp_reachable serial ?s1"
    by (rule mcp_reachable.step [OF mcp_reachable.init mcp_step.register])
  moreover have "lit ''tok'' \<notin> set (ms_issued ?s1)"
    by (simp add: register_fault_event_eq mcp_init_def)
  ultimately have "mcp_reachable serial
      (snd (mint_token (lit ''tok'') (demo_clock 0) (lit ''f1'') decision_approved (lit ''human'') ?s1))"
    using mcp_reachable.step mcp_step.mint by blast
  then show ?thesis
    by (simp add: mint_token_eq register_fault_event_eq mcp_init_def demo_service_defs registry_register_def
        token_put_def Let_def)
qed

lemma demo_start:
  assumes "mcp_reachable serial (demo_state n demo_fresh calls lg)" "serial \<Longrightarrow> calls = []"
  shows "mcp_reachable serial (demo_state n demo_fresh (demo_call None # calls) lg)"
proof -
  let ?s = "demo_state n demo_fresh calls lg"
  have "exec_check (lit ''f1'') (Some (lit ''tok'')) (JArr [JStr (lit ''drain'')]) (ms_tokens ?s) (ms_registry ?s)
      = Inr (demo_record, [JStr (lit ''drain'')])"
    by (simp add: exec_check_def token_get_def registry_get_def demo_service_defs)
  from mcp_reachable.step [OF assms(1) mcp_step.start [OF this]] assms(2) show ?thesis
    by (auto simp: demo_state_def begin_call_def demo_call_def)
qed

lemma demo_clear:
  assumes "mcp_reachable serial (demo_state n ts (demo_call None # calls) lg)"
  shows "mcp_reachable serial (demo_state (Suc n) ts (demo_call (Some True) # calls) lg)"
proof -
  let ?s = "demo_state n ts (demo_call None # calls) lg"
  have c: "demo_call None \<in> set (ms_calls ?s)" "ec_answer (demo_call None) = None"
    by (simp_all add: demo_service_defs)
  have "http_clear (fr_asset_id (ec_record (demo_call None))) (ms_sim ?s)
      = (True, (demo_world [])\<lparr>sw_ticks := Suc n\<rparr>)"
    by (simp add: http_clear_def returned_def post_clear_def deliver_def clear_fault_def clear_asset_def
        response_code_def status_ok_def demo_service_defs)
  from mcp_reachable.step [OF assms mcp_step.clear [OF c this]] show ?thesis
    by (simp add: demo_state_def demo_call_def)
qed

lemma demo_finish:
  assumes "mcp_reachable serial (demo_state n ts (demo_call (Some True) # calls) lg)"
  shows "mcp_reachable serial
    (demo_state n (token_consume (lit ''tok'') ts) calls (demo_call (Some True) # lg))"
proof -
  let ?s = "demo_state n ts (demo_call (Some True) # calls) lg"
  have c: "demo_call (Some True) \<in> set (ms_calls ?s)" "ec_answer (demo_call (Some True)) = Some True"
    by (simp_all add: demo_service_defs)
  from mcp_reachable.step [OF assms mcp_step.finish [OF c]] show ?thesis
    by (simp add: finish_call_eq demo_state_def demo_call_def)
qed

lemma demo_one_resolved: "\<exists>ts. mcp_reachable serial (demo_state 1 ts [] [demo_call (Some True)])"
  using demo_finish [OF demo_clear [OF demo_start [OF demo_ready]]] by auto

theorem resolved_was_approved_witness:
  "\<exists>s c. mcp_reachable False s \<and> c \<in> set (ms_log s) \<and> (ec_token c, ec_fault c) \<in> set (ms_approvals s)"
proof -
  obtain ts where r: "mcp_reachable False (demo_state 1 ts [] [demo_call (Some True)])"
    using demo_one_resolved by blast
  have "demo_call (Some True) \<in> set (ms_log (demo_state 1 ts [] [demo_call (Some True)]))"
    by (simp add: demo_state_def)
  with resolved_was_approved [OF r this] r show ?thesis by blast
qed

theorem serial_single_use_witness:
  "\<exists>s. mcp_reachable True s \<and> ms_log s \<noteq> [] \<and> distinct (map ec_token (ms_log s))"
proof -
  obtain ts where r: "mcp_reachable True (demo_state 1 ts [] [demo_call (Some True)])"
    using demo_one_resolved by blast
  from serial_single_use [OF r] r show ?thesis
    by (intro exI [of _ "demo_state 1 ts [] [demo_call (Some True)]"]) (simp add: demo_state_def)
qed

text \<open>
  C7: single use is not enforced across the suspension point. The consumed flag is read before
  the awaited clear and written after it, so two overlapping executions with one token both pass
  the check and both answer \<open>resolved\<close>: one human approval, two executions.
\<close>

theorem overlapping_executions_share_a_token:
  "\<exists>s c d k. mcp_reachable False s \<and> ms_log s = [c, d] \<and> ec_token c = k \<and> ec_token d = k
     \<and> ms_approvals s = [(k, ec_fault c)]"
proof -
  have two: "mcp_reachable False (demo_state 0 demo_fresh [demo_call None, demo_call None] [])"
    using demo_start [OF demo_start [OF demo_ready]] by simp
  let ?s = "demo_state 1 demo_fresh [demo_call (Some True), demo_call None] []"
  have "mcp_reachable False ?s" using demo_clear [OF two] by simp
  then have "mcp_reachable False
      (demo_state 1 (token_consume (lit ''tok'') demo_fresh) [demo_call None] [demo_call (Some True)])"
    using demo_finish by simp
  let ?t = "demo_state 2 (token_consume (lit ''tok'') (token_consume (lit ''tok'') demo_fresh)) []
      [demo_call (Some True), demo_call (Some True)]"
  have "mcp_reachable False
      (demo_state (Suc 1) (token_consume (lit ''tok'') demo_fresh) [demo_call (Some True)] [demo_call (Some True)])"
    by (rule demo_clear) fact
  from demo_finish [OF this] have "mcp_reachable False ?t" by (simp add: numeral_2_eq_2)
  moreover have "ms_log ?t = [demo_call (Some True), demo_call (Some True)]"
    "ms_approvals ?t = [(lit ''tok'', lit ''f1'')]" "ec_token (demo_call (Some True)) = lit ''tok''"
    "ec_fault (demo_call (Some True)) = lit ''f1''"
    by (simp_all add: demo_state_def demo_call_def)
  ultimately show ?thesis by metis
qed

end
