(* ===== verification/Gw_Store.thy ===== *)
theory Gw_Store
  imports Models
begin

text \<open>
  The gateway's state: \<open>services/gateway/store.py\<close>. \<open>GatewayStore\<close> is the in-memory store,
  \<open>sse_broker\<close> its fan-out broker (one unbounded queue per subscriber). The router and the
  executor call the store through its methods only and never look at its class, so the methods
  are a record of operations, \<open>store_ops\<close>; \<open>mem_ops\<close> are those of \<open>GatewayStore\<close>. A
  method a store class does not have is \<open>None\<close> there (calling it raises
  \<open>AttributeError\<close>). Ids (\<open>uuid4\<close>) and timestamps come with the created object.
\<close>

section \<open>JSON dumps\<close>

text \<open>\<open>model_dump(mode="json")\<close>; a UTC datetime is written in ISO 8601 with the suffix \<open>Z\<close>.\<close>

definition json_datetime :: "datetime \<Rightarrow> json" where
  "json_datetime t = JStr (iso_date t @ lit ''T'' @ zpad 2 (dt_hour t) @ lit '':'' @ zpad 2 (dt_minute t)
     @ lit '':'' @ zpad 2 (dt_second t)
     @ (if dt_micro t = 0 then [] else lit ''.'' @ zpad 6 (dt_micro t)) @ lit ''Z'')"

definition jstrs :: "pystr list \<Rightarrow> json" where
  "jstrs xs = JArr (map JStr xs)"

fun FaultEventStatus_value :: "FaultEventStatus \<Rightarrow> pystr" where
  "FaultEventStatus_value detected = lit ''detected''"
| "FaultEventStatus_value diagnosing = lit ''diagnosing''"
| "FaultEventStatus_value awaiting_approval = lit ''awaiting_approval''"
| "FaultEventStatus_value remediating = lit ''remediating''"
| "FaultEventStatus_value resolved = lit ''resolved''"
| "FaultEventStatus_value denied = lit ''denied''"

definition impact_json :: "ScenarioImpact option \<Rightarrow> json" where
  "impact_json im = (case im of None \<Rightarrow> JNull | Some i \<Rightarrow>
     JObj [(lit ''summary'', JStr (im_summary i)), (lit ''workload_impact'', JStr (im_workload_impact i)),
           (lit ''service_risk'', JStr (im_service_risk i)),
           (lit ''estimated_duration'', JStr (im_estimated_duration i))])"

definition jfloat :: "rat option \<Rightarrow> json" where
  "jfloat q = (case q of None \<Rightarrow> JNull | Some r \<Rightarrow> JFloat r)"

definition fault_json :: "FaultEvent \<Rightarrow> json" where
  "fault_json e = JObj
     [(lit ''id'', JStr (fe_id e)), (lit ''scenario_id'', JStr (fe_scenario_id e)),
      (lit ''asset_id'', JStr (fe_asset_id e)), (lit ''detected_at'', json_datetime (fe_detected_at e)),
      (lit ''status'', JStr (FaultEventStatus_value (fe_status e))),
      (lit ''kb_article_id'', jopt (fe_kb_article_id e)), (lit ''log_extract'', jopt (fe_log_extract e)),
      (lit ''remediation_step_labels'', jstrs (fe_remediation_step_labels e)),
      (lit ''error_signature'', jopt (fe_error_signature e)), (lit ''analysis'', jopt (fe_analysis e)),
      (lit ''kb_title'', jopt (fe_kb_title e)), (lit ''kb_score'', jfloat (fe_kb_score e)),
      (lit ''impact'', impact_json (fe_impact e))]"

definition notification_json :: "Notification \<Rightarrow> json" where
  "notification_json n = JObj
     [(lit ''id'', JStr (nt_id n)), (lit ''fault_event_id'', JStr (nt_fault_event_id n)),
      (lit ''title'', JStr (nt_title n)), (lit ''body'', JStr (nt_body n)),
      (lit ''read'', JBool (nt_read n)), (lit ''ts'', json_datetime (nt_ts n))]"

definition activity_json :: "ActivityEvent \<Rightarrow> json" where
  "activity_json e = JObj
     [(lit ''id'', JStr (ac_id e)), (lit ''fault_event_id'', JStr (ac_fault_event_id e)),
      (lit ''step'', JStr (ac_step e)), (lit ''message'', JStr (ac_message e)),
      (lit ''ts'', json_datetime (ac_ts e))]"

section \<open>Asset records and the SSE broker\<close>

record AssetRecord =
  ar_id :: pystr
  ar_type :: pystr
  ar_state :: AssetState
  ar_active_fault :: "pystr option"

text \<open>
  A queue is named by the number it got at creation (\<open>list.remove\<close> compares queues by
  identity); its items are the payloads not yet read, as JSON values.
\<close>

record sse_broker =
  br_next :: nat
  br_queues :: "(nat \<times> json list) list"

definition broker_init :: sse_broker where
  "broker_init = \<lparr>br_next = 0, br_queues = []\<rparr>"

definition sse_payload :: "pystr \<Rightarrow> json \<Rightarrow> json" where
  "sse_payload event_type data = JObj [(lit ''type'', JStr event_type), (lit ''data'', data)]"

definition sse_subscribe :: "sse_broker \<Rightarrow> nat \<times> sse_broker" where
  "sse_subscribe b = (br_next b, b\<lparr>br_next := Suc (br_next b), br_queues := br_queues b @ [(br_next b, [])]\<rparr>)"

definition sse_unsubscribe :: "nat \<Rightarrow> sse_broker \<Rightarrow> sse_broker" where
  "sse_unsubscribe q b = b\<lparr>br_queues := filter (\<lambda>x. fst x \<noteq> q) (br_queues b)\<rparr>"

definition sse_fanout :: "json \<Rightarrow> sse_broker \<Rightarrow> sse_broker" where
  "sse_fanout payload b = b\<lparr>br_queues := map (\<lambda>(q, items). (q, items @ [payload])) (br_queues b)\<rparr>"

definition sse_publish :: "pystr \<Rightarrow> json \<Rightarrow> sse_broker \<Rightarrow> sse_broker" where
  "sse_publish event_type data b = sse_fanout (sse_payload event_type data) b"

text \<open>\<open>queue.get()\<close> by the stream of subscriber \<open>q\<close>.\<close>

definition sse_read :: "nat \<Rightarrow> sse_broker \<Rightarrow> json option \<times> sse_broker" where
  "sse_read q b =
     (case map_of (br_queues b) q of
        Some (p # items) \<Rightarrow> (Some p, b\<lparr>br_queues := dict_set q items (br_queues b)\<rparr>)
      | _ \<Rightarrow> (None, b))"

definition subscriber_count :: "sse_broker \<Rightarrow> nat" where
  "subscriber_count b = length (br_queues b)"

section \<open>The in-memory store\<close>

record GatewayStore =
  gs_faults :: "FaultEvent dict"
  gs_notifications :: "Notification dict"
  gs_activity :: "ActivityEvent list"
  gs_assets :: "AssetRecord dict"
  gs_tokens :: "pystr dict"
  gs_sse :: sse_broker

definition store_init :: GatewayStore where
  "store_init = \<lparr>gs_faults = [], gs_notifications = [], gs_activity = [], gs_assets = [],
     gs_tokens = [], gs_sse = broker_init\<rparr>"

definition store_create_fault_event :: "FaultEvent \<Rightarrow> GatewayStore \<Rightarrow> GatewayStore" where
  "store_create_fault_event evt s = s\<lparr>gs_faults := dict_set (fe_id evt) evt (gs_faults s)\<rparr>"

text \<open>\<open>update_fault_status\<close> and \<open>update_fault_fields\<close>: \<open>model_copy(update=...)\<close> of a stored event.\<close>

definition store_update_fault ::
  "pystr \<Rightarrow> (FaultEvent \<Rightarrow> FaultEvent) \<Rightarrow> GatewayStore \<Rightarrow> FaultEvent option \<times> GatewayStore" where
  "store_update_fault fault_event_id upd s =
     (case map_of (gs_faults s) fault_event_id of
        None \<Rightarrow> (None, s)
      | Some evt \<Rightarrow> (Some (upd evt), s\<lparr>gs_faults := dict_set fault_event_id (upd evt) (gs_faults s)\<rparr>))"

definition store_list_faults :: "GatewayStore \<Rightarrow> FaultEvent list" where
  "store_list_faults s = map snd (gs_faults s)"

definition store_get_fault :: "pystr \<Rightarrow> GatewayStore \<Rightarrow> FaultEvent option" where
  "store_get_fault fault_id s = map_of (gs_faults s) fault_id"

definition store_has_fault :: "pystr \<Rightarrow> GatewayStore \<Rightarrow> bool" where
  "store_has_fault fault_id s \<longleftrightarrow> fault_id \<in> set (map fst (gs_faults s))"

definition store_list_assets :: "GatewayStore \<Rightarrow> AssetRecord list" where
  "store_list_assets s = map snd (gs_assets s)"

definition store_get_asset :: "pystr \<Rightarrow> GatewayStore \<Rightarrow> AssetRecord option" where
  "store_get_asset asset_id s = map_of (gs_assets s) asset_id"

definition store_has_asset :: "pystr \<Rightarrow> GatewayStore \<Rightarrow> bool" where
  "store_has_asset asset_id s \<longleftrightarrow> asset_id \<in> set (map fst (gs_assets s))"

definition store_set_asset :: "AssetRecord \<Rightarrow> GatewayStore \<Rightarrow> GatewayStore" where
  "store_set_asset a s = s\<lparr>gs_assets := dict_set (ar_id a) a (gs_assets s)\<rparr>"

definition store_create_notification :: "Notification \<Rightarrow> GatewayStore \<Rightarrow> GatewayStore" where
  "store_create_notification n s = s\<lparr>gs_notifications := dict_set (nt_id n) n (gs_notifications s)\<rparr>"

definition store_mark_read :: "pystr \<Rightarrow> GatewayStore \<Rightarrow> bool \<times> GatewayStore" where
  "store_mark_read notification_id s =
     (case map_of (gs_notifications s) notification_id of
        None \<Rightarrow> (False, s)
      | Some n \<Rightarrow>
          (True, s\<lparr>gs_notifications := dict_set notification_id (n\<lparr>nt_read := True\<rparr>) (gs_notifications s)\<rparr>))"

definition store_list_notifications :: "GatewayStore \<Rightarrow> Notification list" where
  "store_list_notifications s = map snd (gs_notifications s)"

definition store_get_unread_count :: "GatewayStore \<Rightarrow> nat" where
  "store_get_unread_count s = length (filter (\<lambda>n. \<not> nt_read n) (map snd (gs_notifications s)))"

definition store_create_activity :: "ActivityEvent \<Rightarrow> GatewayStore \<Rightarrow> GatewayStore" where
  "store_create_activity evt s = s\<lparr>gs_activity := gs_activity s @ [evt]\<rparr>"

definition store_list_activity_events :: "GatewayStore \<Rightarrow> ActivityEvent list" where
  "store_list_activity_events s = gs_activity s"

definition store_set_pending_token :: "pystr \<Rightarrow> pystr \<Rightarrow> GatewayStore \<Rightarrow> GatewayStore" where
  "store_set_pending_token fault_id token s = s\<lparr>gs_tokens := dict_set fault_id token (gs_tokens s)\<rparr>"

definition store_get_pending_token :: "pystr \<Rightarrow> GatewayStore \<Rightarrow> pystr option" where
  "store_get_pending_token fault_id s = map_of (gs_tokens s) fault_id"

definition store_publish :: "pystr \<Rightarrow> json \<Rightarrow> GatewayStore \<Rightarrow> GatewayStore" where
  "store_publish event_type data s = s\<lparr>gs_sse := sse_publish event_type data (gs_sse s)\<rparr>"

definition healthy_record :: "AssetRecord \<Rightarrow> AssetRecord" where
  "healthy_record rec = \<lparr>ar_id = ar_id rec, ar_type = ar_type rec, ar_state = healthy, ar_active_fault = None\<rparr>"

definition store_reset :: "GatewayStore \<Rightarrow> GatewayStore" where
  "store_reset s = store_publish (lit ''reset'') (JObj [])
     (s\<lparr>gs_faults := [], gs_notifications := [], gs_activity := [], gs_tokens := [],
        gs_assets := map (\<lambda>(asset_id, rec). (asset_id, healthy_record rec)) (gs_assets s)\<rparr>)"

section \<open>The store as its users see it\<close>

record 's store_ops =
  op_create_fault_event :: "FaultEvent \<Rightarrow> 's \<Rightarrow> 's"
  op_update_fault :: "pystr \<Rightarrow> (FaultEvent \<Rightarrow> FaultEvent) \<Rightarrow> 's \<Rightarrow> FaultEvent option \<times> 's"
  op_list_faults :: "'s \<Rightarrow> FaultEvent list"
  op_get_fault :: "pystr \<Rightarrow> 's \<Rightarrow> FaultEvent option"
  op_has_fault :: "pystr \<Rightarrow> 's \<Rightarrow> bool"
  op_list_assets :: "'s \<Rightarrow> AssetRecord list"
  op_get_asset :: "pystr \<Rightarrow> 's \<Rightarrow> AssetRecord option"
  op_has_asset :: "pystr \<Rightarrow> 's \<Rightarrow> bool"
  op_set_asset :: "AssetRecord \<Rightarrow> 's \<Rightarrow> 's"
  op_create_notification :: "Notification \<Rightarrow> 's \<Rightarrow> 's"
  op_mark_read :: "pystr \<Rightarrow> 's \<Rightarrow> bool \<times> 's"
  op_list_notifications :: "'s \<Rightarrow> Notification list"
  op_get_unread_count :: "'s \<Rightarrow> nat"
  op_create_activity :: "ActivityEvent \<Rightarrow> 's \<Rightarrow> 's"
  op_list_activity_events :: "'s \<Rightarrow> ActivityEvent list"
  op_set_pending_token :: "pystr \<Rightarrow> pystr \<Rightarrow> 's \<Rightarrow> 's"
  op_get_pending_token :: "pystr \<Rightarrow> 's \<Rightarrow> pystr option"
  op_publish :: "pystr \<Rightarrow> json \<Rightarrow> 's \<Rightarrow> 's"
  op_reset :: "('s \<Rightarrow> 's) option"

definition mem_ops :: "GatewayStore store_ops" where
  "mem_ops = \<lparr>
     op_create_fault_event = store_create_fault_event,
     op_update_fault = store_update_fault,
     op_list_faults = store_list_faults,
     op_get_fault = store_get_fault,
     op_has_fault = store_has_fault,
     op_list_assets = store_list_assets,
     op_get_asset = store_get_asset,
     op_has_asset = store_has_asset,
     op_set_asset = store_set_asset,
     op_create_notification = store_create_notification,
     op_mark_read = store_mark_read,
     op_list_notifications = store_list_notifications,
     op_get_unread_count = store_get_unread_count,
     op_create_activity = store_create_activity,
     op_list_activity_events = store_list_activity_events,
     op_set_pending_token = store_set_pending_token,
     op_get_pending_token = store_get_pending_token,
     op_publish = store_publish,
     op_reset = Some store_reset\<rparr>"

lemma mem_ops_simps [simp]:
  "op_create_fault_event mem_ops = store_create_fault_event"
  "op_update_fault mem_ops = store_update_fault"
  "op_list_faults mem_ops = store_list_faults"
  "op_get_fault mem_ops = store_get_fault"
  "op_has_fault mem_ops = store_has_fault"
  "op_list_assets mem_ops = store_list_assets"
  "op_get_asset mem_ops = store_get_asset"
  "op_has_asset mem_ops = store_has_asset"
  "op_set_asset mem_ops = store_set_asset"
  "op_create_notification mem_ops = store_create_notification"
  "op_mark_read mem_ops = store_mark_read"
  "op_list_notifications mem_ops = store_list_notifications"
  "op_get_unread_count mem_ops = store_get_unread_count"
  "op_create_activity mem_ops = store_create_activity"
  "op_list_activity_events mem_ops = store_list_activity_events"
  "op_set_pending_token mem_ops = store_set_pending_token"
  "op_get_pending_token mem_ops = store_get_pending_token"
  "op_publish mem_ops = store_publish"
  "op_reset mem_ops = Some store_reset"
  by (simp_all add: mem_ops_def)

end
