(* ===== verification/Step_Labels.thy ===== *)
theory Step_Labels
  imports Pack_Loader
begin

text \<open>
  What the gateway derives from the pack for a new fault event
  (\<open>services/gateway/router.py\<close>): the labels of the proposed remediation steps, enriched with
  the first sentence of the matching section of the scenario's KB article, and the impact
  assessment. Code points: 8212 is the em dash, 8211 the en dash, 8230 the ellipsis, 126 the tilde.
\<close>

section \<open>The first sentence of a step's section\<close>

definition max_step_detail_chars :: nat where
  "max_step_detail_chars = 160"

definition step_tag :: "pystr \<Rightarrow> pystr" where
  "step_tag step_id = [40, 96] @ step_id @ [96, 41]"

definition is_step_heading :: "pystr \<Rightarrow> pystr \<Rightarrow> bool" where
  "is_step_heading step_id l \<longleftrightarrow> startswith (lit ''###'') (lstrip l) \<and> contains (step_tag step_id) l"

text \<open>The lines after the first heading tagged with the step.\<close>

fun step_section :: "pystr \<Rightarrow> pystr list \<Rightarrow> pystr list option" where
  "step_section step_id [] = None"
| "step_section step_id (l # ls) =
     (if is_step_heading step_id l then Some ls else step_section step_id ls)"

definition no_prose :: "pystr \<Rightarrow> bool" where
  "no_prose s \<longleftrightarrow> startswith (lit ''#'') s \<or> startswith [96, 96, 96] s \<or> startswith (lit ''|'') s
     \<or> startswith (lit ''>'') s"

text \<open>
  A paragraph's first sentence, without a dangling \<open>then\<close>, cut to the maximum; \<open>None\<close> is the
  \<open>break\<close>. \<open>line_end\<close> holds the characters stripped at a cut.
\<close>

definition line_end :: pystr where
  "line_end = lit '',;: ''"

definition first_sentence :: "pystr \<Rightarrow> pystr option" where
  "first_sentence s =
     (let sentence = strip (rstrip_chars (lit ''.:'') (hd (split_on (lit ''. '') s)));
          sentence' = (if endswith (lit '' then'') sentence
                       then rstrip_chars line_end (take (length sentence - length (lit '' then'')) sentence)
                       else sentence)
      in if sentence' = [] then None
         else if length sentence' > max_step_detail_chars
         then Some (rstrip_chars line_end (take (max_step_detail_chars - 1) sentence') @ [8230])
         else Some sentence')"

fun section_detail :: "pystr list \<Rightarrow> pystr option" where
  "section_detail [] = None"
| "section_detail (l # ls) =
     (let s = strip l in
      if s = [] then section_detail ls
      else if no_prose s then None
      else (let s' = strip (lstrip_chars (lit ''-*0123456789. '') s) in
            if s' = [] then section_detail ls else first_sentence s'))"

definition kb_step_detail :: "pystr \<Rightarrow> pystr \<Rightarrow> pystr option" where
  "kb_step_detail body_md step_id =
     (case step_section step_id (splitlines body_md) of
        None \<Rightarrow> None
      | Some ls \<Rightarrow> section_detail ls)"

section \<open>Labels and impact of a scenario\<close>

definition article_id_of_ref :: "pystr \<Rightarrow> pystr" where
  "article_id_of_ref ref = removesuffix (lit ''.md'') (after_last 47 ref)"

definition step_label :: "pystr \<Rightarrow> RemediationStep \<Rightarrow> pystr" where
  "step_label body_md st =
     (case kb_step_detail body_md (rs_id st) of
        None \<Rightarrow> rs_label st
      | Some detail \<Rightarrow>
          rs_label st @ [32, 8212, 32] @ detail @ (if endswith [8230] detail then [] else lit ''.''))"

definition step_labels_for_scenario :: "LoadedPack \<Rightarrow> pystr \<Rightarrow> pystr list" where
  "step_labels_for_scenario lp scenario_id =
     (case map_of (lp_scenarios_by_id lp) scenario_id of
        None \<Rightarrow> []
      | Some sc \<Rightarrow>
          (case map_of (lp_kb_articles lp) (article_id_of_ref (sc_kb_article_ref sc)) of
             None \<Rightarrow> map rs_label (sc_remediation_steps sc)
           | Some article \<Rightarrow> map (step_label (kb_body_md article)) (sc_remediation_steps sc)))"

definition generic_impact :: "pystr \<Rightarrow> nat \<Rightarrow> ScenarioImpact" where
  "generic_impact asset_id step_count =
     \<lparr>im_summary = lit ''Execute '' @ str_of_nat step_count @ lit '' approved remediation steps on ''
        @ asset_id @ lit ''.'',
      im_workload_impact = lit ''Workloads on '' @ asset_id
        @ lit '' may be interrupted while remediation runs.'',
      im_service_risk = lit ''Single-asset action '' @ [8212] @ lit '' no cluster-wide changes are made.'',
      im_estimated_duration = [126] @ lit ''5'' @ [8211] @ lit ''10 minutes''\<rparr>"

definition impact_for_scenario :: "LoadedPack \<Rightarrow> pystr \<Rightarrow> pystr \<Rightarrow> nat \<Rightarrow> ScenarioImpact" where
  "impact_for_scenario lp scenario_id asset_id step_count =
     (case map_of (lp_scenarios_by_id lp) scenario_id of
        None \<Rightarrow> generic_impact asset_id step_count
      | Some sc \<Rightarrow> (case sc_impact sc of None \<Rightarrow> generic_impact asset_id step_count | Some i \<Rightarrow> i))"

section \<open>Facts\<close>

text \<open>\<open>q\<close> is a contiguous piece of \<open>s\<close>; every string method used above yields one.\<close>

lemma contains_refl [simp]: "contains s s"
  by (metis append_Nil append_Nil2 contains_iff)

lemma contains_trans: "contains a b \<Longrightarrow> contains b c \<Longrightarrow> contains a c"
  by (auto simp: contains_iff) (metis append.assoc)

lemma contains_dropWhile: "contains (dropWhile P s) s"
  by (metis append_Nil2 contains_iff takeWhile_dropWhile_id)

lemma contains_rev: "contains (rev a) (rev b) \<Longrightarrow> contains a b"
  by (auto simp: contains_iff) (metis rev_append rev_rev_ident append.assoc)

lemma contains_rstrip_by: "contains (rstrip_by P s) s"
  by (rule contains_rev) (simp add: rstrip_by_def contains_dropWhile)

lemma contains_lstrip_by: "contains (lstrip_by P s) s"
  by (simp add: lstrip_by_def contains_dropWhile)

lemma contains_strip: "contains (strip s) s"
  unfolding strip_def rstrip_def lstrip_def
  using contains_trans contains_rstrip_by contains_lstrip_by by blast

lemma contains_take: "contains (take n s) s"
  by (metis append_Nil append_take_drop_id contains_iff)

lemma contains_hd_split: "contains (hd (split_on sep s)) s"
proof (cases "cut sep s")
  case None
  then have "split_on sep s = [s]" by (cases "length s") (simp_all add: split_on_def)
  then show ?thesis by simp
next
  case (Some ab)
  then obtain a b where ab: "cut sep s = Some (a, b)" by (cases ab) auto
  show ?thesis
  proof (cases "length s")
    case 0
    then show ?thesis by (simp add: split_on_def)
  next
    case (Suc n)
    with ab have "hd (split_on sep s) = a" by (simp add: split_on_def)
    with cut_Some [OF ab] show ?thesis by (metis append_Nil contains_iff)
  qed
qed

lemma step_section_lines: "step_section step_id ls = Some ls' \<Longrightarrow> set ls' \<subseteq> set ls"
  by (induction ls) (auto split: if_splits)

lemma first_sentence_piece:
  assumes "first_sentence s = Some d"
  shows "d \<noteq> [] \<and> length d \<le> max_step_detail_chars
     \<and> (\<exists>p. contains p s \<and> (d = p \<or> d = p @ [8230]))"
proof -
  let ?s1 = "strip (rstrip_chars (lit ''.:'') (hd (split_on (lit ''. '') s)))"
  let ?s2 = "if endswith (lit '' then'') ?s1
     then rstrip_chars line_end (take (length ?s1 - length (lit '' then'')) ?s1) else ?s1"
  have "contains ?s1 s"
    unfolding rstrip_chars_def
    by (rule contains_trans [OF contains_strip contains_trans [OF contains_rstrip_by contains_hd_split]])
  moreover have "contains ?s2 ?s1"
    unfolding rstrip_chars_def by (simp add: contains_trans [OF contains_rstrip_by contains_take])
  ultimately have s2: "contains ?s2 s" by (rule contains_trans [rotated])
  from assms have ne: "?s2 \<noteq> []" by (auto simp: first_sentence_def Let_def split: if_splits)
  show ?thesis
  proof (cases "length ?s2 > max_step_detail_chars")
    case True
    let ?p = "rstrip_chars line_end (take (max_step_detail_chars - 1) ?s2)"
    have d: "d = ?p @ [8230]" using assms ne True by (simp add: first_sentence_def Let_def)
    have "contains ?p ?s2"
      unfolding rstrip_chars_def by (rule contains_trans [OF contains_rstrip_by contains_take])
    then have "contains ?p s" using s2 contains_trans by blast
    moreover have "length ?p \<le> max_step_detail_chars - 1"
      using length_rstrip_chars [of line_end "take (max_step_detail_chars - 1) ?s2"] by simp
    ultimately show ?thesis using d by (auto simp: max_step_detail_chars_def)
  next
    case False
    then have "d = ?s2" using assms ne by (simp add: first_sentence_def Let_def)
    with s2 ne False show ?thesis by auto
  qed
qed

lemma section_detail_piece:
  "section_detail ls = Some d \<Longrightarrow> d \<noteq> [] \<and> length d \<le> max_step_detail_chars
     \<and> (\<exists>l \<in> set ls. \<exists>p. contains p l \<and> (d = p \<or> d = p @ [8230]))"
proof (induction ls)
  case (Cons l ls)
  let ?s = "strip l"
  let ?s' = "strip (lstrip_chars (lit ''-*0123456789. '') ?s)"
  have sub: "contains ?s' l"
    unfolding lstrip_chars_def
    by (rule contains_trans [OF contains_strip contains_trans [OF contains_lstrip_by contains_strip]])
  show ?case
  proof (cases "first_sentence ?s' = Some d \<and> ?s \<noteq> [] \<and> \<not> no_prose ?s \<and> ?s' \<noteq> []")
    case True
    then obtain p where p: "d \<noteq> []" "length d \<le> max_step_detail_chars" "contains p ?s'" "d = p \<or> d = p @ [8230]"
      using first_sentence_piece by blast
    from contains_trans [OF p(3) sub] p show ?thesis by auto
  next
    case False
    with Cons.prems have "section_detail ls = Some d" by (auto simp: Let_def split: if_splits)
    with Cons.IH show ?thesis by auto
  qed
qed simp

lemma kb_step_detail_piece:
  assumes "kb_step_detail body_md step_id = Some d"
  shows "d \<noteq> [] \<and> length d \<le> max_step_detail_chars
     \<and> (\<exists>l \<in> set (splitlines body_md). \<exists>p. contains p l \<and> (d = p \<or> d = p @ [8230]))"
proof -
  from assms obtain ls where ls: "step_section step_id (splitlines body_md) = Some ls" "section_detail ls = Some d"
    by (auto simp: kb_step_detail_def split: option.splits)
  from section_detail_piece [OF ls(2)] step_section_lines [OF ls(1)] show ?thesis by blast
qed

text \<open>The last piece of a split is what follows the last separator.\<close>

lemma cut_char: "cut [c] s = Some (a, b) \<Longrightarrow> c \<notin> set a \<and> s = a @ c # b"
proof -
  assume *: "cut [c] s = Some (a, b)"
  then have s: "s = a @ [c] @ b" by (rule cut_Some)
  have "c \<notin> set a"
  proof
    assume "c \<in> set a"
    then obtain x y where a: "a = x @ c # y" by (meson split_list)
    then have "length x < length a" by simp
    moreover have "startswith [c] (drop (length x) s)" by (simp add: s a startswith_def)
    ultimately show False using cut_no_earlier [OF *] by blast
  qed
  with s show ?thesis by simp
qed

lemma last_split_max: "length s \<le> n \<Longrightarrow> last (split_max n [c] s) = after_last c s"
proof (induction n arbitrary: s)
  case 0
  then show ?case by (simp add: after_last_def)
next
  case (Suc n)
  show ?case
  proof (cases "cut [c] s")
    case None
    then have "c \<notin> set s" by (simp add: cut_None contains_iff) (metis append_Cons append_Nil split_list)
    with None show ?thesis by (simp add: after_last_id)
  next
    case (Some ab)
    then obtain a b where ab: "cut [c] s = Some (a, b)" by (cases ab) auto
    with cut_char have s: "s = a @ c # b" by blast
    have "after_last c s = after_last c b"
    proof (cases "c \<in> set b")
      case True
      then show ?thesis by (auto simp: s after_last_def takeWhile_append)
    next
      case False
      with after_last_notin [of c b a] after_last_id [of c b] show ?thesis by (simp add: s)
    qed
    with ab Suc s show ?thesis by simp
  qed
qed

lemma last_split_on: "last (split_on [c] s) = after_last c s"
  by (simp add: split_on_def last_split_max)

lemma split_on_nonempty: "split_on sep s \<noteq> []"
  by (simp add: split_on_def)

lemma path_parts_last:
  assumes "after_last 47 ref \<noteq> []" "after_last 47 ref \<noteq> [46]"
  shows "path_name (path_parts ref) = after_last 47 ref"
proof -
  let ?P = "\<lambda>c. c \<noteq> [] \<and> c \<noteq> [46]"
  obtain bs where sp: "split_on [47] ref = bs @ [after_last 47 ref]"
    using append_butlast_last_id [of "split_on [47] ref"] by (metis last_split_on split_on_nonempty)
  have "path_parts ref = filter ?P bs @ [after_last 47 ref]"
    using assms by (simp add: path_parts_def lit_def sp)
  then show ?thesis by (simp add: path_name_def)
qed

lemma article_id_agrees:
  assumes "after_last 47 ref = stem @ lit ''.md''" "stem \<noteq> []"
  shows "article_id_of_ref ref = path_stem (path_parts ref)"
proof -
  have md: "lit ''.md'' = [46] @ [109, 100]" by (simp add: lit_def)
  have "path_name (path_parts ref) = stem @ lit ''.md''"
    using path_parts_last [of ref] assms by (auto simp: md append_eq_Cons_conv)
  moreover have "name_stem (stem @ lit ''.md'') = stem"
    using before_last_notin [of 46 "[109, 100]" stem] after_last_notin [of 46 "[109, 100]" stem] assms(2)
    by (simp add: name_stem_def md)
  ultimately show ?thesis using assms(1) by (simp add: article_id_of_ref_def path_stem_def)
qed

section \<open>Properties\<close>

text \<open>
  C33: The proposed steps the operator sees are the scenario's own: one label per remediation
  step, in order, each beginning with the step's label. What is added to a label is text of the KB
  article: a dash and at most 160 characters, a piece of a single line of the body (with an
  ellipsis when cut), never empty and never spanning lines.
\<close>
theorem step_labels_authentic:
  assumes "map_of (lp_scenarios_by_id lp) scenario_id = Some sc"
  shows "length (step_labels_for_scenario lp scenario_id) = length (sc_remediation_steps sc)
     \<and> (\<forall>i < length (sc_remediation_steps sc).
          step_labels_for_scenario lp scenario_id ! i = rs_label (sc_remediation_steps sc ! i)
        \<or> (\<exists>a d p l tail. map_of (lp_kb_articles lp) (article_id_of_ref (sc_kb_article_ref sc)) = Some a
             \<and> step_labels_for_scenario lp scenario_id ! i
                 = rs_label (sc_remediation_steps sc ! i) @ [32, 8212, 32] @ d @ tail
             \<and> (tail = [] \<or> tail = lit ''.'') \<and> d \<noteq> [] \<and> length d \<le> 160
             \<and> l \<in> set (splitlines (kb_body_md a)) \<and> contains p l \<and> (d = p \<or> d = p @ [8230])))"
proof (cases "map_of (lp_kb_articles lp) (article_id_of_ref (sc_kb_article_ref sc))")
  case None
  with assms show ?thesis by (simp add: step_labels_for_scenario_def)
next
  case (Some a)
  have labels: "step_labels_for_scenario lp scenario_id = map (step_label (kb_body_md a)) (sc_remediation_steps sc)"
    using assms Some by (simp add: step_labels_for_scenario_def)
  have "step_label (kb_body_md a) st = rs_label st
      \<or> (\<exists>d p l tail. step_label (kb_body_md a) st = rs_label st @ [32, 8212, 32] @ d @ tail
           \<and> (tail = [] \<or> tail = lit ''.'') \<and> d \<noteq> [] \<and> length d \<le> 160
           \<and> l \<in> set (splitlines (kb_body_md a)) \<and> contains p l \<and> (d = p \<or> d = p @ [8230]))" for st
  proof (cases "kb_step_detail (kb_body_md a) (rs_id st)")
    case None
    then show ?thesis by (simp add: step_label_def)
  next
    case (Some d)
    let ?tail = "if endswith [8230] d then [] else lit ''.''"
    from kb_step_detail_piece [OF Some] obtain p l where
      "d \<noteq> []" "length d \<le> 160" "l \<in> set (splitlines (kb_body_md a))" "contains p l" "d = p \<or> d = p @ [8230]"
      by (auto simp: max_step_detail_chars_def)
    moreover have "step_label (kb_body_md a) st = rs_label st @ [32, 8212, 32] @ d @ ?tail"
      by (simp add: step_label_def Some)
    moreover have "?tail = [] \<or> ?tail = lit ''.''" by simp
    ultimately show ?thesis by blast
  qed
  then show ?thesis using Some unfolding labels by simp
qed

definition labels_demo_pack :: LoadedPack where
  "labels_demo_pack = demo_pack\<lparr>lp_kb_articles := [(lit ''K1'', \<lparr>kb_id = lit ''K1'', kb_pack_id = lit ''dc'',
     kb_title = lit ''Hot'', kb_body_md = join [10] [lit ''# Hot'', lit ''### Step 1 '' @ step_tag (lit ''drain''), [],
       lit ''- Cordon the node, then: ''], kb_remediation_step_ids = []\<rparr>)]\<rparr>"

lemma labels_demo:
  "step_labels_for_scenario labels_demo_pack (lit ''s1'') = [lit ''Drain '' @ [8212] @ lit '' Cordon the node.'']"
  by code_simp

theorem step_labels_authentic_witness:
  "length (step_labels_for_scenario labels_demo_pack (lit ''s1'')) = 1"
proof -
  have "map_of (lp_scenarios_by_id labels_demo_pack) (lit ''s1'') = Some (backfill_log_extract demo_scenario)"
    by (simp add: labels_demo_pack_def demo_pack_def)
  from step_labels_authentic [OF this] show ?thesis by (simp add: demo_scenario_def)
qed

text \<open>
  The gateway and the pack loader agree on a scenario's KB article although each derives the
  article's id from the reference in its own way (the loader takes the stem of the resolved path,
  the gateway cuts the string at the last slash and drops \<open>.md\<close>): in a pack that loads,
  a reference whose last component is \<open><stem>.md\<close> and which no symlink renames gives the same
  id, the article is loaded, and the labels are built from its body.
\<close>
theorem gateway_finds_loaded_article:
  assumes "load_pack fs lb dir = Inr lp"
    and "map_of (lp_scenarios_by_id lp) scenario_id = Some sc"
    and "after_last 47 (sc_kb_article_ref sc) = stem @ lit ''.md''" and "stem \<noteq> []"
    and "path_stem (fs_resolve fs (path_join (fs_resolve fs dir) (sc_kb_article_ref sc)))
           = path_stem (path_parts (sc_kb_article_ref sc))"
  shows "article_id_of_ref (sc_kb_article_ref sc)
           = path_stem (fs_resolve fs (path_join (fs_resolve fs dir) (sc_kb_article_ref sc)))
     \<and> (\<exists>a. map_of (lp_kb_articles lp) (article_id_of_ref (sc_kb_article_ref sc)) = Some a
          \<and> step_labels_for_scenario lp scenario_id = map (step_label (kb_body_md a)) (sc_remediation_steps sc))"
proof -
  have wf: "wf_loaded lp" and refs: "refs_resolved fs (fs_resolve fs dir) lp"
    using load_pack_Inr [OF assms(1)] by auto
  have id: "article_id_of_ref (sc_kb_article_ref sc)
      = path_stem (fs_resolve fs (path_join (fs_resolve fs dir) (sc_kb_article_ref sc)))"
    using article_id_agrees [OF assms(3,4)] assms(5) by simp
  have "sc \<in> set (lp_scenarios lp)" using wf_loaded_by_id(1) [OF wf assms(2)] by simp
  with refs have "article_id_of_ref (sc_kb_article_ref sc) \<in> dom (map_of (lp_kb_articles lp))"
    unfolding refs_resolved_def id by blast
  then obtain a where "map_of (lp_kb_articles lp) (article_id_of_ref (sc_kb_article_ref sc)) = Some a" by blast
  with id assms(2) show ?thesis by (auto simp: step_labels_for_scenario_def)
qed

theorem gateway_finds_loaded_article_witness:
  "\<exists>a. map_of (lp_kb_articles demo_pack) (article_id_of_ref (lit ''kb/K1.md'')) = Some a"
proof -
  have sc: "map_of (lp_scenarios_by_id demo_pack) (lit ''s1'') = Some (backfill_log_extract demo_scenario)"
    by (simp add: demo_pack_def)
  have ref: "sc_kb_article_ref demo_scenario = lit ''kb/K1.md''"
    by (simp add: demo_scenario_def)
  have "after_last 47 (lit ''kb/K1.md'') = lit ''K1'' @ lit ''.md''" by code_simp
  moreover have "path_stem (fs_resolve demo_fs (path_join (fs_resolve demo_fs [lit ''p'']) (lit ''kb/K1.md'')))
      = path_stem (path_parts (lit ''kb/K1.md''))" by code_simp
  ultimately show ?thesis
    using gateway_finds_loaded_article [OF load_demo_pack sc, of "lit ''K1''"] by (auto simp: ref)
qed

end
