(* ===== verification/Gw_Router.thy ===== *)
theory Gw_Router
  imports Gw_Store Step_Labels
begin

text \<open>
  The gateway's routes, \<open>services/gateway/router.py\<close> (without the two health probes). A
  handler takes the store's operations, the ids and clock readings it consumes, and its clients:
  the orchestrator's answer and the three internal endpoints of the MCP tools service
  (\<open>'m mcp_client\<close> over that service's state). \<open>exec_job\<close> is what \<open>post_decision\<close> hands to
  \<open>RemediationExecutor.start\<close>. A handler answers JSON or leaves with an exception.
\<close>

datatype gw_exn = GwHttp http_exc | GwUpstream http_exn | GwAttributeError | GwValueError | GwTypeError

section \<open>Reading\<close>

definition get_pack :: "LoadedPack \<Rightarrow> json" where
  "get_pack lp =
     (let pack = lp_pack lp;
          names = concat (map (\<lambda>a. case pa_display_name a of
            Some n \<Rightarrow> if n \<noteq> [] then [(pa_id a, JStr n)] else [] | None \<Rightarrow> []) (pk_assets pack));
          urls = concat (map (\<lambda>a. case pa_image_url a of
            Some u \<Rightarrow> if u \<noteq> [] then [(pa_id a, JStr u)] else [] | None \<Rightarrow> []) (pk_assets pack))
      in JObj [(lit ''id'', JStr (pk_id pack)), (lit ''name'', JStr (pk_name pack)),
           (lit ''asset_noun'', JObj [(lit ''singular'', JStr (noun_singular (pk_asset_noun pack))),
                                      (lit ''plural'', JStr (noun_plural (pk_asset_noun pack)))]),
           (lit ''fleet_label'', JStr (pk_fleet_label pack)), (lit ''theme'', JStr (pk_theme pack)),
           (lit ''sentinel_name'', JStr (pk_sentinel_name pack)),
           (lit ''asset_image_url'', jopt (pk_asset_image_url pack)),
           (lit ''asset_spec_label'', jopt (pk_asset_spec_label pack)),
           (lit ''fleet_layout'', JStr (case pk_fleet_layout pack of Grid \<Rightarrow> lit ''grid'' | ListLayout \<Rightarrow> lit ''list'')),
           (lit ''asset_display_names'', JObj (dict_of names)),
           (lit ''asset_image_urls'', JObj (dict_of urls))])"

definition asset_json :: "AssetRecord \<Rightarrow> json" where
  "asset_json a = JObj [(lit ''id'', JStr (ar_id a)), (lit ''type'', JStr (ar_type a)),
     (lit ''state'', JStr (AssetState_value (ar_state a))),
     (lit ''active_fault_event_id'', jopt (ar_active_fault a))]"

definition list_assets :: "'s store_ops \<Rightarrow> 's \<Rightarrow> json" where
  "list_assets st s = JObj [(lit ''assets'', JArr (map asset_json (op_list_assets st s)))]"

definition list_notifications :: "'s store_ops \<Rightarrow> 's \<Rightarrow> json" where
  "list_notifications st s =
     JObj [(lit ''notifications'', JArr (map notification_json (sorted_desc nt_ts (op_list_notifications st s)))),
           (lit ''unread_count'', JInt (int (op_get_unread_count st s)))]"

definition list_faults :: "'s store_ops \<Rightarrow> 's \<Rightarrow> json" where
  "list_faults st s =
     JObj [(lit ''faults'', JArr (map fault_json (sorted_desc fe_detected_at (op_list_faults st s))))]"

definition not_found :: "string \<Rightarrow> gw_exn" where
  "not_found what = GwHttp (HTTPException 404 (Detail (lit what)))"

definition get_fault_detail :: "'s store_ops \<Rightarrow> pystr \<Rightarrow> 's \<Rightarrow> gw_exn + json" where
  "get_fault_detail st fault_id s =
     (case op_get_fault st fault_id s of
        None \<Rightarrow> Inl (not_found ''fault_not_found'')
      | Some evt \<Rightarrow> Inr (fault_json evt))"

definition get_token :: "'s store_ops \<Rightarrow> pystr \<Rightarrow> 's \<Rightarrow> gw_exn + json" where
  "get_token st fault_id s =
     (if \<not> op_has_fault st fault_id s then Inl (not_found ''fault_not_found'')
      else (case op_get_pending_token st fault_id s of
        None \<Rightarrow> Inl (not_found ''token_not_available'')
      | Some token \<Rightarrow> Inr (JObj [(lit ''token'', JStr token), (lit ''fault_event_id'', JStr fault_id)])))"

text \<open>\<open>sorted(xs, key=f)\<close>\<close>

definition list_activity :: "'s store_ops \<Rightarrow> 's \<Rightarrow> json" where
  "list_activity st s =
     JObj [(lit ''activity'', JArr (map activity_json (sort_key ac_ts (op_list_activity_events st s))))]"

section \<open>Writing\<close>

definition mark_notification_read :: "'s store_ops \<Rightarrow> pystr \<Rightarrow> 's \<Rightarrow> (gw_exn + json) \<times> 's" where
  "mark_notification_read st notification_id s =
     (case op_mark_read st notification_id s of
        (False, s') \<Rightarrow> (Inl (not_found ''notification_not_found''), s')
      | (True, s') \<Rightarrow> (Inr (JObj [(lit ''status'', JStr (lit ''read''))]), s'))"

record CreateFaultRequest =
  cf_scenario_id :: pystr
  cf_asset_id :: pystr
  cf_kb_article_id :: "pystr option"
  cf_log_extract :: "pystr option"
  cf_remediation_step_labels :: "pystr list"

definition new_fault_event :: "LoadedPack \<Rightarrow> pystr \<Rightarrow> datetime \<Rightarrow> CreateFaultRequest \<Rightarrow> FaultEvent" where
  "new_fault_event lp fault_id now body =
     (let step_labels = (if cf_remediation_step_labels body = []
                         then step_labels_for_scenario lp (cf_scenario_id body)
                         else cf_remediation_step_labels body)
      in \<lparr>fe_id = fault_id, fe_scenario_id = cf_scenario_id body, fe_asset_id = cf_asset_id body,
          fe_detected_at = now, fe_status = detected, fe_kb_article_id = cf_kb_article_id body,
          fe_log_extract = cf_log_extract body, fe_remediation_step_labels = step_labels,
          fe_error_signature = None, fe_analysis = None, fe_kb_title = None, fe_kb_score = None,
          fe_impact = Some (impact_for_scenario lp (cf_scenario_id body) (cf_asset_id body)
                             (length step_labels))\<rparr>)"

definition new_notification :: "pystr \<Rightarrow> pystr \<Rightarrow> datetime \<Rightarrow> CreateFaultRequest \<Rightarrow> Notification" where
  "new_notification notif_id fault_id now body =
     \<lparr>nt_id = notif_id, nt_fault_event_id = fault_id,
      nt_title = lit ''Fault detected on '' @ cf_asset_id body,
      nt_body = (case cf_log_extract body of
                   Some x \<Rightarrow> if x \<noteq> [] then x
                             else lit ''Scenario '' @ cf_scenario_id body @ lit '' triggered.''
                 | None \<Rightarrow> lit ''Scenario '' @ cf_scenario_id body @ lit '' triggered.''),
      nt_read = False, nt_ts = now\<rparr>"

text \<open>
  \<open>if await store.has_asset(...): asset = await store.get_asset(...); await store.set_asset(...)\<close>,
  in the two forms it takes: mark an asset faulted, and return it to healthy.
\<close>

definition fault_asset :: "'s store_ops \<Rightarrow> pystr \<Rightarrow> pystr \<Rightarrow> 's \<Rightarrow> (gw_exn + unit) \<times> 's" where
  "fault_asset st asset_id fault_id s =
     (if op_has_asset st asset_id s
      then (case op_get_asset st asset_id s of
              None \<Rightarrow> (Inl GwAttributeError, s)
            | Some a \<Rightarrow> (Inr (), op_set_asset st \<lparr>ar_id = ar_id a, ar_type = ar_type a, ar_state = faulted,
                                 ar_active_fault = Some fault_id\<rparr> s))
      else (Inr (), s))"

definition asset_event :: "pystr \<Rightarrow> AssetState \<Rightarrow> pystr option \<Rightarrow> json" where
  "asset_event asset_id state link =
     JObj [(lit ''id'', JStr asset_id), (lit ''state'', JStr (AssetState_value state)),
           (lit ''active_fault_event_id'', jopt link)]"

definition heal_asset :: "'s store_ops \<Rightarrow> pystr \<Rightarrow> 's \<Rightarrow> (gw_exn + unit) \<times> 's" where
  "heal_asset st asset_id s =
     (if asset_id \<noteq> [] \<and> op_has_asset st asset_id s
      then (case op_get_asset st asset_id s of
              None \<Rightarrow> (Inl GwAttributeError, s)
            | Some a \<Rightarrow> (Inr (), op_publish st (lit ''asset'') (asset_event asset_id healthy None)
                                  (op_set_asset st (healthy_record a) s)))
      else (Inr (), s))"

definition create_fault ::
  "'s store_ops \<Rightarrow> LoadedPack \<Rightarrow> pystr \<Rightarrow> datetime \<Rightarrow> pystr \<Rightarrow> datetime \<Rightarrow> CreateFaultRequest \<Rightarrow> 's
     \<Rightarrow> (gw_exn + json) \<times> 's" where
  "create_fault st lp fault_id now notif_id now' body s =
     (let evt = new_fault_event lp fault_id now body;
          notif = new_notification notif_id fault_id now' body;
          s1 = op_create_fault_event st evt s
      in case fault_asset st (cf_asset_id body) fault_id s1 of
           (Inl e, s2) \<Rightarrow> (Inl e, s2)
         | (Inr _, s2) \<Rightarrow>
             (let s3 = op_create_notification st notif s2;
                  s4 = op_publish st (lit ''fault'') (fault_json evt) s3;
                  s5 = op_publish st (lit ''notification'') (notification_json notif) s4;
                  s6 = op_publish st (lit ''asset'') (asset_event (cf_asset_id body) faulted (Some fault_id)) s5
              in (Inr (fault_json evt), s6)))"

definition update_fault_status ::
  "'s store_ops \<Rightarrow> pystr \<Rightarrow> FaultEventStatus \<Rightarrow> 's \<Rightarrow> (gw_exn + json) \<times> 's" where
  "update_fault_status st fault_id status s =
     (case op_update_fault st fault_id (\<lambda>e. e\<lparr>fe_status := status\<rparr>) s of
        (None, s1) \<Rightarrow> (Inl (not_found ''fault_not_found''), s1)
      | (Some updated, s1) \<Rightarrow>
          (case (if status = resolved then heal_asset st (fe_asset_id updated) s1 else (Inr (), s1)) of
             (Inl e, s2) \<Rightarrow> (Inl e, s2)
           | (Inr _, s2) \<Rightarrow> (Inr (fault_json updated), op_publish st (lit ''fault'') (fault_json updated) s2)))"

record UpdateDiagnosisRequest =
  ud_error_signature :: "pystr option"
  ud_analysis :: "pystr option"
  ud_kb_article_id :: "pystr option"
  ud_kb_title :: "pystr option"
  ud_kb_score :: "rat option"

text \<open>\<open>model_dump(exclude_none=True)\<close>: only the fields present are written.\<close>

definition or_else :: "'a option \<Rightarrow> 'a option \<Rightarrow> 'a option" where
  "or_else new old = (case new of None \<Rightarrow> old | Some x \<Rightarrow> Some x)"

definition apply_diagnosis :: "UpdateDiagnosisRequest \<Rightarrow> FaultEvent \<Rightarrow> FaultEvent" where
  "apply_diagnosis body e = e\<lparr>
     fe_error_signature := or_else (ud_error_signature body) (fe_error_signature e),
     fe_analysis := or_else (ud_analysis body) (fe_analysis e),
     fe_kb_article_id := or_else (ud_kb_article_id body) (fe_kb_article_id e),
     fe_kb_title := or_else (ud_kb_title body) (fe_kb_title e),
     fe_kb_score := or_else (ud_kb_score body) (fe_kb_score e)\<rparr>"

definition update_fault_diagnosis ::
  "'s store_ops \<Rightarrow> pystr \<Rightarrow> UpdateDiagnosisRequest \<Rightarrow> 's \<Rightarrow> (gw_exn + json) \<times> 's" where
  "update_fault_diagnosis st fault_id body s =
     (case op_update_fault st fault_id (apply_diagnosis body) s of
        (None, s1) \<Rightarrow> (Inl (not_found ''fault_not_found''), s1)
      | (Some updated, s1) \<Rightarrow> (Inr (fault_json updated), op_publish st (lit ''fault'') (fault_json updated) s1))"

definition post_activity ::
  "'s store_ops \<Rightarrow> pystr \<Rightarrow> datetime \<Rightarrow> pystr \<Rightarrow> pystr \<Rightarrow> pystr \<Rightarrow> 's \<Rightarrow> json \<times> 's" where
  "post_activity st activity_id now fault_event_id stp message s =
     (let evt = \<lparr>ac_id = activity_id, ac_fault_event_id = fault_event_id, ac_step = stp,
                 ac_message = message, ac_ts = now\<rparr>
      in (activity_json evt,
          op_publish st (lit ''activity'') (activity_json evt) (op_create_activity st evt s)))"

section \<open>The approval gate\<close>

text \<open>
  The client's view of the MCP tools service: register a fault event (the answer's status is not
  looked at), mint a token (\<open>raise_for_status\<close>, then the \<open>token\<close> of the answer), reset.
\<close>

record 'm mcp_client =
  mc_register :: "pystr \<Rightarrow> pystr \<Rightarrow> pystr \<Rightarrow> pystr list \<Rightarrow> 'm \<Rightarrow> (http_exn + nat) \<times> 'm"
  mc_mint :: "pystr \<Rightarrow> pystr \<Rightarrow> pystr \<Rightarrow> 'm \<Rightarrow> (http_exn + pystr) \<times> 'm"
  mc_reset :: "'m \<Rightarrow> (http_exn + nat) \<times> 'm"

record exec_job =
  ej_fault_id :: pystr
  ej_asset_id :: pystr
  ej_scenario_id :: pystr
  ej_step_ids :: "pystr list"
  ej_step_labels :: "pystr dict"
  ej_token :: pystr

definition decision_event :: "pystr \<Rightarrow> ApprovalDecision \<Rightarrow> json" where
  "decision_event fault_id d =
     JObj [(lit ''fault_event_id'', JStr fault_id), (lit ''decision'', JStr (ApprovalDecision_value d))]"

definition denied_answer :: "pystr \<Rightarrow> json" where
  "denied_answer fault_id = JObj [(lit ''decision'', JStr (lit ''denied'')), (lit ''fault_event_id'', JStr fault_id)]"

definition approved_answer :: "pystr \<Rightarrow> json" where
  "approved_answer fault_id = JObj [(lit ''decision'', JStr (lit ''approved'')),
     (lit ''fault_event_id'', JStr fault_id), (lit ''execution'', JStr (lit ''started''))]"

definition deny_fault :: "'s store_ops \<Rightarrow> pystr \<Rightarrow> 's \<Rightarrow> (gw_exn + json) \<times> 's" where
  "deny_fault st fault_id s =
     (case op_update_fault st fault_id (\<lambda>e. e\<lparr>fe_status := denied\<rparr>) s of
        (None, s1) \<Rightarrow> (Inl GwAttributeError, s1)
      | (Some updated, s1) \<Rightarrow>
          (Inr (denied_answer fault_id),
           op_publish st (lit ''decision'') (decision_event fault_id decision_denied)
             (op_publish st (lit ''fault'') (fault_json updated) s1)))"

text \<open>\<open>orch asset_id\<close> is the orchestrator's answer for the asset's active scenario: its steps.\<close>

definition mint_for ::
  "'m mcp_client \<Rightarrow> FaultEvent \<Rightarrow> pystr \<Rightarrow> pystr list \<Rightarrow> 'm \<Rightarrow> (gw_exn + pystr) \<times> 'm" where
  "mint_for mc evt fault_id allowed_step_ids m =
     (case mc_register mc fault_id (fe_asset_id evt) (fe_scenario_id evt) allowed_step_ids m of
        (Inl exc, m1) \<Rightarrow> (Inl (GwHttp (HTTPException 502 (McpToolsError exc))), m1)
      | (Inr _, m1) \<Rightarrow>
          (case mc_mint mc fault_id (lit ''approved'') (lit ''human'') m1 of
             (Inl exc, m2) \<Rightarrow> (Inl (GwHttp (HTTPException 502 (McpToolsError exc))), m2)
           | (Inr token, m2) \<Rightarrow> (Inr token, m2)))"

definition post_decision ::
  "'s store_ops \<Rightarrow> (pystr \<Rightarrow> http_exn + RemediationStep list) \<Rightarrow> 'm mcp_client \<Rightarrow> pystr \<Rightarrow> ApprovalDecision
     \<Rightarrow> 's \<Rightarrow> 'm \<Rightarrow> (gw_exn + json) \<times> 's \<times> 'm \<times> exec_job option" where
  "post_decision st orch mc fault_id decision s m =
     (case op_get_fault st fault_id s of
        None \<Rightarrow> (Inl (not_found ''fault_not_found''), s, m, None)
      | Some evt \<Rightarrow>
          (if decision = decision_denied
           then (let (r, s') = deny_fault st fault_id s in (r, s', m, None))
           else
             (let steps = (case orch (fe_asset_id evt) of Inl _ \<Rightarrow> [] | Inr xs \<Rightarrow> xs);
                  allowed_step_ids = map rs_id steps;
                  step_labels = dict_of (map (\<lambda>x. (rs_id x, rs_label x)) steps)
              in case mint_for mc evt fault_id allowed_step_ids m of
                   (Inl e, m') \<Rightarrow> (Inl e, s, m', None)
                 | (Inr token, m') \<Rightarrow>
                     (Inr (approved_answer fault_id),
                      op_publish st (lit ''decision'') (decision_event fault_id decision_approved)
                        (op_set_pending_token st fault_id token s),
                      m',
                      Some \<lparr>ej_fault_id = fault_id, ej_asset_id = fe_asset_id evt,
                            ej_scenario_id = fe_scenario_id evt, ej_step_ids = allowed_step_ids,
                            ej_step_labels = step_labels, ej_token = token\<rparr>))))"

section \<open>Presenter controls\<close>

record hook_request =
  hr_url :: pystr
  hr_authorization :: pystr
  hr_text :: pystr

text \<open>
  \<open>_fire_agent_webhook\<close>: \<open>wake\<close> is \<open>wake_agent\<close>, the terminal daemon's answer, called outside
  the \<open>try\<close>; the result is the request to the wake hook, when one is made. Its outcome is only
  logged.
\<close>

definition fire_agent_webhook ::
  "(pystr \<Rightarrow> pystr \<Rightarrow> gw_exn + bool) \<Rightarrow> pystr option \<Rightarrow> pystr option \<Rightarrow> pystr \<Rightarrow> pystr
     \<Rightarrow> gw_exn + hook_request option" where
  "fire_agent_webhook wake hook_url hook_token scenario_id asset_id =
     bind_res (if scenario_id \<noteq> [] \<and> asset_id \<noteq> [] then wake scenario_id asset_id else Inr False) (\<lambda>told.
       if told then Inr None
       else (case (hook_url, hook_token) of
        (Some url, Some token) \<Rightarrow>
          (if url = [] \<or> token = [] then Inr None
           else Inr (Some \<lparr>hr_url = rstrip_chars (lit ''/'') url @ lit ''/hooks/wake'',
                      hr_authorization = lit ''Bearer '' @ token,
                      hr_text = lit ''fault-event: scenario '' @ scenario_id @ lit '' injected on '' @ asset_id
                        @ [32, 8212, 32] @ lit ''run the Infrastructure Fault Response program now''\<rparr>))
      | _ \<Rightarrow> Inr None))"

text \<open>
  \<open>run_next\<close> and \<open>run_id\<close> are the orchestrator's two run routes; \<open>ids\<close> reads the scenario id and
  the target asset of what they answered.
\<close>

definition presenter_inject ::
  "('d \<Rightarrow> pystr \<times> pystr) \<Rightarrow> ('o \<Rightarrow> (http_exn + 'd) \<times> 'o) \<Rightarrow> (pystr \<Rightarrow> 'o \<Rightarrow> (http_exn + 'd) \<times> 'o)
     \<Rightarrow> (pystr \<Rightarrow> pystr \<Rightarrow> gw_exn + bool) \<Rightarrow> pystr option \<Rightarrow> pystr option \<Rightarrow> pystr option \<Rightarrow> 'o
     \<Rightarrow> (gw_exn + 'd) \<times> hook_request option \<times> 'o" where
  "presenter_inject ids run_next run_id wake hook_url hook_token scenario os =
     (case (case scenario of
              Some sid \<Rightarrow> if sid \<noteq> [] then run_id sid os else run_next os
            | None \<Rightarrow> run_next os) of
        (Inl e, os') \<Rightarrow> (Inl (GwUpstream e), None, os')
      | (Inr data, os') \<Rightarrow>
          (case fire_agent_webhook wake hook_url hook_token (fst (ids data)) (snd (ids data)) of
             Inl e \<Rightarrow> (Inl e, None, os')
           | Inr request \<Rightarrow> (Inr data, request, os')))"

definition publish_assets :: "'s store_ops \<Rightarrow> AssetRecord list \<Rightarrow> 's \<Rightarrow> 's" where
  "publish_assets st = fold (\<lambda>a. op_publish st (lit ''asset'') (asset_event (ar_id a) (ar_state a) None))"

definition presenter_reset ::
  "'s store_ops \<Rightarrow> ('o \<Rightarrow> (http_exn + unit) \<times> 'o) \<Rightarrow> 'm mcp_client \<Rightarrow> 's \<Rightarrow> 'o \<Rightarrow> 'm
     \<Rightarrow> (gw_exn + json) \<times> 's \<times> 'o \<times> 'm" where
  "presenter_reset st orch_reset mc s os m =
     (case orch_reset os of
        (Inl e, os') \<Rightarrow> (Inl (GwUpstream e), s, os', m)
      | (Inr _, os') \<Rightarrow>
          (let (_, m') = mc_reset mc m
           in case op_reset st of
                None \<Rightarrow> (Inl GwAttributeError, s, os', m')
              | Some reset \<Rightarrow>
                  (let s' = reset s
                   in (Inr (JObj [(lit ''status'', JStr (lit ''idle''))]),
                       publish_assets st (op_list_assets st s') s', os', m'))))"

end
