(* ===== verification/Gw_Executor.thy ===== *)
theory Gw_Executor
  imports Gw_Router
begin

text \<open>
  The execution after an approval, \<open>services/gateway/executor.py\<close>: \<open>RemediationExecutor._run\<close> as
  a script of actions on the store (status changes and narration lines) around one call of
  \<open>remediation.execute\<close>. The executor sleeps between the actions, and requests are served
  meanwhile: \<open>xe_others n\<close> is what they do to the store before action \<open>n\<close>. Code points: 9989
  check mark button, 9654 play, 10003 check mark, 9888 warning sign, 8212 em dash, 8230 ellipsis.
\<close>

section \<open>Actions\<close>

record 's exec_env =
  xe_ids :: "nat \<Rightarrow> pystr"
  xe_clock :: "nat \<Rightarrow> datetime"
  xe_others :: "nat \<Rightarrow> 's \<Rightarrow> 's"

definition narrate ::
  "'s store_ops \<Rightarrow> pystr \<Rightarrow> datetime \<Rightarrow> pystr \<Rightarrow> pystr \<Rightarrow> pystr \<Rightarrow> 's \<Rightarrow> 's" where
  "narrate st activity_id now fault_id stp message s =
     (let evt = \<lparr>ac_id = activity_id, ac_fault_event_id = fault_id, ac_step = stp,
                 ac_message = message, ac_ts = now\<rparr>
      in op_publish st (lit ''activity'') (activity_json evt) (op_create_activity st evt s))"

text \<open>\<open>Inl\<close> is an exception, which \<open>_run\<close> catches; the store keeps what was done before it.\<close>

definition set_status ::
  "'s store_ops \<Rightarrow> pystr \<Rightarrow> pystr \<Rightarrow> FaultEventStatus \<Rightarrow> 's \<Rightarrow> (gw_exn + unit) \<times> 's" where
  "set_status st fault_id asset_id status s =
     (case op_update_fault st fault_id (\<lambda>e. e\<lparr>fe_status := status\<rparr>) s of
        (None, s1) \<Rightarrow> (Inr (), s1)
      | (Some updated, s1) \<Rightarrow>
          (case (if status = resolved then heal_asset st asset_id s1 else (Inr (), s1)) of
             (Inl e, s2) \<Rightarrow> (Inl e, s2)
           | (Inr _, s2) \<Rightarrow> (Inr (), op_publish st (lit ''fault'') (fault_json updated) s2)))"

datatype exec_action = SetStatus FaultEventStatus | Narrate pystr pystr

definition do_action ::
  "'s store_ops \<Rightarrow> 's exec_env \<Rightarrow> exec_job \<Rightarrow> nat \<Rightarrow> exec_action \<Rightarrow> 's \<Rightarrow> (gw_exn + unit) \<times> 's" where
  "do_action st env job n act s =
     (let s' = xe_others env n s in
      case act of
        SetStatus status \<Rightarrow> set_status st (ej_fault_id job) (ej_asset_id job) status s'
      | Narrate stp message \<Rightarrow>
          (Inr (), narrate st (xe_ids env n) (xe_clock env n) (ej_fault_id job) stp message s'))"

text \<open>The actions from number \<open>n\<close> on; the first exception ends the script.\<close>

fun do_actions ::
  "'s store_ops \<Rightarrow> 's exec_env \<Rightarrow> exec_job \<Rightarrow> nat \<Rightarrow> exec_action list \<Rightarrow> 's \<Rightarrow> (gw_exn + unit) \<times> 's" where
  "do_actions st env job n [] s = (Inr (), s)"
| "do_actions st env job n (act # acts) s =
     (case do_action st env job n act s of
        (Inl e, s') \<Rightarrow> (Inl e, s')
      | (Inr _, s') \<Rightarrow> do_actions st env job (Suc n) acts s')"

section \<open>The script\<close>

definition step_lines :: "exec_job \<Rightarrow> pystr \<Rightarrow> exec_action list" where
  "step_lines job step_id =
     (let label = (case map_of (ej_step_labels job) step_id of None \<Rightarrow> step_id | Some l \<Rightarrow> l)
      in [Narrate (lit ''remediate'') ([32, 32, 9654, 32] @ label @ [8230]),
          Narrate (lit ''remediate'') ([32, 32, 10003, 32] @ label @ [32, 8212] @ lit '' complete'')])"

definition before_script :: "exec_job \<Rightarrow> exec_action list" where
  "before_script job =
     [SetStatus remediating,
      Narrate (lit ''remediate'') ([9989, 32] @ lit ''Approval received '' @ [8212]
        @ lit '' single-use token validated''),
      Narrate (lit ''remediate'') (lit ''Beginning remediation: '' @ str_of_nat (length (ej_step_ids job))
        @ lit '' approved steps'')]
     @ concat (map (step_lines job) (ej_step_ids job))"

definition resolved_script :: "exec_job \<Rightarrow> exec_action list" where
  "resolved_script job =
     [Narrate (lit ''remediate'') (lit ''Remediation complete '' @ [8212] @ lit '' verifying ''
        @ ej_asset_id job @ lit '' health'' @ [8230]),
      SetStatus resolved,
      Narrate (lit ''resolved'') ([9989, 32] @ ej_asset_id job @ lit '' returned to healthy state ''
        @ [8212] @ lit '' fault cleared'')]"

definition error_script :: "pystr \<Rightarrow> exec_action list" where
  "error_script error = [Narrate (lit ''remediate'') ([9888] @ lit '' Remediation error: '' @ error)]"

text \<open>
  \<open>str(v)\<close> of a decoded JSON value: a string is itself; \<open>show\<close> stands for Python's
  representation of the others.
\<close>

definition str_of_json :: "(json \<Rightarrow> pystr) \<Rightarrow> json \<Rightarrow> pystr" where
  "str_of_json show v = (case v of JStr s \<Rightarrow> s | _ \<Rightarrow> show v)"

text \<open>What the answer of \<open>remediation.execute\<close> means: resolved, an error, or a crash (no mapping).\<close>

datatype exec_verdict = VResolved | VError pystr | VCrash

definition verdict :: "(json \<Rightarrow> pystr) \<Rightarrow> json option \<Rightarrow> exec_verdict" where
  "verdict show answer =
     (case answer of
        None \<Rightarrow> VCrash
      | Some j \<Rightarrow>
          (case (jget j (lit ''status'') JNull, jget j (lit ''error'') (JStr (lit ''unknown''))) of
             (Some status, Some error) \<Rightarrow>
               (if status = JStr (lit ''resolved'') then VResolved else VError (str_of_json show error))
           | _ \<Rightarrow> VCrash))"

definition closing_script :: "exec_job \<Rightarrow> exec_verdict \<Rightarrow> exec_action list" where
  "closing_script job v =
     (case v of
        VResolved \<Rightarrow> resolved_script job
      | VError error \<Rightarrow> error_script error
      | VCrash \<Rightarrow> error_script (lit ''internal execution failure''))"

definition exit_value :: "exec_verdict \<Rightarrow> pystr" where
  "exit_value v = (case v of VResolved \<Rightarrow> lit ''resolved'' | VError error \<Rightarrow> lit ''error:'' @ error
     | VCrash \<Rightarrow> lit ''error:internal'')"

text \<open>
  \<open>_run\<close>. \<open>execute\<close> is the injected \<open>execute_fn\<close> on the state \<open>'m\<close> behind it; its \<open>None\<close>
  is an exception. An exception anywhere is narrated as an internal failure.
\<close>

definition run_remediation ::
  "'s store_ops \<Rightarrow> 's exec_env \<Rightarrow> (json \<Rightarrow> pystr)
     \<Rightarrow> (pystr \<Rightarrow> pystr \<Rightarrow> pystr list \<Rightarrow> 'm \<Rightarrow> json option \<times> 'm)
     \<Rightarrow> exec_job \<Rightarrow> 's \<Rightarrow> 'm \<Rightarrow> pystr \<times> 's \<times> 'm" where
  "run_remediation st env show execute job s m =
     (let n1 = length (before_script job);
          crash = (\<lambda>n s. snd (do_actions st env job n (closing_script job VCrash) s))
      in case do_actions st env job 0 (before_script job) s of
           (Inl _, s1) \<Rightarrow> (exit_value VCrash, crash n1 s1, m)
         | (Inr _, s1) \<Rightarrow>
             (let (answer, m') = execute (ej_fault_id job) (ej_token job) (ej_step_ids job) m;
                  v = verdict show answer
              in case do_actions st env job n1 (closing_script job v) s1 of
                   (Inl _, s2) \<Rightarrow> (exit_value VCrash, crash (n1 + length (closing_script job v)) s2, m')
                 | (Inr _, s2) \<Rightarrow> (exit_value v, s2, m')))"

text \<open>The production \<open>execute_fn\<close>: the first text content of the tool's answer, decoded.\<close>

definition mcp_answer :: "(pystr \<Rightarrow> json option) \<Rightarrow> pystr option list \<Rightarrow> json option" where
  "mcp_answer loads contents =
     (case filter (\<lambda>c. c \<noteq> None) contents of
        [] \<Rightarrow> Some (JObj [(lit ''status'', JStr (lit ''error'')), (lit ''error'', JStr (lit ''empty_mcp_response''))])
      | c # _ \<Rightarrow> loads (the c))"

end
