(* ===== verification/Store_Contract.thy ===== *)
theory Store_Contract
  imports Gw_Executor
begin

text \<open>
  The contract between the gateway's handlers and a store. \<open>gateway_store\<close>: \<open>view\<close> reads a
  store's state as the in-memory store, every operation acts on the view as \<open>GatewayStore\<close>'s
  does, and lists come in any order. Inside the locale every handler and the executor are shown to
  act on the view as they act on the in-memory store; \<open>mem\<close> is the trivial instance, the
  Redis store is another.
\<close>

locale gateway_store =
  fixes st :: "'s store_ops"
    and ok :: "'s \<Rightarrow> bool"
    and view :: "'s \<Rightarrow> GatewayStore"
  assumes create_fault_event: "ok s \<Longrightarrow> ok (op_create_fault_event st e s)
      \<and> view (op_create_fault_event st e s) = store_create_fault_event e (view s)"
    and update_fault: "ok s \<Longrightarrow> op_update_fault st f upd s = (r, s') \<Longrightarrow>
      ok s' \<and> store_update_fault f upd (view s) = (r, view s')"
    and list_faults_mset: "ok s \<Longrightarrow> mset (op_list_faults st s) = mset (store_list_faults (view s))"
    and get_fault: "ok s \<Longrightarrow> op_get_fault st f s = store_get_fault f (view s)"
    and has_fault: "ok s \<Longrightarrow> op_has_fault st f s = store_has_fault f (view s)"
    and list_assets_mset: "ok s \<Longrightarrow> mset (op_list_assets st s) = mset (store_list_assets (view s))"
    and get_asset: "ok s \<Longrightarrow> op_get_asset st a s = store_get_asset a (view s)"
    and has_asset: "ok s \<Longrightarrow> op_has_asset st a s = store_has_asset a (view s)"
    and set_asset: "ok s \<Longrightarrow> ok (op_set_asset st rec s) \<and> view (op_set_asset st rec s) = store_set_asset rec (view s)"
    and create_notification: "ok s \<Longrightarrow> ok (op_create_notification st n s)
      \<and> view (op_create_notification st n s) = store_create_notification n (view s)"
    and mark_read: "ok s \<Longrightarrow> op_mark_read st nid s = (b, s') \<Longrightarrow>
      ok s' \<and> store_mark_read nid (view s) = (b, view s')"
    and list_notifications_mset:
      "ok s \<Longrightarrow> mset (op_list_notifications st s) = mset (store_list_notifications (view s))"
    and unread_count: "ok s \<Longrightarrow> op_get_unread_count st s = store_get_unread_count (view s)"
    and create_activity: "ok s \<Longrightarrow> ok (op_create_activity st ev s)
      \<and> view (op_create_activity st ev s) = store_create_activity ev (view s)"
    and list_activity_events: "ok s \<Longrightarrow> op_list_activity_events st s = store_list_activity_events (view s)"
    and set_pending_token: "ok s \<Longrightarrow> ok (op_set_pending_token st f k s)
      \<and> view (op_set_pending_token st f k s) = store_set_pending_token f k (view s)"
    and get_pending_token: "ok s \<Longrightarrow> op_get_pending_token st f s = store_get_pending_token f (view s)"
    and publish: "ok s \<Longrightarrow> ok (op_publish st t d s) \<and> view (op_publish st t d s) = store_publish t d (view s)"
begin

text \<open>Writes that return nothing, as rewrite rules.\<close>

lemmas writes = create_fault_event set_asset create_notification create_activity set_pending_token publish

lemmas reads = get_fault has_fault get_asset has_asset unread_count list_activity_events get_pending_token

lemma narrate_view:
  "ok s \<Longrightarrow> ok (narrate st i t f stp msg s) \<and> view (narrate st i t f stp msg s) = narrate mem_ops i t f stp msg (view s)"
  by (simp add: narrate_def Let_def writes)

lemma post_activity_view:
  "ok s \<Longrightarrow> post_activity st i t f stp msg s = (r, s') \<Longrightarrow> ok s' \<and> post_activity mem_ops i t f stp msg (view s) = (r, view s')"
  by (auto simp: post_activity_def Let_def writes)

lemma heal_asset_view:
  "ok s \<Longrightarrow> heal_asset st a s = (r, s') \<Longrightarrow> ok s' \<and> heal_asset mem_ops a (view s) = (r, view s')"
  by (auto simp: heal_asset_def reads writes split: if_splits option.splits)

lemma fault_asset_view:
  "ok s \<Longrightarrow> fault_asset st a f s = (r, s') \<Longrightarrow> ok s' \<and> fault_asset mem_ops a f (view s) = (r, view s')"
  by (auto simp: fault_asset_def reads writes split: if_splits option.splits)

lemma create_fault_view:
  assumes "ok s" "create_fault st lp fid t nid t' body s = (r, s')"
  shows "ok s' \<and> create_fault mem_ops lp fid t nid t' body (view s) = (r, view s')"
proof -
  let ?s1 = "op_create_fault_event st (new_fault_event lp fid t body) s"
  obtain r2 s2 where f: "fault_asset st (cf_asset_id body) fid ?s1 = (r2, s2)"
    by (cases "fault_asset st (cf_asset_id body) fid ?s1")
  have "ok s2" "fault_asset mem_ops (cf_asset_id body) fid
      (store_create_fault_event (new_fault_event lp fid t body) (view s)) = (r2, view s2)"
    using fault_asset_view [OF _ f] create_fault_event [OF assms(1)] by auto
  with assms(2) f show ?thesis
    by (cases r2) (auto simp: create_fault_def Let_def writes)
qed

lemma update_fault_status_view:
  assumes "ok s" "update_fault_status st fid status s = (r, s')"
  shows "ok s' \<and> update_fault_status mem_ops fid status (view s) = (r, view s')"
proof -
  obtain u s1 where u: "op_update_fault st fid (\<lambda>e. e\<lparr>fe_status := status\<rparr>) s = (u, s1)"
    by (cases "op_update_fault st fid (\<lambda>e. e\<lparr>fe_status := status\<rparr>) s")
  note u' = update_fault [OF assms(1) u]
  show ?thesis
  proof (cases u)
    case None
    with assms(2) u u' show ?thesis by (auto simp: update_fault_status_def)
  next
    case (Some e)
    obtain r2 s2 where h: "(if status = resolved then heal_asset st (fe_asset_id e) s1 else (Inr (), s1)) = (r2, s2)"
      by (cases "if status = resolved then heal_asset st (fe_asset_id e) s1 else (Inr (), s1)")
    have "ok s2 \<and> (if status = resolved then heal_asset mem_ops (fe_asset_id e) (view s1) else (Inr (), view s1))
        = (r2, view s2)"
      using h u' heal_asset_view [of s1 "fe_asset_id e" r2 s2] by (auto split: if_splits)
    with assms(2) u u' Some h show ?thesis
      by (cases r2) (auto simp: update_fault_status_def writes split: if_splits)
  qed
qed

lemma update_fault_diagnosis_view:
  assumes "ok s" "update_fault_diagnosis st fid body s = (r, s')"
  shows "ok s' \<and> update_fault_diagnosis mem_ops fid body (view s) = (r, view s')"
proof -
  obtain u s1 where u: "op_update_fault st fid (apply_diagnosis body) s = (u, s1)"
    by (cases "op_update_fault st fid (apply_diagnosis body) s")
  from assms(2) u update_fault [OF assms(1) u] show ?thesis
    by (cases u) (auto simp: update_fault_diagnosis_def writes)
qed

lemma deny_fault_view:
  assumes "ok s" "deny_fault st fid s = (r, s')"
  shows "ok s' \<and> deny_fault mem_ops fid (view s) = (r, view s')"
proof -
  obtain u s1 where u: "op_update_fault st fid (\<lambda>e. e\<lparr>fe_status := denied\<rparr>) s = (u, s1)"
    by (cases "op_update_fault st fid (\<lambda>e. e\<lparr>fe_status := denied\<rparr>) s")
  from assms(2) u update_fault [OF assms(1) u] show ?thesis
    by (cases u) (auto simp: deny_fault_def writes)
qed

lemma mark_notification_read_view:
  assumes "ok s" "mark_notification_read st nid s = (r, s')"
  shows "ok s' \<and> mark_notification_read mem_ops nid (view s) = (r, view s')"
proof -
  obtain b s1 where b: "op_mark_read st nid s = (b, s1)" by (cases "op_mark_read st nid s")
  from assms(2) b mark_read [OF assms(1) b] show ?thesis
    by (cases b) (auto simp: mark_notification_read_def)
qed

lemma post_decision_view:
  assumes "ok s" "post_decision st orch mc fid d s m = (r, s', m', job)"
  shows "ok s' \<and> post_decision mem_ops orch mc fid d (view s) m = (r, view s', m', job)"
proof (cases "op_get_fault st fid s")
  case None
  with assms get_fault [OF assms(1)] show ?thesis by (auto simp: post_decision_def)
next
  case (Some evt)
  then have evt: "store_get_fault fid (view s) = Some evt" using get_fault [OF assms(1)] by simp
  show ?thesis
  proof (cases "d = decision_denied")
    case True
    obtain r2 s2 where dn: "deny_fault st fid s = (r2, s2)" by (cases "deny_fault st fid s")
    from assms Some True dn deny_fault_view [OF assms(1) dn] evt show ?thesis
      by (auto simp: post_decision_def)
  next
    case False
    obtain r2 m2 where mint:
      "mint_for mc evt fid (map rs_id (case orch (fe_asset_id evt) of Inl _ \<Rightarrow> [] | Inr xs \<Rightarrow> xs)) m = (r2, m2)"
      by (cases "mint_for mc evt fid (map rs_id (case orch (fe_asset_id evt) of Inl _ \<Rightarrow> [] | Inr xs \<Rightarrow> xs)) m")
    from assms Some False mint evt show ?thesis
      by (cases r2) (auto simp: post_decision_def Let_def writes)
  qed
qed

lemma get_fault_detail_view: "ok s \<Longrightarrow> get_fault_detail st fid s = get_fault_detail mem_ops fid (view s)"
  by (simp add: get_fault_detail_def reads)

lemma get_token_view: "ok s \<Longrightarrow> get_token st fid s = get_token mem_ops fid (view s)"
  by (simp add: get_token_def reads)

lemma list_activity_view: "ok s \<Longrightarrow> list_activity st s = list_activity mem_ops (view s)"
  by (simp add: list_activity_def reads)

lemma set_status_view:
  assumes "ok s" "set_status st fid aid status s = (r, s')"
  shows "ok s' \<and> set_status mem_ops fid aid status (view s) = (r, view s')"
proof -
  obtain u s1 where u: "op_update_fault st fid (\<lambda>e. e\<lparr>fe_status := status\<rparr>) s = (u, s1)"
    by (cases "op_update_fault st fid (\<lambda>e. e\<lparr>fe_status := status\<rparr>) s")
  note u' = update_fault [OF assms(1) u]
  show ?thesis
  proof (cases u)
    case None
    with assms(2) u u' show ?thesis by (auto simp: set_status_def)
  next
    case (Some e)
    obtain r2 s2 where h: "(if status = resolved then heal_asset st aid s1 else (Inr (), s1)) = (r2, s2)"
      by (cases "if status = resolved then heal_asset st aid s1 else (Inr (), s1)")
    have "ok s2 \<and> (if status = resolved then heal_asset mem_ops aid (view s1) else (Inr (), view s1))
        = (r2, view s2)"
      using h u' heal_asset_view [of s1 aid r2 s2] by (auto split: if_splits)
    with assms(2) u u' Some h show ?thesis
      by (cases r2) (auto simp: set_status_def writes split: if_splits)
  qed
qed

text \<open>The environment of an execution, seen through the view.\<close>

definition env_matches :: "'s exec_env \<Rightarrow> GatewayStore exec_env \<Rightarrow> bool" where
  "env_matches env env' \<longleftrightarrow> xe_ids env' = xe_ids env \<and> xe_clock env' = xe_clock env
     \<and> (\<forall>n s. ok s \<longrightarrow> ok (xe_others env n s) \<and> view (xe_others env n s) = xe_others env' n (view s))"

lemma do_action_view:
  assumes "env_matches env env'" "ok s" "do_action st env job n act s = (r, s')"
  shows "ok s' \<and> do_action mem_ops env' job n act (view s) = (r, view s')"
proof -
  have o: "ok (xe_others env n s)" "view (xe_others env n s) = xe_others env' n (view s)"
    and i: "xe_ids env' = xe_ids env" "xe_clock env' = xe_clock env"
    using assms(1,2) by (auto simp: env_matches_def)
  show ?thesis
  proof (cases act)
    case (SetStatus status)
    then have "set_status st (ej_fault_id job) (ej_asset_id job) status (xe_others env n s) = (r, s')"
      using assms(3) by (simp add: do_action_def Let_def)
    from set_status_view [OF o(1) this] show ?thesis by (simp add: do_action_def Let_def SetStatus o)
  next
    case (Narrate stp msg)
    with assms(3) narrate_view [OF o(1)] o i show ?thesis by (auto simp: do_action_def Let_def)
  qed
qed

lemma do_actions_view:
  "env_matches env env' \<Longrightarrow> ok s \<Longrightarrow> do_actions st env job n acts s = (r, s') \<Longrightarrow>
     ok s' \<and> do_actions mem_ops env' job n acts (view s) = (r, view s')"
proof (induction acts arbitrary: n s)
  case Nil
  then show ?case by simp
next
  case (Cons act acts)
  obtain r1 s1 where a: "do_action st env job n act s = (r1, s1)" by (cases "do_action st env job n act s")
  note a' = do_action_view [OF Cons.prems(1,2) a]
  show ?case
  proof (cases r1)
    case (Inl e)
    with Cons.prems(3) a a' show ?thesis by auto
  next
    case (Inr u)
    with Cons.prems(3) a have "do_actions st env job (Suc n) acts s1 = (r, s')" by simp
    from Cons.IH [OF Cons.prems(1) _ this] a' Inr show ?thesis by simp
  qed
qed

lemma run_remediation_view:
  assumes "env_matches env env'" "ok s" "run_remediation st env shw execute job s m = (x, s', m')"
  shows "ok s' \<and> run_remediation mem_ops env' shw execute job (view s) m = (x, view s', m')"
proof -
  obtain r1 s1 where b: "do_actions st env job 0 (before_script job) s = (r1, s1)"
    by (cases "do_actions st env job 0 (before_script job) s")
  note b' = do_actions_view [OF assms(1,2) b]
  have crash: "ok s \<Longrightarrow> ok (snd (do_actions st env job n acts s))
      \<and> view (snd (do_actions st env job n acts s)) = snd (do_actions mem_ops env' job n acts (view s))" for n acts s
    using do_actions_view [OF assms(1), of s job n acts] by (cases "do_actions st env job n acts s") auto
  show ?thesis
  proof (cases r1)
    case (Inl e)
    with assms(3) b b' crash show ?thesis by (auto simp: run_remediation_def Let_def)
  next
    case (Inr u)
    obtain answer m1 where e: "execute (ej_fault_id job) (ej_token job) (ej_step_ids job) m = (answer, m1)"
      by (cases "execute (ej_fault_id job) (ej_token job) (ej_step_ids job) m")
    let ?n1 = "length (before_script job)"
    obtain r2 s2 where c: "do_actions st env job ?n1 (closing_script job (verdict shw answer)) s1 = (r2, s2)"
      by (cases "do_actions st env job ?n1 (closing_script job (verdict shw answer)) s1")
    have c': "ok s2 \<and> do_actions mem_ops env' job ?n1 (closing_script job (verdict shw answer)) (view s1) = (r2, view s2)"
      using do_actions_view [OF assms(1) _ c] b' by blast
    show ?thesis
    proof (cases r2)
      case (Inl e2)
      with assms(3) b b' Inr e c c' crash [of s2] show ?thesis by (auto simp: run_remediation_def Let_def)
    next
      case (Inr u2)
      with assms(3) b b' \<open>r1 = Inr u\<close> e c c' show ?thesis by (auto simp: run_remediation_def Let_def)
    qed
  qed
qed

end

interpretation mem: gateway_store mem_ops "\<lambda>_. True" "\<lambda>s. s"
  by unfold_locales simp_all

end
