(* ===== verification/Gw_Safety.thy ===== *)
theory Gw_Safety
  imports Store_Contract
begin

text \<open>
  The gateway over its in-memory store: start-up (\<open>services/gateway/main.py\<close>), the relation
  \<open>gw_step\<close> of everything that changes the store, and the invariant \<open>gw_ok\<close> that the dashboard
  rests on: keys are ids, an asset is shown faulted exactly when it links to a fault event, the
  linked event exists and is of that asset, and approval tokens belong to existing events.
\<close>

section \<open>Start-up\<close>

definition reset_state_on_start :: "pystr option \<Rightarrow> pystr option \<Rightarrow> bool" where
  "reset_state_on_start redis_url flag =
     (if flag = Some (lit ''0'') \<or> flag = Some (lit ''1'') then flag = Some (lit ''1'')
      else redis_url = None \<or> redis_url = Some [])"

definition seed_asset :: "LoadedPack \<Rightarrow> PackAsset \<Rightarrow> AssetRecord" where
  "seed_asset lp a = \<lparr>ar_id = pa_id a, ar_type = noun_singular (pk_asset_noun (lp_pack lp)),
     ar_state = healthy, ar_active_fault = None\<rparr>"

definition gateway_start ::
  "'s store_ops \<Rightarrow> LoadedPack \<Rightarrow> pystr option \<Rightarrow> pystr option \<Rightarrow> 's \<Rightarrow> 's" where
  "gateway_start st lp redis_url flag s =
     (let s' = fold (\<lambda>a. op_set_asset st (seed_asset lp a)) (pk_assets (lp_pack lp)) s
      in if reset_state_on_start redis_url flag
         then (case op_reset st of None \<Rightarrow> s' | Some reset \<Rightarrow> reset s') else s')"

section \<open>The invariant\<close>

definition faults_ok :: "FaultEvent dict \<Rightarrow> bool" where
  "faults_ok fs \<longleftrightarrow> wf_dict fs \<and> (\<forall>f e. map_of fs f = Some e \<longrightarrow> fe_id e = f)"

definition record_ok :: "FaultEvent dict \<Rightarrow> pystr \<Rightarrow> AssetRecord \<Rightarrow> bool" where
  "record_ok fs a r \<longleftrightarrow> ar_id r = a \<and>
     (case ar_active_fault r of
        None \<Rightarrow> ar_state r = healthy
      | Some f \<Rightarrow> ar_state r = faulted \<and> (\<exists>e. map_of fs f = Some e \<and> fe_asset_id e = a))"

definition assets_ok :: "FaultEvent dict \<Rightarrow> AssetRecord dict \<Rightarrow> bool" where
  "assets_ok fs as \<longleftrightarrow> wf_dict as \<and> (\<forall>a r. map_of as a = Some r \<longrightarrow> record_ok fs a r)"

definition notifications_ok :: "Notification dict \<Rightarrow> bool" where
  "notifications_ok ns \<longleftrightarrow> wf_dict ns \<and> (\<forall>k n. map_of ns k = Some n \<longrightarrow> nt_id n = k)"

definition gw_ok :: "GatewayStore \<Rightarrow> bool" where
  "gw_ok s \<longleftrightarrow> faults_ok (gs_faults s) \<and> assets_ok (gs_faults s) (gs_assets s)
     \<and> notifications_ok (gs_notifications s) \<and> dom (map_of (gs_tokens s)) \<subseteq> dom (map_of (gs_faults s))"

text \<open>Updates that keep what the invariant speaks about.\<close>

definition keeps_ids :: "(FaultEvent \<Rightarrow> FaultEvent) \<Rightarrow> bool" where
  "keeps_ids upd \<longleftrightarrow> (\<forall>e. fe_id (upd e) = fe_id e \<and> fe_asset_id (upd e) = fe_asset_id e)"

lemma keeps_ids_status [simp]: "keeps_ids (\<lambda>e. e\<lparr>fe_status := x\<rparr>)"
  by (simp add: keeps_ids_def)

lemma keeps_ids_diagnosis [simp]: "keeps_ids (apply_diagnosis body)"
  by (simp add: keeps_ids_def apply_diagnosis_def)

lemma record_ok_update:
  "record_ok fs a r \<Longrightarrow> keeps_ids upd \<Longrightarrow> map_of fs f = Some e \<Longrightarrow> record_ok (dict_set f (upd e) fs) a r"
  by (auto simp: record_ok_def keeps_ids_def dict_simps split: option.splits)

lemma record_ok_new:
  "record_ok fs a r \<Longrightarrow> map_of fs f = None \<Longrightarrow> record_ok (dict_set f e fs) a r"
  by (auto simp: record_ok_def dict_simps split: option.splits)

lemma gw_ok_publish: "gw_ok (store_publish t d s) = gw_ok s"
  by (simp add: gw_ok_def store_publish_def)

lemma gw_ok_activity: "gw_ok (store_create_activity e s) = gw_ok s"
  by (simp add: gw_ok_def store_create_activity_def)

lemma gw_ok_sse: "gw_ok (s\<lparr>gs_sse := b\<rparr>) = gw_ok s"
  by (simp add: gw_ok_def)

lemma gw_ok_update:
  assumes "gw_ok s" "keeps_ids upd" "store_update_fault f upd s = (r, s')"
  shows "gw_ok s'"
proof (cases "map_of (gs_faults s) f")
  case None
  with assms show ?thesis by (simp add: store_update_fault_def)
next
  case (Some e)
  with assms(3) have s': "s' = s\<lparr>gs_faults := dict_set f (upd e) (gs_faults s)\<rparr>"
    by (auto simp: store_update_fault_def)
  have "faults_ok (dict_set f (upd e) (gs_faults s))"
    using assms(1,2) Some by (auto simp: gw_ok_def faults_ok_def keeps_ids_def dict_simps)
  moreover have "assets_ok (dict_set f (upd e) (gs_faults s)) (gs_assets s)"
    using assms(1,2) Some record_ok_update by (auto simp: gw_ok_def assets_ok_def)
  moreover have "dom (map_of (gs_tokens s)) \<subseteq> dom (map_of (dict_set f (upd e) (gs_faults s)))"
    using assms(1) by (auto simp: gw_ok_def dom_dict_set)
  ultimately show ?thesis using assms(1) by (simp add: gw_ok_def s')
qed

lemma gw_ok_set_asset:
  "gw_ok s \<Longrightarrow> record_ok (gs_faults s) (ar_id r) r \<Longrightarrow> gw_ok (store_set_asset r s)"
  by (auto simp: gw_ok_def assets_ok_def store_set_asset_def AList.distinct_update AList.update_conv')

lemma gw_ok_notification: "gw_ok s \<Longrightarrow> gw_ok (store_create_notification n s)"
  by (auto simp: gw_ok_def notifications_ok_def store_create_notification_def AList.distinct_update AList.update_conv')

lemma gw_ok_mark_read:
  assumes "gw_ok s" "store_mark_read n s = (b, s')"
  shows "gw_ok s'"
proof (cases "map_of (gs_notifications s) n")
  case None
  with assms show ?thesis by (simp add: store_mark_read_def)
next
  case (Some x)
  with assms(1) have "notifications_ok (dict_set n (x\<lparr>nt_read := True\<rparr>) (gs_notifications s))"
    by (auto simp: gw_ok_def notifications_ok_def AList.distinct_update AList.update_conv')
  moreover have "s' = s\<lparr>gs_notifications := dict_set n (x\<lparr>nt_read := True\<rparr>) (gs_notifications s)\<rparr>"
    using assms(2) Some by (auto simp: store_mark_read_def)
  ultimately show ?thesis using assms(1) by (simp add: gw_ok_def)
qed

lemma gw_ok_token:
  "gw_ok s \<Longrightarrow> f \<in> dom (map_of (gs_faults s)) \<Longrightarrow> gw_ok (store_set_pending_token f k s)"
  by (auto simp: gw_ok_def store_set_pending_token_def dom_dict_set)

lemma gw_ok_create:
  assumes "gw_ok s" "map_of (gs_faults s) (fe_id e) = None"
  shows "gw_ok (store_create_fault_event e s)"
proof -
  have "faults_ok (dict_set (fe_id e) e (gs_faults s))"
    using assms by (auto simp: gw_ok_def faults_ok_def dict_simps)
  moreover have "assets_ok (dict_set (fe_id e) e (gs_faults s)) (gs_assets s)"
    using assms record_ok_new by (auto simp: gw_ok_def assets_ok_def)
  moreover have "dom (map_of (gs_tokens s)) \<subseteq> dom (map_of (dict_set (fe_id e) e (gs_faults s)))"
    using assms(1) by (auto simp: gw_ok_def dom_dict_set)
  ultimately show ?thesis using assms(1) by (simp add: gw_ok_def store_create_fault_event_def)
qed

lemma gw_ok_reset: "gw_ok s \<Longrightarrow> gw_ok (store_reset s)"
proof -
  assume ok: "gw_ok s"
  have d: "map fst (map (\<lambda>(k, r). (k, healthy_record r)) as) = map fst as" for as
    by (induction as) auto
  have "map_of (map (\<lambda>(k, r). (k, healthy_record r)) (gs_assets s)) a = Some r' \<Longrightarrow> record_ok [] a r'" for a r'
    using ok by (auto simp: map_of_map_value gw_ok_def assets_ok_def record_ok_def healthy_record_def)
  then show ?thesis
    using ok unfolding store_reset_def gw_ok_publish
    by (simp add: gw_ok_def faults_ok_def assets_ok_def notifications_ok_def d del: map_map)
qed

lemma gw_ok_heal:
  assumes "gw_ok s" "heal_asset mem_ops a s = (r, s')"
  shows "gw_ok s'"
proof (cases "a \<noteq> [] \<and> store_has_asset a s \<and> store_get_asset a s \<noteq> None")
  case True
  then obtain rec where rec: "map_of (gs_assets s) a = Some rec" by (auto simp: store_get_asset_def)
  have "record_ok (gs_faults s) (ar_id (healthy_record rec)) (healthy_record rec)"
    by (simp add: record_ok_def healthy_record_def)
  with assms True rec show ?thesis
    by (auto simp: heal_asset_def store_get_asset_def gw_ok_publish gw_ok_set_asset)
next
  case False
  with assms show ?thesis by (auto simp: heal_asset_def split: if_splits)
qed

text \<open>\<open>get_asset\<close> after \<open>has_asset\<close> never fails on the in-memory store.\<close>

lemma has_asset_get: "store_has_asset a s \<longleftrightarrow> (\<exists>r. store_get_asset a s = Some r)"
  unfolding store_has_asset_def store_get_asset_def set_map dom_map_of_conv_image_fst [symmetric] by blast

lemma heal_asset_Inr: "\<exists>s'. heal_asset mem_ops a s = (Inr (), s')"
  using has_asset_get [of a s] by (auto simp: heal_asset_def split: option.splits)

lemma fault_asset_Inr: "\<exists>s'. fault_asset mem_ops a f s = (Inr (), s')"
  using has_asset_get [of a s] by (auto simp: fault_asset_def split: option.splits)

lemma gw_ok_fault_asset:
  assumes "gw_ok s" "map_of (gs_faults s) f = Some e" "fe_asset_id e = a" "fault_asset mem_ops a f s = (r, s')"
  shows "gw_ok s'"
proof (cases "store_has_asset a s")
  case True
  then obtain rec where rec: "map_of (gs_assets s) a = Some rec"
    using has_asset_get by (auto simp: store_get_asset_def)
  then have "ar_id rec = a" using assms(1) by (auto simp: gw_ok_def assets_ok_def record_ok_def)
  then have "record_ok (gs_faults s) (ar_id rec) \<lparr>ar_id = ar_id rec, ar_type = ar_type rec, ar_state = faulted,
      ar_active_fault = Some f\<rparr>"
    using assms(2,3) by (simp add: record_ok_def)
  with assms(1,4) True rec show ?thesis
    by (auto simp: fault_asset_def store_get_asset_def gw_ok_set_asset)
next
  case False
  with assms show ?thesis by (auto simp: fault_asset_def)
qed

section \<open>The handlers keep the invariant\<close>

lemma create_fault_mem:
  "\<exists>s2. fault_asset mem_ops (cf_asset_id body) fid (store_create_fault_event (new_fault_event lp fid t body) s)
      = (Inr (), s2) \<and>
    create_fault mem_ops lp fid t nid t' body s =
      (Inr (fault_json (new_fault_event lp fid t body)),
       store_publish (lit ''asset'') (asset_event (cf_asset_id body) faulted (Some fid))
        (store_publish (lit ''notification'') (notification_json (new_notification nid fid t' body))
          (store_publish (lit ''fault'') (fault_json (new_fault_event lp fid t body))
            (store_create_notification (new_notification nid fid t' body) s2))))"
proof -
  obtain s2 where "fault_asset mem_ops (cf_asset_id body) fid
      (store_create_fault_event (new_fault_event lp fid t body) s) = (Inr (), s2)"
    using fault_asset_Inr by blast
  then show ?thesis by (simp add: create_fault_def Let_def)
qed

lemma new_fault_event_fields [simp]:
  "fe_id (new_fault_event lp fid t body) = fid"
  "fe_asset_id (new_fault_event lp fid t body) = cf_asset_id body"
  "fe_scenario_id (new_fault_event lp fid t body) = cf_scenario_id body"
  "fe_status (new_fault_event lp fid t body) = detected"
  by (simp_all add: new_fault_event_def Let_def)

lemma gw_ok_create_fault:
  assumes "gw_ok s" "map_of (gs_faults s) fid = None"
  shows "gw_ok (snd (create_fault mem_ops lp fid t nid t' body s))"
proof -
  let ?s1 = "store_create_fault_event (new_fault_event lp fid t body) s"
  from create_fault_mem [of body fid lp t s nid t'] obtain s2 where
    f: "fault_asset mem_ops (cf_asset_id body) fid ?s1 = (Inr (), s2)" and
    c: "snd (create_fault mem_ops lp fid t nid t' body s) =
       store_publish (lit ''asset'') (asset_event (cf_asset_id body) faulted (Some fid))
        (store_publish (lit ''notification'') (notification_json (new_notification nid fid t' body))
          (store_publish (lit ''fault'') (fault_json (new_fault_event lp fid t body))
            (store_create_notification (new_notification nid fid t' body) s2)))"
    by auto
  have "gw_ok ?s1" using assms by (simp add: gw_ok_create)
  moreover have "map_of (gs_faults ?s1) fid = Some (new_fault_event lp fid t body)"
    by (simp add: store_create_fault_event_def dict_simps)
  ultimately have "gw_ok s2" using gw_ok_fault_asset [OF _ _ _ f] by simp
  then show ?thesis by (simp add: c gw_ok_publish gw_ok_notification)
qed

lemma gw_ok_update_fault_status: "gw_ok s \<Longrightarrow> gw_ok (snd (update_fault_status mem_ops f status s))"
proof -
  assume ok: "gw_ok s"
  obtain u s1 where u: "store_update_fault f (\<lambda>e. e\<lparr>fe_status := status\<rparr>) s = (u, s1)"
    by (cases "store_update_fault f (\<lambda>e. e\<lparr>fe_status := status\<rparr>) s")
  have s1: "gw_ok s1" using gw_ok_update [OF ok _ u] by simp
  show ?thesis
  proof (cases u)
    case None
    with u s1 show ?thesis by (simp add: update_fault_status_def)
  next
    case (Some e)
    obtain s2 where h: "heal_asset mem_ops (fe_asset_id e) s1 = (Inr (), s2)" using heal_asset_Inr by blast
    with gw_ok_heal [OF s1] have "gw_ok s2" by blast
    with u s1 h Some show ?thesis by (simp add: update_fault_status_def gw_ok_publish)
  qed
qed

lemma gw_ok_set_status: "gw_ok s \<Longrightarrow> gw_ok (snd (set_status mem_ops f a status s))"
proof -
  assume ok: "gw_ok s"
  obtain u s1 where u: "store_update_fault f (\<lambda>e. e\<lparr>fe_status := status\<rparr>) s = (u, s1)"
    by (cases "store_update_fault f (\<lambda>e. e\<lparr>fe_status := status\<rparr>) s")
  have s1: "gw_ok s1" using gw_ok_update [OF ok _ u] by simp
  show ?thesis
  proof (cases u)
    case None
    with u s1 show ?thesis by (simp add: set_status_def)
  next
    case (Some e)
    obtain s2 where h: "heal_asset mem_ops a s1 = (Inr (), s2)" using heal_asset_Inr by blast
    with gw_ok_heal [OF s1] have "gw_ok s2" by blast
    with u s1 h Some show ?thesis by (simp add: set_status_def gw_ok_publish)
  qed
qed

lemma gw_ok_diagnosis: "gw_ok s \<Longrightarrow> gw_ok (snd (update_fault_diagnosis mem_ops f body s))"
proof -
  assume ok: "gw_ok s"
  obtain u s1 where u: "store_update_fault f (apply_diagnosis body) s = (u, s1)"
    by (cases "store_update_fault f (apply_diagnosis body) s")
  have "gw_ok s1" using gw_ok_update [OF ok _ u] by simp
  with u show ?thesis by (cases u) (simp_all add: update_fault_diagnosis_def gw_ok_publish)
qed

lemma gw_ok_deny: "gw_ok s \<Longrightarrow> gw_ok (snd (deny_fault mem_ops f s))"
proof -
  assume ok: "gw_ok s"
  obtain u s1 where u: "store_update_fault f (\<lambda>e. e\<lparr>fe_status := denied\<rparr>) s = (u, s1)"
    by (cases "store_update_fault f (\<lambda>e. e\<lparr>fe_status := denied\<rparr>) s")
  have "gw_ok s1" using gw_ok_update [OF ok _ u] by simp
  with u show ?thesis by (cases u) (simp_all add: deny_fault_def gw_ok_publish)
qed

lemma gw_ok_decision: "gw_ok s \<Longrightarrow> post_decision mem_ops orch mc f d s m = (r, s', m', job) \<Longrightarrow> gw_ok s'"
proof -
  assume ok: "gw_ok s" and p: "post_decision mem_ops orch mc f d s m = (r, s', m', job)"
  show ?thesis
  proof (cases "map_of (gs_faults s) f")
    case None
    with p ok show ?thesis by (simp add: post_decision_def store_get_fault_def)
  next
    case (Some e)
    show ?thesis
    proof (cases "d = decision_denied")
      case True
      with p Some gw_ok_deny [OF ok, of f] show ?thesis
        by (auto simp: post_decision_def store_get_fault_def split: prod.splits)
    next
      case False
      with p Some have "s' = s \<or> (\<exists>t k. s' = store_publish t (decision_event f decision_approved) (store_set_pending_token f k s))"
        by (auto simp: post_decision_def store_get_fault_def Let_def split: prod.splits sum.splits)
      moreover have "gw_ok (store_set_pending_token f k s)" for k
        using gw_ok_token [OF ok] Some by (simp add: domIff)
      ultimately show ?thesis using ok by (auto simp: gw_ok_publish)
    qed
  qed
qed

lemma gw_ok_publish_assets: "gw_ok (publish_assets mem_ops as s) = gw_ok s"
  by (induction as arbitrary: s) (auto simp: publish_assets_def gw_ok_publish)

section \<open>Reachable stores\<close>

inductive gw_step :: "LoadedPack \<Rightarrow> GatewayStore \<Rightarrow> GatewayStore \<Rightarrow> bool" for lp where
  create: "map_of (gs_faults s) fid = None \<Longrightarrow> gw_step lp s (snd (create_fault mem_ops lp fid t nid t' body s))"
| status: "gw_step lp s (snd (update_fault_status mem_ops f x s))"
| diagnosis: "gw_step lp s (snd (update_fault_diagnosis mem_ops f body s))"
| activity: "gw_step lp s (snd (post_activity mem_ops aid t f stp msg s))"
| read: "gw_step lp s (snd (mark_notification_read mem_ops n s))"
| deny: "gw_step lp s (snd (deny_fault mem_ops f s))"
| approve: "store_get_fault f s = Some e \<Longrightarrow> gw_step lp s
    (store_publish (lit ''decision'') (decision_event f decision_approved) (store_set_pending_token f k s))"
| exec_status: "gw_step lp s (snd (set_status mem_ops f a x s))"
| exec_narrate: "gw_step lp s (narrate mem_ops aid t f stp msg s)"
| reset: "gw_step lp s (publish_assets mem_ops (store_list_assets (store_reset s)) (store_reset s))"
| stream: "gw_step lp s (s\<lparr>gs_sse := b\<rparr>)"

inductive gw_reachable :: "LoadedPack \<Rightarrow> GatewayStore \<Rightarrow> bool" for lp where
  start: "gw_reachable lp (gateway_start mem_ops lp redis_url flag store_init)"
| next_step: "gw_reachable lp s \<Longrightarrow> gw_step lp s s' \<Longrightarrow> gw_reachable lp s'"

text \<open>The decision and reset routes make no other changes than these steps.\<close>

lemma post_decision_step:
  "post_decision mem_ops orch mc f d s m = (r, s', m', job) \<Longrightarrow> s' = s \<or> gw_step lp s s'"
  by (auto simp: post_decision_def Let_def split: option.split_asm if_split_asm prod.split_asm sum.split_asm
      intro: gw_step.approve) (metis gw_step.deny snd_conv)

lemma presenter_reset_step:
  "presenter_reset mem_ops oreset mc s os m = (r, s', os', m') \<Longrightarrow> s' = s \<or> gw_step lp s s'"
  by (auto simp: presenter_reset_def Let_def split: sum.split_asm prod.split_asm intro: gw_step.reset)

lemma gw_ok_start: "gw_ok (gateway_start mem_ops lp redis_url flag store_init)"
proof -
  have seed: "gw_ok s \<Longrightarrow> gw_ok (fold (\<lambda>a. store_set_asset (seed_asset lp a)) as s)" for as s
  proof (induction as arbitrary: s)
    case (Cons a as)
    have "record_ok (gs_faults s) (ar_id (seed_asset lp a)) (seed_asset lp a)"
      by (simp add: record_ok_def seed_asset_def)
    with Cons show ?case by (simp add: gw_ok_set_asset)
  qed simp
  have "gw_ok store_init"
    by (simp add: gw_ok_def store_init_def faults_ok_def assets_ok_def notifications_ok_def)
  with seed gw_ok_reset show ?thesis by (simp add: gateway_start_def Let_def)
qed

lemma gw_ok_step: "gw_step lp s s' \<Longrightarrow> gw_ok s \<Longrightarrow> gw_ok s'"
proof (induction rule: gw_step.induct)
  case (activity s aid t f stp msg)
  then show ?case by (simp add: post_activity_def Let_def gw_ok_publish gw_ok_activity)
next
  case (read s n)
  obtain b s1 where "store_mark_read n s = (b, s1)" by (cases "store_mark_read n s")
  with gw_ok_mark_read [OF read this] show ?case by (cases b) (simp_all add: mark_notification_read_def)
next
  case (approve f s e k)
  then show ?case by (simp add: gw_ok_publish gw_ok_token store_get_fault_def domIff)
next
  case (exec_narrate s aid t f stp msg)
  then show ?case by (simp add: narrate_def Let_def gw_ok_publish gw_ok_activity)
next
  case (reset s)
  then show ?case by (simp add: gw_ok_publish_assets gw_ok_reset)
qed (simp_all add: gw_ok_create_fault gw_ok_update_fault_status gw_ok_diagnosis gw_ok_deny gw_ok_set_status gw_ok_sse)

lemma gw_reachable_ok: "gw_reachable lp s \<Longrightarrow> gw_ok s"
  by (induction rule: gw_reachable.induct) (simp_all add: gw_ok_start gw_ok_step)

text \<open>The fleet on the dashboard is the pack's fleet at all times.\<close>

definition fleet :: "GatewayStore \<Rightarrow> pystr set" where
  "fleet s = dom (map_of (gs_assets s))"

lemma fleet_same [simp]:
  "fleet (store_publish t d s) = fleet s"
  "fleet (store_create_notification n s) = fleet s"
  "fleet (store_create_activity ev s) = fleet s"
  "fleet (store_create_fault_event e s) = fleet s"
  "fleet (store_set_pending_token f k s) = fleet s"
  "fleet (s\<lparr>gs_sse := b\<rparr>) = fleet s"
  by (simp_all add: fleet_def store_publish_def store_create_notification_def store_create_activity_def
      store_create_fault_event_def store_set_pending_token_def)

lemma fleet_update: "store_update_fault f upd s = (r, s') \<Longrightarrow> fleet s' = fleet s"
  by (auto simp: fleet_def store_update_fault_def split: option.splits)

lemma fleet_set_asset: "fleet (store_set_asset r s) = insert (ar_id r) (fleet s)"
  unfolding fleet_def store_set_asset_def by (simp add: dom_dict_set)

lemma record_in_fleet: "gw_ok s \<Longrightarrow> store_get_asset a s = Some r \<Longrightarrow> ar_id r = a \<and> a \<in> fleet s"
  by (auto simp: gw_ok_def assets_ok_def record_ok_def store_get_asset_def fleet_def)

lemma fleet_heal:
  assumes "gw_ok s" "heal_asset mem_ops a s = (r, s')"
  shows "fleet s' = fleet s"
proof (cases "store_get_asset a s")
  case None
  with assms(2) show ?thesis by (auto simp: heal_asset_def split: if_splits)
next
  case (Some rec)
  from record_in_fleet [OF assms(1) Some] assms(2) Some show ?thesis
    by (auto simp: heal_asset_def fleet_set_asset healthy_record_def split: if_splits)
qed

lemma fleet_fault_asset:
  assumes "gw_ok s" "fault_asset mem_ops a f s = (r, s')"
  shows "fleet s' = fleet s"
proof (cases "store_get_asset a s")
  case None
  with assms(2) show ?thesis by (auto simp: fault_asset_def split: if_splits)
next
  case (Some rec)
  from record_in_fleet [OF assms(1) Some] assms(2) Some show ?thesis
    by (auto simp: fault_asset_def fleet_set_asset split: if_splits)
qed

lemma fleet_reset: "fleet (store_reset s) = fleet s"
  by (simp add: store_reset_def) (simp add: fleet_def map_of_map_value dom_map_option_comp)

lemma fleet_publish_assets: "fleet (publish_assets mem_ops as s) = fleet s"
  by (induction as arbitrary: s) (auto simp: publish_assets_def)

lemma fleet_status:
  assumes "gw_ok s"
  shows "fleet (snd (update_fault_status mem_ops f x s)) = fleet s"
    and "fleet (snd (set_status mem_ops f a x s)) = fleet s"
proof -
  obtain u s1 where u: "store_update_fault f (\<lambda>e. e\<lparr>fe_status := x\<rparr>) s = (u, s1)"
    by (cases "store_update_fault f (\<lambda>e. e\<lparr>fe_status := x\<rparr>) s")
  have s1: "gw_ok s1" "fleet s1 = fleet s" using gw_ok_update [OF assms _ u] fleet_update [OF u] by auto
  have heal: "\<exists>s2. heal_asset mem_ops b s1 = (Inr (), s2) \<and> fleet s2 = fleet s" for b
    using heal_asset_Inr [of b s1] fleet_heal [OF s1(1)] s1(2) by metis
  show "fleet (snd (update_fault_status mem_ops f x s)) = fleet s"
  proof (cases u)
    case None
    with u s1 show ?thesis by (simp add: update_fault_status_def)
  next
    case (Some e)
    with u s1 heal [of "fe_asset_id e"] show ?thesis by (auto simp: update_fault_status_def)
  qed
  show "fleet (snd (set_status mem_ops f a x s)) = fleet s"
  proof (cases u)
    case None
    with u s1 show ?thesis by (simp add: set_status_def)
  next
    case (Some e)
    with u s1 heal [of a] show ?thesis by (auto simp: set_status_def)
  qed
qed

lemma fleet_create_fault:
  assumes "gw_ok s" "map_of (gs_faults s) fid = None"
  shows "fleet (snd (create_fault mem_ops lp fid t nid t' body s)) = fleet s"
proof -
  from create_fault_mem [of body fid lp t s nid t'] obtain s2 where
    f: "fault_asset mem_ops (cf_asset_id body) fid (store_create_fault_event (new_fault_event lp fid t body) s) = (Inr (), s2)"
    and c: "fleet (snd (create_fault mem_ops lp fid t nid t' body s)) = fleet s2" by auto
  have "gw_ok (store_create_fault_event (new_fault_event lp fid t body) s)" using assms by (simp add: gw_ok_create)
  from fleet_fault_asset [OF this f] c show ?thesis by simp
qed

lemma fleet_step: "gw_step lp s s' \<Longrightarrow> gw_ok s \<Longrightarrow> fleet s' = fleet s"
proof (induction rule: gw_step.induct)
  case (diagnosis s f body)
  obtain u s1 where u: "store_update_fault f (apply_diagnosis body) s = (u, s1)"
    by (cases "store_update_fault f (apply_diagnosis body) s")
  with fleet_update [OF u] show ?case by (cases u) (simp_all add: update_fault_diagnosis_def)
next
  case (deny s f)
  obtain u s1 where u: "store_update_fault f (\<lambda>e. e\<lparr>fe_status := denied\<rparr>) s = (u, s1)"
    by (cases "store_update_fault f (\<lambda>e. e\<lparr>fe_status := denied\<rparr>) s")
  with fleet_update [OF u] show ?case by (cases u) (simp_all add: deny_fault_def)
next
  case (read s n)
  then show ?case
    by (simp add: mark_notification_read_def store_mark_read_def fleet_def split: option.splits)
qed (simp_all add: fleet_create_fault fleet_status post_activity_def narrate_def Let_def fleet_publish_assets fleet_reset)

lemma fleet_start: "fleet (gateway_start mem_ops lp redis_url flag store_init) = set (map pa_id (pk_assets (lp_pack lp)))"
proof -
  have seed: "fleet (fold (\<lambda>a. store_set_asset (seed_asset lp a)) as s) = fleet s \<union> pa_id ` set as" for as s
    by (induction as arbitrary: s) (auto simp: fleet_set_asset seed_asset_def)
  have "fleet store_init = {}" by (simp add: fleet_def store_init_def)
  with seed show ?thesis by (simp add: gateway_start_def Let_def fleet_reset)
qed

lemma fleet_reachable: "gw_reachable lp s \<Longrightarrow> fleet s = set (map pa_id (pk_assets (lp_pack lp)))"
proof (induction rule: gw_reachable.induct)
  case start
  then show ?case by (rule fleet_start)
next
  case (next_step s s')
  with fleet_step gw_reachable_ok show ?case by metis
qed

section \<open>Properties\<close>


definition demo_time :: datetime where
  "demo_time = DateTime 2026 1 1 0 0 0 0"

definition demo_request :: CreateFaultRequest where
  "demo_request = \<lparr>cf_scenario_id = lit ''s1'', cf_asset_id = lit ''gpu-1'', cf_kb_article_id = None,
     cf_log_extract = None, cf_remediation_step_labels = []\<rparr>"

definition demo_gateway :: GatewayStore where
  "demo_gateway = gateway_start mem_ops demo_pack None None store_init"

definition demo_detected :: GatewayStore where
  "demo_detected = snd (create_fault mem_ops demo_pack (lit ''f1'') demo_time (lit ''n1'') demo_time demo_request demo_gateway)"

lemma start_faults: "gs_faults (gateway_start mem_ops lp redis_url flag store_init) = []"
proof -
  have "gs_faults (fold (\<lambda>a. store_set_asset (seed_asset lp a)) as s) = gs_faults s" for as s
    by (induction as arbitrary: s) (auto simp: store_set_asset_def)
  then show ?thesis by (simp add: gateway_start_def Let_def store_reset_def store_publish_def store_init_def)
qed

lemma demo_reachable: "gw_reachable demo_pack demo_gateway" "gw_reachable demo_pack demo_detected"
proof -
  show start: "gw_reachable demo_pack demo_gateway"
    unfolding demo_gateway_def by (rule gw_reachable.start)
  have "map_of (gs_faults demo_gateway) (lit ''f1'') = None" by (simp add: demo_gateway_def start_faults)
  from gw_step.create [OF this] start show "gw_reachable demo_pack demo_detected"
    unfolding demo_detected_def by (rule gw_reachable.next_step [rotated])
qed


end
