(* ===== verification/Gw_Properties.thy ===== *)
theory Gw_Properties
  imports Gw_Safety
begin

text \<open>
  What each write route of the gateway does, the approval gate, and the event stream. The
  statements are over the in-memory store; \<open>Store_Contract\<close> carries them to any store that keeps
  the contract.
\<close>

section \<open>Creating and resolving a fault event\<close>

text \<open>What a subscriber gets from a publication.\<close>

definition enqueue :: "json list \<Rightarrow> sse_broker \<Rightarrow> sse_broker" where
  "enqueue payloads b = b\<lparr>br_queues := map (\<lambda>(q, items). (q, items @ payloads)) (br_queues b)\<rparr>"

lemma publish_enqueue: "gs_sse (store_publish t d s) = enqueue [sse_payload t d] (gs_sse s)"
  by (simp add: store_publish_def sse_publish_def sse_fanout_def enqueue_def)

lemma enqueue_enqueue [simp]: "enqueue qs (enqueue ps b) = enqueue (ps @ qs) b"
  by (simp add: enqueue_def comp_def case_prod_beta)

lemma gs_sse_other [simp]:
  "gs_sse (store_create_notification n s) = gs_sse s"
  "gs_sse (store_create_activity ev s) = gs_sse s"
  "gs_sse (store_create_fault_event e s) = gs_sse s"
  "gs_sse (store_set_asset r s) = gs_sse s"
  "gs_sse (store_set_pending_token f k s) = gs_sse s"
  by (simp_all add: store_create_notification_def store_create_activity_def store_create_fault_event_def
      store_set_asset_def store_set_pending_token_def)

lemma gs_faults_other [simp]:
  "gs_faults (store_create_notification n s) = gs_faults s"
  "gs_faults (store_create_activity ev s) = gs_faults s"
  "gs_faults (store_set_asset r s) = gs_faults s"
  "gs_faults (store_set_pending_token f k s) = gs_faults s"
  "gs_faults (store_publish t d s) = gs_faults s"
  by (simp_all add: store_create_notification_def store_create_activity_def
      store_set_asset_def store_set_pending_token_def store_publish_def)

lemma gs_assets_other [simp]:
  "gs_assets (store_create_notification n s) = gs_assets s"
  "gs_assets (store_create_activity ev s) = gs_assets s"
  "gs_assets (store_create_fault_event e s) = gs_assets s"
  "gs_assets (store_set_pending_token f k s) = gs_assets s"
  "gs_assets (store_publish t d s) = gs_assets s"
  by (simp_all add: store_create_notification_def store_create_activity_def
      store_create_fault_event_def store_set_pending_token_def store_publish_def)

lemma gs_notifications_other [simp]:
  "gs_notifications (store_create_fault_event e s) = gs_notifications s"
  "gs_notifications (store_set_asset r s) = gs_notifications s"
  "gs_notifications (store_publish t d s) = gs_notifications s"
  by (simp_all add: store_create_fault_event_def store_set_asset_def store_publish_def)

lemma gs_activity_other [simp]:
  "gs_activity (store_create_fault_event e s) = gs_activity s"
  "gs_activity (store_create_notification n s) = gs_activity s"
  "gs_activity (store_set_asset r s) = gs_activity s"
  "gs_activity (store_publish t d s) = gs_activity s"
  "gs_activity (store_set_pending_token f k s) = gs_activity s"
  by (simp_all add: store_create_fault_event_def store_create_notification_def store_set_asset_def
      store_publish_def store_set_pending_token_def)

lemma gs_tokens_other [simp]:
  "gs_tokens (store_create_fault_event e s) = gs_tokens s"
  "gs_tokens (store_create_notification n s) = gs_tokens s"
  "gs_tokens (store_set_asset r s) = gs_tokens s"
  "gs_tokens (store_publish t d s) = gs_tokens s"
  by (simp_all add: store_create_fault_event_def store_create_notification_def store_set_asset_def
      store_publish_def)

definition faulted_record :: "AssetRecord \<Rightarrow> pystr \<Rightarrow> AssetRecord" where
  "faulted_record rec f = \<lparr>ar_id = ar_id rec, ar_type = ar_type rec, ar_state = faulted, ar_active_fault = Some f\<rparr>"

lemma asset_after_set:
  "gw_ok s \<Longrightarrow> map_of (gs_assets s) a = Some rec \<Longrightarrow> ar_id r' = ar_id rec \<Longrightarrow>
     map_of (gs_assets (store_set_asset r' s)) b = (if b = a then Some r' else map_of (gs_assets s) b)"
  by (auto simp: store_set_asset_def gw_ok_def assets_ok_def record_ok_def AList.update_conv')

lemma fault_asset_effect:
  assumes "gw_ok s" "fault_asset mem_ops a f s = (r, s')"
  shows "map_of (gs_assets s') b = (if b = a then map_option (\<lambda>rec. faulted_record rec f) (map_of (gs_assets s) b)
       else map_of (gs_assets s) b)
    \<and> gs_faults s' = gs_faults s \<and> gs_notifications s' = gs_notifications s \<and> gs_sse s' = gs_sse s
    \<and> gs_activity s' = gs_activity s \<and> gs_tokens s' = gs_tokens s"
proof (cases "map_of (gs_assets s) a")
  case None
  with has_asset_get [of a s] assms(2) show ?thesis by (auto simp: fault_asset_def store_get_asset_def)
next
  case (Some rec)
  then have "s' = store_set_asset (faulted_record rec f) s"
    using has_asset_get [of a s] assms(2) by (auto simp: fault_asset_def store_get_asset_def faulted_record_def)
  with asset_after_set [OF assms(1) Some, of "faulted_record rec f"] Some show ?thesis
    by (simp add: faulted_record_def)
qed

lemma heal_asset_effect:
  assumes "gw_ok s" "heal_asset mem_ops a s = (r, s')"
  shows "map_of (gs_assets s') b = (if b = a \<and> a \<noteq> [] then map_option healthy_record (map_of (gs_assets s) b)
       else map_of (gs_assets s) b)
    \<and> gs_faults s' = gs_faults s \<and> gs_notifications s' = gs_notifications s
    \<and> gs_activity s' = gs_activity s \<and> gs_tokens s' = gs_tokens s"
proof (cases "map_of (gs_assets s) a")
  case None
  with has_asset_get [of a s] assms(2) show ?thesis
    by (auto simp: heal_asset_def store_get_asset_def split: if_splits)
next
  case (Some rec)
  show ?thesis
  proof (cases "a = []")
    case True
    with assms(2) show ?thesis by (auto simp: heal_asset_def)
  next
    case False
    with Some have "s' = store_publish (lit ''asset'') (asset_event a healthy None) (store_set_asset (healthy_record rec) s)"
      using has_asset_get [of a s] assms(2) by (auto simp: heal_asset_def store_get_asset_def)
    with asset_after_set [OF assms(1) Some, of "healthy_record rec"] Some False show ?thesis
      by (simp add: healthy_record_def)
  qed
qed

lemma new_notification_fields [simp]:
  "nt_id (new_notification nid fid t body) = nid"
  "\<not> nt_read (new_notification nid fid t body)"
  by (simp_all add: new_notification_def)

lemma create_fault_changes:
  assumes "gw_reachable lp s" and "map_of (gs_faults s) fid = None" and "map_of (gs_notifications s) nid = None"
  shows "\<exists>s' evt notif. create_fault mem_ops lp fid t nid t' body s = (Inr (fault_json evt), s')
     \<and> evt = new_fault_event lp fid t body \<and> notif = new_notification nid fid t' body
     \<and> fe_status evt = detected \<and> \<not> nt_read notif
     \<and> (\<forall>f. map_of (gs_faults s') f = (if f = fid then Some evt else map_of (gs_faults s) f))
     \<and> (\<forall>k. map_of (gs_notifications s') k = (if k = nid then Some notif else map_of (gs_notifications s) k))
     \<and> (\<forall>a. map_of (gs_assets s') a = (if a = cf_asset_id body
            then map_option (\<lambda>rec. faulted_record rec fid) (map_of (gs_assets s) a) else map_of (gs_assets s) a))
     \<and> gs_sse s' = enqueue [sse_payload (lit ''fault'') (fault_json evt),
          sse_payload (lit ''notification'') (notification_json notif),
          sse_payload (lit ''asset'') (asset_event (cf_asset_id body) faulted (Some fid))] (gs_sse s)
     \<and> gs_tokens s' = gs_tokens s \<and> gs_activity s' = gs_activity s"
proof -
  let ?evt = "new_fault_event lp fid t body" and ?notif = "new_notification nid fid t' body"
  let ?s1 = "store_create_fault_event ?evt s"
  from create_fault_mem [of body fid lp t s nid t'] obtain s2 where
    f: "fault_asset mem_ops (cf_asset_id body) fid ?s1 = (Inr (), s2)" and
    c: "create_fault mem_ops lp fid t nid t' body s = (Inr (fault_json ?evt),
       store_publish (lit ''asset'') (asset_event (cf_asset_id body) faulted (Some fid))
        (store_publish (lit ''notification'') (notification_json ?notif)
          (store_publish (lit ''fault'') (fault_json ?evt) (store_create_notification ?notif s2))))"
    by blast
  have "gw_ok ?s1" using assms(2) gw_reachable_ok [OF assms(1)] by (simp add: gw_ok_create)
  note eff = fault_asset_effect [OF this f]
  have fs: "map_of (gs_faults s2) f = (if f = fid then Some ?evt else map_of (gs_faults s) f)" for f
    using eff by (simp add: store_create_fault_event_def dict_simps)
  let ?s' = "snd (create_fault mem_ops lp fid t nid t' body s)"
  have s': "gs_notifications ?s' = dict_set nid ?notif (gs_notifications s)" "gs_faults ?s' = gs_faults s2"
    "gs_assets ?s' = gs_assets s2" "gs_tokens ?s' = gs_tokens s" "gs_activity ?s' = gs_activity s"
    using eff by (simp_all add: c) (simp add: store_create_notification_def)
  have sse: "gs_sse ?s' = enqueue [sse_payload (lit ''fault'') (fault_json ?evt),
      sse_payload (lit ''notification'') (notification_json ?notif),
      sse_payload (lit ''asset'') (asset_event (cf_asset_id body) faulted (Some fid))] (gs_sse s)"
    using eff by (simp add: c publish_enqueue)
  have resp: "create_fault mem_ops lp fid t nid t' body s = (Inr (fault_json ?evt), ?s')" by (simp add: c)
  have assets: "map_of (gs_assets ?s') a = (if a = cf_asset_id body
      then map_option (\<lambda>rec. faulted_record rec fid) (map_of (gs_assets s) a) else map_of (gs_assets s) a)" for a
    using eff by (simp add: s')
  have notifs: "map_of (gs_notifications ?s') k = (if k = nid then Some ?notif else map_of (gs_notifications s) k)" for k
    by (simp add: s' dict_simps)
  have faults: "map_of (gs_faults ?s') f = (if f = fid then Some ?evt else map_of (gs_faults s) f)" for f
    using fs by (simp add: s')
  show ?thesis
    by (intro exI [of _ ?s'] exI [of _ ?evt] exI [of _ ?notif] conjI allI refl resp sse assets notifs faults
        s'(4,5) new_fault_event_fields new_notification_fields)
qed

lemma start_notifications: "gs_notifications (gateway_start mem_ops lp redis_url flag store_init) = []"
proof -
  have "gs_notifications (fold (\<lambda>a. store_set_asset (seed_asset lp a)) as s) = gs_notifications s" for as s
    by (induction as arbitrary: s) auto
  then show ?thesis by (simp add: gateway_start_def Let_def store_reset_def store_init_def)
qed

lemma demo_fresh: "map_of (gs_faults demo_gateway) f = None" "map_of (gs_notifications demo_gateway) n = None"
  by (simp_all add: demo_gateway_def start_faults start_notifications)

lemma demo_detected_state:
  "map_of (gs_faults demo_detected) f = (if f = lit ''f1''
     then Some (new_fault_event demo_pack (lit ''f1'') demo_time demo_request) else None)"
  "map_of (gs_notifications demo_detected) n = (if n = lit ''n1''
     then Some (new_notification (lit ''n1'') (lit ''f1'') demo_time demo_request) else None)"
  "\<exists>rec. map_of (gs_assets demo_detected) (lit ''gpu-1'') = Some (faulted_record rec (lit ''f1''))"
proof -
  note c = create_fault_changes [OF demo_reachable(1) demo_fresh(1) demo_fresh(2),
      of "lit ''f1''" demo_time "lit ''n1''" demo_time demo_request]
  then show "map_of (gs_faults demo_detected) f = (if f = lit ''f1''
     then Some (new_fault_event demo_pack (lit ''f1'') demo_time demo_request) else None)"
    "map_of (gs_notifications demo_detected) n = (if n = lit ''n1''
     then Some (new_notification (lit ''n1'') (lit ''f1'') demo_time demo_request) else None)"
    unfolding demo_detected_def by (elim exE conjE, simp add: demo_fresh)+
  have "lit ''gpu-1'' \<in> fleet demo_gateway"
    unfolding demo_gateway_def fleet_start by (simp add: demo_pack_def demo_meta_def)
  then obtain rec where "map_of (gs_assets demo_gateway) (lit ''gpu-1'') = Some rec" by (auto simp: fleet_def)
  with c show "\<exists>rec. map_of (gs_assets demo_detected) (lit ''gpu-1'') = Some (faulted_record rec (lit ''f1''))"
    unfolding demo_detected_def by (elim exE conjE) (simp add: demo_request_def, blast)
qed

text \<open>
  \<open>POST /api/faults\<close> with fresh ids adds one \<open>detected\<close> event with the scenario's
  labels and impact, marks its asset (when the fleet has it) faulted and linked to it, adds one
  unread notification, and sends every subscriber the fault, the notification and the asset change,
  in this order. No other asset, event or notification changes, nor do tokens or the feed.
\<close>
theorem create_fault_effect:
  assumes "gw_reachable lp s" and "map_of (gs_faults s) fid = None" and "map_of (gs_notifications s) nid = None"
  shows "\<exists>s' evt notif. create_fault mem_ops lp fid t nid t' body s = (Inr (fault_json evt), s')
     \<and> evt = new_fault_event lp fid t body \<and> notif = new_notification nid fid t' body
     \<and> fe_status evt = detected \<and> \<not> nt_read notif
     \<and> (\<forall>f. map_of (gs_faults s') f = (if f = fid then Some evt else map_of (gs_faults s) f))
     \<and> (\<forall>k. map_of (gs_notifications s') k = (if k = nid then Some notif else map_of (gs_notifications s) k))
     \<and> (\<forall>a. map_of (gs_assets s') a = (if a = cf_asset_id body
            then map_option (\<lambda>rec. faulted_record rec fid) (map_of (gs_assets s) a) else map_of (gs_assets s) a))
     \<and> gs_sse s' = enqueue [sse_payload (lit ''fault'') (fault_json evt),
          sse_payload (lit ''notification'') (notification_json notif),
          sse_payload (lit ''asset'') (asset_event (cf_asset_id body) faulted (Some fid))] (gs_sse s)
     \<and> gs_tokens s' = gs_tokens s \<and> gs_activity s' = gs_activity s"
  by (rule create_fault_changes [OF assms])

theorem create_fault_effect_witness:
  "\<exists>s' evt. create_fault mem_ops demo_pack (lit ''f1'') demo_time (lit ''n1'') demo_time demo_request demo_gateway
        = (Inr (fault_json evt), s')
     \<and> map_of (gs_faults s') (lit ''f1'') = Some evt \<and> fe_status evt = detected"
  using create_fault_effect [OF demo_reachable(1) demo_fresh(1) demo_fresh(2),
      of "lit ''f1''" demo_time "lit ''n1''" demo_time demo_request] by fastforce

lemma update_status_mem:
  assumes "map_of (gs_faults s) f = Some e"
  shows "\<exists>s2. (if x = resolved
        then heal_asset mem_ops (fe_asset_id e) (s\<lparr>gs_faults := dict_set f (e\<lparr>fe_status := x\<rparr>) (gs_faults s)\<rparr>)
        else (Inr (), s\<lparr>gs_faults := dict_set f (e\<lparr>fe_status := x\<rparr>) (gs_faults s)\<rparr>)) = (Inr (), s2)
     \<and> update_fault_status mem_ops f x s = (Inr (fault_json (e\<lparr>fe_status := x\<rparr>)),
          store_publish (lit ''fault'') (fault_json (e\<lparr>fe_status := x\<rparr>)) s2)"
proof -
  let ?s1 = "s\<lparr>gs_faults := dict_set f (e\<lparr>fe_status := x\<rparr>) (gs_faults s)\<rparr>"
  have u: "store_update_fault f (\<lambda>e. e\<lparr>fe_status := x\<rparr>) s = (Some (e\<lparr>fe_status := x\<rparr>), ?s1)"
    using assms by (simp add: store_update_fault_def)
  obtain s2 where h: "heal_asset mem_ops (fe_asset_id e) ?s1 = (Inr (), s2)" using heal_asset_Inr by blast
  show ?thesis
  proof (cases "x = resolved")
    case True
    with u h show ?thesis by (auto simp: update_fault_status_def)
  next
    case False
    with u show ?thesis by (auto simp: update_fault_status_def)
  qed
qed

lemma update_fault_status_effect_lemma:
  assumes "gw_reachable lp s" and "map_of (gs_faults s) f = Some e"
  shows "\<exists>s'. update_fault_status mem_ops f x s = (Inr (fault_json (e\<lparr>fe_status := x\<rparr>)), s')
     \<and> (\<forall>f'. map_of (gs_faults s') f' = (if f' = f then Some (e\<lparr>fe_status := x\<rparr>) else map_of (gs_faults s) f'))
     \<and> (\<forall>a. map_of (gs_assets s') a = (if x = resolved \<and> a = fe_asset_id e \<and> a \<noteq> []
            then map_option healthy_record (map_of (gs_assets s) a) else map_of (gs_assets s) a))
     \<and> gs_notifications s' = gs_notifications s \<and> gs_activity s' = gs_activity s \<and> gs_tokens s' = gs_tokens s"
proof -
  let ?s1 = "s\<lparr>gs_faults := dict_set f (e\<lparr>fe_status := x\<rparr>) (gs_faults s)\<rparr>"
  from update_status_mem [OF assms(2), of x] obtain s2 where
    h: "(if x = resolved then heal_asset mem_ops (fe_asset_id e) ?s1 else (Inr (), ?s1)) = (Inr (), s2)" and
    r: "update_fault_status mem_ops f x s = (Inr (fault_json (e\<lparr>fe_status := x\<rparr>)),
          store_publish (lit ''fault'') (fault_json (e\<lparr>fe_status := x\<rparr>)) s2)"
    by blast
  have "store_update_fault f (\<lambda>e. e\<lparr>fe_status := x\<rparr>) s = (Some (e\<lparr>fe_status := x\<rparr>), ?s1)"
    using assms(2) by (simp add: store_update_fault_def)
  from gw_ok_update [OF gw_reachable_ok [OF assms(1)] _ this] have ok: "gw_ok ?s1" by simp
  have eff: "gs_faults s2 = gs_faults ?s1 \<and> gs_notifications s2 = gs_notifications s
      \<and> gs_activity s2 = gs_activity s \<and> gs_tokens s2 = gs_tokens s
      \<and> map_of (gs_assets s2) a = (if x = resolved \<and> a = fe_asset_id e \<and> a \<noteq> []
            then map_option healthy_record (map_of (gs_assets s) a) else map_of (gs_assets s) a)" for a
  proof (cases "x = resolved")
    case True
    with h have "heal_asset mem_ops (fe_asset_id e) ?s1 = (Inr (), s2)" by simp
    from heal_asset_effect [OF ok this, of a] True show ?thesis by auto
  next
    case False
    with h have "s2 = ?s1" by simp
    with False show ?thesis by simp
  qed
  then show ?thesis unfolding r by (simp add: dict_simps)
qed

text \<open>
  \<open>PATCH /api/faults/{id}/status\<close> sets the status of that event, whatever it was before,
  and nothing else of it or of other events. With \<open>resolved\<close> the event's asset becomes healthy
  and loses its link; no other asset changes, and with any other status none does.
\<close>
theorem update_fault_status_effect:
  assumes "gw_reachable lp s" and "map_of (gs_faults s) f = Some e"
  shows "\<exists>s'. update_fault_status mem_ops f x s = (Inr (fault_json (e\<lparr>fe_status := x\<rparr>)), s')
     \<and> (\<forall>f'. map_of (gs_faults s') f' = (if f' = f then Some (e\<lparr>fe_status := x\<rparr>) else map_of (gs_faults s) f'))
     \<and> (\<forall>a. map_of (gs_assets s') a = (if x = resolved \<and> a = fe_asset_id e \<and> a \<noteq> []
            then map_option healthy_record (map_of (gs_assets s) a) else map_of (gs_assets s) a))
     \<and> gs_notifications s' = gs_notifications s \<and> gs_activity s' = gs_activity s \<and> gs_tokens s' = gs_tokens s"
  by (rule update_fault_status_effect_lemma [OF assms])

theorem update_fault_status_effect_witness:
  "\<exists>s' r. update_fault_status mem_ops (lit ''f1'') resolved demo_detected = (Inr r, s')
     \<and> gs_tokens s' = gs_tokens demo_detected"
  using update_fault_status_effect [OF demo_reachable(2), of "lit ''f1''"] demo_detected_state(1) [of "lit ''f1''"]
  by fastforce

text \<open>
  C29: Resolving an older event of an asset hides a newer one. The asset's link is cleared and the
  asset shown healthy whichever of its events is resolved: when the asset links to \<open>f2\<close>, which
  is not resolved, setting another event \<open>f1\<close> of the same asset to \<open>resolved\<close> leaves
  \<open>f2\<close> open on an asset that is shown healthy.
\<close>
theorem older_resolution_hides_newer_fault:
  assumes "gw_reachable lp s"
    and "map_of (gs_faults s) f1 = Some e1" and "fe_asset_id e1 = a" and "a \<noteq> []"
    and "map_of (gs_assets s) a = Some rec" and "ar_active_fault rec = Some f2" and "f2 \<noteq> f1"
  shows "\<exists>e2 s' j. map_of (gs_faults s) f2 = Some e2 \<and> fe_asset_id e2 = a
     \<and> update_fault_status mem_ops f1 resolved s = (Inr j, s')
     \<and> map_of (gs_faults s') f2 = Some e2
     \<and> map_of (gs_assets s') a = Some (healthy_record rec)"
proof -
  have "record_ok (gs_faults s) a rec"
    using gw_reachable_ok [OF assms(1)] assms(5) by (simp add: gw_ok_def assets_ok_def)
  then obtain e2 where e2: "map_of (gs_faults s) f2 = Some e2" "fe_asset_id e2 = a"
    using assms(6) by (auto simp: record_ok_def)
  from update_fault_status_effect_lemma [OF assms(1,2), of resolved] obtain s' where
    r: "update_fault_status mem_ops f1 resolved s = (Inr (fault_json (e1\<lparr>fe_status := resolved\<rparr>)), s')" and
    fs: "\<And>f'. map_of (gs_faults s') f' = (if f' = f1 then Some (e1\<lparr>fe_status := resolved\<rparr>) else map_of (gs_faults s) f')" and
    as: "\<And>b. map_of (gs_assets s') b = (if resolved = resolved \<and> b = fe_asset_id e1 \<and> b \<noteq> []
            then map_option healthy_record (map_of (gs_assets s) b) else map_of (gs_assets s) b)"
    by blast
  have "map_of (gs_faults s') f2 = Some e2" using fs [of f2] e2 assms(7) by simp
  moreover have "map_of (gs_assets s') a = Some (healthy_record rec)" using as [of a] assms(3-5) by simp
  ultimately show ?thesis using e2 r by blast
qed

definition demo_twice :: GatewayStore where
  "demo_twice = snd (create_fault mem_ops demo_pack (lit ''f2'') demo_time (lit ''n2'') demo_time demo_request demo_detected)"

lemma demo_twice_state:
  "gw_reachable demo_pack demo_twice"
  "map_of (gs_faults demo_twice) (lit ''f1'') = Some (new_fault_event demo_pack (lit ''f1'') demo_time demo_request)"
  "\<exists>rec. map_of (gs_assets demo_twice) (lit ''gpu-1'') = Some (faulted_record rec (lit ''f2''))"
proof -
  have new: "map_of (gs_faults demo_detected) (lit ''f2'') = None" "map_of (gs_notifications demo_detected) (lit ''n2'') = None"
    by (simp_all add: demo_detected_state)
  from gw_step.create [OF new(1)] demo_reachable(2) show "gw_reachable demo_pack demo_twice"
    unfolding demo_twice_def by (rule gw_reachable.next_step [rotated])
  note c = create_fault_changes [OF demo_reachable(2) new, of demo_time demo_time demo_request]
  then show "map_of (gs_faults demo_twice) (lit ''f1'') = Some (new_fault_event demo_pack (lit ''f1'') demo_time demo_request)"
    unfolding demo_twice_def by (elim exE conjE) (simp add: demo_detected_state)
  obtain rec where "map_of (gs_assets demo_detected) (lit ''gpu-1'') = Some (faulted_record rec (lit ''f1''))"
    using demo_detected_state(3) by blast
  with c show "\<exists>rec. map_of (gs_assets demo_twice) (lit ''gpu-1'') = Some (faulted_record rec (lit ''f2''))"
    unfolding demo_twice_def
    by (elim exE conjE) (simp add: demo_request_def, blast)
qed

theorem older_resolution_hides_newer_fault_witness:
  "\<exists>e2 s' j rec. update_fault_status mem_ops (lit ''f1'') resolved demo_twice = (Inr j, s')
     \<and> map_of (gs_faults s') (lit ''f2'') = Some e2 \<and> map_of (gs_assets s') (lit ''gpu-1'') = Some (healthy_record rec)"
proof -
  obtain rec where rec: "map_of (gs_assets demo_twice) (lit ''gpu-1'') = Some (faulted_record rec (lit ''f2''))"
    using demo_twice_state(3) by blast
  have "fe_asset_id (new_fault_event demo_pack (lit ''f1'') demo_time demo_request) = lit ''gpu-1''"
    by (simp add: demo_request_def)
  from older_resolution_hides_newer_fault [OF demo_twice_state(1,2) this _ rec, of "lit ''f2''"]
  show ?thesis by (auto simp: faulted_record_def)
qed

end
