(* ===== verification/Approval_Gate.thy ===== *)
theory Approval_Gate
  imports Gw_Properties
begin

text \<open>
  The human approval gate: what \<open>POST /api/faults/{id}/decision\<close> does, who can see the token it
  obtains, and what the execution it starts does to the store, with other requests served while it
  runs.
\<close>

section \<open>The decision\<close>

definition orch_steps :: "(pystr \<Rightarrow> http_exn + RemediationStep list) \<Rightarrow> FaultEvent \<Rightarrow> RemediationStep list" where
  "orch_steps orch e = (case orch (fe_asset_id e) of Inl _ \<Rightarrow> [] | Inr xs \<Rightarrow> xs)"

definition decision_job ::
  "(pystr \<Rightarrow> http_exn + RemediationStep list) \<Rightarrow> pystr \<Rightarrow> FaultEvent \<Rightarrow> pystr \<Rightarrow> exec_job" where
  "decision_job orch f e k = \<lparr>ej_fault_id = f, ej_asset_id = fe_asset_id e, ej_scenario_id = fe_scenario_id e,
     ej_step_ids = map rs_id (orch_steps orch e),
     ej_step_labels = dict_of (map (\<lambda>x. (rs_id x, rs_label x)) (orch_steps orch e)), ej_token = k\<rparr>"

lemma decision_denied_eq:
  "map_of (gs_faults s) f = Some e \<Longrightarrow> post_decision mem_ops orch mc f decision_denied s m =
     (Inr (denied_answer f),
      store_publish (lit ''decision'') (decision_event f decision_denied)
        (store_publish (lit ''fault'') (fault_json (e\<lparr>fe_status := denied\<rparr>))
          (s\<lparr>gs_faults := dict_set f (e\<lparr>fe_status := denied\<rparr>) (gs_faults s)\<rparr>)), m, None)"
  by (simp add: post_decision_def store_get_fault_def deny_fault_def store_update_fault_def)

lemma decision_approved_eq:
  assumes "map_of (gs_faults s) f = Some e"
  shows "post_decision mem_ops orch mc f decision_approved s m =
     (case mint_for mc e f (map rs_id (orch_steps orch e)) m of
        (Inl exc, m') \<Rightarrow> (Inl exc, s, m', None)
      | (Inr k, m') \<Rightarrow>
          (Inr (approved_answer f),
           store_publish (lit ''decision'') (decision_event f decision_approved) (store_set_pending_token f k s),
           m', Some (decision_job orch f e k)))"
  using assms
  by (simp add: post_decision_def store_get_fault_def Let_def orch_steps_def decision_job_def
      split: sum.split prod.split)

lemma mint_for_Inl: "mint_for mc e f ids m = (Inl exc, m') \<Longrightarrow> \<exists>x. exc = GwHttp (HTTPException 502 (McpToolsError x))"
  by (auto simp: mint_for_def split: prod.split_asm sum.split_asm)


text \<open>A client of a service that mints numbered tokens, for the witnesses.\<close>

definition counting_client :: "nat mcp_client" where
  "counting_client = \<lparr>mc_register = (\<lambda>f a sid ids n. (Inr 200, n)),
     mc_mint = (\<lambda>f d by n. (Inr (lit ''token-'' @ str_of_nat n), Suc n)), mc_reset = (\<lambda>n. (Inr 200, n))\<rparr>"

definition demo_orch_steps :: "pystr \<Rightarrow> http_exn + RemediationStep list" where
  "demo_orch_steps a = Inr [\<lparr>rs_id = lit ''drain'', rs_label = lit ''Drain''\<rparr>]"


section \<open>The token is not shown\<close>

text \<open>
  C28: The token stays on the server side. Whatever token the MCP tools service mints, the answer
  to the decision, the events sent to subscribers, every route that lists or shows state (all but
  \<open>GET .../token\<close>) and the lines the execution narrates are the same: with two services that
  differ in the token only, nothing but the token map of the store and the job differ.
\<close>
theorem token_never_shown:
  assumes "map_of (gs_faults s) f = Some e"
    and "mint_for mc e f (map rs_id (orch_steps orch e)) m = (Inr k, m1)"
    and "mint_for mc' e f (map rs_id (orch_steps orch e)) m' = (Inr k', m1')"
  shows "\<exists>r s1 s1' job job'. post_decision mem_ops orch mc f decision_approved s m = (r, s1, m1, Some job)
     \<and> post_decision mem_ops orch mc' f decision_approved s m' = (r, s1', m1', Some job')
     \<and> s1'\<lparr>gs_tokens := []\<rparr> = s1\<lparr>gs_tokens := []\<rparr>
     \<and> list_faults mem_ops s1' = list_faults mem_ops s1 \<and> list_assets mem_ops s1' = list_assets mem_ops s1
     \<and> list_notifications mem_ops s1' = list_notifications mem_ops s1
     \<and> list_activity mem_ops s1' = list_activity mem_ops s1
     \<and> (\<forall>g. get_fault_detail mem_ops g s1' = get_fault_detail mem_ops g s1)
     \<and> ej_token job = k \<and> ej_token job' = k'
     \<and> (\<forall>env shw answer u. run_remediation mem_ops env shw (\<lambda>_ _ _ x. (answer, x)) job' u ()
          = run_remediation mem_ops env shw (\<lambda>_ _ _ x. (answer, x)) job u ())"
proof -
  let ?pub = "\<lambda>k. store_publish (lit ''decision'') (decision_event f decision_approved) (store_set_pending_token f k s)"
  let ?job = "decision_job orch f e"
  have acts: "do_actions mem_ops env (?job k') n acts u = do_actions mem_ops env (?job k) n acts u" for env n acts u
    by (induction acts arbitrary: n u) (auto simp: do_action_def decision_job_def Let_def split: prod.split sum.split exec_action.split)
  have fields: "ej_step_ids (?job k') = ej_step_ids (?job k)" "ej_asset_id (?job k') = ej_asset_id (?job k)"
    "step_lines (?job k') = step_lines (?job k)"
    by (simp_all add: fun_eq_iff step_lines_def decision_job_def)
  then have scripts: "before_script (?job k') = before_script (?job k)"
    "closing_script (?job k') v = closing_script (?job k) v" for v
    by (simp_all add: before_script_def closing_script_def resolved_script_def split: exec_verdict.split)
  have run: "run_remediation mem_ops env shw (\<lambda>_ _ _ x. (answer, x)) (?job k') u ()
      = run_remediation mem_ops env shw (\<lambda>_ _ _ x. (answer, x)) (?job k) u ()" for env shw answer u
    by (simp only: run_remediation_def acts scripts)
  have post: "post_decision mem_ops orch mc f decision_approved s m = (Inr (approved_answer f), ?pub k, m1, Some (?job k))"
    "post_decision mem_ops orch mc' f decision_approved s m' = (Inr (approved_answer f), ?pub k', m1', Some (?job k'))"
    unfolding decision_approved_eq [OF assms(1)] using assms(2,3) by simp_all
  have same: "?pub k'\<lparr>gs_tokens := []\<rparr> = ?pub k\<lparr>gs_tokens := []\<rparr>"
    by (simp add: store_publish_def store_set_pending_token_def)
  have lists: "list_faults mem_ops (?pub k') = list_faults mem_ops (?pub k)"
    "list_assets mem_ops (?pub k') = list_assets mem_ops (?pub k)"
    "list_notifications mem_ops (?pub k') = list_notifications mem_ops (?pub k)"
    "list_activity mem_ops (?pub k') = list_activity mem_ops (?pub k)"
    "\<forall>g. get_fault_detail mem_ops g (?pub k') = get_fault_detail mem_ops g (?pub k)"
    by (simp_all add: list_faults_def list_assets_def list_notifications_def list_activity_def
        get_fault_detail_def store_list_faults_def store_list_assets_def store_list_notifications_def
        store_get_unread_count_def store_list_activity_events_def store_get_fault_def
        store_publish_def store_set_pending_token_def)
  have toks: "ej_token (?job k) = k" "ej_token (?job k') = k'" by (simp_all add: decision_job_def)
  show ?thesis
    by (intro exI [of _ "Inr (approved_answer f)"] exI [of _ "?pub k"] exI [of _ "?pub k'"] exI [of _ "?job k"]
        exI [of _ "?job k'"] conjI post same lists toks allI run lists(5) [rule_format])
qed

lemma demo_mint:
  "mint_for counting_client e f ids n = (Inr (lit ''token-'' @ str_of_nat n), Suc n)"
  by (simp add: mint_for_def counting_client_def)

theorem token_never_shown_witness:
  "\<exists>r s1 s1' job job'. post_decision mem_ops demo_orch_steps counting_client (lit ''f1'') decision_approved demo_detected 0
       = (r, s1, 1, Some job)
     \<and> post_decision mem_ops demo_orch_steps counting_client (lit ''f1'') decision_approved demo_detected 7
       = (r, s1', 8, Some job')
     \<and> list_faults mem_ops s1' = list_faults mem_ops s1"
proof -
  have e: "map_of (gs_faults demo_detected) (lit ''f1'') = Some (new_fault_event demo_pack (lit ''f1'') demo_time demo_request)"
    by (simp add: demo_detected_state)
  have "mint_for counting_client e f ids 0 = (Inr (lit ''token-'' @ str_of_nat 0), 1)"
    "mint_for counting_client e f ids 7 = (Inr (lit ''token-'' @ str_of_nat 7), 8)" for e f ids
    by (simp_all add: demo_mint)
  from token_never_shown [OF e this(1) this(2), of demo_orch_steps] show ?thesis by blast
qed

text \<open>
  A decision is not final. The route does not look at the event's status: after a denial, an
  approval of the same event is accepted, mints a token and starts an execution; and approving
  twice starts two executions with two tokens. (ADR-004: "Re-approving a denied fault requires a
  new fault cycle (deny closes the approval window ...)".)
\<close>
theorem decision_not_final:
  assumes "map_of (gs_faults s) f = Some e"
    and "\<And>e ids m. \<exists>k m'. mint_for mc e f ids m = (Inr k, m')"
  shows "\<exists>s1 s2 s3 m2 m3 job job'.
       post_decision mem_ops orch mc f decision_denied s m = (Inr (denied_answer f), s1, m, None)
     \<and> map_of (gs_faults s1) f = Some (e\<lparr>fe_status := denied\<rparr>)
     \<and> post_decision mem_ops orch mc f decision_approved s1 m = (Inr (approved_answer f), s2, m2, Some job)
     \<and> post_decision mem_ops orch mc f decision_approved s2 m2 = (Inr (approved_answer f), s3, m3, Some job')
     \<and> ej_fault_id job = f \<and> ej_fault_id job' = f"
proof -
  let ?s1 = "store_publish (lit ''decision'') (decision_event f decision_denied)
        (store_publish (lit ''fault'') (fault_json (e\<lparr>fe_status := denied\<rparr>))
          (s\<lparr>gs_faults := dict_set f (e\<lparr>fe_status := denied\<rparr>) (gs_faults s)\<rparr>))"
  let ?e1 = "e\<lparr>fe_status := denied\<rparr>"
  let ?pub = "\<lambda>k s. store_publish (lit ''decision'') (decision_event f decision_approved) (store_set_pending_token f k s)"
  have e1: "map_of (gs_faults ?s1) f = Some ?e1" by (simp add: dict_simps)
  obtain k m2 where m2: "mint_for mc ?e1 f (map rs_id (orch_steps orch ?e1)) m = (Inr k, m2)" using assms(2) by blast
  obtain k' m3 where m3: "mint_for mc ?e1 f (map rs_id (orch_steps orch ?e1)) m2 = (Inr k', m3)" using assms(2) by blast
  have e2: "map_of (gs_faults (?pub k ?s1)) f = Some ?e1" using e1 by simp
  have p1: "post_decision mem_ops orch mc f decision_denied s m = (Inr (denied_answer f), ?s1, m, None)"
    by (rule decision_denied_eq [OF assms(1)])
  have p2: "post_decision mem_ops orch mc f decision_approved ?s1 m =
      (Inr (approved_answer f), ?pub k ?s1, m2, Some (decision_job orch f ?e1 k))"
    unfolding decision_approved_eq [OF e1] m2 by simp
  have p3: "post_decision mem_ops orch mc f decision_approved (?pub k ?s1) m2 =
      (Inr (approved_answer f), ?pub k' (?pub k ?s1), m3, Some (decision_job orch f ?e1 k'))"
    unfolding decision_approved_eq [OF e2] m3 by simp
  have "ej_fault_id (decision_job orch f ?e1 x) = f" for x by (simp add: decision_job_def)
  then show ?thesis using p1 e1 p2 p3 by blast
qed

theorem decision_not_final_witness:
  "\<exists>s1 s2 job. post_decision mem_ops demo_orch_steps counting_client (lit ''f1'') decision_denied demo_detected 0
       = (Inr (denied_answer (lit ''f1'')), s1, 0, None)
     \<and> post_decision mem_ops demo_orch_steps counting_client (lit ''f1'') decision_approved s1 0
       = (Inr (approved_answer (lit ''f1'')), s2, 1, Some job)"
proof -
  have e: "map_of (gs_faults demo_detected) (lit ''f1'') = Some (new_fault_event demo_pack (lit ''f1'') demo_time demo_request)"
    by (simp add: demo_detected_state)
  from decision_not_final [OF e, of counting_client demo_orch_steps 0]
  obtain s1 s2 m2 job where
    "post_decision mem_ops demo_orch_steps counting_client (lit ''f1'') decision_denied demo_detected 0
       = (Inr (denied_answer (lit ''f1'')), s1, 0, None)"
    and e1: "map_of (gs_faults s1) (lit ''f1'') = Some ((new_fault_event demo_pack (lit ''f1'') demo_time demo_request)\<lparr>fe_status := denied\<rparr>)"
    and p: "post_decision mem_ops demo_orch_steps counting_client (lit ''f1'') decision_approved s1 0
       = (Inr (approved_answer (lit ''f1'')), s2, m2, Some job)"
    by (auto simp: demo_mint)
  moreover have "m2 = 1" using p unfolding decision_approved_eq [OF e1] demo_mint by simp
  ultimately show ?thesis by blast
qed

section \<open>The execution\<close>

fun last_status :: "FaultEventStatus \<Rightarrow> exec_action list \<Rightarrow> FaultEventStatus" where
  "last_status x [] = x"
| "last_status x (SetStatus y # acts) = last_status y acts"
| "last_status x (Narrate stp msg # acts) = last_status x acts"

fun narration :: "exec_action list \<Rightarrow> (pystr \<times> pystr) list" where
  "narration [] = []"
| "narration (SetStatus y # acts) = narration acts"
| "narration (Narrate stp msg # acts) = (stp, msg) # narration acts"

lemma narration_append [simp]: "narration (xs @ ys) = narration xs @ narration ys"
  by (induction xs rule: narration.induct) auto

lemma last_status_append [simp]: "last_status x (xs @ ys) = last_status (last_status x xs) ys"
  by (induction x xs rule: last_status.induct) auto

text \<open>What the feed shows of an event.\<close>

definition feed_of :: "pystr \<Rightarrow> ActivityEvent list \<Rightarrow> (pystr \<times> pystr) list" where
  "feed_of f evs = map (\<lambda>e. (ac_step e, ac_message e)) (filter (\<lambda>e. ac_fault_event_id e = f) evs)"

lemma feed_of_append [simp]: "feed_of f (xs @ ys) = feed_of f xs @ feed_of f ys"
  by (simp add: feed_of_def)

text \<open>
  Other requests that leave the event and its asset alone: they may write anything else, and add
  to the feed.
\<close>

definition quiet :: "pystr \<Rightarrow> pystr \<Rightarrow> (nat \<Rightarrow> GatewayStore \<Rightarrow> GatewayStore) \<Rightarrow> bool" where
  "quiet f a others \<longleftrightarrow> (\<forall>n s. map_of (gs_faults (others n s)) f = map_of (gs_faults s) f
     \<and> map_of (gs_assets (others n s)) a = map_of (gs_assets s) a
     \<and> (\<exists>extra. gs_activity (others n s) = gs_activity s @ extra)
     \<and> (gw_ok s \<longrightarrow> gw_ok (others n s)))"

lemma quietD:
  assumes "quiet f a others"
  shows "map_of (gs_faults (others n s)) f = map_of (gs_faults s) f"
    and "map_of (gs_assets (others n s)) a = map_of (gs_assets s) a"
    and "\<exists>extra. gs_activity (others n s) = gs_activity s @ extra"
    and "gw_ok s \<Longrightarrow> gw_ok (others n s)"
  using assms by (simp_all add: quiet_def)

lemma healthy_record_idem [simp]: "healthy_record (healthy_record r) = healthy_record r"
  by (simp add: healthy_record_def)

lemma set_status_effect:
  assumes "gw_ok s" "map_of (gs_faults s) f = Some e"
  shows "\<exists>s'. set_status mem_ops f a x s = (Inr (), s') \<and> gw_ok s'
     \<and> map_of (gs_faults s') f = Some (e\<lparr>fe_status := x\<rparr>)
     \<and> map_of (gs_assets s') a = (if x = resolved \<and> a \<noteq> [] then map_option healthy_record (map_of (gs_assets s) a)
          else map_of (gs_assets s) a)
     \<and> gs_activity s' = gs_activity s"
proof -
  let ?s1 = "s\<lparr>gs_faults := dict_set f (e\<lparr>fe_status := x\<rparr>) (gs_faults s)\<rparr>"
  have u: "store_update_fault f (\<lambda>e. e\<lparr>fe_status := x\<rparr>) s = (Some (e\<lparr>fe_status := x\<rparr>), ?s1)"
    using assms(2) by (simp add: store_update_fault_def)
  have ok: "gw_ok ?s1" using gw_ok_update [OF assms(1) _ u] by simp
  obtain s2 where h: "heal_asset mem_ops a ?s1 = (Inr (), s2)" using heal_asset_Inr by blast
  show ?thesis
  proof (cases "x = resolved")
    case True
    with u h have "set_status mem_ops f a x s = (Inr (), store_publish (lit ''fault'') (fault_json (e\<lparr>fe_status := x\<rparr>)) s2)"
      by (simp add: set_status_def)
    with heal_asset_effect [OF ok h, of a] gw_ok_heal [OF ok h] True show ?thesis
      by (auto simp: gw_ok_publish dict_simps)
  next
    case False
    with u have "set_status mem_ops f a x s = (Inr (), store_publish (lit ''fault'') (fault_json (e\<lparr>fe_status := x\<rparr>)) ?s1)"
      by (simp add: set_status_def)
    with ok False show ?thesis by (simp add: gw_ok_publish dict_simps)
  qed
qed

lemma narrate_effect:
  "gw_ok (narrate mem_ops i t f stp msg s) = gw_ok s \<and> gs_faults (narrate mem_ops i t f stp msg s) = gs_faults s
     \<and> gs_assets (narrate mem_ops i t f stp msg s) = gs_assets s
     \<and> (\<exists>ev. gs_activity (narrate mem_ops i t f stp msg s) = gs_activity s @ [ev] \<and> feed_of f [ev] = [(stp, msg)])"
  by (simp add: narrate_def Let_def gw_ok_publish gw_ok_activity)
    (simp add: store_create_activity_def feed_of_def)

lemma do_actions_quiet:
  assumes q: "quiet (ej_fault_id job) (ej_asset_id job) (xe_others env)"
  shows "gw_ok s \<Longrightarrow> map_of (gs_faults s) (ej_fault_id job) = Some e \<Longrightarrow>
     \<exists>s' new. do_actions mem_ops env job n acts s = (Inr (), s') \<and> gw_ok s'
     \<and> map_of (gs_faults s') (ej_fault_id job) = Some (e\<lparr>fe_status := last_status (fe_status e) acts\<rparr>)
     \<and> map_of (gs_assets s') (ej_asset_id job) =
          (if SetStatus resolved \<in> set acts \<and> ej_asset_id job \<noteq> []
           then map_option healthy_record (map_of (gs_assets s) (ej_asset_id job))
           else map_of (gs_assets s) (ej_asset_id job))
     \<and> gs_activity s' = gs_activity s @ new
     \<and> subseq (narration acts) (feed_of (ej_fault_id job) new)"
proof (induction acts arbitrary: n s e)
  case Nil
  then show ?case by simp
next
  case (Cons act acts)
  let ?f = "ej_fault_id job" and ?a = "ej_asset_id job"
  let ?s1 = "xe_others env n s"
  note o = quietD [OF q, where n = n and s = s]
  obtain extra where extra: "gs_activity ?s1 = gs_activity s @ extra" using o(3) by blast
  have s1: "gw_ok ?s1" "map_of (gs_faults ?s1) ?f = Some e" using o Cons.prems by simp_all
  show ?case
  proof (cases act)
    case (SetStatus x)
    from set_status_effect [OF s1, of ?a x] obtain s2 where s2:
      "set_status mem_ops ?f ?a x ?s1 = (Inr (), s2)" "gw_ok s2"
      "map_of (gs_faults s2) ?f = Some (e\<lparr>fe_status := x\<rparr>)"
      "map_of (gs_assets s2) ?a = (if x = resolved \<and> ?a \<noteq> [] then map_option healthy_record (map_of (gs_assets ?s1) ?a)
          else map_of (gs_assets ?s1) ?a)"
      "gs_activity s2 = gs_activity ?s1"
      by blast
    from Cons.IH [OF s2(2,3), of "Suc n"] obtain s' new where s':
      "do_actions mem_ops env job (Suc n) acts s2 = (Inr (), s')" "gw_ok s'"
      "map_of (gs_faults s') ?f = Some (e\<lparr>fe_status := last_status x acts\<rparr>)"
      "map_of (gs_assets s') ?a = (if SetStatus resolved \<in> set acts \<and> ?a \<noteq> []
           then map_option healthy_record (map_of (gs_assets s2) ?a) else map_of (gs_assets s2) ?a)"
      "gs_activity s' = gs_activity s2 @ new" "subseq (narration acts) (feed_of ?f new)"
      by auto
    have "do_actions mem_ops env job n (act # acts) s = (Inr (), s')"
      using s2(1) s'(1) by (simp add: do_action_def Let_def SetStatus)
    moreover have "map_of (gs_assets s') ?a = (if SetStatus resolved \<in> set (act # acts) \<and> ?a \<noteq> []
        then map_option healthy_record (map_of (gs_assets s) ?a) else map_of (gs_assets s) ?a)"
      unfolding s'(4) s2(4) o(2) SetStatus by (cases "map_of (gs_assets s) ?a") auto
    moreover have "gs_activity s' = gs_activity s @ (extra @ new)" using s'(5) s2(5) extra by simp
    moreover have "subseq (narration (act # acts)) (feed_of ?f (extra @ new))"
      using s'(6) SetStatus by (simp add: subseq_drop_many)
    ultimately show ?thesis using s'(2,3) SetStatus by (intro exI [of _ s'] exI [of _ "extra @ new"]) simp
  next
    case (Narrate stp msg)
    let ?s2 = "narrate mem_ops (xe_ids env n) (xe_clock env n) ?f stp msg ?s1"
    obtain ev where ev: "gs_activity ?s2 = gs_activity ?s1 @ [ev]" "feed_of ?f [ev] = [(stp, msg)]"
      using narrate_effect by blast
    have s2: "gw_ok ?s2" "map_of (gs_faults ?s2) ?f = Some e" "gs_assets ?s2 = gs_assets ?s1"
      using narrate_effect [of "xe_ids env n" "xe_clock env n" ?f stp msg ?s1] s1 by simp_all
    from Cons.IH [OF s2(1,2), of "Suc n"] obtain s' new where s':
      "do_actions mem_ops env job (Suc n) acts ?s2 = (Inr (), s')" "gw_ok s'"
      "map_of (gs_faults s') ?f = Some (e\<lparr>fe_status := last_status (fe_status e) acts\<rparr>)"
      "map_of (gs_assets s') ?a = (if SetStatus resolved \<in> set acts \<and> ?a \<noteq> []
           then map_option healthy_record (map_of (gs_assets ?s2) ?a) else map_of (gs_assets ?s2) ?a)"
      "gs_activity s' = gs_activity ?s2 @ new" "subseq (narration acts) (feed_of ?f new)"
      by auto
    have "do_actions mem_ops env job n (act # acts) s = (Inr (), s')"
      using s'(1) by (simp add: do_action_def Let_def Narrate)
    moreover have "gs_activity s' = gs_activity s @ (extra @ [ev] @ new)" using s'(5) ev(1) extra by simp
    moreover have "subseq (narration (act # acts)) (feed_of ?f (extra @ [ev] @ new))"
    proof -
      have "feed_of ?f (extra @ [ev] @ new) = feed_of ?f extra @ (stp, msg) # feed_of ?f new"
        using ev(2) by (simp only: feed_of_append) simp
      with s'(6) Narrate show ?thesis by (simp add: subseq_drop_many)
    qed
    ultimately show ?thesis using s'(2,3,4) s2(3) o(2) Narrate
      by (intro exI [of _ s'] exI [of _ "extra @ [ev] @ new"]) simp
  qed
qed

text \<open>What the operator is told before the tool is called.\<close>

definition opening_lines :: "exec_job \<Rightarrow> (pystr \<times> pystr) list" where
  "opening_lines job = narration (before_script job)"

lemma before_script_status [simp]:
  "last_status x (before_script job) = remediating" "SetStatus resolved \<notin> set (before_script job)"
proof -
  have lines: "last_status y (concat (map (step_lines job) xs)) = y"
    "SetStatus z \<notin> set (concat (map (step_lines job) xs))" for xs y z
    by (induction xs) (auto simp: step_lines_def Let_def)
  then show "last_status x (before_script job) = remediating" "SetStatus resolved \<notin> set (before_script job)"
    by (auto simp: before_script_def)
qed

lemma run_remediation_quiet:
  assumes q: "quiet (ej_fault_id job) (ej_asset_id job) (xe_others env)"
    and ok: "gw_ok s" and e: "map_of (gs_faults s) (ej_fault_id job) = Some e"
    and ex: "execute (ej_fault_id job) (ej_token job) (ej_step_ids job) m = (answer, m')"
    and v: "v = verdict shw answer"
  shows "\<exists>s' new. run_remediation mem_ops env shw execute job s m = (exit_value v, s', m')
     \<and> map_of (gs_faults s') (ej_fault_id job) =
          Some (e\<lparr>fe_status := last_status remediating (closing_script job v)\<rparr>)
     \<and> map_of (gs_assets s') (ej_asset_id job) =
          (if SetStatus resolved \<in> set (closing_script job v) \<and> ej_asset_id job \<noteq> []
           then map_option healthy_record (map_of (gs_assets s) (ej_asset_id job))
           else map_of (gs_assets s) (ej_asset_id job))
     \<and> gs_activity s' = gs_activity s @ new
     \<and> subseq (opening_lines job @ narration (closing_script job v)) (feed_of (ej_fault_id job) new)"
proof -
  let ?n1 = "length (before_script job)"
  from do_actions_quiet [OF q ok e, of 0 "before_script job"] obtain s1 new1 where s1:
    "do_actions mem_ops env job 0 (before_script job) s = (Inr (), s1)" "gw_ok s1"
    "map_of (gs_faults s1) (ej_fault_id job) = Some (e\<lparr>fe_status := remediating\<rparr>)"
    "map_of (gs_assets s1) (ej_asset_id job) = map_of (gs_assets s) (ej_asset_id job)"
    "gs_activity s1 = gs_activity s @ new1" "subseq (opening_lines job) (feed_of (ej_fault_id job) new1)"
    by (auto simp: opening_lines_def)
  from do_actions_quiet [OF q s1(2,3), of ?n1 "closing_script job v"] obtain s2 new2 where s2:
    "do_actions mem_ops env job ?n1 (closing_script job v) s1 = (Inr (), s2)"
    "map_of (gs_faults s2) (ej_fault_id job) = Some (e\<lparr>fe_status := last_status remediating (closing_script job v)\<rparr>)"
    "map_of (gs_assets s2) (ej_asset_id job) =
          (if SetStatus resolved \<in> set (closing_script job v) \<and> ej_asset_id job \<noteq> []
           then map_option healthy_record (map_of (gs_assets s1) (ej_asset_id job))
           else map_of (gs_assets s1) (ej_asset_id job))"
    "gs_activity s2 = gs_activity s1 @ new2"
    "subseq (narration (closing_script job v)) (feed_of (ej_fault_id job) new2)"
    by auto
  have "run_remediation mem_ops env shw execute job s m = (exit_value v, s2, m')"
    using s1(1) s2(1) ex by (simp add: run_remediation_def Let_def v)
  moreover have "gs_activity s2 = gs_activity s @ (new1 @ new2)" using s1(5) s2(4) by simp
  moreover have "subseq (opening_lines job @ narration (closing_script job v)) (feed_of (ej_fault_id job) (new1 @ new2))"
    using s1(6) s2(5) by (simp add: list_emb_append_mono)
  ultimately show ?thesis using s2(2,3) s1(4) by auto
qed

text \<open>
  C26: When \<open>remediation.execute\<close> answers \<open>resolved\<close>, the execution ends with
  \<open>resolved\<close>: the event is \<open>resolved\<close>, its asset healthy and unlinked, and the feed shows, in
  this order, the opening, a start and a completion line per approved step, the verification line
  and the closing line. Other requests may be served between any two actions as long as they leave
  the event and its asset alone and only add to the feed.
\<close>
theorem execution_resolves:
  assumes "quiet (ej_fault_id job) (ej_asset_id job) (xe_others env)"
    and "gw_reachable lp s" and "map_of (gs_faults s) (ej_fault_id job) = Some e"
    and "execute (ej_fault_id job) (ej_token job) (ej_step_ids job) m = (Some j, m')"
    and "jget j (lit ''status'') JNull = Some (JStr (lit ''resolved''))"
  shows "\<exists>s' new. run_remediation mem_ops env shw execute job s m = (lit ''resolved'', s', m')
     \<and> map_of (gs_faults s') (ej_fault_id job) = Some (e\<lparr>fe_status := resolved\<rparr>)
     \<and> (ej_asset_id job \<noteq> [] \<longrightarrow> map_of (gs_assets s') (ej_asset_id job)
           = map_option healthy_record (map_of (gs_assets s) (ej_asset_id job)))
     \<and> gs_activity s' = gs_activity s @ new
     \<and> subseq (narration (before_script job @ resolved_script job)) (feed_of (ej_fault_id job) new)"
proof -
  obtain err where "jget j (lit ''error'') (JStr (lit ''unknown'')) = Some err"
    using assms(5) by (cases j) (simp_all add: jget_def)
  with assms(5) have v: "VResolved = verdict shw (Some j)" by (simp add: verdict_def)
  from run_remediation_quiet [where env = env and s = s and execute = execute and job = job and m = m, OF assms(1) gw_reachable_ok [OF assms(2)] assms(3,4) v]
  show ?thesis
    by (auto simp: closing_script_def exit_value_def opening_lines_def resolved_script_def)
qed

text \<open>
  When \<open>remediation.execute\<close> refuses or fails, the execution reports it: it ends with
  \<open>error:<reason>\<close>, the asset keeps its record, and the feed ends with the error line. The
  event stays \<open>remediating\<close>, and because the steps are narrated before the tool is called, the
  feed has announced every step as complete before the error.
\<close>
theorem execution_failure_reported:
  assumes "quiet (ej_fault_id job) (ej_asset_id job) (xe_others env)"
    and "gw_reachable lp s" and "map_of (gs_faults s) (ej_fault_id job) = Some e"
    and "execute (ej_fault_id job) (ej_token job) (ej_step_ids job) m = (Some j, m')"
    and "jget j (lit ''status'') JNull = Some st" and "st \<noteq> JStr (lit ''resolved'')"
    and "jget j (lit ''error'') (JStr (lit ''unknown'')) = Some (JStr err)"
  shows "\<exists>s' new. run_remediation mem_ops env shw execute job s m = (lit ''error:'' @ err, s', m')
     \<and> map_of (gs_faults s') (ej_fault_id job) = Some (e\<lparr>fe_status := remediating\<rparr>)
     \<and> map_of (gs_assets s') (ej_asset_id job) = map_of (gs_assets s) (ej_asset_id job)
     \<and> gs_activity s' = gs_activity s @ new
     \<and> subseq (narration (before_script job) @ [(lit ''remediate'', [9888] @ lit '' Remediation error: '' @ err)])
         (feed_of (ej_fault_id job) new)
     \<and> (\<forall>sid \<in> set (ej_step_ids job). \<exists>label. (lit ''remediate'', [32, 32, 10003, 32] @ label @ [32, 8212] @ lit '' complete'')
         \<in> set (feed_of (ej_fault_id job) new))"
proof -
  have v: "VError err = verdict shw (Some j)" using assms(5-7) by (simp add: verdict_def str_of_json_def)
  from run_remediation_quiet [where env = env and s = s and execute = execute and job = job and m = m, OF assms(1) gw_reachable_ok [OF assms(2)] assms(3,4) v]
  obtain s' new where r:
    "run_remediation mem_ops env shw execute job s m = (lit ''error:'' @ err, s', m')"
    "map_of (gs_faults s') (ej_fault_id job) = Some (e\<lparr>fe_status := remediating\<rparr>)"
    "map_of (gs_assets s') (ej_asset_id job) = map_of (gs_assets s) (ej_asset_id job)"
    "gs_activity s' = gs_activity s @ new"
    "subseq (narration (before_script job) @ [(lit ''remediate'', [9888] @ lit '' Remediation error: '' @ err)])
         (feed_of (ej_fault_id job) new)"
    by (auto simp: closing_script_def exit_value_def opening_lines_def error_script_def)
  have "\<exists>label. (lit ''remediate'', [32, 32, 10003, 32] @ label @ [32, 8212] @ lit '' complete'')
      \<in> set (narration (before_script job))" if "sid \<in> set (ej_step_ids job)" for sid
  proof -
    have "set (narration (step_lines job sid)) \<subseteq> set (narration (concat (map (step_lines job) xs)))"
      if "sid \<in> set xs" for xs using that by (induction xs) auto
    with that have "set (narration (step_lines job sid)) \<subseteq> set (narration (before_script job))"
      by (auto simp: before_script_def)
    then show ?thesis by (auto simp: step_lines_def Let_def)
  qed
  moreover have "set (narration (before_script job)) \<subseteq> set (feed_of (ej_fault_id job) new)"
    using list_emb_set [OF r(5)] by auto
  ultimately show ?thesis using r by blast
qed

definition demo_env :: "GatewayStore exec_env" where
  "demo_env = \<lparr>xe_ids = str_of_nat, xe_clock = (\<lambda>_. demo_time), xe_others = (\<lambda>_ s. s)\<rparr>"

definition demo_job :: exec_job where
  "demo_job = \<lparr>ej_fault_id = lit ''f1'', ej_asset_id = lit ''gpu-1'', ej_scenario_id = lit ''s1'',
     ej_step_ids = [lit ''drain''], ej_step_labels = [(lit ''drain'', lit ''Drain'')], ej_token = lit ''tok''\<rparr>"

definition demo_answer :: "string \<Rightarrow> json" where
  "demo_answer status = JObj [(lit ''status'', JStr (lit status)), (lit ''error'', JStr (lit ''token_consumed''))]"

lemma demo_run_facts:
  "quiet (ej_fault_id demo_job) (ej_asset_id demo_job) (xe_others demo_env)"
  "map_of (gs_faults demo_detected) (ej_fault_id demo_job) = Some (new_fault_event demo_pack (lit ''f1'') demo_time demo_request)"
  "jget (demo_answer st) (lit ''status'') JNull = Some (JStr (lit st))"
  "jget (demo_answer st) (lit ''error'') d = Some (JStr (lit ''token_consumed''))"
  by (simp_all add: quiet_def demo_env_def demo_job_def demo_detected_state demo_answer_def)

definition demo_execute :: "string \<Rightarrow> pystr \<Rightarrow> pystr \<Rightarrow> pystr list \<Rightarrow> nat \<Rightarrow> json option \<times> nat" where
  "demo_execute st f k sids n = (Some (demo_answer st), Suc n)"

theorem execution_resolves_witness:
  "\<exists>s' e. run_remediation mem_ops demo_env (\<lambda>_. []) (demo_execute ''resolved'') demo_job demo_detected 0
       = (lit ''resolved'', s', Suc 0)
     \<and> map_of (gs_faults s') (lit ''f1'') = Some e \<and> fe_status e = resolved"
proof -
  have "demo_execute ''resolved'' (ej_fault_id demo_job) (ej_token demo_job) (ej_step_ids demo_job) 0
      = (Some (demo_answer ''resolved''), Suc 0)" by (simp add: demo_execute_def)
  from execution_resolves [where execute = "demo_execute ''resolved''" and job = demo_job and m = 0 and shw = "\<lambda>_. []",
      OF demo_run_facts(1) demo_reachable(2) demo_run_facts(2) this demo_run_facts(3)]
  show ?thesis by (auto simp: demo_job_def)
qed

theorem execution_failure_reported_witness:
  "\<exists>s' e. run_remediation mem_ops demo_env (\<lambda>_. []) (demo_execute ''error'') demo_job demo_detected 0
       = (lit ''error:'' @ lit ''token_consumed'', s', Suc 0)
     \<and> map_of (gs_faults s') (lit ''f1'') = Some e \<and> fe_status e = remediating"
proof -
  have ex: "demo_execute ''error'' (ej_fault_id demo_job) (ej_token demo_job) (ej_step_ids demo_job) 0
      = (Some (demo_answer ''error''), Suc 0)" by (simp add: demo_execute_def)
  have "JStr (lit ''error'') \<noteq> JStr (lit ''resolved'')" by simp
  from execution_failure_reported [where execute = "demo_execute ''error''" and job = demo_job and m = 0 and shw = "\<lambda>_. []",
      OF demo_run_facts(1) demo_reachable(2) demo_run_facts(2) ex demo_run_facts(3) this demo_run_facts(4)]
  show ?thesis by (auto simp: demo_job_def)
qed

end
