(* ===== verification/Lab_System.thy ===== *)
theory Lab_System
  imports Mcp_Service Approval_Gate "HOL-Library.Countable"
begin

text \<open>
  The services composed: the gateway's decision route and executor over the MCP tools service and
  the simulator behind it, as one approved remediation passes through all of them.
\<close>

section \<open>The gateway's clients on the MCP tools service\<close>

text \<open>
  \<open>lab\<close> is the state of the MCP tools service and the token strings it will draw. The client is
  what the gateway's requests to \<open>/internal/...\<close> reach on a network without faults.
\<close>

type_synonym lab = "mcp_state \<times> pystr list"

definition token_of :: "json \<Rightarrow> pystr" where
  "token_of j = (case jget j (lit ''token'') JNull of Some (JStr k) \<Rightarrow> k | _ \<Rightarrow> [])"

definition lab_mint :: "datetime \<Rightarrow> pystr \<Rightarrow> pystr \<Rightarrow> pystr \<Rightarrow> lab \<Rightarrow> (http_exn + pystr) \<times> lab" where
  "lab_mint now f decision by l =
     (case (l, ApprovalDecision_of decision) of
        ((m, k # ks), Some d) \<Rightarrow>
          (case mint_token k now f d by m of
             (Inl _, m') \<Rightarrow> (Inl (HTTPStatusError 500), (m', ks))
           | (Inr j, m') \<Rightarrow> (Inr (token_of j), (m', ks)))
      | _ \<Rightarrow> (Inl (HTTPStatusError 422), l))"

definition lab_client :: "datetime \<Rightarrow> lab mcp_client" where
  "lab_client now = \<lparr>
     mc_register = (\<lambda>f a sid ids (m, ks). (Inr 200, (snd (register_fault_event f a sid ids m), ks))),
     mc_mint = lab_mint now,
     mc_reset = (\<lambda>(m, ks). (Inr 200, (snd (reset_state m), ks)))\<rparr>"

text \<open>
  \<open>_execute\<close>: the step ids and the answer travel as JSON text, written by \<open>json.dumps\<close> and read
  by \<open>json.loads\<close>.
\<close>

definition lab_execute ::
  "(pystr \<Rightarrow> json option) \<Rightarrow> (json \<Rightarrow> pystr) \<Rightarrow> pystr \<Rightarrow> pystr \<Rightarrow> pystr list \<Rightarrow> lab \<Rightarrow> json option \<times> lab" where
  "lab_execute loads dumps f k sids l =
     (case l of (m, ks) \<Rightarrow>
        (case server_remediation_execute loads post_clear f k (dumps (JArr (map JStr sids)))
                (ms_registry m) (ms_tokens m) (ms_sim m) of
           (answer, ts', w') \<Rightarrow>
             (case answer of None \<Rightarrow> None | Some j \<Rightarrow> mcp_answer loads [Some (dumps j)],
              (m\<lparr>ms_tokens := ts', ms_sim := w'\<rparr>, ks))))"

definition json_codec :: "(pystr \<Rightarrow> json option) \<Rightarrow> (json \<Rightarrow> pystr) \<Rightarrow> bool" where
  "json_codec loads dumps \<longleftrightarrow> (\<forall>j. loads (dumps j) = Some j)"

section \<open>One remediation\<close>

lemma mint_for_lab:
  "mint_for (lab_client now) e f ids (m, k # ks) =
     (Inr k, (snd (mint_token k now f decision_approved (lit ''human'') (snd (register_fault_event f (fe_asset_id e) (fe_scenario_id e) ids m))), ks))"
proof -
  have "ApprovalDecision_of (lit ''approved'') = Some decision_approved"
    by (simp add: ApprovalDecision_of_def)
  then show ?thesis by (simp add: mint_for_def lab_client_def lab_mint_def mint_token_eq token_of_def)
qed

text \<open>The MCP tools service after the approval of a fault event: registered, and one fresh token.\<close>

definition approved_state :: "datetime \<Rightarrow> FaultEvent \<Rightarrow> pystr \<Rightarrow> pystr list \<Rightarrow> pystr \<Rightarrow> mcp_state \<Rightarrow> mcp_state" where
  "approved_state now e f ids k m =
     snd (mint_token k now f decision_approved (lit ''human'') (snd (register_fault_event f (fe_asset_id e) (fe_scenario_id e) ids m)))"

lemma approved_state_fields:
  "ms_sim (approved_state now e f ids k m) = ms_sim m"
  "registry_get (ms_registry (approved_state now e f ids k m)) f =
     Some (fst (registry_register f (fe_asset_id e) (fe_scenario_id e) ids (ms_registry m)))"
  "tokens.usable (ms_tokens (approved_state now e f ids k m)) k f"
  "\<exists>t. token_get (ms_tokens (approved_state now e f ids k m)) k = Some t \<and> \<not> at_consumed t"
  by (simp_all add: approved_state_def mint_token_eq register_fault_event_eq registry_get_register
      tokens.usable_def tokens.get_put)

lemma approved_check:
  assumes "k \<noteq> []"
  shows "exec_check f (Some k) (JArr (map JStr ids)) (ms_tokens (approved_state now e f ids k m))
      (ms_registry (approved_state now e f ids k m)) =
    Inr (fst (registry_register f (fe_asset_id e) (fe_scenario_id e) ids (ms_registry m)), map JStr ids)"
  unfolding exec_check_Inr_iff exec_authorised_def using assms approved_state_fields by auto

lemma lab_execute_approved:
  assumes "json_codec loads dumps" "k \<noteq> []" "http_clear (fe_asset_id e) (ms_sim m) = (b, w')"
  shows "lab_execute loads dumps f k ids (approved_state now e f ids k m, ks) =
    (Some (if b then exec_result f (map JStr ids)
           else JObj [(lit ''status'', JStr (lit ''error'')), (lit ''error'', JStr (lit ''simulator_clear_failed'')),
                      (lit ''fault_event_id'', JStr f)]),
     (let m' = approved_state now e f ids k m in
      (m'\<lparr>ms_tokens := if b then token_consume k (ms_tokens m') else ms_tokens m', ms_sim := w'\<rparr>, ks)))"
  using assms approved_check [OF assms(2), of f ids now e m]
  by (simp add: lab_execute_def json_codec_def server_remediation_execute_def remediation_execute_def
      server_clear_http approved_state_fields exec_finish_def mcp_answer_def Let_def)

lemma gw_ok_decided:
  "gw_ok s \<Longrightarrow> map_of (gs_faults s) f = Some e \<Longrightarrow>
     gw_ok (store_publish t d (store_set_pending_token f k s))"
  by (simp add: gw_ok_publish) (rule gw_ok_token, auto)

lemma decided_fields [simp]:
  "gs_faults (store_publish t d (store_set_pending_token f k s)) = gs_faults s"
  "gs_assets (store_publish t d (store_set_pending_token f k s)) = gs_assets s"
  by (simp_all add: store_publish_def store_set_pending_token_def)

lemma lab_verdict:
  "verdict shw (Some (exec_result f sids)) = VResolved"
  "verdict shw (Some (JObj [(lit ''status'', JStr (lit ''error'')), (lit ''error'', JStr (lit ''simulator_clear_failed'')),
     (lit ''fault_event_id'', JStr f)])) = VError (lit ''simulator_clear_failed'')"
  by (simp_all add: verdict_def exec_result_def str_of_json_def)

lemma lab_decision:
  assumes "map_of (gs_faults s) f = Some e"
  shows "post_decision mem_ops orch (lab_client now) f decision_approved s (m, k # ks) =
     (Inr (approved_answer f),
      store_publish (lit ''decision'') (decision_event f decision_approved) (store_set_pending_token f k s),
      (approved_state now e f (map rs_id (orch_steps orch e)) k m, ks), Some (decision_job orch f e k))"
  by (simp add: decision_approved_eq [OF assms] mint_for_lab approved_state_def)

lemma decision_job_fields:
  "ej_fault_id (decision_job orch f e k) = f" "ej_asset_id (decision_job orch f e k) = fe_asset_id e"
  "ej_token (decision_job orch f e k) = k" "ej_step_ids (decision_job orch f e k) = map rs_id (orch_steps orch e)"
  by (simp_all add: decision_job_def)

text \<open>The execution an approval starts, from the state the decision route leaves.\<close>

lemma approved_execution:
  assumes "gw_reachable lp s" "map_of (gs_faults s) f = Some e"
    and "quiet f (fe_asset_id e) (xe_others env)"
    and "json_codec loads dumps" "k \<noteq> []"
    and "http_clear (fe_asset_id e) (ms_sim m) = (b, w')"
  shows "\<exists>s2 m2. run_remediation mem_ops env shw (lab_execute loads dumps) (decision_job orch f e k)
        (store_publish (lit ''decision'') (decision_event f decision_approved) (store_set_pending_token f k s))
        (approved_state now e f (map rs_id (orch_steps orch e)) k m, ks)
        = (if b then lit ''resolved'' else lit ''error:simulator_clear_failed'', s2, (m2, ks))
     \<and> map_of (gs_faults s2) f = Some (e\<lparr>fe_status := if b then resolved else remediating\<rparr>)
     \<and> map_of (gs_assets s2) (fe_asset_id e) =
        (if b \<and> fe_asset_id e \<noteq> [] then map_option healthy_record (map_of (gs_assets s) (fe_asset_id e))
         else map_of (gs_assets s) (fe_asset_id e))
     \<and> ms_sim m2 = w' \<and> (b \<longrightarrow> sim_fault_of w' (fe_asset_id e) = None)
     \<and> (\<forall>a. a \<noteq> fe_asset_id e \<longrightarrow> sim_fault_of w' a = sim_fault_of (ms_sim m) a)
     \<and> map_option at_consumed (token_get (ms_tokens m2) k) = Some b"
proof -
  let ?ids = "map rs_id (orch_steps orch e)"
  let ?job = "decision_job orch f e k"
  let ?m1 = "approved_state now e f ?ids k m"
  let ?s1 = "store_publish (lit ''decision'') (decision_event f decision_approved) (store_set_pending_token f k s)"
  let ?ts = "if b then token_consume k (ms_tokens ?m1) else ms_tokens ?m1"
  let ?m2 = "?m1\<lparr>ms_tokens := ?ts, ms_sim := w'\<rparr>"
  let ?answer = "if b then exec_result f (map JStr ?ids)
     else JObj [(lit ''status'', JStr (lit ''error'')), (lit ''error'', JStr (lit ''simulator_clear_failed'')),
                (lit ''fault_event_id'', JStr f)]"
  let ?v = "if b then VResolved else VError (lit ''simulator_clear_failed'')"
  note job = decision_job_fields [of orch f e k]
  have ex: "lab_execute loads dumps (ej_fault_id ?job) (ej_token ?job) (ej_step_ids ?job) (?m1, ks) = (Some ?answer, (?m2, ks))"
    unfolding job by (subst lab_execute_approved [OF assms(4-6)]) (simp add: Let_def)
  have v: "?v = verdict shw (Some ?answer)" by (simp add: lab_verdict)
  have q: "quiet (ej_fault_id ?job) (ej_asset_id ?job) (xe_others env)" unfolding job by (rule assms(3))
  have e: "map_of (gs_faults ?s1) (ej_fault_id ?job) = Some e" unfolding job by (simp add: assms(2))
  note run = run_remediation_quiet [where env = env and s = ?s1 and job = ?job and m = "(?m1, ks)" and shw = shw
      and execute = "lab_execute loads dumps" and answer = "Some ?answer" and m' = "(?m2, ks)" and e = e and v = ?v,
      OF q gw_ok_decided [OF gw_reachable_ok [OF assms(1)] assms(2)] e ex v, unfolded job decided_fields]
  then obtain s2 where s2:
    "run_remediation mem_ops env shw (lab_execute loads dumps) ?job ?s1 (?m1, ks) = (exit_value ?v, s2, (?m2, ks))"
    "map_of (gs_faults s2) f = Some (e\<lparr>fe_status := last_status remediating (closing_script ?job ?v)\<rparr>)"
    "map_of (gs_assets s2) (fe_asset_id e) =
       (if SetStatus resolved \<in> set (closing_script ?job ?v) \<and> fe_asset_id e \<noteq> []
        then map_option healthy_record (map_of (gs_assets s) (fe_asset_id e)) else map_of (gs_assets s) (fe_asset_id e))"
    by (elim exE conjE) (rule that)
  have token: "map_option at_consumed (token_get ?ts k) = Some b"
    using approved_state_fields(4) [where now = now and e = e and f = f and ids = ?ids and k = k and m = m]
    by (auto simp: tokens.get_consume)
  have sim: "b \<longrightarrow> sim_fault_of w' (fe_asset_id e) = None"
    "\<forall>a. a \<noteq> fe_asset_id e \<longrightarrow> sim_fault_of w' a = sim_fault_of (ms_sim m) a"
    using assms(6) by (auto dest: sim.clear_ok sim.clear_frame)
  have exit: "exit_value ?v = (if b then lit ''resolved'' else lit ''error:simulator_clear_failed'')"
    by (simp add: exit_value_def flip: lit_append)
  show ?thesis
    by (intro exI [of _ s2] exI [of _ ?m2] conjI)
      (use s2 sim token exit in \<open>auto simp: closing_script_def resolved_script_def error_script_def\<close>)
qed


section \<open>A lab\<close>

instance json :: countable
  by countable_datatype

definition number_dumps :: "json \<Rightarrow> pystr" where
  "number_dumps j = [int (to_nat j)]"

definition number_loads :: "pystr \<Rightarrow> json option" where
  "number_loads t = (case t of [i] \<Rightarrow> Some (from_nat (nat i)) | _ \<Rightarrow> None)"

lemma number_codec: "json_codec number_loads number_dumps"
  by (simp add: json_codec_def number_loads_def number_dumps_def)

text \<open>The fault the gateway knows is in the simulator, and the network delivers everything.\<close>

definition faulty_world :: sim_world where
  "faulty_world = \<lparr>sw_engine = \<lparr>en_scenarios = [(lit ''s1'', demo_scenario)],
     en_faults = [(lit ''gpu-1'', Some (make_fault demo_time (lit ''gpu-1'') (lit ''s1'') demo_scenario))], en_asset_types = []\<rparr>,
     sw_net = [], sw_clock = demo_clock, sw_ticks = 0\<rparr>"

lemma faulty_world_facts:
  "sim_fault_of faulty_world (lit ''gpu-1'') = Some (lit ''s1'')"
  "\<exists>w'. http_clear (lit ''gpu-1'') faulty_world = (True, w')"
  by (simp_all add: sim_fault_of_def get_fault_def faulty_world_def make_fault_def http_clear_def returned_def
      post_clear_def deliver_def clear_fault_def clear_asset_def response_code_def status_ok_def Let_def)


end
