(* ===== verification/Lab_Safety.thy ===== *)
theory Lab_Safety
  imports Lab_System
begin

text \<open>
  The composed lab over time: any gateway requests, any decisions of the operator, and any use of
  the MCP tools by anyone, interleaved. Tokens and fault-event records enter the MCP tools service
  only through the gateway's decision route (its \<open>/internal/\<close> endpoints are for the gateway).
\<close>

text \<open>\<open>lb_approved\<close> is history: the approvals the operator gave, with the asset of the event.\<close>

record system_state =
  lb_gateway :: GatewayStore
  lb_mcp :: mcp_state
  lb_approved :: "(pystr \<times> pystr) list"

inductive system_step :: "LoadedPack \<Rightarrow> system_state \<Rightarrow> system_state \<Rightarrow> bool" for lp where
  gateway: "gw_step lp (lb_gateway x) s' \<Longrightarrow> system_step lp x (x\<lparr>lb_gateway := s'\<rparr>)"
| decide: "map_of (gs_faults (lb_gateway x)) f = Some e \<Longrightarrow> k \<notin> set (ms_issued (lb_mcp x)) \<Longrightarrow>
     post_decision mem_ops orch (lab_client now) f d (lb_gateway x) (lb_mcp x, [k]) = (r, s', (m', ks), job) \<Longrightarrow>
     system_step lp x \<lparr>lb_gateway = s', lb_mcp = m',
       lb_approved = (if d = decision_approved then (f, fe_asset_id e) # lb_approved x else lb_approved x)\<rparr>"
| tools: "mcp_step False (lb_mcp x) m' \<Longrightarrow> ms_issued m' = ms_issued (lb_mcp x) \<Longrightarrow>
     ms_registered m' = ms_registered (lb_mcp x) \<Longrightarrow> system_step lp x (x\<lparr>lb_mcp := m'\<rparr>)"

inductive system_reachable :: "LoadedPack \<Rightarrow> system_state \<Rightarrow> bool" for lp where
  init: "system_reachable lp \<lparr>lb_gateway = gateway_start mem_ops lp redis_url flag store_init,
           lb_mcp = mcp_init w, lb_approved = []\<rparr>"
| step: "system_reachable lp x \<Longrightarrow> system_step lp x y \<Longrightarrow> system_reachable lp y"

definition approval_inv :: "system_state \<Rightarrow> bool" where
  "approval_inv x \<longleftrightarrow> mcp_reachable False (lb_mcp x)
     \<and> (\<forall>rcd \<in> set (ms_registered (lb_mcp x)). (fr_fault_event_id rcd, fr_asset_id rcd) \<in> set (lb_approved x))"

section \<open>Decisions\<close>

lemma decision_on_lab:
  assumes "map_of (gs_faults s) f = Some e"
    and "post_decision mem_ops orch (lab_client now) f d s (m, [k]) = (r, s', (m', ks), job)"
  shows "d = decision_denied \<and> m' = m
    \<or> d = decision_approved \<and> m' = approved_state now e f (map rs_id (orch_steps orch e)) k m"
proof (cases d)
  case decision_approved
  with assms show ?thesis by (simp add: decision_approved_eq mint_for_lab approved_state_def)
next
  case decision_denied
  with assms show ?thesis by (simp add: decision_denied_eq)
qed

lemma approved_state_registered:
  "ms_registered (approved_state now e f ids k m) =
     fst (registry_register f (fe_asset_id e) (fe_scenario_id e) ids (ms_registry m)) # ms_registered m"
  by (simp add: approved_state_def mint_token_eq register_fault_event_eq)

lemma approved_state_reachable:
  assumes "mcp_reachable False m" "k \<notin> set (ms_issued m)"
  shows "mcp_reachable False (approved_state now e f ids k m)"
proof -
  have "mcp_reachable False (snd (register_fault_event f (fe_asset_id e) (fe_scenario_id e) ids m))"
    using assms(1) mcp_step.register by (rule mcp_reachable.step)
  moreover have "k \<notin> set (ms_issued (snd (register_fault_event f (fe_asset_id e) (fe_scenario_id e) ids m)))"
    using assms(2) by (simp add: register_fault_event_eq)
  ultimately show ?thesis
    unfolding approved_state_def by (blast intro: mcp_reachable.step mcp_step.mint)
qed

section \<open>The invariant\<close>

lemma approval_inv_init: "approval_inv \<lparr>lb_gateway = s, lb_mcp = mcp_init w, lb_approved = []\<rparr>"
  by (simp add: approval_inv_def mcp_reachable.init) (simp add: mcp_init_def)

lemma approval_inv_step: "system_step lp x y \<Longrightarrow> approval_inv x \<Longrightarrow> approval_inv y"
proof (induction rule: system_step.induct)
  case (gateway x s')
  then show ?case by (simp add: approval_inv_def)
next
  case (decide x f e k orch now d r s' m' ks job)
  from decision_on_lab [OF decide.hyps(1,3)] decide.prems decide.hyps(2) show ?case
    by (auto simp: approval_inv_def approved_state_registered approved_state_reachable)
next
  case (tools x m')
  then show ?case by (auto simp: approval_inv_def intro: mcp_reachable.step)
qed

lemma system_reachable_inv: "system_reachable lp x \<Longrightarrow> approval_inv x"
  by (induction rule: system_reachable.induct) (auto intro: approval_inv_init approval_inv_step)

text \<open>An execution in flight is covered by an approval of the operator for the asset it clears.\<close>

lemma call_approved:
  assumes "approval_inv x" "c \<in> set (ms_calls (lb_mcp x))"
  shows "(ec_fault c, fr_asset_id (ec_record c)) \<in> set (lb_approved x)"
proof -
  have "mcp_inv (lb_mcp x)" using assms(1) reachable_mcp_inv by (auto simp: approval_inv_def)
  with assms(2) have "ec_record c \<in> set (ms_registered (lb_mcp x))" "fr_fault_event_id (ec_record c) = ec_fault c"
    by (auto simp: mcp_inv_def covered_def)
  with assms(1) show ?thesis by (auto simp: approval_inv_def)
qed

text \<open>Only the clear of an execution in flight takes a fault out of the simulator.\<close>

lemma tools_repair:
  assumes "mcp_step False m m'" "sim_fault_of (ms_sim m) a \<noteq> None" "sim_fault_of (ms_sim m') a = None"
  shows "\<exists>c \<in> set (ms_calls m). fr_asset_id (ec_record c) = a"
  using assms
proof (induction rule: mcp_step.induct)
  case (clear c s b w')
  have "fr_asset_id (ec_record c) = a"
  proof (rule ccontr)
    assume "fr_asset_id (ec_record c) \<noteq> a"
    with sim.clear_frame [OF clear.hyps(3)] clear.prems show False by auto
  qed
  with clear.hyps show ?case by blast
next
  case (inject a' sid s b w')
  with sim.inject_only [OF inject.hyps, of a] show ?case by auto
qed (simp_all add: mint_token_eq register_fault_event_eq finish_call_eq reset_state_def split: if_splits)

text \<open>
  No repair without a human. In the composed lab, whatever requests and tool calls are
  interleaved, with any tokens and in any order, a fault disappears from the simulator only if the
  operator approved, at the dashboard, a fault event of that very asset. (The orchestrator's own
  clean-up before an injection is not a tool call and is treated in \<open>Orchestrator\<close>.)
\<close>

theorem repairs_were_approved:
  assumes "system_reachable lp x" and "system_step lp x y"
    and "sim_fault_of (ms_sim (lb_mcp x)) a \<noteq> None" and "sim_fault_of (ms_sim (lb_mcp y)) a = None"
  shows "\<exists>f. (f, a) \<in> set (lb_approved x)"
  using assms(2-4)
proof (cases rule: system_step.cases)
  case (decide f e k orch now d r s' m' ks job)
  from decision_on_lab [OF decide(2,4)] decide(1) assms(3,4) show ?thesis by (auto simp: approved_state_fields)
next
  case (tools m')
  with assms(3,4) tools_repair [of "lb_mcp x" m' a] obtain c where
    "c \<in> set (ms_calls (lb_mcp x))" "fr_asset_id (ec_record c) = a" by auto
  with call_approved [OF system_reachable_inv [OF assms(1)], of c] show ?thesis by auto
qed simp

section \<open>A run\<close>

text \<open>One fault, detected, approved, and an execution about to clear it.\<close>

definition lab_event :: FaultEvent where
  "lab_event = new_fault_event demo_pack (lit ''f1'') demo_time demo_request"

definition lab_mcp_approved :: mcp_state where
  "lab_mcp_approved = approved_state demo_time lab_event (lit ''f1'') [lit ''drain''] (lit ''tok'') (mcp_init faulty_world)"

definition lab_record :: FaultEventRecord where
  "lab_record = fst (registry_register (lit ''f1'') (lit ''gpu-1'') (fe_scenario_id lab_event) [lit ''drain''] [])"

definition lab_executing :: mcp_state where
  "lab_executing = lab_mcp_approved\<lparr>ms_calls := [begin_call (lit ''f1'') (lit ''tok'') lab_record [JStr (lit ''drain'')]]\<rparr>"

lemma lab_event_asset: "fe_asset_id lab_event = lit ''gpu-1''"
  by (simp add: lab_event_def new_fault_event_def demo_request_def Let_def)

lemma lab_begins:
  "mcp_step False lab_mcp_approved lab_executing"
  "ms_issued lab_executing = ms_issued lab_mcp_approved" "ms_registered lab_executing = ms_registered lab_mcp_approved"
proof -
  have "exec_check (lit ''f1'') (Some (lit ''tok'')) (JArr [JStr (lit ''drain'')]) (ms_tokens lab_mcp_approved)
      (ms_registry lab_mcp_approved) = Inr (lab_record, [JStr (lit ''drain'')])"
    using approved_check [of "lit ''tok''" "lit ''f1''" "[lit ''drain'']" demo_time lab_event "mcp_init faulty_world"]
    by (simp add: lab_mcp_approved_def lab_record_def lab_event_asset) (simp add: mcp_init_def)
  from mcp_step.start [OF this, of False] show "mcp_step False lab_mcp_approved lab_executing"
    by (simp add: lab_executing_def lab_mcp_approved_def approved_state_def mint_token_eq register_fault_event_eq mcp_init_def)
qed (simp_all add: lab_executing_def)

lemma lab_executing_sim: "ms_sim lab_executing = faulty_world"
  by (simp add: lab_executing_def lab_mcp_approved_def approved_state_fields) (simp add: mcp_init_def)

lemma lab_executing_fault: "sim_fault_of (ms_sim lab_executing) (lit ''gpu-1'') \<noteq> None"
  using faulty_world_facts(1) by (simp add: lab_executing_sim)

lemma lab_clears:
  "\<exists>m'. mcp_step False lab_executing m' \<and> ms_issued m' = ms_issued lab_executing
     \<and> ms_registered m' = ms_registered lab_executing \<and> sim_fault_of (ms_sim m') (lit ''gpu-1'') = None"
proof -
  let ?c = "begin_call (lit ''f1'') (lit ''tok'') lab_record [JStr (lit ''drain'')]"
  have c: "?c \<in> set (ms_calls lab_executing)" "ec_answer ?c = None" "fr_asset_id (ec_record ?c) = lit ''gpu-1''"
    by (simp_all add: lab_executing_def begin_call_def lab_record_def)
  obtain w' where w': "http_clear (lit ''gpu-1'') faulty_world = (True, w')" using faulty_world_facts(2) by blast
  let ?m = "lab_executing\<lparr>ms_sim := w', ms_calls := (?c\<lparr>ec_answer := Some True\<rparr>) # remove1 ?c (ms_calls lab_executing)\<rparr>"
  have "mcp_step False lab_executing ?m"
    using mcp_step.clear [where c = ?c and s = lab_executing and b = True and w' = w' and serial = False] c w'
    by (simp add: lab_executing_sim)
  with sim.clear_ok [OF w'] show ?thesis by (intro exI [of _ ?m]) simp
qed

lemma lab_run:
  "\<exists>s'. system_reachable demo_pack \<lparr>lb_gateway = s', lb_mcp = lab_executing, lb_approved = [(lit ''f1'', lit ''gpu-1'')]\<rparr>"
proof -
  have none: "map_of (gs_faults demo_gateway) (lit ''f1'') = None" by (simp add: demo_gateway_def start_faults)
  have "system_reachable demo_pack \<lparr>lb_gateway = demo_gateway, lb_mcp = mcp_init faulty_world, lb_approved = []\<rparr>"
    unfolding demo_gateway_def by (rule system_reachable.init)
  from system_reachable.step [OF this system_step.gateway] gw_step.create [OF none]
  have x: "system_reachable demo_pack \<lparr>lb_gateway = demo_detected, lb_mcp = mcp_init faulty_world, lb_approved = []\<rparr>"
    (is "system_reachable _ ?x") unfolding demo_detected_def by fastforce
  have e: "map_of (gs_faults (lb_gateway ?x)) (lit ''f1'') = Some lab_event"
    by (simp add: demo_detected_state lab_event_def)
  have fresh: "lit ''tok'' \<notin> set (ms_issued (lb_mcp ?x))" by (simp add: mcp_init_def)
  have ids: "map rs_id (orch_steps demo_orch_steps lab_event) = [lit ''drain'']"
    by (simp add: orch_steps_def demo_orch_steps_def)
  obtain s' job where d: "post_decision mem_ops demo_orch_steps (lab_client demo_time) (lit ''f1'') decision_approved
      (lb_gateway ?x) (lb_mcp ?x, [lit ''tok'']) = (Inr (approved_answer (lit ''f1'')), s', (lab_mcp_approved, []), job)"
    using decision_approved_eq [OF e, of demo_orch_steps "lab_client demo_time" "(lb_mcp ?x, [lit ''tok''])"]
    by (simp add: mint_for_lab ids lab_mcp_approved_def approved_state_def)
  from system_reachable.step [OF x system_step.decide [OF e fresh d]]
  have y: "system_reachable demo_pack \<lparr>lb_gateway = s', lb_mcp = lab_mcp_approved, lb_approved = [(lit ''f1'', lit ''gpu-1'')]\<rparr>"
    (is "system_reachable _ ?y") by (simp add: lab_event_asset)
  from system_reachable.step [OF y system_step.tools [of ?y lab_executing]] lab_begins show ?thesis by auto
qed

theorem repairs_were_approved_witness:
  "\<exists>x y. system_reachable demo_pack x \<and> system_step demo_pack x y
     \<and> sim_fault_of (ms_sim (lb_mcp x)) (lit ''gpu-1'') \<noteq> None \<and> sim_fault_of (ms_sim (lb_mcp y)) (lit ''gpu-1'') = None
     \<and> (\<exists>f. (f, lit ''gpu-1'') \<in> set (lb_approved x))"
proof -
  obtain s' where x: "system_reachable demo_pack \<lparr>lb_gateway = s', lb_mcp = lab_executing, lb_approved = [(lit ''f1'', lit ''gpu-1'')]\<rparr>"
    (is "system_reachable _ ?x") using lab_run by blast
  obtain m' where m': "mcp_step False lab_executing m'" "ms_issued m' = ms_issued lab_executing"
      "ms_registered m' = ms_registered lab_executing" "sim_fault_of (ms_sim m') (lit ''gpu-1'') = None"
    using lab_clears by blast
  then have step: "system_step demo_pack ?x (?x\<lparr>lb_mcp := m'\<rparr>)" by (intro system_step.tools) simp_all
  have before: "sim_fault_of (ms_sim (lb_mcp ?x)) (lit ''gpu-1'') \<noteq> None" by (simp add: lab_executing_fault)
  have after: "sim_fault_of (ms_sim (lb_mcp (?x\<lparr>lb_mcp := m'\<rparr>))) (lit ''gpu-1'') = None" using m'(4) by simp
  show ?thesis using x step before after repairs_were_approved [OF x step before after] by blast
qed

end
