(* ===== verification/Py_Values.thy ===== *)
theory Py_Values
  imports Py_Text
begin

text \<open>
  More of Python's built-ins: \<open>os.environ\<close>, \<open>int(str)\<close>, \<open>str.partition\<close>, \<open>str.lower\<close> (on the
  letters the sources compare with; no other character has one of them as its lower case),
  \<open>re.fullmatch\<close> of \<open>[...]+\<close>, \<open>secrets.compare_digest\<close> on strings.
\<close>

section \<open>The environment\<close>

type_synonym environ = "pystr dict"

text \<open>\<open>os.environ.get(name)\<close> and \<open>os.environ.get(name, default)\<close>\<close>

definition getenv :: "environ \<Rightarrow> string \<Rightarrow> pystr option" where
  "getenv env name = map_of env (lit name)"

definition getenv_or :: "environ \<Rightarrow> string \<Rightarrow> pystr \<Rightarrow> pystr" where
  "getenv_or env name dflt = (case getenv env name of None \<Rightarrow> dflt | Some v \<Rightarrow> v)"

section \<open>Numbers\<close>

text \<open>
  \<open>int(s)\<close> on a string whose digits are ASCII: white space around, a sign, digits that single
  underscores may separate. \<open>None\<close> is \<open>ValueError\<close>.
\<close>

fun digits_int :: "int \<Rightarrow> pystr \<Rightarrow> int option" where
  "digits_int acc [] = Some acc"
| "digits_int acc (c # s) =
     (if is_digit c then digits_int (acc * 10 + (c - 48)) s
      else if c = 95 \<and> s \<noteq> [] \<and> is_digit (hd s) then digits_int acc s
      else None)"

definition unsigned_int :: "pystr \<Rightarrow> int option" where
  "unsigned_int s = (if s \<noteq> [] \<and> is_digit (hd s) then digits_int 0 s else None)"

definition py_int :: "pystr \<Rightarrow> int option" where
  "py_int s =
     (case strip s of
        [] \<Rightarrow> None
      | c # t \<Rightarrow> if c = 45 then map_option uminus (unsigned_int t)
                 else if c = 43 then unsigned_int t
                 else unsigned_int (c # t))"

section \<open>Text\<close>

definition lower_char :: "int \<Rightarrow> int" where
  "lower_char c = (if 65 \<le> c \<and> c \<le> 90 then c + 32 else c)"

definition lower :: "pystr \<Rightarrow> pystr" where
  "lower s = map lower_char s"

text \<open>\<open>s.partition(sep)\<close> for a one-character separator: the parts before and after the first one.\<close>

definition partition_at :: "int \<Rightarrow> pystr \<Rightarrow> pystr \<times> pystr" where
  "partition_at c s = (takeWhile (\<lambda>d. d \<noteq> c) s, tl (dropWhile (\<lambda>d. d \<noteq> c) s))"

lemma partition_at_split: "c \<notin> set a \<Longrightarrow> partition_at c (a @ [c] @ b) = (a, b)"
  unfolding partition_at_def by (subst takeWhile_append2, blast, subst dropWhile_append2, blast) simp

text \<open>\<open>re.compile("^[...]+$").fullmatch(s)\<close>\<close>

definition fullmatch_class :: "(int \<Rightarrow> bool) \<Rightarrow> pystr \<Rightarrow> bool" where
  "fullmatch_class P s \<longleftrightarrow> s \<noteq> [] \<and> list_all P s"

definition is_ascii :: "pystr \<Rightarrow> bool" where
  "is_ascii s \<longleftrightarrow> list_all (\<lambda>c. c < 128) s"

text \<open>\<open>compare_digest(a, b)\<close> raises \<open>TypeError\<close> (here \<open>None\<close>) on a string that is not ASCII.\<close>

definition compare_digest :: "pystr \<Rightarrow> pystr \<Rightarrow> bool option" where
  "compare_digest a b = (if is_ascii a \<and> is_ascii b then Some (a = b) else None)"

text \<open>\<open>s.rsplit("/", 1)[0]\<close> of an address that ends in a path segment.\<close>

lemma before_last_segment: "47 \<notin> set b \<Longrightarrow> before_last 47 (a @ 47 # b) = a"
  using before_last_notin [of 47 b a] by simp

lemma rstrip_chars_id: "s = [] \<or> last s \<notin> set cs \<Longrightarrow> rstrip_chars cs s = s"
  by (cases s rule: rev_cases) (auto simp: rstrip_chars_def rstrip_by_def)

end
