(* ===== verification/Gw_Health.thy ===== *)
theory Gw_Health
  imports Gw_Router Py_Values
begin

text \<open>
  The two health probes of \<open>services/gateway/router.py\<close>. \<open>health_net\<close> is what the hosts answer:
  \<open>Inl\<close> the class name of an \<open>httpx.HTTPError\<close>, or a status code. The inference proxy may be
  asked twice, so its answers depend on the attempt and carry the header \<open>Retry-After\<close>.
\<close>

section \<open>Checks\<close>

record health_check =
  hc_id :: pystr
  hc_name :: pystr
  hc_status :: pystr
  hc_detail :: pystr

definition check :: "string \<Rightarrow> string \<Rightarrow> string \<Rightarrow> pystr \<Rightarrow> health_check" where
  "check cid name status detail =
     \<lparr>hc_id = lit cid, hc_name = lit name, hc_status = lit status, hc_detail = detail\<rparr>"

record health_net =
  hn_get :: "pystr \<Rightarrow> pystr + nat"
  hn_post :: "pystr \<Rightarrow> pystr + nat"
  hn_llm :: "nat \<Rightarrow> pystr + nat \<times> pystr option"

text \<open>The dash that sets off a hint.\<close>

definition dash :: pystr where
  "dash = [32, 8212, 32]"

definition service_check :: "health_net \<Rightarrow> string \<times> string \<times> pystr \<Rightarrow> health_check" where
  "service_check net svc =
     (case svc of (cid, name, base) \<Rightarrow>
       (case hn_get net (rstrip_chars (lit ''/'') base @ lit ''/healthz'') of
          Inr code \<Rightarrow> check cid name (if code = 200 then ''ok'' else ''fail'')
                       (base @ lit ''/healthz -> '' @ str_of_nat code)
        | Inl exc \<Rightarrow> check cid name ''fail'' (base @ lit ''/healthz unreachable ('' @ exc @ lit '')'')))"

definition services :: "environ \<Rightarrow> (string \<times> string \<times> pystr) list" where
  "services env =
     [(''orchestrator'', ''Orchestrator'', getenv_or env ''ORCHESTRATOR_URL'' (lit ''http://orchestrator:8002'')),
      (''simulator'', ''Simulator'', getenv_or env ''SIMULATOR_URL'' (lit ''http://simulator:8003'')),
      (''mcp-tools'', ''MCP tools'', getenv_or env ''MCP_TOOLS_URL'' (lit ''http://mcp-tools:8004''))]"

section \<open>The inference proxy\<close>

text \<open>
  The loop over the attempts: the last response, the last exception and the attempt it ended
  with. A first answer 429 is retried after a sleep that reads \<open>Retry-After\<close> with \<open>int\<close>.
\<close>

fun llm_attempts ::
  "(nat \<Rightarrow> pystr + nat \<times> pystr option) \<Rightarrow> nat list \<Rightarrow> nat option \<Rightarrow> pystr \<Rightarrow> nat
     \<Rightarrow> gw_exn + nat option \<times> pystr \<times> nat" where
  "llm_attempts reply [] r last_ex attempt = Inr (r, last_ex, attempt)"
| "llm_attempts reply (n # ns) r last_ex attempt =
     (case reply n of
        Inl exc \<Rightarrow> llm_attempts reply ns r exc n
      | Inr (code, retry_after) \<Rightarrow>
          if code = 429 \<and> n = 1
          then (case (case retry_after of None \<Rightarrow> Some 2 | Some h \<Rightarrow> py_int h) of
                  None \<Rightarrow> Inl GwValueError
                | Some wait \<Rightarrow> llm_attempts reply ns (Some code) last_ex n)
          else Inr (Some code, last_ex, n))"

definition llm_name :: string where
  "llm_name = ''Agent LLM route (inference proxy)''"

definition llm_status :: "pystr \<Rightarrow> nat \<Rightarrow> nat \<Rightarrow> string \<times> pystr" where
  "llm_status probe code attempt =
     (if 200 \<le> code \<and> code < 300
      then (''ok'', probe @ lit '' -> '' @ str_of_nat code
             @ (if 1 < attempt then lit '' (retried after 429)'' else []))
      else if code = 429
      then (''ok'', probe @ lit '' -> 429 (rate-limited, but auth and route are good)'')
      else if code = 401 \<or> code = 403
      then (''fail'', probe @ lit '' -> '' @ str_of_nat code @ dash
             @ lit ''key rejected; check LLM_API_KEY and the proxy's Bearer -> x-api-key rewrite (`make doctor`)'')
      else if code = 404
      then (''fail'', probe @ lit '' -> 404'' @ dash
             @ lit ''endpoint has no such model; check LLM_MODEL in .env and the sandbox's openclaw.json (`make repoint-llm`)'')
      else (''fail'', probe @ lit '' -> '' @ str_of_nat code))"

definition llm_restart :: pystr where
  "llm_restart = dash @ lit ''`sudo systemctl restart nginx` / `make doctor`''"

definition llm_keyed :: "pystr \<Rightarrow> health_net \<Rightarrow> gw_exn + health_check" where
  "llm_keyed probe net =
     bind_res (llm_attempts (hn_llm net) [1, 2] None [] 0) (\<lambda>(r, last_ex, attempt).
       case r of
         Some code \<Rightarrow> (let (status, detail) = llm_status probe code attempt
                       in Inr (check ''inference-proxy'' llm_name status detail))
       | None \<Rightarrow> Inr (check ''inference-proxy'' llm_name ''fail''
                   (probe @ lit '' unreachable ('' @ last_ex @ lit '') after retry'' @ llm_restart)))"

definition llm_unkeyed :: "pystr \<Rightarrow> health_net \<Rightarrow> health_check" where
  "llm_unkeyed probe net =
     (case hn_llm net 1 of
        Inr (code, _) \<Rightarrow> check ''inference-proxy'' llm_name ''skip''
          (probe @ lit '' -> '' @ str_of_nat code @ dash
             @ lit ''LLM_API_KEY unset in the gateway; run `make doctor` on the host'')
      | Inl exc \<Rightarrow> check ''inference-proxy'' llm_name ''fail''
          (probe @ lit '' unreachable ('' @ exc @ lit '')'' @ llm_restart))"

definition llm_check :: "environ \<Rightarrow> health_net \<Rightarrow> gw_exn + health_check" where
  "llm_check env net =
     (let probe = lit ''http://host.docker.internal:'' @ getenv_or env ''LLM_PROXY_PORT'' (lit ''18100'') @ lit ''/v1/models''
      in if getenv_or env ''LLM_DIRECT'' [] = lit ''1''
         then Inr (check ''inference-proxy'' llm_name ''skip''
                (lit ''LLM_DIRECT=1'' @ dash @ lit ''sandbox talks to the endpoint directly; check it with `make doctor` on the host''))
         else if getenv_or env ''LLM_API_KEY'' [] \<noteq> [] then llm_keyed probe net
         else Inr (llm_unkeyed probe net))"

section \<open>The wake hook and the terminal daemon\<close>

definition wake_check :: "environ \<Rightarrow> health_net \<Rightarrow> health_check" where
  "wake_check env net =
     (let hook_url = getenv_or env ''OPENCLAW_HOOK_URL'' [] in
      if hook_url = []
      then check ''wake-hook'' ''Agent wake hook'' ''skip''
             (lit ''OPENCLAW_HOOK_URL unset'' @ dash @ lit ''webhook wake-up off (cron-only)'')
      else (case hn_post net (rstrip_chars (lit ''/'') hook_url @ lit ''/hooks/wake'') of
              Inr code \<Rightarrow> check ''wake-hook'' ''Agent wake hook'' (if code = 401 then ''ok'' else ''fail'')
                (lit ''POST /hooks/wake -> '' @ str_of_nat code @ lit '' (want 401)'')
            | Inl exc \<Rightarrow> check ''wake-hook'' ''Agent wake hook'' ''fail''
                (hook_url @ lit ''/hooks/wake unreachable ('' @ exc @ lit '')'' @ dash
                   @ lit ''`nemoclaw <sandbox> recover` + `make hook-relay`'')))"

definition http_scheme :: "pystr \<Rightarrow> pystr" where
  "http_scheme url = replace (lit ''ws://'') (lit ''http://'') (replace (lit ''wss://'') (lit ''https://'') url)"

definition terminal_check :: "environ \<Rightarrow> health_net \<Rightarrow> health_check" where
  "terminal_check env net =
     (let term_ws = getenv_or env ''TERMINAL_WS_URL'' []; base_http = before_last 47 (http_scheme term_ws) in
      if term_ws \<noteq> [] \<and> getenv_or env ''TERMINAL_ENABLED'' [] \<noteq> lit ''0''
      then (case hn_get net (base_http @ lit ''/healthz'') of
              Inr code \<Rightarrow> check ''terminal'' ''Terminal daemon'' (if code = 200 then ''ok'' else ''fail'')
                (base_http @ lit ''/healthz -> '' @ str_of_nat code)
            | Inl exc \<Rightarrow> check ''terminal'' ''Terminal daemon'' ''fail''
                (base_http @ lit ''/healthz unreachable ('' @ exc @ lit '')'' @ dash
                   @ lit ''`make terminal` / `make doctor-fix`''))
      else check ''terminal'' ''Terminal daemon'' ''skip'' (lit ''terminal feature off''))"

section \<open>The routes\<close>

definition check_json :: "health_check \<Rightarrow> json" where
  "check_json c = JObj [(lit ''id'', JStr (hc_id c)), (lit ''name'', JStr (hc_name c)),
     (lit ''status'', JStr (hc_status c)), (lit ''detail'', JStr (hc_detail c))]"

definition health_checks :: "environ \<Rightarrow> health_net \<Rightarrow> gw_exn + health_check list" where
  "health_checks env net =
     bind_res (llm_check env net) (\<lambda>llm.
       Inr (map (service_check net) (services env) @ [llm, wake_check env net, terminal_check env net]))"

definition all_healthy :: "health_check list \<Rightarrow> bool" where
  "all_healthy checks \<longleftrightarrow> \<not> (\<exists>c \<in> set checks. hc_status c = lit ''fail'')"

definition lab_health :: "environ \<Rightarrow> health_net \<Rightarrow> datetime \<Rightarrow> gw_exn + json" where
  "lab_health env net now =
     bind_res (health_checks env net) (\<lambda>checks.
       Inr (JObj [(lit ''healthy'', JBool (all_healthy checks)), (lit ''checked_at'', JStr (isoformat now)),
                  (lit ''checks'', JArr (map check_json checks))]))"

definition hook_configured :: "environ \<Rightarrow> health_net \<Rightarrow> bool \<times> pystr" where
  "hook_configured env net =
     (let hook_url = getenv_or env ''OPENCLAW_HOOK_URL'' [] in
      if hook_url = []
      then (False, lit ''OPENCLAW_HOOK_URL unset'' @ dash @ lit ''onboarding incomplete (make bootstrap)'')
      else (case hn_post net (rstrip_chars (lit ''/'') hook_url @ lit ''/hooks/wake'') of
              Inr code \<Rightarrow> if code = 401 then (True, lit ''wake hook auth alive (401 on bad token)'')
                          else (False, lit ''POST /hooks/wake -> '' @ str_of_nat code @ lit '' (want 401)''
                                  @ dash @ lit ''hooks not wired'')
            | Inl exc \<Rightarrow> (False, lit ''wake hook unreachable ('' @ exc @ lit '')'' @ dash
                                  @ lit ''no agent, or relay/forward dead'')))"

definition agent_status :: "'s store_ops \<Rightarrow> environ \<Rightarrow> health_net \<Rightarrow> 's \<Rightarrow> json" where
  "agent_status st env net s =
     (let (configured, detail) = hook_configured env net; evts = op_list_activity_events st s
      in JObj [(lit ''configured'', JBool configured), (lit ''detail'', JStr detail),
           (lit ''last_activity_ts'',
             if evts = [] then JNull else JStr (isoformat (Max (set (map ac_ts evts)))))])"

section \<open>What the verdict means\<close>

text \<open>The answer the inference check judges, after at most one retry.\<close>

definition final_answer :: "(nat \<Rightarrow> pystr + nat \<times> pystr option) \<Rightarrow> nat option" where
  "final_answer reply =
     (case (reply 1, reply 2) of
        (Inr (code, _), Inl _) \<Rightarrow> Some code
      | (Inr (code, _), Inr (code', _)) \<Rightarrow> Some (if code = 429 then code' else code)
      | (Inl _, Inr (code', _)) \<Rightarrow> Some code'
      | (Inl _, Inl _) \<Rightarrow> None)"

definition bad_retry_after :: "(nat \<Rightarrow> pystr + nat \<times> pystr option) \<Rightarrow> bool" where
  "bad_retry_after reply \<longleftrightarrow>
     (case reply 1 of Inr (code, Some h) \<Rightarrow> code = 429 \<and> py_int h = None | _ \<Rightarrow> False)"

lemma llm_attempts_result:
  "llm_attempts reply [1, 2] None [] 0 = Inl e \<longleftrightarrow> e = GwValueError \<and> bad_retry_after reply"
  "llm_attempts reply [1, 2] None [] 0 = Inr (r, exc, n) \<Longrightarrow> r = final_answer reply"
  by (auto simp: final_answer_def bad_retry_after_def split: sum.splits option.splits prod.splits if_splits)

lemma hc_status_check [simp]: "hc_status (check cid name status detail) = lit status"
  by (simp add: check_def)

lemma service_fails: "hc_status (service_check net (cid, name, base)) = lit ''fail''
    \<longleftrightarrow> hn_get net (rstrip_chars (lit ''/'') base @ lit ''/healthz'') \<noteq> Inr 200"
  by (auto simp: service_check_def split: sum.splits)

lemma wake_fails: "hc_status (wake_check env net) = lit ''fail'' \<longleftrightarrow>
    getenv_or env ''OPENCLAW_HOOK_URL'' [] \<noteq> []
    \<and> hn_post net (rstrip_chars (lit ''/'') (getenv_or env ''OPENCLAW_HOOK_URL'' []) @ lit ''/hooks/wake'') \<noteq> Inr 401"
  by (auto simp: wake_check_def Let_def split: sum.splits)

lemma terminal_fails: "hc_status (terminal_check env net) = lit ''fail'' \<longleftrightarrow>
    getenv_or env ''TERMINAL_WS_URL'' [] \<noteq> [] \<and> getenv_or env ''TERMINAL_ENABLED'' [] \<noteq> lit ''0''
    \<and> hn_get net (before_last 47 (http_scheme (getenv_or env ''TERMINAL_WS_URL'' [])) @ lit ''/healthz'') \<noteq> Inr 200"
  by (auto simp: terminal_check_def Let_def split: sum.splits)

definition llm_accepts :: "environ \<Rightarrow> health_net \<Rightarrow> bool" where
  "llm_accepts env net \<longleftrightarrow>
     (if getenv_or env ''LLM_DIRECT'' [] = lit ''1'' then True
      else if getenv_or env ''LLM_API_KEY'' [] = [] then (\<exists>a. hn_llm net 1 = Inr a)
      else (\<exists>code. final_answer (hn_llm net) = Some code \<and> (200 \<le> code \<and> code < 300 \<or> code = 429)))"

lemma llm_status_fails: "fst (llm_status probe code n) = ''fail'' \<longleftrightarrow> \<not> (200 \<le> code \<and> code < 300 \<or> code = 429)"
  by (auto simp: llm_status_def)

lemma llm_keyed_fails:
  assumes "llm_keyed probe net = Inr c"
  shows "hc_status c = lit ''fail'' \<longleftrightarrow>
    \<not> (\<exists>code. final_answer (hn_llm net) = Some code \<and> (200 \<le> code \<and> code < 300 \<or> code = 429))"
proof -
  from assms obtain r exc n where a: "llm_attempts (hn_llm net) [1, 2] None [] 0 = Inr (r, exc, n)"
    unfolding llm_keyed_def bind_res_eq_Inr by auto
  note r = llm_attempts_result(2) [OF a]
  show ?thesis
  proof (cases r)
    case None
    with assms a r show ?thesis by (auto simp: llm_keyed_def simp del: llm_attempts.simps)
  next
    case (Some code)
    with assms a have "hc_status c = lit (fst (llm_status probe code n))"
      by (auto simp: llm_keyed_def case_prod_beta simp del: llm_attempts.simps)
    with Some r show ?thesis by (simp add: llm_status_fails)
  qed
qed

lemma llm_unkeyed_fails: "hc_status (llm_unkeyed probe net) = lit ''fail'' \<longleftrightarrow> \<not> (\<exists>a. hn_llm net 1 = Inr a)"
  by (auto simp: llm_unkeyed_def split: sum.splits)

lemma llm_fails: "llm_check env net = Inr c \<Longrightarrow> hc_status c = lit ''fail'' \<longleftrightarrow> \<not> llm_accepts env net"
  using llm_keyed_fails llm_unkeyed_fails
  by (auto simp: llm_check_def Let_def llm_accepts_def split: if_splits)

lemma llm_keyed_raises: "llm_keyed probe net = Inl e \<longleftrightarrow> llm_attempts (hn_llm net) [1, 2] None [] 0 = Inl e"
  by (auto simp: llm_keyed_def bind_res_def case_prod_beta simp del: llm_attempts.simps split: sum.splits option.splits)

text \<open>
  C36: The lab is reported healthy exactly when the three services answer 200 on \<open>/healthz\<close>, the
  inference route is accepted (2xx or a final 429 when a key is set, after at most one retry; any
  answer without a key; not asked with \<open>LLM_DIRECT=1\<close>), a configured wake hook refuses the bad
  token with 401, and a configured terminal daemon answers 200. In particular a rejected key (401,
  403) or an unknown model (404) is never reported healthy.
\<close>

theorem lab_health_verdict:
  assumes "lab_health env net now = Inr j"
  shows "jget j (lit ''healthy'') JNull = Some (JBool
     ((\<forall>(cid, name, base) \<in> set (services env). hn_get net (rstrip_chars (lit ''/'') base @ lit ''/healthz'') = Inr 200)
      \<and> llm_accepts env net
      \<and> (getenv_or env ''OPENCLAW_HOOK_URL'' [] = []
          \<or> hn_post net (rstrip_chars (lit ''/'') (getenv_or env ''OPENCLAW_HOOK_URL'' []) @ lit ''/hooks/wake'') = Inr 401)
      \<and> (getenv_or env ''TERMINAL_WS_URL'' [] = [] \<or> getenv_or env ''TERMINAL_ENABLED'' [] = lit ''0''
          \<or> hn_get net (before_last 47 (http_scheme (getenv_or env ''TERMINAL_WS_URL'' [])) @ lit ''/healthz'') = Inr 200)))"
proof -
  from assms obtain checks where checks: "health_checks env net = Inr checks"
    and j: "jget j (lit ''healthy'') JNull = Some (JBool (all_healthy checks))"
    by (auto simp: lab_health_def bind_res_eq_Inr)
  from checks obtain llm where llm: "llm_check env net = Inr llm"
    and cs: "checks = map (service_check net) (services env) @ [llm, wake_check env net, terminal_check env net]"
    by (auto simp: health_checks_def bind_res_eq_Inr)
  have svc: "(\<exists>x \<in> set (services env). hc_status (service_check net x) = lit ''fail'')
      \<longleftrightarrow> \<not> (\<forall>(cid, name, base) \<in> set (services env). hn_get net (rstrip_chars (lit ''/'') base @ lit ''/healthz'') = Inr 200)"
    by (force simp: service_fails)
  have "all_healthy checks \<longleftrightarrow> \<not> (\<exists>x \<in> set (services env). hc_status (service_check net x) = lit ''fail'')
      \<and> hc_status llm \<noteq> lit ''fail'' \<and> hc_status (wake_check env net) \<noteq> lit ''fail''
      \<and> hc_status (terminal_check env net) \<noteq> lit ''fail''"
    by (auto simp: all_healthy_def cs)
  then show ?thesis
    unfolding j svc llm_fails [OF llm] wake_fails terminal_fails by blast
qed

definition quiet_net :: "nat \<Rightarrow> health_net" where
  "quiet_net code = \<lparr>hn_get = (\<lambda>_. Inr 200), hn_post = (\<lambda>_. Inr 401), hn_llm = (\<lambda>_. Inr (code, None))\<rparr>"

definition keyed_env :: environ where
  "keyed_env = [(lit ''LLM_API_KEY'', lit ''k''), (lit ''OPENCLAW_HOOK_URL'', lit ''http://h'')]"

definition probe_time :: datetime where
  "probe_time = DateTime 2026 10 21 7 28 0 0"

lemma quiet_health: "\<exists>j. lab_health keyed_env (quiet_net code) now = Inr j"
proof -
  have "\<not> bad_retry_after (hn_llm (quiet_net code))" by (simp add: bad_retry_after_def quiet_net_def)
  then obtain x where "llm_attempts (hn_llm (quiet_net code)) [1, 2] None [] 0 = Inr x"
    using llm_attempts_result(1) [of "hn_llm (quiet_net code)"] by (cases "llm_attempts (hn_llm (quiet_net code)) [1, 2] None [] 0") auto
  then have "llm_keyed probe (quiet_net code) \<noteq> Inl e" for probe e
    by (simp add: llm_keyed_raises del: llm_attempts.simps)
  then have "\<exists>c. llm_keyed probe (quiet_net code) = Inr c" for probe
    by (cases "llm_keyed probe (quiet_net code)") auto
  then have "\<exists>c. llm_check keyed_env (quiet_net code) = Inr c"
    by (simp add: llm_check_def Let_def keyed_env_def getenv_or_def getenv_def)
  then show ?thesis by (auto simp: lab_health_def health_checks_def)
qed

theorem lab_health_verdict_witness:
  "(\<exists>j. lab_health keyed_env (quiet_net 200) probe_time = Inr j \<and> jget j (lit ''healthy'') JNull = Some (JBool True))
   \<and> (\<exists>j. lab_health keyed_env (quiet_net 401) probe_time = Inr j \<and> jget j (lit ''healthy'') JNull = Some (JBool False))"
proof -
  obtain j where j: "lab_health keyed_env (quiet_net 200) probe_time = Inr j" using quiet_health by blast
  obtain k where k: "lab_health keyed_env (quiet_net 401) probe_time = Inr k" using quiet_health by blast
  have "jget j (lit ''healthy'') JNull = Some (JBool True)"
    using lab_health_verdict [OF j]
    by (simp add: quiet_net_def keyed_env_def getenv_or_def getenv_def llm_accepts_def final_answer_def case_prod_beta)
  moreover have "jget k (lit ''healthy'') JNull = Some (JBool False)"
    using lab_health_verdict [OF k]
    by (simp add: quiet_net_def keyed_env_def getenv_or_def getenv_def llm_accepts_def final_answer_def case_prod_beta)
  ultimately show ?thesis using j k by blast
qed

text \<open>
  The health route raises in exactly one case: with a key set and the proxy in use, the first
  answer is 429 and its \<open>Retry-After\<close> is no integer, for instance the date that RFC 9110 allows
  there. Then it raises \<open>ValueError\<close> and no check is reported.
\<close>

theorem lab_health_raises:
  "(lab_health env net now = Inl e \<longleftrightarrow>
     e = GwValueError \<and> getenv_or env ''LLM_DIRECT'' [] \<noteq> lit ''1'' \<and> getenv_or env ''LLM_API_KEY'' [] \<noteq> []
     \<and> bad_retry_after (hn_llm net))
   \<and> py_int (lit ''Wed, 21 Oct 2026 07:28:00 GMT'') = None"
proof
  have "llm_check env net = Inl e \<longleftrightarrow> getenv_or env ''LLM_DIRECT'' [] \<noteq> lit ''1''
      \<and> getenv_or env ''LLM_API_KEY'' [] \<noteq> [] \<and> llm_attempts (hn_llm net) [1, 2] None [] 0 = Inl e"
    by (auto simp: llm_check_def Let_def llm_keyed_raises simp del: llm_attempts.simps)
  then show "lab_health env net now = Inl e \<longleftrightarrow>
     e = GwValueError \<and> getenv_or env ''LLM_DIRECT'' [] \<noteq> lit ''1'' \<and> getenv_or env ''LLM_API_KEY'' [] \<noteq> []
     \<and> bad_retry_after (hn_llm net)"
    unfolding llm_attempts_result(1) by (auto simp: lab_health_def health_checks_def bind_res_def split: sum.splits)
  show "py_int (lit ''Wed, 21 Oct 2026 07:28:00 GMT'') = None" by code_simp
qed

text \<open>
  The agent is shown as configured exactly when a wake hook is set and refuses the probe's bad
  token with 401, whatever the activity feed holds; the feed gives the time of its latest entry.
\<close>

theorem agent_status_verdict:
  "jget (agent_status st env net s) (lit ''configured'') JNull = Some (JBool
     (getenv_or env ''OPENCLAW_HOOK_URL'' [] \<noteq> []
      \<and> hn_post net (rstrip_chars (lit ''/'') (getenv_or env ''OPENCLAW_HOOK_URL'' []) @ lit ''/hooks/wake'') = Inr 401))
   \<and> (\<forall>ev \<in> set (op_list_activity_events st s). \<exists>t. ac_ts ev \<le> t
        \<and> jget (agent_status st env net s) (lit ''last_activity_ts'') JNull = Some (JStr (isoformat t)))"
proof
  show "jget (agent_status st env net s) (lit ''configured'') JNull = Some (JBool
     (getenv_or env ''OPENCLAW_HOOK_URL'' [] \<noteq> []
      \<and> hn_post net (rstrip_chars (lit ''/'') (getenv_or env ''OPENCLAW_HOOK_URL'' []) @ lit ''/hooks/wake'') = Inr 401))"
    by (auto simp: agent_status_def hook_configured_def Let_def case_prod_beta split: sum.splits)
  show "\<forall>ev \<in> set (op_list_activity_events st s). \<exists>t. ac_ts ev \<le> t
        \<and> jget (agent_status st env net s) (lit ''last_activity_ts'') JNull = Some (JStr (isoformat t))"
  proof
    fix ev assume ev: "ev \<in> set (op_list_activity_events st s)"
    then have "ac_ts ev \<le> Max (set (map ac_ts (op_list_activity_events st s)))" by simp
    moreover have "jget (agent_status st env net s) (lit ''last_activity_ts'') JNull
        = Some (JStr (isoformat (Max (set (map ac_ts (op_list_activity_events st s))))))"
      using ev by (auto simp: agent_status_def case_prod_beta Let_def)
    ultimately show "\<exists>t. ac_ts ev \<le> t
        \<and> jget (agent_status st env net s) (lit ''last_activity_ts'') JNull = Some (JStr (isoformat t))"
      by blast
  qed
qed

end
