(* ===== verification/Operator_Console.thy ===== *)
theory Operator_Console
  imports Py_Values
begin

text \<open>
  The restricted operator console, \<open>services/terminal/console.py\<close>. The host it runs on is a
  parameter (\<open>'w shell\<close>): running a command on the world \<open>'w\<close>, reading and writing a file.
  \<open>'w con\<close> is the console's process: the world, every command line it has run and the lines it
  has printed. The operator is the list of lines typed; its end is the end of input.
  Code points: 27 escape, 10003 check mark, 8212 em dash.
\<close>

section \<open>The menu\<close>

datatype target_kind = workspace_file | skill

record MenuTarget =
  mt_key :: pystr
  mt_label :: pystr
  mt_sandbox_path :: pystr
  mt_kind :: target_kind
  mt_scratch_rel :: pystr

definition sandbox_workspace :: pystr where
  "sandbox_workspace = lit ''/sandbox/.openclaw/workspace''"

definition sandbox_skills :: pystr where
  "sandbox_skills = lit ''/sandbox/.openclaw/skills''"

definition file_target :: "string \<Rightarrow> string \<Rightarrow> MenuTarget" where
  "file_target key name = \<lparr>mt_key = lit key,
     mt_label = lit ''Edit '' @ lit name @ lit '' and push into the OpenShell sandbox automatically'',
     mt_sandbox_path = sandbox_workspace @ lit ''/'' @ lit name, mt_kind = workspace_file, mt_scratch_rel = lit name\<rparr>"

definition skill_target :: "string \<Rightarrow> string \<Rightarrow> MenuTarget" where
  "skill_target key name = \<lparr>mt_key = lit key,
     mt_label = lit ''Edit '' @ lit name @ lit ''/SKILL.md and install in the NemoClaw agent'',
     mt_sandbox_path = sandbox_skills @ lit ''/'' @ lit name, mt_kind = skill,
     mt_scratch_rel = lit ''skills/'' @ lit name\<rparr>"

definition menu_targets :: "MenuTarget list" where
  "menu_targets =
     [file_target ''1'' ''SOUL.md'', file_target ''2'' ''AGENTS.md'', skill_target ''3'' ''infra-sentinel-monitor'',
      skill_target ''4'' ''infra-sentinel-diagnose'', skill_target ''5'' ''infra-sentinel-notify'',
      skill_target ''6'' ''infra-sentinel-remediate'']"

definition reset_key :: pystr where
  "reset_key = lit ''r''"

definition reset_label :: pystr where
  "reset_label = lit ''Reset all config (SOUL.md, AGENTS.md, all SKILL.md files, and the conversation)''"

definition quit_keys :: "pystr list" where
  "quit_keys = [lit ''q'', lit ''Q'']"

definition menu_line :: "pystr set \<Rightarrow> MenuTarget \<Rightarrow> pystr" where
  "menu_line completed t =
     (if mt_key t \<in> completed
      then lit ''  '' @ mt_key t @ lit '') '' @ (27 # lit ''[32m'') @ [10003, 32] @ mt_label t @ (27 # lit ''[0m'')
      else lit ''  '' @ mt_key t @ lit '') '' @ mt_label t)"

definition format_menu :: "pystr \<Rightarrow> MenuTarget list \<Rightarrow> pystr set \<Rightarrow> pystr" where
  "format_menu sandbox_name targets completed =
     join [10] ((lit ''NemoClaw operator console '' @ [8212] @ lit '' tenant: '' @ sandbox_name)
       # map (menu_line completed) targets
       @ [lit ''  '' @ reset_key @ lit '') '' @ reset_label, lit ''  q) Quit'', lit ''> ''])"

definition find_target :: "pystr \<Rightarrow> MenuTarget list \<Rightarrow> MenuTarget option" where
  "find_target selection targets = find (\<lambda>t. mt_key t = strip selection) targets"

section \<open>Command lines\<close>

text \<open>\<open>str(workspace_dir / rel)\<close> for a path as \<open>str\<close> writes it.\<close>

definition path_div :: "pystr \<Rightarrow> pystr \<Rightarrow> pystr" where
  "path_div ws rel = (if ws = lit ''.'' then rel else if endswith (lit ''/'') ws then ws @ rel else ws @ lit ''/'' @ rel)"

record ConsoleConfig =
  cc_sandbox_name :: pystr
  cc_workspace_dir :: pystr
  cc_nemoclaw_bin :: pystr
  cc_editor_bin :: pystr
  cc_editor_args :: "pystr list"

definition edit_path :: "MenuTarget \<Rightarrow> pystr \<Rightarrow> pystr" where
  "edit_path t ws =
     (if mt_kind t = skill then path_div (path_div ws (mt_scratch_rel t)) (lit ''SKILL.md'')
      else path_div ws (mt_scratch_rel t))"

definition download_argv :: "ConsoleConfig \<Rightarrow> MenuTarget \<Rightarrow> pystr \<Rightarrow> pystr list" where
  "download_argv cfg t dest =
     [cc_nemoclaw_bin cfg, cc_sandbox_name cfg, lit ''download'', mt_sandbox_path t, dest]"

definition push_argv :: "ConsoleConfig \<Rightarrow> MenuTarget \<Rightarrow> pystr list" where
  "push_argv cfg t =
     (let scratch = path_div (cc_workspace_dir cfg) (mt_scratch_rel t) in
      if mt_kind t = skill
      then [cc_nemoclaw_bin cfg, cc_sandbox_name cfg, lit ''skill'', lit ''install'', scratch]
      else [cc_nemoclaw_bin cfg, cc_sandbox_name cfg, lit ''upload'', scratch,
            before_last 47 (mt_sandbox_path t) @ lit ''/''])"

definition editor_argv :: "ConsoleConfig \<Rightarrow> pystr \<Rightarrow> pystr list" where
  "editor_argv cfg path = cc_editor_bin cfg # cc_editor_args cfg @ [path]"

definition session_reset_argv :: "ConsoleConfig \<Rightarrow> pystr list" where
  "session_reset_argv cfg =
     [cc_nemoclaw_bin cfg, cc_sandbox_name cfg, lit ''sessions'', lit ''reset'', lit ''main'', lit ''--reason'', lit ''new'']"

section \<open>The editor\<close>

definition editors :: "(pystr \<times> pystr list) list" where
  "editors = [(lit ''vim'', [lit ''-Z'']), (lit ''rvim'', []), (lit ''vi'', [lit ''-Z'']), (lit ''nano'', [lit ''-R''])]"

text \<open>\<open>Path(p).name\<close>\<close>

definition path_name :: "pystr \<Rightarrow> pystr" where
  "path_name p = (case filter (\<lambda>x. x \<noteq> [] \<and> x \<noteq> lit ''.'') (split_on [47] p) of [] \<Rightarrow> [] | ps \<Rightarrow> last ps)"

text \<open>\<open>s.split()\<close>; \<open>acc\<close> holds the current word backwards.\<close>

fun words_from :: "pystr \<Rightarrow> pystr \<Rightarrow> pystr list" where
  "words_from acc [] = (if acc = [] then [] else [rev acc])"
| "words_from acc (c # s) =
     (if py_isspace c then (if acc = [] then words_from [] s else rev acc # words_from [] s)
      else words_from (c # acc) s)"

definition resolve_editor ::
  "(pystr \<Rightarrow> bool) \<Rightarrow> pystr \<Rightarrow> pystr option \<Rightarrow> pystr option \<times> pystr list" where
  "resolve_editor which editor_bin editor_args =
     (if editor_bin \<noteq> []
      then (case editor_args of
              Some args \<Rightarrow> (Some editor_bin, words_from [] args)
            | None \<Rightarrow> (Some editor_bin, case map_of editors (path_name editor_bin) of None \<Rightarrow> [] | Some args \<Rightarrow> args))
      else (case find (\<lambda>(name, args). which name) editors of
              None \<Rightarrow> (None, [])
            | Some (name, args) \<Rightarrow> (Some name, args)))"

text \<open>\<open>load_config\<close>; \<open>None\<close> is its \<open>RuntimeError\<close>. \<open>home\<close> is the default workspace's base.\<close>

definition load_config :: "environ \<Rightarrow> pystr \<Rightarrow> (pystr \<Rightarrow> bool) \<Rightarrow> ConsoleConfig option" where
  "load_config env home which =
     (let sandbox_name = getenv_or env ''SANDBOX_NAME'' [] in
      if sandbox_name = [] then None
      else (let (editor_bin, editor_args) =
                  resolve_editor which (getenv_or env ''TERMINAL_EDITOR_BIN'' []) (getenv env ''TERMINAL_EDITOR_ARGS'')
            in Some \<lparr>cc_sandbox_name = sandbox_name,
                     cc_workspace_dir = getenv_or env ''TERMINAL_WORKSPACE_DIR''
                       (path_div (path_div (path_div home (lit ''nemoclaw-tenants'')) sandbox_name) (lit ''work'')),
                     cc_nemoclaw_bin = getenv_or env ''TERMINAL_NEMOCLAW_BIN'' (lit ''nemoclaw''),
                     cc_editor_bin = (case editor_bin of None \<Rightarrow> lit ''vim'' | Some b \<Rightarrow> if b = [] then lit ''vim'' else b),
                     cc_editor_args = (if editor_args = [] then [lit ''-Z''] else editor_args)\<rparr>))"

section \<open>Skill files\<close>

definition validate_skill_content :: "pystr \<Rightarrow> pystr option" where
  "validate_skill_content text =
     (case splitlines text of
        [] \<Rightarrow> Some (lit ''file must start with a '---' frontmatter line'')
      | l # ls \<Rightarrow>
          if strip l \<noteq> lit ''---'' then Some (lit ''file must start with a '---' frontmatter line'')
          else if \<not> (\<exists>x \<in> set ls. strip x = lit ''---'') then Some (lit ''frontmatter '---' is never closed'')
          else if \<not> (\<exists>x \<in> set (takeWhile (\<lambda>x. strip x \<noteq> lit ''---'') ls). startswith (lit ''name:'') (lstrip x))
          then Some (lit ''frontmatter has no 'name:' key'')
          else None)"

definition skill_name :: "MenuTarget \<Rightarrow> pystr" where
  "skill_name t = after_last 47 (mt_scratch_rel t)"

definition blank_content :: "MenuTarget \<Rightarrow> pystr" where
  "blank_content t =
     (if mt_kind t = skill
      then lit ''---'' @ [10] @ lit ''name: '' @ [34] @ skill_name t @ [34, 10] @ lit ''---'' @ [10]
      else [])"

section \<open>The process\<close>

record run_result =
  rr_code :: int
  rr_stdout :: pystr
  rr_stderr :: pystr

text \<open>\<open>sh_run\<close> answers \<open>None\<close> for \<open>FileNotFoundError\<close>, the program is not installed.\<close>

record 'w shell =
  sh_run :: "pystr list \<Rightarrow> 'w \<Rightarrow> run_result option \<times> 'w"
  sh_read :: "pystr \<Rightarrow> 'w \<Rightarrow> pystr option"
  sh_write :: "pystr \<Rightarrow> pystr \<Rightarrow> 'w \<Rightarrow> 'w"
  sh_repr :: "pystr \<Rightarrow> pystr"

record 'w con =
  cn_world :: 'w
  cn_calls :: "pystr list list"
  cn_out :: "pystr list"

datatype con_exn = FileNotFound

definition run_cmd :: "'w shell \<Rightarrow> pystr list \<Rightarrow> 'w con \<Rightarrow> run_result option \<times> 'w con" where
  "run_cmd sh argv c =
     (let (r, w) = sh_run sh argv (cn_world c) in (r, c\<lparr>cn_world := w, cn_calls := cn_calls c @ [argv]\<rparr>))"

definition say :: "pystr \<Rightarrow> 'w con \<Rightarrow> 'w con" where
  "say line c = c\<lparr>cn_out := cn_out c @ [line]\<rparr>"

definition write_file :: "'w shell \<Rightarrow> pystr \<Rightarrow> pystr \<Rightarrow> 'w con \<Rightarrow> 'w con" where
  "write_file sh path text c = c\<lparr>cn_world := sh_write sh path text (cn_world c)\<rparr>"

definition editor_missing :: "'w shell \<Rightarrow> ConsoleConfig \<Rightarrow> pystr" where
  "editor_missing sh cfg =
     lit ''[console] editor not found: '' @ sh_repr sh (cc_editor_bin cfg) @ lit '' is not installed on this host.'' @ [10]
     @ lit ''[console] Tried:'' @ join (lit '', '') (map fst editors) @ [32, 8212] @ lit '' none present.'' @ [10]
     @ lit ''[console] Install one ('sudo apt-get install -y vim'), or set TERMINAL_EDITOR_BIN'' @ [10]
     @ lit ''[console] plus TERMINAL_EDITOR_ARGS to something that can run restricted'' @ [10]
     @ lit ''[console] (nano needs '-R', NOT vim's '-Z', which nano reads as --zap),'' @ [10]
     @ lit ''[console] then restart the terminal daemon.''"

text \<open>\<open>run_target\<close> after the editor: validate a skill, push, report.\<close>

definition push_target :: "'w shell \<Rightarrow> ConsoleConfig \<Rightarrow> MenuTarget \<Rightarrow> 'w con \<Rightarrow> (con_exn + bool) \<times> 'w con" where
  "push_target sh cfg t c =
     (case run_cmd sh (push_argv cfg t) c of
        (None, c1) \<Rightarrow> (Inl FileNotFound, c1)
      | (Some r, c1) \<Rightarrow>
          (let c2 = say (strip (rr_stdout r)) c1 in
           if rr_code r \<noteq> 0
           then (Inr False, say (lit ''[console] push FAILED: '' @ strip (rr_stderr r)) c2)
           else (Inr True, say (lit ''[console] pushed to sandbox. (target='' @ mt_key t @ lit '')'') c2)))"

definition check_and_push :: "'w shell \<Rightarrow> ConsoleConfig \<Rightarrow> MenuTarget \<Rightarrow> 'w con \<Rightarrow> (con_exn + bool) \<times> 'w con" where
  "check_and_push sh cfg t c =
     (let text = (case sh_read sh (edit_path t (cc_workspace_dir cfg)) (cn_world c) of None \<Rightarrow> [] | Some x \<Rightarrow> x) in
      case (if mt_kind t = skill then validate_skill_content text else None) of
        Some error \<Rightarrow>
          (Inr False,
           say (lit ''[console] The paste likely got mangled. Pick the same menu item and try again.'')
             (say (lit ''[console] NOT pushed '' @ [8212, 32] @ error @ lit ''.'') c))
      | None \<Rightarrow> push_target sh cfg t c)"

definition run_target :: "'w shell \<Rightarrow> ConsoleConfig \<Rightarrow> MenuTarget \<Rightarrow> 'w con \<Rightarrow> (con_exn + bool) \<times> 'w con" where
  "run_target sh cfg t c =
     (case run_cmd sh (download_argv cfg t (path_div (cc_workspace_dir cfg) (mt_scratch_rel t))) c of
        (None, c1) \<Rightarrow> (Inl FileNotFound, c1)
      | (Some dl, c1) \<Rightarrow>
          (let c2 = (if rr_code dl \<noteq> 0
                     then say (lit ''[console] download skipped (not yet in sandbox?): '' @ strip (rr_stderr dl)) c1
                     else c1) in
           case run_cmd sh (editor_argv cfg (edit_path t (cc_workspace_dir cfg))) c2 of
             (None, c3) \<Rightarrow> (Inr False, say (editor_missing sh cfg) c3)
           | (Some _, c3) \<Rightarrow> check_and_push sh cfg t c3))"

section \<open>Reset\<close>

definition reset_main_session :: "'w shell \<Rightarrow> ConsoleConfig \<Rightarrow> 'w con \<Rightarrow> bool \<times> 'w con" where
  "reset_main_session sh cfg c =
     (case run_cmd sh (session_reset_argv cfg) c of
        (None, c1) \<Rightarrow> (False, say (lit ''[console] session reset skipped: '' @ sh_repr sh (cc_nemoclaw_bin cfg)) c1)
      | (Some r, c1) \<Rightarrow>
          if rr_code r \<noteq> 0
          then (False, say (lit ''[console] session reset skipped: ''
                  @ take 200 (strip (if rr_stderr r \<noteq> [] then rr_stderr r else rr_stdout r))) c1)
          else (True, say (lit ''[console] session reset '' @ [8212] @ lit '' next message starts a fresh conversation.'') c1))"

definition target_file_name :: "MenuTarget \<Rightarrow> pystr" where
  "target_file_name t = (if mt_kind t = workspace_file then mt_scratch_rel t else mt_scratch_rel t @ lit ''/SKILL.md'')"

text \<open>The loop over the targets; \<open>ok\<close> is \<open>all_ok\<close>.\<close>

fun reset_targets ::
  "'w shell \<Rightarrow> ConsoleConfig \<Rightarrow> MenuTarget list \<Rightarrow> bool \<Rightarrow> 'w con \<Rightarrow> (con_exn + bool) \<times> 'w con" where
  "reset_targets sh cfg [] ok c = (Inr ok, c)"
| "reset_targets sh cfg (t # ts) ok c =
     (case run_cmd sh (push_argv cfg t) (write_file sh (edit_path t (cc_workspace_dir cfg)) (blank_content t) c) of
        (None, c1) \<Rightarrow> (Inl FileNotFound, c1)
      | (Some r, c1) \<Rightarrow>
          if rr_code r \<noteq> 0
          then reset_targets sh cfg ts False
                 (say (lit ''[console] reset push FAILED for '' @ target_file_name t @ lit '': '' @ strip (rr_stderr r)) c1)
          else reset_targets sh cfg ts ok (say (lit ''[console] blanked and pushed '' @ target_file_name t) c1))"

definition run_reset :: "'w shell \<Rightarrow> ConsoleConfig \<Rightarrow> MenuTarget list \<Rightarrow> 'w con \<Rightarrow> (con_exn + bool) \<times> 'w con" where
  "run_reset sh cfg targets c =
     (case reset_targets sh cfg targets True c of
        (Inl e, c1) \<Rightarrow> (Inl e, c1)
      | (Inr all_ok, c1) \<Rightarrow>
          (let c2 = snd (reset_main_session sh cfg c1) in
           (Inr all_ok,
            if all_ok
            then say (lit ''[console] reset complete '' @ [8212] @ lit '' all config files blanked in the sandbox.'') c2
            else c2)))"

section \<open>What is configured\<close>

text \<open>\<open>tmp\<close> is the \<open>download\<close> path in the fresh temporary directory of each target.\<close>

definition is_configured :: "MenuTarget \<Rightarrow> pystr option \<Rightarrow> bool" where
  "is_configured t content \<longleftrightarrow> (case content of None \<Rightarrow> False | Some x \<Rightarrow> x \<noteq> [] \<and> x \<noteq> blank_content t)"

definition downloaded :: "MenuTarget \<Rightarrow> pystr \<Rightarrow> pystr" where
  "downloaded t dest = (if mt_kind t = skill then path_div dest (lit ''SKILL.md'') else dest)"

fun check_configured ::
  "'w shell \<Rightarrow> ConsoleConfig \<Rightarrow> (MenuTarget \<Rightarrow> pystr) \<Rightarrow> MenuTarget list \<Rightarrow> 'w con
     \<Rightarrow> (con_exn + (pystr \<times> bool) list) \<times> 'w con" where
  "check_configured sh cfg tmp [] c = (Inr [], c)"
| "check_configured sh cfg tmp (t # ts) c =
     (case run_cmd sh (download_argv cfg t (tmp t)) c of
        (None, c1) \<Rightarrow> (Inl FileNotFound, c1)
      | (Some dl, c1) \<Rightarrow>
          (let content = (if rr_code dl = 0 then sh_read sh (downloaded t (tmp t)) (cn_world c1) else None) in
           case check_configured sh cfg tmp ts c1 of
             (Inl e, c2) \<Rightarrow> (Inl e, c2)
           | (Inr rest, c2) \<Rightarrow> (Inr ((mt_key t, is_configured t content) # rest), c2)))"

section \<open>The main loop\<close>

text \<open>
  One operator session: \<open>completed\<close> are the keys shown as done. A read at the end of input (or
  an interrupt) returns.
\<close>

definition pause_prompt :: pystr where
  "pause_prompt = [10] @ lit ''[console] Press Enter to return to the menu...''"

definition confirm_prompt :: pystr where
  "confirm_prompt = lit ''[console] This blanks SOUL.md, AGENTS.md and all four SKILL.md files in the sandbox. Type 'yes' to continue: ''"

definition show_menu :: "ConsoleConfig \<Rightarrow> pystr set \<Rightarrow> 'w con \<Rightarrow> 'w con" where
  "show_menu cfg completed c =
     say (format_menu (cc_sandbox_name cfg) menu_targets completed) (say ((27 # lit ''[2J'') @ 27 # lit ''[H'') c)"

type_synonym 'w session = "(con_exn + unit) \<times> pystr set \<times> 'w con"

text \<open>What a selection does before the next pause: \<open>Inl\<close> ends the session.\<close>

definition do_reset ::
  "'w shell \<Rightarrow> ConsoleConfig \<Rightarrow> pystr \<Rightarrow> pystr set \<Rightarrow> 'w con \<Rightarrow> (con_exn + pystr set) \<times> 'w con" where
  "do_reset sh cfg confirm completed c =
     (if lower (strip confirm) = lit ''yes''
      then (case run_reset sh cfg menu_targets c of
              (Inl e, c1) \<Rightarrow> (Inl e, c1)
            | (Inr all_ok, c1) \<Rightarrow> (Inr (if all_ok then {} else completed), c1))
      else (Inr completed, say (lit ''[console] reset cancelled.'') c))"

definition do_target ::
  "'w shell \<Rightarrow> ConsoleConfig \<Rightarrow> MenuTarget \<Rightarrow> pystr set \<Rightarrow> 'w con \<Rightarrow> (con_exn + pystr set) \<times> 'w con" where
  "do_target sh cfg t completed c =
     (case run_target sh cfg t c of
        (Inl e, c1) \<Rightarrow> (Inl e, c1)
      | (Inr ok, c1) \<Rightarrow> (Inr (if ok then insert (mt_key t) completed else completed), c1))"

function (sequential) console_loop ::
  "'w shell \<Rightarrow> ConsoleConfig \<Rightarrow> pystr list \<Rightarrow> pystr set \<Rightarrow> 'w con \<Rightarrow> 'w session" where
  "console_loop sh cfg [] completed c = (Inr (), completed, say [] (show_menu cfg completed c))"
| "console_loop sh cfg (selection # inputs) completed c =
     (let c0 = show_menu cfg completed c in
      if strip selection \<in> set quit_keys then (Inr (), completed, c0)
      else if lower (strip selection) = reset_key then
        (case inputs of
           [] \<Rightarrow> (Inr (), completed, say [] (say confirm_prompt c0))
         | confirm # inputs1 \<Rightarrow>
             (case do_reset sh cfg confirm completed (say confirm_prompt c0) of
                (Inl e, c1) \<Rightarrow> (Inl e, completed, c1)
              | (Inr completed1, c1) \<Rightarrow>
                  (case inputs1 of
                     [] \<Rightarrow> (Inr (), completed1, say [] (say pause_prompt c1))
                   | _ # inputs2 \<Rightarrow> console_loop sh cfg inputs2 completed1 (say pause_prompt c1))))
      else
        (case find_target selection menu_targets of
           None \<Rightarrow> console_loop sh cfg inputs completed
                     (say (lit ''[console] no such option: '' @ sh_repr sh selection) c0)
         | Some t \<Rightarrow>
             (case do_target sh cfg t completed c0 of
                (Inl e, c1) \<Rightarrow> (Inl e, completed, c1)
              | (Inr completed1, c1) \<Rightarrow>
                  (case inputs of
                     [] \<Rightarrow> (Inr (), completed1, say [] (say pause_prompt c1))
                   | _ # inputs1 \<Rightarrow> console_loop sh cfg inputs1 completed1 (say pause_prompt c1)))))"
  by pat_completeness auto

termination
  by (relation "measure (\<lambda>(sh, cfg, inputs, completed, c). length inputs)") auto

definition console_main :: "'w shell \<Rightarrow> ConsoleConfig \<Rightarrow> pystr list \<Rightarrow> 'w \<Rightarrow> 'w session" where
  "console_main sh cfg inputs w = console_loop sh cfg inputs {} \<lparr>cn_world = w, cn_calls = [], cn_out = []\<rparr>"

end
