(* ===== verification/Terminal_Daemon.thy ===== *)
theory Terminal_Daemon
  imports Operator_Console
begin

text \<open>
  The host-side terminal daemon, \<open>services/terminal/main.py\<close>: the bearer token on every route, the
  pack switch, the agent wake-up, reset and configuration status over the console's functions, and
  the session behind \<open>/ws\<close>. A route returns its answer and the command lines it started; starting
  one answers a process id or fails (\<open>popen\<close>). A request is its \<open>authorization\<close> header and its
  decoded body, \<open>None\<close> when that is not JSON.
\<close>

datatype daemon_exn = DmHttp nat pystr | DmTypeError | DmValueError | DmAttributeError | DmKeyError | DmStructError
  | DmRuntimeError | DmFileNotFound

section \<open>Access\<close>

definition require_token :: "environ \<Rightarrow> daemon_exn + pystr" where
  "require_token env =
     (let token = getenv_or env ''TERMINAL_TOKEN'' [] in if token = [] then Inl DmRuntimeError else Inr token)"

definition is_restricted :: "environ \<Rightarrow> bool" where
  "is_restricted env \<longleftrightarrow> getenv_or env ''TERMINAL_MODE'' (lit ''shell'') = lit ''restricted''"

definition require_sandbox_name :: "environ \<Rightarrow> daemon_exn + unit" where
  "require_sandbox_name env =
     (if getenv_or env ''SANDBOX_NAME'' [] = [] then Inl DmRuntimeError else Inr ())"

text \<open>\<open>create_app\<close> up to the routes: the token every route compares with.\<close>

definition daemon_token :: "environ \<Rightarrow> pystr option \<Rightarrow> daemon_exn + pystr" where
  "daemon_token env token =
     bind_res (case token of Some t \<Rightarrow> if t \<noteq> [] then Inr t else require_token env | None \<Rightarrow> require_token env) (\<lambda>t.
     bind_res (if is_restricted env then require_sandbox_name env else Inr ()) (\<lambda>_. Inr t))"

definition authorized :: "pystr \<Rightarrow> pystr \<Rightarrow> daemon_exn + bool" where
  "authorized header token =
     (let (scheme, presented) = partition_at 32 header in
      if lower scheme = lit ''bearer''
      then (case compare_digest presented token of None \<Rightarrow> Inl DmTypeError | Some b \<Rightarrow> Inr b)
      else Inr False)"

definition with_token :: "pystr \<Rightarrow> pystr \<Rightarrow> (daemon_exn + 'a) \<times> 'b \<Rightarrow> 'b \<Rightarrow> (daemon_exn + 'a) \<times> 'b" where
  "with_token header token granted unchanged =
     (case authorized header token of
        Inl e \<Rightarrow> (Inl e, unchanged)
      | Inr ok \<Rightarrow> if ok then granted else (Inl (DmHttp 401 []), unchanged))"

text \<open>The routes \<open>create_app\<close> registers.\<close>

datatype daemon_route = RHealthz | RSwitchPack | RReset | RWakeAgent | RConfigStatus | RTerminalWs

definition daemon_routes :: "environ \<Rightarrow> daemon_route list" where
  "daemon_routes env = [RHealthz]
     @ (if getenv_or env ''SWITCH_PACK_ENABLED'' (lit ''1'') \<noteq> lit ''0'' then [RSwitchPack] else [])
     @ (if is_restricted env then [RReset, RWakeAgent, RConfigStatus] else [])
     @ [RTerminalWs]"

section \<open>Pack switch and agent wake-up\<close>

definition is_pack_char :: "int \<Rightarrow> bool" where
  "is_pack_char c \<longleftrightarrow> 97 \<le> c \<and> c \<le> 122 \<or> is_digit c \<or> c = 45"

definition is_id_char :: "int \<Rightarrow> bool" where
  "is_id_char c \<longleftrightarrow> 65 \<le> c \<and> c \<le> 90 \<or> 97 \<le> c \<and> c \<le> 122 \<or> is_digit c \<or> c = 46 \<or> c = 95 \<or> c = 45"

text \<open>\<open>body.get(field, "")\<close>\<close>

definition body_field :: "json option \<Rightarrow> string \<Rightarrow> daemon_exn + json" where
  "body_field body k =
     (case body of
        None \<Rightarrow> Inl DmValueError
      | Some j \<Rightarrow> (case jget j (lit k) (JStr []) of None \<Rightarrow> Inl DmAttributeError | Some v \<Rightarrow> Inr v))"

definition valid_id :: "(int \<Rightarrow> bool) \<Rightarrow> json \<Rightarrow> pystr option" where
  "valid_id P v = (case v of JStr s \<Rightarrow> if fullmatch_class P s then Some s else None | _ \<Rightarrow> None)"

type_synonym spawned = "pystr list list"

definition switch_pack_argv :: "pystr \<Rightarrow> pystr \<Rightarrow> pystr list" where
  "switch_pack_argv repo pack_id = [repo @ lit ''/deploy/scripts/switch-pack.sh'', pack_id]"

definition switch_pack ::
  "(pystr list \<Rightarrow> nat option) \<Rightarrow> pystr \<Rightarrow> (pystr \<Rightarrow> bool) \<Rightarrow> pystr \<Rightarrow> pystr \<Rightarrow> json option
     \<Rightarrow> (daemon_exn + json) \<times> spawned" where
  "switch_pack popen repo is_file token header body = with_token header token
     (case body_field body ''pack_id'' of
        Inl e \<Rightarrow> (Inl e, [])
      | Inr v \<Rightarrow>
          (case valid_id is_pack_char v of
             None \<Rightarrow> (Inl (DmHttp 400 (lit ''invalid pack_id'')), [])
           | Some pack_id \<Rightarrow>
               if \<not> is_file (repo @ lit ''/packs/'' @ pack_id @ lit ''/pack.yaml'')
               then (Inl (DmHttp 404 (lit ''unknown pack: '' @ pack_id)), [])
               else (case popen (switch_pack_argv repo pack_id) of
                       None \<Rightarrow> (Inl DmFileNotFound, [])
                     | Some _ \<Rightarrow> (Inr (JObj [(lit ''ok'', JBool True), (lit ''status'', JStr (lit ''switch-started'')),
                                             (lit ''pack_id'', JStr pack_id)]),
                                  [switch_pack_argv repo pack_id])))) []"

definition agent_session_key :: pystr where
  "agent_session_key = lit ''agent:main:main''"

definition fault_message :: "pystr \<Rightarrow> pystr \<Rightarrow> pystr" where
  "fault_message scenario_id asset_id = lit ''fault-event: scenario '' @ scenario_id @ lit '' injected on '' @ asset_id
     @ [32, 8212, 32] @ lit ''run the Infrastructure Fault Response program now''"

definition wake_argv :: "pystr \<Rightarrow> pystr \<Rightarrow> pystr \<Rightarrow> pystr list" where
  "wake_argv sandbox scenario_id asset_id = [lit ''nemoclaw'', sandbox, lit ''agent'', lit ''-m'',
     fault_message scenario_id asset_id, lit ''--session-key'', agent_session_key]"

definition daemon_wake_agent ::
  "(pystr list \<Rightarrow> nat option) \<Rightarrow> environ \<Rightarrow> pystr \<Rightarrow> pystr \<Rightarrow> json option \<Rightarrow> (daemon_exn + json) \<times> spawned" where
  "daemon_wake_agent popen env token header body = with_token header token
     (case bind_res (body_field body ''scenario_id'') (\<lambda>x. bind_res (body_field body ''asset_id'') (\<lambda>y. Inr (x, y))) of
        Inl e \<Rightarrow> (Inl e, [])
      | Inr (x, y) \<Rightarrow>
          (case (valid_id is_id_char x, valid_id is_id_char y) of
             (None, _) \<Rightarrow> (Inl (DmHttp 400 (lit ''invalid scenario_id'')), [])
           | (Some _, None) \<Rightarrow> (Inl (DmHttp 400 (lit ''invalid asset_id'')), [])
           | (Some scenario_id, Some asset_id) \<Rightarrow>
               (let sandbox = getenv_or env ''SANDBOX_NAME'' []; argv = wake_argv sandbox scenario_id asset_id in
                if sandbox = [] then (Inl (DmHttp 503 (lit ''SANDBOX_NAME is not set'')), [])
                else (case popen argv of
                        None \<Rightarrow> (Inl DmFileNotFound, [])
                      | Some pid \<Rightarrow> (Inr (JObj [(lit ''ok'', JBool True), (lit ''status'', JStr (lit ''agent-turn-started'')),
                                                (lit ''pid'', JInt (int pid))]), [argv]))))) []"

section \<open>Reset and configuration status\<close>

definition daemon_reset ::
  "'w shell \<Rightarrow> ConsoleConfig option \<Rightarrow> pystr \<Rightarrow> pystr \<Rightarrow> 'w con \<Rightarrow> (daemon_exn + json) \<times> 'w con" where
  "daemon_reset sh config token header c = with_token header token
     (case config of
        None \<Rightarrow> (Inl DmRuntimeError, c)
      | Some cfg \<Rightarrow>
          (case run_reset sh cfg menu_targets c of
             (Inl _, c1) \<Rightarrow> (Inl DmFileNotFound, c1)
           | (Inr ok, c1) \<Rightarrow> (Inr (JObj [(lit ''ok'', JBool ok)]), c1))) c"

definition missing_labels :: "(pystr \<times> bool) list \<Rightarrow> pystr list" where
  "missing_labels flags =
     map mt_label (filter (\<lambda>t. map_of flags (mt_key t) \<noteq> Some True) menu_targets)"

definition config_status ::
  "'w shell \<Rightarrow> ConsoleConfig option \<Rightarrow> (MenuTarget \<Rightarrow> pystr) \<Rightarrow> pystr \<Rightarrow> pystr \<Rightarrow> 'w con
     \<Rightarrow> (daemon_exn + json) \<times> 'w con" where
  "config_status sh config tmp token header c = with_token header token
     (case config of
        None \<Rightarrow> (Inl DmRuntimeError, c)
      | Some cfg \<Rightarrow>
          (case check_configured sh cfg tmp menu_targets c of
             (Inl _, c1) \<Rightarrow> (Inl DmFileNotFound, c1)
           | (Inr flags, c1) \<Rightarrow>
               (Inr (JObj [(lit ''configured'', JBool (missing_labels flags = [])),
                           (lit ''missing'', JArr (map JStr (missing_labels flags)))]), c1))) c"

section \<open>The session\<close>

definition shell_argv :: "environ \<Rightarrow> pystr \<Rightarrow> pystr list" where
  "shell_argv env python =
     (if is_restricted env then [python, lit ''-m'', lit ''services.terminal.console'']
      else [lit ''/bin/bash'', lit ''-l''])"

text \<open>A WebSocket frame; what reaches the PTY; why the input pump stopped.\<close>

datatype ws_msg = WsDisconnect | WsBytes "int list" | WsText pystr

datatype pty_action = PtyWrite "int list" | PtyResize nat nat

datatype pump_end = PumpOpen | PumpDisconnected | PumpCrashed daemon_exn

text \<open>\<open>int(v)\<close> of a decoded value.\<close>

definition json_int :: "json \<Rightarrow> daemon_exn + int" where
  "json_int v = (case v of
     JInt i \<Rightarrow> Inr i
   | JBool b \<Rightarrow> Inr (if b then 1 else 0)
   | JFloat q \<Rightarrow> Inr (if 0 \<le> q then \<lfloor>q\<rfloor> else \<lceil>q\<rceil>)
   | JStr s \<Rightarrow> (case py_int s of None \<Rightarrow> Inl DmValueError | Some i \<Rightarrow> Inr i)
   | _ \<Rightarrow> Inl DmTypeError)"

definition control_int :: "json dict \<Rightarrow> string \<Rightarrow> daemon_exn + int" where
  "control_int d k = (case map_of d (lit k) of None \<Rightarrow> Inl DmKeyError | Some v \<Rightarrow> json_int v)"

text \<open>\<open>struct.pack("HHHH", rows, cols, 0, 0)\<close> takes 16-bit values.\<close>

definition resize_pty :: "int \<Rightarrow> int \<Rightarrow> daemon_exn + pty_action" where
  "resize_pty cols rows =
     (if 0 \<le> cols \<and> cols < 65536 \<and> 0 \<le> rows \<and> rows < 65536 then Inr (PtyResize (nat cols) (nat rows))
      else Inl DmStructError)"

definition suppressed :: "daemon_exn \<Rightarrow> bool" where
  "suppressed e \<longleftrightarrow> e = DmTypeError \<or> e = DmValueError"

text \<open>A control frame: the actions it causes, or the exception that leaves the pump.\<close>

definition control_frame :: "json option \<Rightarrow> daemon_exn + pty_action list" where
  "control_frame control =
     (case control of
        None \<Rightarrow> Inr []
      | Some (JObj d) \<Rightarrow>
          if map_of d (lit ''type'') = Some (JStr (lit ''resize''))
          then (case bind_res (control_int d ''cols'') (\<lambda>cols. bind_res (control_int d ''rows'') (resize_pty cols)) of
                  Inr a \<Rightarrow> Inr [a]
                | Inl e \<Rightarrow> if suppressed e then Inr [] else Inl e)
          else Inr []
      | Some _ \<Rightarrow> Inl DmAttributeError)"

fun pump_ws_to_pty :: "(pystr \<Rightarrow> json option) \<Rightarrow> ws_msg list \<Rightarrow> pty_action list \<times> pump_end" where
  "pump_ws_to_pty loads [] = ([], PumpOpen)"
| "pump_ws_to_pty loads (WsDisconnect # ms) = ([], PumpDisconnected)"
| "pump_ws_to_pty loads (WsBytes bs # ms) =
     (let (acts, fin) = pump_ws_to_pty loads ms in ((if bs = [] then [] else [PtyWrite bs]) @ acts, fin))"
| "pump_ws_to_pty loads (WsText text # ms) =
     (if text = [] then pump_ws_to_pty loads ms
      else (case control_frame (loads text) of
              Inl e \<Rightarrow> ([], PumpCrashed e)
            | Inr new \<Rightarrow> (let (acts, fin) = pump_ws_to_pty loads ms in (new @ acts, fin))))"

text \<open>
  The output pump: what it sends for the reads of the PTY, and whether it came to their end (no
  data, or \<open>EIO\<close> once the shell is gone). The exit frame follows when the input pump still ran.
\<close>

datatype pty_read = Chunk "int list" | Eio

datatype ws_out = OutBytes "int list" | OutJson json

fun pump_pty_to_ws :: "pty_read list \<Rightarrow> ws_out list \<times> bool" where
  "pump_pty_to_ws [] = ([], False)"
| "pump_pty_to_ws (Eio # rs) = ([], True)"
| "pump_pty_to_ws (Chunk bs # rs) =
     (if bs = [] then ([], True) else (let (out, fin) = pump_pty_to_ws rs in (OutBytes bs # out, fin)))"

definition session_output :: "pty_read list \<Rightarrow> bool \<Rightarrow> int \<Rightarrow> ws_out list" where
  "session_output reads input_done code =
     (let (out, fin) = pump_pty_to_ws reads in
      out @ (if fin \<and> \<not> input_done
             then [OutJson (JObj [(lit ''type'', JStr (lit ''exit'')), (lit ''code'', JInt code)])] else []))"

text \<open>The signals the process group of a session that is still running gets; \<open>dies\<close> within the wait.\<close>

datatype signal = SIGHUP | SIGKILL

fun terminate_with :: "(signal \<Rightarrow> bool) \<Rightarrow> signal list \<Rightarrow> signal list" where
  "terminate_with dies [] = []"
| "terminate_with dies (sig # sigs) = sig # (if dies sig then [] else terminate_with dies sigs)"

definition terminate_session :: "bool \<Rightarrow> (signal \<Rightarrow> bool) \<Rightarrow> signal list" where
  "terminate_session running dies = (if running then terminate_with dies [SIGHUP, SIGKILL] else [])"

text \<open>
  \<open>/ws\<close>: closed with 1008 and nothing started, or accepted with one process whose input is the
  pump's.
\<close>

datatype ws_outcome = WsRefused nat | WsRaised daemon_exn | WsSession "pystr list" "pty_action list" pump_end

definition terminal_ws ::
  "environ \<Rightarrow> pystr \<Rightarrow> (pystr \<Rightarrow> json option) \<Rightarrow> pystr \<Rightarrow> pystr \<Rightarrow> ws_msg list \<Rightarrow> ws_outcome" where
  "terminal_ws env python loads token header msgs =
     (case authorized header token of
        Inl e \<Rightarrow> WsRaised e
      | Inr False \<Rightarrow> WsRefused 1008
      | Inr True \<Rightarrow> (let (acts, fin) = pump_ws_to_pty loads msgs in WsSession (shell_argv env python) acts fin))"

end
