(* ===== verification/Terminal_Safety.thy ===== *)
theory Terminal_Safety
  imports Terminal_Daemon
begin

text \<open>
  What the terminal daemon guarantees: which requests it accepts, which command lines it can
  start, and what the browser's frames do to the PTY.
\<close>

section \<open>The bearer token\<close>

lemma partition_at_Pair: "partition_at c h = (a, b) \<Longrightarrow> b \<noteq> [] \<Longrightarrow> h = a @ [c] @ b \<and> c \<notin> set a"
proof
  assume *: "partition_at c h = (a, b)" "b \<noteq> []"
  then have a: "a = takeWhile (\<lambda>d. d \<noteq> c) h" and b: "b = tl (dropWhile (\<lambda>d. d \<noteq> c) h)"
    by (simp_all add: partition_at_def)
  show "c \<notin> set a" unfolding a by (auto dest: set_takeWhileD)
  from b *(2) obtain d ds where d: "dropWhile (\<lambda>d. d \<noteq> c) h = d # ds" by (cases "dropWhile (\<lambda>d. d \<noteq> c) h") auto
  then have "d = c" by (simp add: dropWhile_eq_Cons_conv)
  with a b d show "h = a @ [c] @ b" using takeWhile_dropWhile_id [of "\<lambda>d. d \<noteq> c" h] by simp
qed

lemma lower_no_space: "32 \<notin> set (lower s) \<Longrightarrow> 32 \<notin> set s"
  by (auto simp: lower_def lower_char_def intro!: rev_image_eqI)

lemma lower_bearer_no_space: "lower s = lit ''bearer'' \<Longrightarrow> 32 \<notin> set s"
  by (rule lower_no_space) (simp add: lit_def)

text \<open>Only the token itself, after the scheme \<open>Bearer\<close> in any case, opens a route.\<close>

lemma authorized_iff:
  assumes "token \<noteq> []"
  shows "authorized header token = Inr True \<longleftrightarrow>
    is_ascii token \<and> (\<exists>scheme. lower scheme = lit ''bearer'' \<and> header = scheme @ [32] @ token)"
proof (cases "partition_at 32 header")
  case (Pair scheme presented)
  have *: "authorized header token = Inr True \<longleftrightarrow>
      lower scheme = lit ''bearer'' \<and> is_ascii token \<and> presented = token"
    by (auto simp: authorized_def Pair compare_digest_def)
  show ?thesis
  proof
    assume "authorized header token = Inr True"
    with * have "lower scheme = lit ''bearer''" "is_ascii token" "presented = token" by simp_all
    with assms partition_at_Pair [OF Pair] show
      "is_ascii token \<and> (\<exists>scheme. lower scheme = lit ''bearer'' \<and> header = scheme @ [32] @ token)" by auto
  next
    assume "is_ascii token \<and> (\<exists>scheme. lower scheme = lit ''bearer'' \<and> header = scheme @ [32] @ token)"
    then obtain s where "is_ascii token" "lower s = lit ''bearer''" "header = s @ [32] @ token" by blast
    with partition_at_split [OF lower_bearer_no_space, of s token] Pair * show "authorized header token = Inr True"
      by simp
  qed
qed

lemma daemon_token_nonempty: "daemon_token env given = Inr token \<Longrightarrow> token \<noteq> []"
  by (auto simp: daemon_token_def require_sandbox_name_def require_token_def bind_res_eq_Inr Let_def split: option.splits if_splits)

lemma authorized_bearer: "is_ascii token \<Longrightarrow> authorized (lit ''Bearer '' @ token) token = Inr True"
proof -
  assume "is_ascii token"
  have "lit ''Bearer '' = lit ''Bearer'' @ [32]" by (simp add: lit_def)
  moreover have "(32::int) \<notin> set (lit ''Bearer'')" by (simp add: lit_def)
  ultimately have "partition_at 32 (lit ''Bearer '' @ token) = (lit ''Bearer'', token)"
    using partition_at_split [of 32 "lit ''Bearer''" token] by simp
  moreover have "lower (lit ''Bearer'') = lit ''bearer''" by (simp add: lower_def lower_char_def lit_def)
  ultimately show ?thesis using \<open>is_ascii token\<close> by (simp add: authorized_def compare_digest_def)
qed

text \<open>A request that is not let through changes nothing and starts nothing.\<close>

lemma with_token_cases:
  "with_token header token granted unchanged =
     (case authorized header token of
        Inl e \<Rightarrow> (Inl e, unchanged)
      | Inr True \<Rightarrow> granted
      | Inr False \<Rightarrow> (Inl (DmHttp 401 []), unchanged))"
  by (auto simp: with_token_def split: sum.splits bool.splits)

section \<open>Command lines\<close>

lemma is_pack_char_set: "is_pack_char c \<longleftrightarrow> c \<in> set (lit ''abcdefghijklmnopqrstuvwxyz0123456789-'')"
proof
  assume "is_pack_char c"
  then have "c \<in> {97..122} \<union> {48..57} \<union> {45}" by (auto simp: is_pack_char_def is_digit_def)
  then show "c \<in> set (lit ''abcdefghijklmnopqrstuvwxyz0123456789-'')"
    by (simp add: lit_def) presburger
qed (auto simp: is_pack_char_def is_digit_def lit_def)

lemma valid_id_Some: "valid_id P v = Some s \<longleftrightarrow> v = JStr s \<and> s \<noteq> [] \<and> list_all P s"
  by (auto simp: valid_id_def fullmatch_class_def split: json.splits)

lemma is_id_char_set:
  "is_id_char c \<longleftrightarrow>
     c \<in> set (lit ''ABCDEFGHIJKLMNOPQRSTUVWXYZabcdefghijklmnopqrstuvwxyz0123456789._-'')"
    (is "_ \<longleftrightarrow> c \<in> set ?chars")
proof
  have "list_all (\<lambda>c. c \<in> set ?chars) ([65..90] @ [97..122] @ [48..57] @ [46, 95, 45])"
    by code_simp
  moreover assume "is_id_char c"
  then have "c \<in> set ([65..90] @ [97..122] @ [48..57] @ [46, 95, 45])"
    by (auto simp: is_id_char_def is_digit_def simp del: upto_rec_numeral)
  ultimately show "c \<in> set ?chars" unfolding list_all_iff by blast
next
  have "list_all is_id_char ?chars" by code_simp
  moreover assume "c \<in> set ?chars"
  ultimately show "is_id_char c" unfolding list_all_iff by blast
qed

text \<open>The pack ids and the scenario and asset ids a command line can hold.\<close>

definition pack_ids :: "pystr set" where
  "pack_ids = {s. s \<noteq> [] \<and> set s \<subseteq> set (lit ''abcdefghijklmnopqrstuvwxyz0123456789-'')}"

definition fault_ids :: "pystr set" where
  "fault_ids = {s. s \<noteq> [] \<and>
     set s \<subseteq> set (lit ''ABCDEFGHIJKLMNOPQRSTUVWXYZabcdefghijklmnopqrstuvwxyz0123456789._-'')}"

lemma valid_pack_id: "valid_id is_pack_char v = Some s \<Longrightarrow> s \<in> pack_ids"
  by (auto simp: valid_id_Some list_all_iff is_pack_char_set pack_ids_def)

lemma valid_fault_id: "valid_id is_id_char v = Some s \<Longrightarrow> s \<in> fault_ids"
  by (auto simp: valid_id_Some list_all_iff is_id_char_set fault_ids_def)

lemma snd_with_token:
  "snd (with_token header token granted unchanged) =
     (if authorized header token = Inr True then snd granted else unchanged)"
  by (simp add: with_token_cases split: sum.splits bool.splits)

lemma switch_pack_started:
  "snd (switch_pack popen repo is_file token header body) \<in>
     {[]} \<union> {[switch_pack_argv repo p] | p. authorized header token = Inr True \<and> p \<in> pack_ids
                 \<and> is_file (repo @ lit ''/packs/'' @ p @ lit ''/pack.yaml'')}"
  unfolding switch_pack_def snd_with_token
  by (auto split: sum.splits option.splits dest: valid_pack_id)

lemma wake_agent_started:
  "snd (daemon_wake_agent popen env token header body) \<in>
     {[]} \<union> {[wake_argv (getenv_or env ''SANDBOX_NAME'' []) x y] | x y. authorized header token = Inr True
                 \<and> x \<in> fault_ids \<and> y \<in> fault_ids}"
  unfolding daemon_wake_agent_def snd_with_token Let_def
  by (auto split: sum.splits option.splits dest: valid_fault_id)

section \<open>Frames\<close>

text \<open>The frames the input pump survives, and what each does to the PTY.\<close>

definition keeps_open :: "(pystr \<Rightarrow> json option) \<Rightarrow> ws_msg \<Rightarrow> bool" where
  "keeps_open loads m = (case m of
     WsDisconnect \<Rightarrow> False
   | WsBytes _ \<Rightarrow> True
   | WsText t \<Rightarrow> t = [] \<or> (case control_frame (loads t) of Inl _ \<Rightarrow> False | Inr _ \<Rightarrow> True))"

fun typed :: "ws_msg \<Rightarrow> int list" where
  "typed (WsBytes bs) = bs"
| "typed _ = []"

fun pty_bytes :: "pty_action list \<Rightarrow> int list" where
  "pty_bytes [] = []"
| "pty_bytes (PtyWrite bs # as) = bs @ pty_bytes as"
| "pty_bytes (PtyResize _ _ # as) = pty_bytes as"

lemma pty_bytes_append [simp]: "pty_bytes (as @ bs) = pty_bytes as @ pty_bytes bs"
  by (induction as rule: pty_bytes.induct) auto

lemma control_frame_types_nothing: "control_frame c = Inr acts \<Longrightarrow> pty_bytes acts = []"
  by (auto simp: control_frame_def resize_pty_def bind_res_def
        split: option.splits json.splits if_splits sum.splits)

lemma keeps_open_simps:
  "keeps_open loads (WsBytes bs)" "\<not> keeps_open loads WsDisconnect" "keeps_open loads (WsText [])"
  "control_frame (loads t) = Inr acts \<Longrightarrow> keeps_open loads (WsText t)"
  "control_frame (loads t) = Inl e \<Longrightarrow> t \<noteq> [] \<Longrightarrow> \<not> keeps_open loads (WsText t)"
  by (simp_all add: keeps_open_def)

lemma pump_end:
  "snd (pump_ws_to_pty loads msgs) =
     (case dropWhile (keeps_open loads) msgs of
        [] \<Rightarrow> PumpOpen
      | WsText t # _ \<Rightarrow> PumpCrashed (projl (control_frame (loads t)))
      | _ \<Rightarrow> PumpDisconnected)"
  by (induction loads msgs rule: pump_ws_to_pty.induct)
    (auto simp: keeps_open_simps Let_def split: sum.split prod.split)

lemma pump_bytes:
  "pty_bytes (fst (pump_ws_to_pty loads msgs)) = concat (map typed (takeWhile (keeps_open loads) msgs))"
  by (induction loads msgs rule: pump_ws_to_pty.induct)
    (auto simp: keeps_open_simps Let_def control_frame_types_nothing split: sum.split prod.split)

text \<open>The decoded control texts that raise, and what they raise.\<close>

definition fatal_control :: "json \<Rightarrow> daemon_exn \<Rightarrow> bool" where
  "fatal_control j exn \<longleftrightarrow> (case j of
     JObj d \<Rightarrow> map_of d (lit ''type'') = Some (JStr (lit ''resize'')) \<and>
       (map_of d (lit ''cols'') = None \<and> exn = DmKeyError
        \<or> (\<exists>c. control_int d ''cols'' = Inr c \<and> map_of d (lit ''rows'') = None) \<and> exn = DmKeyError
        \<or> (\<exists>c r. control_int d ''cols'' = Inr c \<and> control_int d ''rows'' = Inr r
             \<and> \<not> (c \<in> {0..<65536} \<and> r \<in> {0..<65536})) \<and> exn = DmStructError)
   | _ \<Rightarrow> exn = DmAttributeError)"

lemma json_int_raises: "json_int v = Inl exn \<Longrightarrow> suppressed exn"
  by (cases v) (auto simp: json_int_def suppressed_def split: option.splits)

lemma control_int_raises:
  "control_int d k = Inl exn \<Longrightarrow> map_of d (lit k) = None \<and> exn = DmKeyError \<or> map_of d (lit k) \<noteq> None \<and> suppressed exn"
  by (cases "map_of d (lit k)") (auto simp: control_int_def json_int_raises)

lemma control_int_missing: "map_of d (lit k) = None \<Longrightarrow> control_int d k = Inl DmKeyError"
  by (simp add: control_int_def)

lemma resize_pty_raises: "resize_pty c r = Inl exn \<longleftrightarrow> \<not> (c \<in> {0..<65536} \<and> r \<in> {0..<65536}) \<and> exn = DmStructError"
  by (auto simp: resize_pty_def)

lemma control_frame_raises: "control_frame c = Inl exn \<longleftrightarrow> (\<exists>j. c = Some j \<and> fatal_control j exn)"
proof (cases "\<exists>d. c = Some (JObj d)")
  case False
  then show ?thesis by (auto simp: control_frame_def fatal_control_def split: option.splits json.splits)
next
  case True
  then obtain d where c: "c = Some (JObj d)" by blast
  have not_suppressed: "\<not> suppressed DmKeyError" "\<not> suppressed DmStructError" by (simp_all add: suppressed_def)
  show ?thesis
  proof (cases "control_int d ''cols''")
    case (Inl e)
    from control_int_raises [OF Inl] Inl not_suppressed show ?thesis
      by (auto simp: c control_frame_def fatal_control_def)
  next
    case cols: (Inr x)
    then have has_cols: "map_of d (lit ''cols'') \<noteq> None" using control_int_missing [of d "''cols''"] by auto
    show ?thesis
    proof (cases "control_int d ''rows''")
      case (Inl e)
      from control_int_raises [OF Inl] cols has_cols Inl not_suppressed show ?thesis
        by (auto simp: c control_frame_def fatal_control_def)
    next
      case (Inr y)
      then have has_rows: "map_of d (lit ''rows'') \<noteq> None" using control_int_missing [of d "''rows''"] by auto
      let ?resize = "map_of d (lit ''type'') = Some (JStr (lit ''resize''))"
      let ?fits = "x \<in> {0..<65536} \<and> y \<in> {0..<65536}"
      have "control_frame c = (if ?resize then (case resize_pty x y of Inr a \<Rightarrow> Inr [a]
          | Inl e \<Rightarrow> if suppressed e then Inr [] else Inl e) else Inr [])"
        by (simp add: c control_frame_def cols Inr)
      moreover have "resize_pty x y = (if ?fits then Inr (PtyResize (nat x) (nat y)) else Inl DmStructError)"
        by (simp add: resize_pty_def)
      moreover have "fatal_control (JObj d) exn \<longleftrightarrow> ?resize \<and> \<not> ?fits \<and> exn = DmStructError"
        using has_cols has_rows by (auto simp: fatal_control_def cols Inr)
      ultimately show ?thesis using not_suppressed(2) by (simp add: c eq_commute [of DmStructError])
    qed
  qed
qed

section \<open>Properties\<close>

text \<open>
  Every route of the daemon opens only to the token it was started with. A daemon that starts
  has a token, and a request is let through exactly when its \<open>Authorization\<close> header is the scheme
  \<open>Bearer\<close>, in any case, one space and that token, which must be ASCII: a token that is not locks
  every client out, because comparing it raises.
\<close>

theorem daemon_requires_bearer:
  assumes "daemon_token env given = Inr token"
  shows "authorized header token = Inr True \<longleftrightarrow>
    is_ascii token \<and> (\<exists>scheme. lower scheme = lit ''bearer'' \<and> header = scheme @ [32] @ token)"
  using authorized_iff daemon_token_nonempty [OF assms] by blast

theorem daemon_requires_bearer_witness:
  "authorized (lit ''BEARER s3cret'') (lit ''s3cret'') = Inr True"
proof -
  have "daemon_token [(lit ''TERMINAL_TOKEN'', lit ''s3cret'')] None = Inr (lit ''s3cret'')"
    by (simp add: daemon_token_def require_sandbox_name_def require_token_def getenv_or_def getenv_def is_restricted_def)
  note daemon_requires_bearer [OF this, of "lit ''BEARER s3cret''"]
  moreover have "lower (lit ''BEARER'') = lit ''bearer''" "lit ''BEARER s3cret'' = lit ''BEARER'' @ [32] @ lit ''s3cret''"
    "is_ascii (lit ''s3cret'')"
    by (simp_all add: lower_def lower_char_def lit_def is_ascii_def)
  ultimately show ?thesis by blast
qed

text \<open>
  C38: the daemon starts no command line of a caller's choosing. Whatever the body of a request,
  \<open>/switch-pack\<close> starts nothing or the switch script on one pack id made of lower-case letters,
  digits and dashes whose \<open>pack.yaml\<close> exists; \<open>/wake-agent\<close> starts nothing or one agent turn whose
  message differs from the fixed sentence only in two ids free of blanks and shell characters; and
  either needs the token.
\<close>

theorem daemon_starts_vetted_commands:
  "snd (switch_pack popen repo is_file token header body) \<in>
     {[]} \<union> {[switch_pack_argv repo p] | p. authorized header token = Inr True \<and> p \<in> pack_ids
                 \<and> is_file (repo @ lit ''/packs/'' @ p @ lit ''/pack.yaml'')} \<and>
   snd (daemon_wake_agent popen env token header body) \<in>
     {[]} \<union> {[wake_argv (getenv_or env ''SANDBOX_NAME'' []) x y] | x y. authorized header token = Inr True
                 \<and> x \<in> fault_ids \<and> y \<in> fault_ids}"
  using switch_pack_started wake_agent_started by blast

text \<open>
  What is typed is what the shell receives. The bytes written to the PTY are the binary frames
  of the browser in order, up to the first frame that ends the session, and nothing else: a text
  frame never types. The pump is still open exactly when no frame ended it.
\<close>

theorem session_types_binary_frames:
  "pty_bytes (fst (pump_ws_to_pty loads msgs)) = concat (map typed (takeWhile (keeps_open loads) msgs)) \<and>
   (snd (pump_ws_to_pty loads msgs) = PumpOpen \<longleftrightarrow> list_all (keeps_open loads) msgs)"
proof
  show "pty_bytes (fst (pump_ws_to_pty loads msgs)) = concat (map typed (takeWhile (keeps_open loads) msgs))"
    by (rule pump_bytes)
  show "snd (pump_ws_to_pty loads msgs) = PumpOpen \<longleftrightarrow> list_all (keeps_open loads) msgs"
    by (auto simp: pump_end list_all_iff split: list.splits ws_msg.splits) (metis dropWhile_eq_Nil_conv neq_Nil_conv)+
qed


end
