(* ===== verification/Gw_Terminal.thy ===== *)
theory Gw_Terminal
  imports Gw_Health Terminal_Safety
begin

text \<open>
  The gateway's side of the embedded terminal, \<open>services/gateway/terminal.py\<close>: the forwarding
  routes, \<open>wake_agent\<close> and the WebSocket proxy. A call to the daemon is a parameter \<open>http\<close>:
  method, URL, \<open>Authorization\<close> header and body, answered by the status code and the decoded
  body (\<open>None\<close> inside when it is not JSON), or not at all (an \<open>httpx.HTTPError\<close>).
\<close>

section \<open>Configuration\<close>

definition terminal_config :: "environ \<Rightarrow> pystr \<times> pystr \<times> bool" where
  "terminal_config env =
     (let url = getenv_or env ''TERMINAL_WS_URL'' []; token = getenv_or env ''TERMINAL_TOKEN'' []
      in (url, token, url \<noteq> [] \<and> token \<noteq> [] \<and> getenv env ''TERMINAL_ENABLED'' \<noteq> Some (lit ''0'')))"

definition terminal_enabled :: "environ \<Rightarrow> json" where
  "terminal_enabled env =
     (case terminal_config env of (_, _, enabled) \<Rightarrow> JObj [(lit ''enabled'', JBool enabled)])"

definition daemon_http_url :: "pystr \<Rightarrow> pystr \<Rightarrow> pystr" where
  "daemon_http_url ws_url path = removesuffix (lit ''/ws'') (http_scheme ws_url) @ lit ''/'' @ lstrip_chars (lit ''/'') path"

section \<open>Requests\<close>

datatype http_method = GET | POST

type_synonym daemon_http = "http_method \<Rightarrow> pystr \<Rightarrow> pystr \<Rightarrow> json option \<Rightarrow> (nat \<times> json option) option"

definition bearer :: "pystr \<Rightarrow> pystr" where
  "bearer token = lit ''Bearer '' @ token"

definition term_error :: "pystr \<Rightarrow> json" where
  "term_error e = JObj [(lit ''ok'', JBool False), (lit ''error'', JStr e)]"

definition wake_body :: "pystr \<Rightarrow> pystr \<Rightarrow> json" where
  "wake_body scenario_id asset_id = JObj [(lit ''scenario_id'', JStr scenario_id), (lit ''asset_id'', JStr asset_id)]"

text \<open>\<open>contextlib.suppress(ValueError)\<close> covers a body that is not JSON, not one that is no object.\<close>

definition wake_agent :: "environ \<Rightarrow> daemon_http \<Rightarrow> pystr \<Rightarrow> pystr \<Rightarrow> gw_exn + bool" where
  "wake_agent env http scenario_id asset_id =
     (case terminal_config env of (url, token, enabled) \<Rightarrow>
        if \<not> enabled then Inr False
        else (case http POST (daemon_http_url url (lit ''wake-agent'')) (bearer token)
                     (Some (wake_body scenario_id asset_id)) of
                None \<Rightarrow> Inr False
              | Some (status, body) \<Rightarrow>
                  if 400 \<le> status then Inr False
                  else (case body of
                          None \<Rightarrow> Inr False
                        | Some j \<Rightarrow> (case jget j (lit ''ok'') JNull of
                                      None \<Rightarrow> Inl GwAttributeError
                                    | Some v \<Rightarrow> Inr (truthy v)))))"

definition terminal_reset :: "environ \<Rightarrow> daemon_http \<Rightarrow> gw_exn + json" where
  "terminal_reset env http =
     (case terminal_config env of (url, token, enabled) \<Rightarrow>
        if \<not> enabled then Inr (term_error (lit ''terminal disabled''))
        else (case http POST (daemon_http_url url (lit ''reset'')) (bearer token) None of
                None \<Rightarrow> Inr (term_error (lit ''daemon unreachable''))
              | Some (_, None) \<Rightarrow> Inl GwValueError
              | Some (_, Some j) \<Rightarrow> Inr j))"

text \<open>\<open>{"ok": True, **resp.json()}\<close>\<close>

definition terminal_config_status :: "environ \<Rightarrow> daemon_http \<Rightarrow> gw_exn + json" where
  "terminal_config_status env http =
     (case terminal_config env of (url, token, enabled) \<Rightarrow>
        if \<not> enabled then Inr (term_error (lit ''terminal disabled''))
        else (case http GET (daemon_http_url url (lit ''config-status'')) (bearer token) None of
                None \<Rightarrow> Inr (term_error (lit ''daemon unreachable''))
              | Some (status, body) \<Rightarrow>
                  if status \<noteq> 200 then Inr (term_error (lit ''daemon returned '' @ str_of_nat status))
                  else (case body of
                          None \<Rightarrow> Inl GwValueError
                        | Some (JObj d) \<Rightarrow> Inr (JObj (dict_of ((lit ''ok'', JBool True) # d)))
                        | Some _ \<Rightarrow> Inl GwTypeError)))"

text \<open>The body is forwarded as it came; \<open>None\<close> when it is not JSON.\<close>

definition terminal_switch_pack :: "environ \<Rightarrow> daemon_http \<Rightarrow> json option \<Rightarrow> gw_exn + json" where
  "terminal_switch_pack env http request =
     (case terminal_config env of (url, token, enabled) \<Rightarrow>
        if \<not> enabled then Inr (term_error (lit ''terminal disabled''))
        else (case request of
                None \<Rightarrow> Inl GwValueError
              | Some body \<Rightarrow>
                  (case http POST (daemon_http_url url (lit ''switch-pack'')) (bearer token) (Some body) of
                     None \<Rightarrow> Inr (term_error (lit ''daemon unreachable''))
                   | Some (_, None) \<Rightarrow> Inl GwValueError
                   | Some (_, Some j) \<Rightarrow> Inr j)))"

section \<open>The WebSocket proxy\<close>

text \<open>What the browser's frames make the proxy send to the daemon, until the browser leaves.\<close>

fun browser_to_daemon :: "ws_msg list \<Rightarrow> ws_msg list" where
  "browser_to_daemon [] = []"
| "browser_to_daemon (WsDisconnect # ms) = []"
| "browser_to_daemon (m # ms) = m # browser_to_daemon ms"

text \<open>The daemon's frames, bytes or text, reach the browser as they are until it closes.\<close>

fun daemon_to_browser :: "ws_msg list \<Rightarrow> ws_msg list" where
  "daemon_to_browser [] = []"
| "daemon_to_browser (WsDisconnect # ms) = []"
| "daemon_to_browser (WsBytes bs # ms) = WsBytes bs # daemon_to_browser ms"
| "daemon_to_browser (WsText t # ms) = WsText t # daemon_to_browser ms"

text \<open>
  \<open>terminal_proxy\<close>: the browser is refused, closed after a failed connection, or bridged to what
  \<open>connect\<close> opens for the header. \<open>connect\<close> takes the URL, the header and the frames sent.
\<close>

datatype 'a proxy_outcome = ProxyRefused nat | ProxyClosed | ProxyBridged 'a

definition terminal_proxy ::
  "environ \<Rightarrow> (pystr \<Rightarrow> pystr \<Rightarrow> ws_msg list \<Rightarrow> 'a option) \<Rightarrow> ws_msg list \<Rightarrow> 'a proxy_outcome" where
  "terminal_proxy env connect msgs =
     (case terminal_config env of (url, token, enabled) \<Rightarrow>
        if \<not> enabled then ProxyRefused 1008
        else (case connect url (bearer token) (browser_to_daemon msgs) of
                None \<Rightarrow> ProxyClosed
              | Some session \<Rightarrow> ProxyBridged session))"

section \<open>The daemon behind it\<close>

text \<open>A route's outcome as the HTTP answer the gateway sees: an exception the framework does not know is a 500.\<close>

definition http_of :: "daemon_exn + json \<Rightarrow> nat \<times> json option" where
  "http_of r = (case r of
     Inr j \<Rightarrow> (200, Some j)
   | Inl (DmHttp code d) \<Rightarrow> (code, Some (JObj [(lit ''detail'', JStr d)]))
   | Inl _ \<Rightarrow> (500, None))"

lemmas terminal_defs = wake_agent_def terminal_reset_def terminal_config_status_def terminal_switch_pack_def

lemma http_of_ok: "http_of r = (code, body) \<Longrightarrow> code < 400 \<Longrightarrow>
    (\<exists>j. r = Inr j \<and> body = Some j) \<or> (\<exists>c d. r = Inl (DmHttp c d) \<and> c < 400)"
  by (auto simp: http_of_def split: sum.splits daemon_exn.splits)

end
