(* ===== verification/Model_Json.thy ===== *)
theory Model_Json
  imports Gw_Store Py_Text
begin

text \<open>
  Reading back what \<open>model_dump\<close> wrote: decoders for the runtime models and the round trips that a
  store which keeps its objects as JSON relies on (\<open>model_validate_json\<close> of
  \<open>model_dump_json\<close>, \<open>_deserialize_asset\<close> of \<open>set_asset\<close>'s payload).
\<close>

section \<open>Numbers\<close>

definition digits_value :: "nat \<Rightarrow> pystr \<Rightarrow> nat" where
  "digits_value = foldl (\<lambda>a c. 10 * a + nat (c - 48))"

definition nat_of_digits :: "pystr \<Rightarrow> nat option" where
  "nat_of_digits s = (if s \<noteq> [] \<and> list_all is_digit s then Some (digits_value 0 s) else None)"

lemma digits_value_append: "digits_value a (s @ t) = digits_value (digits_value a s) t"
  by (simp add: digits_value_def)

lemma digits_value_str: "digits_value 0 (str_of_nat n) = n"
proof (induction n rule: str_of_nat.induct)
  case (1 n)
  show ?case
  proof (cases "n < 10")
    case True
    then show ?thesis by (simp add: str_of_nat.simps [of n] digits_value_def)
  next
    case False
    then have "digits_value 0 (str_of_nat n) = 10 * (n div 10) + n mod 10"
      using 1 by (simp add: str_of_nat.simps [of n] digits_value_append) (simp add: digits_value_def)
    then show ?thesis by simp
  qed
qed

lemma digits_value_zeros: "digits_value 0 (replicate k 48) = 0"
  by (induction k) (simp_all add: digits_value_def)

lemma nat_of_digits_zpad [simp]: "nat_of_digits (zpad w n) = Some n"
proof -
  have "list_all is_digit (zpad w n)" by (simp add: list_all_iff zpad_digits)
  moreover have "digits_value 0 (zpad w n) = n"
    by (simp add: zpad_def digits_value_append digits_value_zeros digits_value_str)
  ultimately show ?thesis by (simp add: nat_of_digits_def zpad_def)
qed

lemma zpad_no: "\<not> is_digit c \<Longrightarrow> c \<notin> set (zpad w n)"
  using zpad_digits by blast

section \<open>Datetimes\<close>

lemma cut_at: "c \<notin> set a \<Longrightarrow> cut [c] (a @ c # b) = Some (a, b)"
  by (induction a) (auto simp: startswith_def)

lemma cut_none: "c \<notin> set a \<Longrightarrow> cut [c] a = None"
  by (induction a) (auto simp: startswith_def)

definition seconds_of :: "pystr \<Rightarrow> (nat \<times> nat) option" where
  "seconds_of s = (case cut [46] s of
     None \<Rightarrow> map_option (\<lambda>x. (x, 0)) (nat_of_digits s)
   | Some (a, b) \<Rightarrow> (case (nat_of_digits a, nat_of_digits b) of (Some x, Some y) \<Rightarrow> Some (x, y) | _ \<Rightarrow> None))"

definition datetime_of :: "pystr \<Rightarrow> datetime option" where
  "datetime_of s =
     Option.bind (cut [45] s) (\<lambda>(y, s1).
     Option.bind (cut [45] s1) (\<lambda>(mo, s2).
     Option.bind (cut [84] s2) (\<lambda>(d, s3).
     Option.bind (cut [58] s3) (\<lambda>(h, s4).
     Option.bind (cut [58] s4) (\<lambda>(mi, s5).
     Option.bind (cut [90] s5) (\<lambda>(se, s6).
     Option.bind (nat_of_digits y) (\<lambda>y.
     Option.bind (nat_of_digits mo) (\<lambda>mo.
     Option.bind (nat_of_digits d) (\<lambda>d.
     Option.bind (nat_of_digits h) (\<lambda>h.
     Option.bind (nat_of_digits mi) (\<lambda>mi.
     Option.bind (seconds_of se) (\<lambda>(sec, us).
       if s6 = [] then Some (DateTime y mo d h mi sec us) else None))))))))))))"

definition json_of_datetime_text :: "datetime \<Rightarrow> pystr" where
  "json_of_datetime_text t = zpad 4 (dt_year t) @ 45 # zpad 2 (dt_month t) @ 45 # zpad 2 (dt_day t) @ 84
     # zpad 2 (dt_hour t) @ 58 # zpad 2 (dt_minute t) @ 58 #
     (zpad 2 (dt_second t) @ (if dt_micro t = 0 then [] else 46 # zpad 6 (dt_micro t))) @ [90]"

lemma json_datetime_text: "json_datetime t = JStr (json_of_datetime_text t)"
  by (simp add: json_datetime_def json_of_datetime_text_def iso_date_def lit_def)

lemma seconds_of_text:
  "seconds_of (zpad 2 s @ (if us = 0 then [] else 46 # zpad 6 us)) = Some (s, us)"
proof -
  have "\<not> is_digit 46" by (simp add: is_digit_def)
  then show ?thesis by (simp add: seconds_of_def cut_at cut_none zpad_no)
qed

lemma datetime_round_trip: "datetime_of (json_of_datetime_text t) = Some t"
proof -
  have nd: "\<not> is_digit 45" "\<not> is_digit 84" "\<not> is_digit 58" "\<not> is_digit 90" by (simp_all add: is_digit_def)
  have "90 \<notin> set (zpad 2 (dt_second t) @ (if dt_micro t = 0 then [] else 46 # zpad 6 (dt_micro t)))"
    using zpad_no [OF nd(4)] by simp
  note c = cut_at [OF this, of "[]"]
  show ?thesis
    unfolding datetime_of_def json_of_datetime_text_def
    by (simp only: cut_at [OF zpad_no [OF nd(1)]] cut_at [OF zpad_no [OF nd(2)]] cut_at [OF zpad_no [OF nd(3)]]
        c Option.bind.simps prod.case nat_of_digits_zpad seconds_of_text) simp
qed

section \<open>Objects\<close>

definition get_str :: "json \<Rightarrow> string \<Rightarrow> pystr option" where
  "get_str j k = (case jget j (lit k) JNull of Some (JStr s) \<Rightarrow> Some s | _ \<Rightarrow> None)"

definition get_opt :: "json \<Rightarrow> string \<Rightarrow> pystr option option" where
  "get_opt j k = (case jget j (lit k) JNull of Some JNull \<Rightarrow> Some None | Some (JStr s) \<Rightarrow> Some (Some s) | _ \<Rightarrow> None)"

definition get_time :: "json \<Rightarrow> string \<Rightarrow> datetime option" where
  "get_time j k = Option.bind (get_str j k) datetime_of"

fun strs_of :: "json list \<Rightarrow> pystr list option" where
  "strs_of [] = Some []"
| "strs_of (JStr s # xs) = map_option ((#) s) (strs_of xs)"
| "strs_of (_ # xs) = None"

lemma strs_of_map [simp]: "strs_of (map JStr xs) = Some xs"
  by (induction xs) auto

definition get_strs :: "json \<Rightarrow> string \<Rightarrow> pystr list option" where
  "get_strs j k = (case jget j (lit k) (JArr []) of Some (JArr xs) \<Rightarrow> strs_of xs | _ \<Rightarrow> None)"

definition get_float :: "json \<Rightarrow> string \<Rightarrow> rat option option" where
  "get_float j k = (case jget j (lit k) JNull of Some JNull \<Rightarrow> Some None | Some (JFloat q) \<Rightarrow> Some (Some q) | _ \<Rightarrow> None)"

definition FaultEventStatus_of :: "pystr \<Rightarrow> FaultEventStatus option" where
  "FaultEventStatus_of s = map_of (map (\<lambda>x. (FaultEventStatus_value x, x))
     [detected, diagnosing, awaiting_approval, remediating, resolved, denied]) s"

definition AssetState_of :: "pystr \<Rightarrow> AssetState option" where
  "AssetState_of s = map_of [(lit ''healthy'', healthy), (lit ''faulted'', faulted)] s"

lemma FaultEventStatus_round_trip [simp]: "FaultEventStatus_of (FaultEventStatus_value x) = Some x"
  by (cases x) (simp_all add: FaultEventStatus_of_def)

lemma AssetState_round_trip [simp]: "AssetState_of (AssetState_value x) = Some x"
  by (cases x) (simp_all add: AssetState_of_def)

definition impact_of :: "json \<Rightarrow> ScenarioImpact option option" where
  "impact_of j = (if j = JNull then Some None else
     Option.bind (get_str j ''summary'') (\<lambda>a. Option.bind (get_str j ''workload_impact'') (\<lambda>b.
     Option.bind (get_str j ''service_risk'') (\<lambda>c. Option.bind (get_str j ''estimated_duration'') (\<lambda>d.
       Some (Some \<lparr>im_summary = a, im_workload_impact = b, im_service_risk = c, im_estimated_duration = d\<rparr>))))))"

definition fault_of_json :: "json \<Rightarrow> FaultEvent option" where
  "fault_of_json j =
     Option.bind (get_str j ''id'') (\<lambda>i. Option.bind (get_str j ''scenario_id'') (\<lambda>sc.
     Option.bind (get_str j ''asset_id'') (\<lambda>a. Option.bind (get_time j ''detected_at'') (\<lambda>t.
     Option.bind (Option.bind (get_str j ''status'') FaultEventStatus_of) (\<lambda>st.
     Option.bind (get_opt j ''kb_article_id'') (\<lambda>kb. Option.bind (get_opt j ''log_extract'') (\<lambda>le.
     Option.bind (get_strs j ''remediation_step_labels'') (\<lambda>ls.
     Option.bind (get_opt j ''error_signature'') (\<lambda>es. Option.bind (get_opt j ''analysis'') (\<lambda>an.
     Option.bind (get_opt j ''kb_title'') (\<lambda>kt. Option.bind (get_float j ''kb_score'') (\<lambda>ks.
     Option.bind (Option.bind (jget j (lit ''impact'') JNull) impact_of) (\<lambda>im.
       Some \<lparr>fe_id = i, fe_scenario_id = sc, fe_asset_id = a, fe_detected_at = t, fe_status = st,
             fe_kb_article_id = kb, fe_log_extract = le, fe_remediation_step_labels = ls,
             fe_error_signature = es, fe_analysis = an, fe_kb_title = kt, fe_kb_score = ks, fe_impact = im\<rparr>)))))))))))))"

definition notification_of_json :: "json \<Rightarrow> Notification option" where
  "notification_of_json j =
     Option.bind (get_str j ''id'') (\<lambda>i. Option.bind (get_str j ''fault_event_id'') (\<lambda>f.
     Option.bind (get_str j ''title'') (\<lambda>ti. Option.bind (get_str j ''body'') (\<lambda>b.
     Option.bind (jget j (lit ''read'') (JBool False)) (\<lambda>r. Option.bind (get_time j ''ts'') (\<lambda>t.
       case r of JBool x \<Rightarrow> Some \<lparr>nt_id = i, nt_fault_event_id = f, nt_title = ti, nt_body = b, nt_read = x, nt_ts = t\<rparr>
       | _ \<Rightarrow> None))))))"

definition activity_of_json :: "json \<Rightarrow> ActivityEvent option" where
  "activity_of_json j =
     Option.bind (get_str j ''id'') (\<lambda>i. Option.bind (get_str j ''fault_event_id'') (\<lambda>f.
     Option.bind (get_str j ''step'') (\<lambda>st. Option.bind (get_str j ''message'') (\<lambda>m.
     Option.bind (get_time j ''ts'') (\<lambda>t.
       Some \<lparr>ac_id = i, ac_fault_event_id = f, ac_step = st, ac_message = m, ac_ts = t\<rparr>)))))"

lemmas getters = get_str_def get_opt_def get_time_def get_strs_def get_float_def

lemma get_opt_jopt: "(case jopt x of JNull \<Rightarrow> Some None | JStr s \<Rightarrow> Some (Some s) | _ \<Rightarrow> None) = Some x"
  by (cases x) (simp_all add: jopt_def)

lemma get_float_jfloat:
  "(case jfloat x of JNull \<Rightarrow> Some None | JFloat q \<Rightarrow> Some (Some q) | _ \<Rightarrow> None) = Some x"
  by (cases x) (simp_all add: jfloat_def)

lemma impact_round_trip: "impact_of (impact_json im) = Some im"
  by (cases im) (simp_all add: impact_of_def impact_json_def getters)

lemma activity_round_trip: "activity_of_json (activity_json e) = Some e"
  by (simp add: activity_of_json_def activity_json_def getters json_datetime_text datetime_round_trip)

lemma notification_round_trip: "notification_of_json (notification_json n) = Some n"
  by (simp add: notification_of_json_def notification_json_def getters json_datetime_text datetime_round_trip)

lemma fault_lookups:
  "jget (fault_json e) (lit ''id'') d = Some (JStr (fe_id e))"
  "jget (fault_json e) (lit ''scenario_id'') d = Some (JStr (fe_scenario_id e))"
  "jget (fault_json e) (lit ''asset_id'') d = Some (JStr (fe_asset_id e))"
  "jget (fault_json e) (lit ''detected_at'') d = Some (json_datetime (fe_detected_at e))"
  "jget (fault_json e) (lit ''status'') d = Some (JStr (FaultEventStatus_value (fe_status e)))"
  "jget (fault_json e) (lit ''kb_article_id'') d = Some (jopt (fe_kb_article_id e))"
  "jget (fault_json e) (lit ''log_extract'') d = Some (jopt (fe_log_extract e))"
  "jget (fault_json e) (lit ''remediation_step_labels'') d = Some (jstrs (fe_remediation_step_labels e))"
  "jget (fault_json e) (lit ''error_signature'') d = Some (jopt (fe_error_signature e))"
  "jget (fault_json e) (lit ''analysis'') d = Some (jopt (fe_analysis e))"
  "jget (fault_json e) (lit ''kb_title'') d = Some (jopt (fe_kb_title e))"
  "jget (fault_json e) (lit ''kb_score'') d = Some (jfloat (fe_kb_score e))"
  "jget (fault_json e) (lit ''impact'') d = Some (impact_json (fe_impact e))"
  by (simp_all add: fault_json_def)

lemma fault_round_trip: "fault_of_json (fault_json e) = Some e"
  unfolding fault_of_json_def getters fault_lookups
  by (simp only: json_datetime_text jstrs_def option.case json.case get_opt_jopt get_float_jfloat
      strs_of_map Option.bind.simps datetime_round_trip FaultEventStatus_round_trip impact_round_trip) simp


end
