(* ===== verification/Gw_Http.thy ===== *)
theory Gw_Http
  imports Gw_Terminal Gw_Properties Model_Json
begin

text \<open>
  The gateway as an HTTP application: which route of \<open>services/gateway/router.py\<close> and
  \<open>services/gateway/terminal.py\<close> a request reaches, the validation of its body against the
  request models, and the answer. A request carries the decoded segments of its path; a body that
  is empty or no JSON is \<open>None\<close>. What no route takes goes to the static files \<open>create_app\<close>
  mounts last, which see no state. Calls to the terminal daemon act on the daemon, whose state is not
  part of this one.
\<close>

section \<open>Requests and routes\<close>

record gw_request =
  rq_method :: pystr
  rq_path :: "pystr list"
  rq_query :: "pystr dict"
  rq_body :: "json option"

datatype gw_route =
    GHealthz | GPack | GLabHealth | GAgentStatus | GAssets | GNotifications | GNotificationRead pystr
  | GFaults | GFault pystr | GCreateFault | GStatus pystr | GDiagnosis pystr | GDecision pystr | GToken pystr
  | GActivity | GPostActivity | GEvents | GScenarios | GInject | GReset
  | GTermEnabled | GTermReset | GTermStatus | GTermSwitch

definition get_routes :: "(pystr \<times> gw_route) list" where
  "get_routes = [(lit ''pack'', GPack), (lit ''lab-health'', GLabHealth), (lit ''assets'', GAssets),
     (lit ''notifications'', GNotifications), (lit ''faults'', GFaults), (lit ''activity'', GActivity),
     (lit ''events'', GEvents)]"

text \<open>Routes below \<open>/api/faults/{fault_id}\<close>, by method and last segment.\<close>

definition fault_routes :: "((pystr \<times> pystr) \<times> (pystr \<Rightarrow> gw_route)) list" where
  "fault_routes = [((lit ''PATCH'', lit ''status''), GStatus), ((lit ''PATCH'', lit ''diagnosis''), GDiagnosis),
     ((lit ''POST'', lit ''decision''), GDecision), ((lit ''GET'', lit ''token''), GToken)]"

text \<open>Fixed paths of three segments: \<open>/api/agent\<close>, \<open>/api/presenter\<close>, \<open>/api/terminal\<close>.\<close>

definition group_routes :: "((pystr \<times> pystr \<times> pystr) \<times> gw_route) list" where
  "group_routes =
     [((lit ''GET'', lit ''agent'', lit ''status''), GAgentStatus),
      ((lit ''POST'', lit ''agent'', lit ''activity''), GPostActivity),
      ((lit ''GET'', lit ''presenter'', lit ''scenarios''), GScenarios),
      ((lit ''POST'', lit ''presenter'', lit ''inject''), GInject),
      ((lit ''POST'', lit ''presenter'', lit ''reset''), GReset),
      ((lit ''GET'', lit ''terminal'', lit ''enabled''), GTermEnabled),
      ((lit ''POST'', lit ''terminal'', lit ''reset''), GTermReset),
      ((lit ''GET'', lit ''terminal'', lit ''config-status''), GTermStatus),
      ((lit ''POST'', lit ''terminal'', lit ''switch-pack''), GTermSwitch)]"

text \<open>A path parameter is one segment that is not empty.\<close>

definition gw_route_of :: "pystr \<Rightarrow> pystr list \<Rightarrow> gw_route option" where
  "gw_route_of m path =
     (case path of
        [a] \<Rightarrow> if m = lit ''GET'' \<and> a = lit ''healthz'' then Some GHealthz else None
      | [a, b] \<Rightarrow>
          if a \<noteq> lit ''api'' then None
          else if m = lit ''GET'' then map_of get_routes b
          else if m = lit ''POST'' \<and> b = lit ''faults'' then Some GCreateFault else None
      | [a, b, c] \<Rightarrow>
          if a \<noteq> lit ''api'' then None
          else if b = lit ''faults'' then (if m = lit ''GET'' \<and> c \<noteq> [] then Some (GFault c) else None)
          else map_of group_routes (m, b, c)
      | [a, b, c, d] \<Rightarrow>
          if a \<noteq> lit ''api'' \<or> c = [] then None
          else if b = lit ''faults'' then map_option (\<lambda>r. r c) (map_of fault_routes (m, d))
          else if b = lit ''notifications'' \<and> m = lit ''POST'' \<and> d = lit ''read''
          then Some (GNotificationRead c) else None
      | _ \<Rightarrow> None)"

section \<open>Request models\<close>

text \<open>
  A field of type \<open>float\<close> takes any JSON number and a string that reads as one; \<open>float_of\<close> is
  that reading, of finite numbers.
\<close>

definition get_number :: "(pystr \<Rightarrow> rat option) \<Rightarrow> json \<Rightarrow> string \<Rightarrow> rat option option" where
  "get_number float_of j k = (case jget j (lit k) JNull of
     Some JNull \<Rightarrow> Some None
   | Some (JFloat q) \<Rightarrow> Some (Some q)
   | Some (JInt i) \<Rightarrow> Some (Some (of_int i))
   | Some (JBool b) \<Rightarrow> Some (Some (if b then 1 else 0))
   | Some (JStr s) \<Rightarrow> map_option Some (float_of s)
   | _ \<Rightarrow> None)"

definition parse_create_fault :: "json \<Rightarrow> CreateFaultRequest option" where
  "parse_create_fault j =
     Option.bind (get_str j ''scenario_id'') (\<lambda>scenario_id.
     Option.bind (get_str j ''asset_id'') (\<lambda>asset_id.
     Option.bind (get_opt j ''kb_article_id'') (\<lambda>kb.
     Option.bind (get_opt j ''log_extract'') (\<lambda>extract.
     Option.bind (get_strs j ''remediation_step_labels'') (\<lambda>labels.
       Some \<lparr>cf_scenario_id = scenario_id, cf_asset_id = asset_id, cf_kb_article_id = kb,
             cf_log_extract = extract, cf_remediation_step_labels = labels\<rparr>)))))"

definition parse_update_status :: "json \<Rightarrow> FaultEventStatus option" where
  "parse_update_status j = Option.bind (get_str j ''status'') FaultEventStatus_of"

definition parse_update_diagnosis :: "(pystr \<Rightarrow> rat option) \<Rightarrow> json \<Rightarrow> UpdateDiagnosisRequest option" where
  "parse_update_diagnosis float_of j =
     Option.bind (get_opt j ''error_signature'') (\<lambda>signature.
     Option.bind (get_opt j ''analysis'') (\<lambda>analysis.
     Option.bind (get_opt j ''kb_article_id'') (\<lambda>kb.
     Option.bind (get_opt j ''kb_title'') (\<lambda>title.
     Option.bind (get_number float_of j ''kb_score'') (\<lambda>score.
       Some \<lparr>ud_error_signature = signature, ud_analysis = analysis, ud_kb_article_id = kb,
             ud_kb_title = title, ud_kb_score = score\<rparr>)))))"

definition parse_decision :: "json \<Rightarrow> ApprovalDecision option" where
  "parse_decision j = Option.bind (get_str j ''decision'') ApprovalDecision_of"

definition parse_activity :: "json \<Rightarrow> (pystr \<times> pystr \<times> pystr) option" where
  "parse_activity j =
     Option.bind (get_str j ''fault_event_id'') (\<lambda>f.
     Option.bind (get_str j ''step'') (\<lambda>stp.
     Option.bind (get_str j ''message'') (\<lambda>message. Some (f, stp, message))))"

section \<open>The application\<close>

text \<open>
  What the handlers reach: the store, the loaded pack, the environment, the network of the health
  probes, the terminal daemon, and the clients of the orchestrator (\<open>'o\<close> is its state) and of the
  MCP tools service (\<open>'m\<close>). \<open>ge_ids\<close> reads scenario and asset of the orchestrator's answer to a run,
  \<open>ge_float\<close> a number given as a string; \<open>ge_static\<close> is the status code of what no route takes.
\<close>

record ('s, 'o, 'm) gw_env =
  ge_ops :: "'s store_ops"
  ge_subscribe :: "'s \<Rightarrow> nat \<times> 's"
  ge_pack :: LoadedPack
  ge_environ :: environ
  ge_net :: health_net
  ge_daemon :: daemon_http
  ge_steps :: "'o \<Rightarrow> pystr \<Rightarrow> http_exn + RemediationStep list"
  ge_scenarios :: "'o \<Rightarrow> http_exn + json"
  ge_ids :: "json \<Rightarrow> pystr \<times> pystr"
  ge_run_next :: "'o \<Rightarrow> (http_exn + json) \<times> 'o"
  ge_run :: "pystr \<Rightarrow> 'o \<Rightarrow> (http_exn + json) \<times> 'o"
  ge_orch_reset :: "'o \<Rightarrow> (http_exn + unit) \<times> 'o"
  ge_mcp :: "'m mcp_client"
  ge_float :: "pystr \<Rightarrow> rat option"
  ge_static :: "gw_request \<Rightarrow> nat"

text \<open>\<open>ga_jobs\<close>: the executions handed to the executor; \<open>ga_hooks\<close>: the wake-hook requests made.\<close>

record ('s, 'o, 'm) gw_app =
  ga_store :: 's
  ga_orch :: 'o
  ga_mcp :: 'm
  ga_jobs :: "exec_job list"
  ga_hooks :: "hook_request list"

text \<open>The ids and clock readings a request may draw.\<close>

record gw_draw =
  dr_id :: pystr
  dr_id2 :: pystr
  dr_now :: datetime
  dr_now2 :: datetime

datatype gw_reply = Reply nat json | ErrorReply nat "detail option" | Streaming nat | Static nat

fun exn_reply :: "gw_exn \<Rightarrow> gw_reply" where
  "exn_reply (GwHttp (HTTPException code d)) = ErrorReply code (Some d)"
| "exn_reply _ = ErrorReply 500 None"

definition reply_of :: "nat \<Rightarrow> gw_exn + json \<Rightarrow> gw_reply" where
  "reply_of code r = (case r of Inl e \<Rightarrow> exn_reply e | Inr j \<Rightarrow> Reply code j)"

definition status_json :: json where
  "status_json = JObj [(lit ''status'', JStr (lit ''ok''))]"

text \<open>A route that only reads, and one that writes the store.\<close>

definition reading :: "gw_exn + json \<Rightarrow> ('s, 'o, 'm) gw_app \<Rightarrow> gw_reply \<times> ('s, 'o, 'm) gw_app" where
  "reading r app = (reply_of 200 r, app)"

definition writing ::
  "nat \<Rightarrow> ('s \<Rightarrow> (gw_exn + json) \<times> 's) \<Rightarrow> ('s, 'o, 'm) gw_app \<Rightarrow> gw_reply \<times> ('s, 'o, 'm) gw_app" where
  "writing code handler app =
     (let (r, s') = handler (ga_store app) in (reply_of code r, app\<lparr>ga_store := s'\<rparr>))"

text \<open>A body that does not validate answers 422, and the handler does not run.\<close>

definition with_body ::
  "(json \<Rightarrow> 'b option) \<Rightarrow> gw_request \<Rightarrow> ('b \<Rightarrow> 'app \<Rightarrow> gw_reply \<times> 'app) \<Rightarrow> 'app \<Rightarrow> gw_reply \<times> 'app" where
  "with_body parse rq handler app =
     (case Option.bind (rq_body rq) parse of
        None \<Rightarrow> (ErrorReply 422 None, app)
      | Some b \<Rightarrow> handler b app)"

definition decision_route ::
  "('s, 'o, 'm) gw_env \<Rightarrow> pystr \<Rightarrow> ApprovalDecision \<Rightarrow> ('s, 'o, 'm) gw_app \<Rightarrow> gw_reply \<times> ('s, 'o, 'm) gw_app" where
  "decision_route env f d app =
     (let (r, s', m', job) = post_decision (ge_ops env) (ge_steps env (ga_orch app)) (ge_mcp env) f d
            (ga_store app) (ga_mcp app)
      in (reply_of 200 r,
          app\<lparr>ga_store := s', ga_mcp := m',
              ga_jobs := ga_jobs app @ (case job of None \<Rightarrow> [] | Some x \<Rightarrow> [x])\<rparr>))"

definition activity_route ::
  "('s, 'o, 'm) gw_env \<Rightarrow> gw_draw \<Rightarrow> pystr \<times> pystr \<times> pystr \<Rightarrow> ('s, 'o, 'm) gw_app
     \<Rightarrow> gw_reply \<times> ('s, 'o, 'm) gw_app" where
  "activity_route env dr b = writing 201 (\<lambda>s.
     let (j, s') = post_activity (ge_ops env) (dr_id dr) (dr_now dr) (fst b) (fst (snd b)) (snd (snd b)) s
     in (Inr j, s'))"

definition inject_route ::
  "('s, 'o, 'm) gw_env \<Rightarrow> gw_request \<Rightarrow> ('s, 'o, 'm) gw_app \<Rightarrow> gw_reply \<times> ('s, 'o, 'm) gw_app" where
  "inject_route env rq app =
     (let (r, hook, os') = presenter_inject (ge_ids env) (ge_run_next env) (ge_run env)
            (wake_agent (ge_environ env) (ge_daemon env)) (getenv (ge_environ env) ''OPENCLAW_HOOK_URL'')
            (getenv (ge_environ env) ''OPENCLAW_HOOK_TOKEN'') (map_of (rq_query rq) (lit ''scenario'')) (ga_orch app)
      in (reply_of 200 r,
          app\<lparr>ga_orch := os', ga_hooks := ga_hooks app @ (case hook of None \<Rightarrow> [] | Some x \<Rightarrow> [x])\<rparr>))"

definition reset_route ::
  "('s, 'o, 'm) gw_env \<Rightarrow> ('s, 'o, 'm) gw_app \<Rightarrow> gw_reply \<times> ('s, 'o, 'm) gw_app" where
  "reset_route env app =
     (let (r, s', os', m') = presenter_reset (ge_ops env) (ge_orch_reset env) (ge_mcp env)
            (ga_store app) (ga_orch app) (ga_mcp app)
      in (reply_of 200 r, app\<lparr>ga_store := s', ga_orch := os', ga_mcp := m'\<rparr>))"

fun gw_handle ::
  "('s, 'o, 'm) gw_env \<Rightarrow> gw_draw \<Rightarrow> gw_request \<Rightarrow> gw_route \<Rightarrow> ('s, 'o, 'm) gw_app
     \<Rightarrow> gw_reply \<times> ('s, 'o, 'm) gw_app" where
  "gw_handle env dr rq GHealthz app = (Reply 200 status_json, app)"
| "gw_handle env dr rq GPack app = reading (Inr (get_pack (ge_pack env))) app"
| "gw_handle env dr rq GLabHealth app = reading (lab_health (ge_environ env) (ge_net env) (dr_now dr)) app"
| "gw_handle env dr rq GAgentStatus app =
     reading (Inr (agent_status (ge_ops env) (ge_environ env) (ge_net env) (ga_store app))) app"
| "gw_handle env dr rq GAssets app = reading (Inr (list_assets (ge_ops env) (ga_store app))) app"
| "gw_handle env dr rq GNotifications app = reading (Inr (list_notifications (ge_ops env) (ga_store app))) app"
| "gw_handle env dr rq (GNotificationRead n) app = writing 200 (mark_notification_read (ge_ops env) n) app"
| "gw_handle env dr rq GFaults app = reading (Inr (list_faults (ge_ops env) (ga_store app))) app"
| "gw_handle env dr rq (GFault f) app = reading (get_fault_detail (ge_ops env) f (ga_store app)) app"
| "gw_handle env dr rq GCreateFault app = with_body parse_create_fault rq
     (\<lambda>b. writing 201 (create_fault (ge_ops env) (ge_pack env) (dr_id dr) (dr_now dr) (dr_id2 dr) (dr_now2 dr) b)) app"
| "gw_handle env dr rq (GStatus f) app = with_body parse_update_status rq
     (\<lambda>x. writing 200 (update_fault_status (ge_ops env) f x)) app"
| "gw_handle env dr rq (GDiagnosis f) app = with_body (parse_update_diagnosis (ge_float env)) rq
     (\<lambda>b. writing 200 (update_fault_diagnosis (ge_ops env) f b)) app"
| "gw_handle env dr rq (GDecision f) app = with_body parse_decision rq (decision_route env f) app"
| "gw_handle env dr rq (GToken f) app = reading (get_token (ge_ops env) f (ga_store app)) app"
| "gw_handle env dr rq GActivity app = reading (Inr (list_activity (ge_ops env) (ga_store app))) app"
| "gw_handle env dr rq GPostActivity app = with_body parse_activity rq
     (activity_route env dr) app"
| "gw_handle env dr rq GEvents app =
     (let (q, s') = ge_subscribe env (ga_store app) in (Streaming q, app\<lparr>ga_store := s'\<rparr>))"
| "gw_handle env dr rq GScenarios app =
     reading (case ge_scenarios env (ga_orch app) of Inl e \<Rightarrow> Inl (GwUpstream e) | Inr j \<Rightarrow> Inr j) app"
| "gw_handle env dr rq GInject app = inject_route env rq app"
| "gw_handle env dr rq GReset app = reset_route env app"
| "gw_handle env dr rq GTermEnabled app = reading (Inr (terminal_enabled (ge_environ env))) app"
| "gw_handle env dr rq GTermReset app = reading (terminal_reset (ge_environ env) (ge_daemon env)) app"
| "gw_handle env dr rq GTermStatus app = reading (terminal_config_status (ge_environ env) (ge_daemon env)) app"
| "gw_handle env dr rq GTermSwitch app =
     reading (terminal_switch_pack (ge_environ env) (ge_daemon env) (rq_body rq)) app"

definition gw_http ::
  "('s, 'o, 'm) gw_env \<Rightarrow> gw_draw \<Rightarrow> gw_request \<Rightarrow> ('s, 'o, 'm) gw_app \<Rightarrow> gw_reply \<times> ('s, 'o, 'm) gw_app" where
  "gw_http env dr rq app =
     (case gw_route_of (rq_method rq) (rq_path rq) of
        None \<Rightarrow> (Static (ge_static env rq), app)
      | Some route \<Rightarrow> gw_handle env dr rq route app)"


text \<open>The application over the in-memory store: \<open>store.sse.subscribe()\<close> of the event stream.\<close>

definition mem_subscribe :: "GatewayStore \<Rightarrow> nat \<times> GatewayStore" where
  "mem_subscribe s = (let (q, b) = sse_subscribe (gs_sse s) in (q, s\<lparr>gs_sse := b\<rparr>))"

definition mem_env :: "(GatewayStore, 'o, 'm) gw_env \<Rightarrow> bool" where
  "mem_env env \<longleftrightarrow> ge_ops env = mem_ops \<and> ge_subscribe env = mem_subscribe"

end
