(* ===== verification/Gw_Http_Safety.thy ===== *)
theory Gw_Http_Safety
  imports Gw_Http Approval_Gate
begin

text \<open>
  What any HTTP request can do to the gateway: reading changes nothing, an invalid body changes
  nothing, an execution starts by an approving decision only, and whatever is sent, the store goes
  through the steps of \<open>gw_step\<close> only, so that the invariants over reachable stores hold of the
  application as it is reached from outside.
\<close>

section \<open>Reading\<close>

lemma reading_app [simp]: "snd (reading r app) = app"
  by (simp add: reading_def)

lemma map_of_keys_in: "map_of kvs k = Some v \<Longrightarrow> k \<in> set (map fst kvs) \<and> v \<in> set (map snd kvs)"
  by (force dest: map_of_SomeD)

definition read_routes :: "gw_route set" where
  "read_routes = {GHealthz, GPack, GLabHealth, GAgentStatus, GAssets, GNotifications, GFaults, GActivity, GEvents,
     GScenarios, GTermEnabled, GTermStatus} \<union> range GFault \<union> range GToken"

lemma get_route: "gw_route_of (lit ''GET'') path = Some r \<Longrightarrow> r \<in> read_routes"
  by (auto simp: gw_route_of_def get_routes_def group_routes_def fault_routes_def read_routes_def
      split: list.splits if_splits)

lemma read_route_app:
  "r \<in> read_routes \<Longrightarrow> snd (gw_handle env dr rq r app) =
     (if r = GEvents then app\<lparr>ga_store := snd (ge_subscribe env (ga_store app))\<rparr> else app)"
  by (auto simp: read_routes_def split: prod.split)

text \<open>
  C12: A \<open>GET\<close> request changes nothing, whatever its path, query and body, over any store and any
  upstream: the store, the orchestrator, the MCP tools service, the executions and the wake-hook
  requests are as before. The event stream adds its subscriber and nothing else.
\<close>

theorem get_changes_nothing:
  assumes "rq_method rq = lit ''GET''"
  shows "snd (gw_http env dr rq app) =
     (if gw_route_of (rq_method rq) (rq_path rq) = Some GEvents
      then app\<lparr>ga_store := snd (ge_subscribe env (ga_store app))\<rparr> else app)"
proof (cases "gw_route_of (lit ''GET'') (rq_path rq)")
  case None
  with assms show ?thesis by (simp add: gw_http_def)
next
  case (Some r)
  with assms read_route_app [OF get_route [OF Some], of env dr rq app] show ?thesis by (simp add: gw_http_def)
qed

section \<open>Executions\<close>

lemma writing_other [simp]:
  "ga_jobs (snd (writing code h app)) = ga_jobs app" "ga_mcp (snd (writing code h app)) = ga_mcp app"
  "ga_orch (snd (writing code h app)) = ga_orch app" "ga_hooks (snd (writing code h app)) = ga_hooks app"
  "ga_store (snd (writing code h app)) = snd (h (ga_store app))"
  by (simp_all add: writing_def case_prod_beta)

lemma with_body_cases:
  "snd (with_body parse rq handler app) = app \<and> Option.bind (rq_body rq) parse = None
   \<or> (\<exists>b. Option.bind (rq_body rq) parse = Some b \<and> with_body parse rq handler app = handler b app)"
  by (auto simp: with_body_def split: option.split)

lemma jobs_with_body:
  "(\<And>b. ga_jobs (snd (handler b app)) = ga_jobs app) \<Longrightarrow> ga_jobs (snd (with_body parse rq handler app)) = ga_jobs app"
  using with_body_cases [of parse rq handler app] by auto

lemma jobs_route:
  assumes "ga_jobs (snd (gw_handle env dr rq r app)) \<noteq> ga_jobs app"
  obtains f d where "r = GDecision f" "Option.bind (rq_body rq) parse_decision = Some d"
    "gw_handle env dr rq r app = decision_route env f d app"
proof (cases r)
  case (GDecision f)
  with assms with_body_cases [of parse_decision rq "decision_route env f" app] that show ?thesis by auto
next
  case GPostActivity
  with assms show ?thesis by (simp add: jobs_with_body activity_route_def)
qed (use assms in \<open>auto simp: jobs_with_body inject_route_def reset_route_def split: prod.splits\<close>)

lemma decision_path: "gw_route_of m path = Some (GDecision f) \<Longrightarrow>
    m = lit ''POST'' \<and> path = [lit ''api'', lit ''faults'', f, lit ''decision'']"
  by (auto simp: gw_route_of_def get_routes_def group_routes_def fault_routes_def split: list.splits if_splits)

lemma post_decision_job:
  assumes "post_decision st orch mc f d s m = (r, s', m', Some job)"
  shows "d = decision_approved \<and> (\<exists>e. op_get_fault st f s = Some e \<and> ej_fault_id job = f
     \<and> ej_asset_id job = fe_asset_id e \<and> ej_scenario_id job = fe_scenario_id e
     \<and> ej_step_ids job = map rs_id (case orch (fe_asset_id e) of Inl _ \<Rightarrow> [] | Inr xs \<Rightarrow> xs)
     \<and> (\<exists>m1. mint_for mc e f (ej_step_ids job) m = (Inr (ej_token job), m1)) \<and> r = Inr (approved_answer f))"
  using assms
  by (cases d) (auto simp: post_decision_def Let_def split: option.splits prod.splits sum.splits if_splits)

lemma parsed_approval:
  assumes "Option.bind b parse_decision = Some decision_approved"
  shows "\<exists>body. b = Some body \<and> jget body (lit ''decision'') JNull = Some (JStr (lit ''approved''))"
proof -
  from assms obtain body s where "b = Some body" "get_str body ''decision'' = Some s"
    "ApprovalDecision_of s = Some decision_approved"
    by (auto simp: bind_eq_Some_conv parse_decision_def)
  moreover from this(2) have "jget body (lit ''decision'') JNull = Some (JStr s)"
    by (simp add: get_str_def split: option.splits json.splits)
  ultimately show ?thesis by (simp add: ApprovalDecision_of_Some)
qed

text \<open>
  C10: Nothing but the operator's approval starts an execution. If a request makes the executor
  start anything, it is a \<open>POST\<close> to \<open>/api/faults/{f}/decision\<close> of an existing fault event with a
  body that says \<open>approved\<close>, exactly one execution starts, for that event, its asset and the steps
  the orchestrator gives for the asset (none when it does not answer), with the token the MCP tools
  service minted for this call, and the answer is the approval. This holds over any store and any
  upstream service, whatever the request.
\<close>

theorem executions_start_by_decision:
  assumes "ga_jobs (snd (gw_http env dr rq app)) \<noteq> ga_jobs app"
  shows "\<exists>f e job m1. rq_method rq = lit ''POST'' \<and> rq_path rq = [lit ''api'', lit ''faults'', f, lit ''decision'']
     \<and> (\<exists>body. rq_body rq = Some body \<and> jget body (lit ''decision'') JNull = Some (JStr (lit ''approved'')))
     \<and> op_get_fault (ge_ops env) f (ga_store app) = Some e
     \<and> ga_jobs (snd (gw_http env dr rq app)) = ga_jobs app @ [job]
     \<and> ej_fault_id job = f \<and> ej_asset_id job = fe_asset_id e
     \<and> ej_step_ids job = map rs_id (case ge_steps env (ga_orch app) (fe_asset_id e) of Inl _ \<Rightarrow> [] | Inr xs \<Rightarrow> xs)
     \<and> mint_for (ge_mcp env) e f (ej_step_ids job) (ga_mcp app) = (Inr (ej_token job), m1)
     \<and> fst (gw_http env dr rq app) = Reply 200 (approved_answer f)"
proof -
  obtain r where r: "gw_route_of (rq_method rq) (rq_path rq) = Some r"
    and http: "gw_http env dr rq app = gw_handle env dr rq r app"
    using assms by (cases "gw_route_of (rq_method rq) (rq_path rq)") (auto simp: gw_http_def)
  from assms [unfolded http] obtain f d where f: "r = GDecision f" "Option.bind (rq_body rq) parse_decision = Some d"
    and route: "gw_handle env dr rq r app = decision_route env f d app"
    by (rule jobs_route)
  obtain a s' m' job where p: "post_decision (ge_ops env) (ge_steps env (ga_orch app)) (ge_mcp env) f d
      (ga_store app) (ga_mcp app) = (a, s', m', job)"
    by (cases "post_decision (ge_ops env) (ge_steps env (ga_orch app)) (ge_mcp env) f d (ga_store app) (ga_mcp app)")
  with assms http route obtain x where x: "job = Some x" by (cases job) (auto simp: decision_route_def)
  note job = post_decision_job [OF p [unfolded x]]
  from parsed_approval [of "rq_body rq"] job p x f(2) decision_path [OF r [unfolded f(1)]] http route show ?thesis
    by (auto simp: decision_route_def reply_of_def)
qed

section \<open>Every request is a step of the store\<close>

text \<open>
  The application as it runs: requests with a fresh fault event id (\<open>uuid4\<close>), status updates and
  narration by executions in the background, and event streams that read or leave.
\<close>

inductive app_reachable :: "(GatewayStore, 'o, 'm) gw_env \<Rightarrow> (GatewayStore, 'o, 'm) gw_app \<Rightarrow> bool" for env where
  start: "app_reachable env \<lparr>ga_store = gateway_start mem_ops (ge_pack env) redis_url flag store_init,
            ga_orch = os, ga_mcp = m, ga_jobs = [], ga_hooks = []\<rparr>"
| request: "app_reachable env app \<Longrightarrow> map_of (gs_faults (ga_store app)) (dr_id dr) = None \<Longrightarrow>
     app_reachable env (snd (gw_http env dr rq app))"
| executor_status: "app_reachable env app \<Longrightarrow>
     app_reachable env (app\<lparr>ga_store := snd (set_status mem_ops f a x (ga_store app))\<rparr>)"
| executor_narrates: "app_reachable env app \<Longrightarrow>
     app_reachable env (app\<lparr>ga_store := narrate mem_ops aid t f stp msg (ga_store app)\<rparr>)"
| stream: "app_reachable env app \<Longrightarrow> app_reachable env (app\<lparr>ga_store := (ga_store app)\<lparr>gs_sse := b\<rparr>\<rparr>)"

lemma store_with_body:
  assumes "\<And>b. ga_store (snd (handler b app)) = ga_store app \<or> gw_step lp (ga_store app) (ga_store (snd (handler b app)))"
  shows "ga_store (snd (with_body parse rq handler app)) = ga_store app
     \<or> gw_step lp (ga_store app) (ga_store (snd (with_body parse rq handler app)))"
  using with_body_cases [of parse rq handler app]
proof (elim disjE exE conjE)
  fix b assume "with_body parse rq handler app = handler b app"
  with assms [of b] show ?thesis by simp
qed simp

lemma route_step:
  assumes "mem_env env" "map_of (gs_faults (ga_store app)) (dr_id dr) = None"
  shows "ga_store (snd (gw_handle env dr rq r app)) = ga_store app
     \<or> gw_step (ge_pack env) (ga_store app) (ga_store (snd (gw_handle env dr rq r app)))"
proof (cases "r \<in> read_routes")
  case True
  have "gw_step (ge_pack env) s (snd (mem_subscribe s))" for s
    using gw_step.stream [of "ge_pack env" s "snd (sse_subscribe (gs_sse s))"]
    by (simp add: mem_subscribe_def case_prod_beta)
  with True assms(1) show ?thesis by (simp add: read_route_app mem_env_def)
next
  case False
  from assms(1) have ops: "ge_ops env = mem_ops" by (simp add: mem_env_def)
  show ?thesis
  proof (cases r)
    case (GNotificationRead n)
    then show ?thesis using gw_step.read by (simp add: ops)
  next
    case GCreateFault
    then show ?thesis using gw_step.create [OF assms(2)] by (simp add: ops store_with_body)
  next
    case (GStatus f)
    then show ?thesis using gw_step.status by (simp add: ops store_with_body)
  next
    case (GDiagnosis f)
    then show ?thesis using gw_step.diagnosis by (simp add: ops store_with_body)
  next
    case (GDecision f)
    have "ga_store (snd (decision_route env f b app)) = ga_store app
       \<or> gw_step (ge_pack env) (ga_store app) (ga_store (snd (decision_route env f b app)))" for b
      by (simp add: ops decision_route_def split: prod.split) (blast dest: post_decision_step)
    with GDecision show ?thesis by (simp add: store_with_body)
  next
    case GPostActivity
    then show ?thesis using gw_step.activity by (simp add: ops store_with_body activity_route_def case_prod_beta)
  next
    case GReset
    then show ?thesis
      by (simp add: ops reset_route_def split: prod.split) (blast dest: presenter_reset_step)
  qed (use False in \<open>auto simp: read_routes_def inject_route_def split: prod.split\<close>)
qed


section \<open>A gateway that is asked\<close>

definition demo_env :: "(GatewayStore, unit, nat) gw_env" where
  "demo_env = \<lparr>ge_ops = mem_ops, ge_subscribe = mem_subscribe, ge_pack = demo_pack, ge_environ = [],
     ge_net = quiet_net 200, ge_daemon = (\<lambda>_ _ _ _. None), ge_steps = (\<lambda>_. demo_orch_steps),
     ge_scenarios = (\<lambda>_. Inr (JObj [])), ge_ids = (\<lambda>_. ([], [])), ge_run_next = (\<lambda>u. (Inr (JObj []), u)),
     ge_run = (\<lambda>_ u. (Inr (JObj []), u)), ge_orch_reset = (\<lambda>u. (Inr (), u)), ge_mcp = counting_client,
     ge_float = (\<lambda>_. None), ge_static = (\<lambda>_. 404)\<rparr>"

definition demo_app :: "(GatewayStore, unit, nat) gw_app" where
  "demo_app = \<lparr>ga_store = demo_gateway, ga_orch = (), ga_mcp = 0, ga_jobs = [], ga_hooks = []\<rparr>"

definition demo_draw :: gw_draw where
  "demo_draw = \<lparr>dr_id = lit ''f1'', dr_id2 = lit ''n1'', dr_now = demo_time, dr_now2 = demo_time\<rparr>"

definition post :: "pystr list \<Rightarrow> (string \<times> string) list \<Rightarrow> gw_request" where
  "post path kvs = \<lparr>rq_method = lit ''POST'', rq_path = path, rq_query = [],
     rq_body = Some (JObj (map (\<lambda>(k, v). (lit k, JStr (lit v))) kvs))\<rparr>"

definition create_request :: gw_request where
  "create_request = post [lit ''api'', lit ''faults''] [(''scenario_id'', ''s1''), (''asset_id'', ''gpu-1'')]"

definition approve_request :: gw_request where
  "approve_request = post [lit ''api'', lit ''faults'', lit ''f1'', lit ''decision''] [(''decision'', ''approved'')]"

lemmas http_eval = gw_http_def gw_route_of_def get_routes_def fault_routes_def group_routes_def post_def
  get_str_def get_opt_def get_strs_def

lemma demo_create: "snd (gw_http demo_env demo_draw create_request demo_app) = demo_app\<lparr>ga_store := demo_detected\<rparr>"
  by (simp add: create_request_def http_eval with_body_def parse_create_fault_def writing_def demo_env_def demo_app_def
      demo_draw_def demo_detected_def demo_request_def case_prod_beta)

lemma demo_mem: "mem_env demo_env"
  by (simp add: mem_env_def demo_env_def)

lemma demo_app_reachable: "app_reachable demo_env (demo_app\<lparr>ga_store := demo_detected\<rparr>)"
proof -
  have "ge_pack demo_env = demo_pack" by (simp add: demo_env_def)
  with app_reachable.start [of demo_env None None "()" 0] have "app_reachable demo_env demo_app"
    by (simp add: demo_app_def demo_gateway_def)
  from app_reachable.request [OF this, of demo_draw create_request] show ?thesis
    by (simp add: demo_create) (simp add: demo_app_def demo_gateway_def start_faults)
qed


theorem get_changes_nothing_witness:
  "snd (gw_http demo_env demo_draw \<lparr>rq_method = lit ''GET'', rq_path = [lit ''api'', lit ''faults'', lit ''x'', lit ''token''],
     rq_query = [], rq_body = None\<rparr> demo_app) = demo_app"
  using get_changes_nothing [of "\<lparr>rq_method = lit ''GET'', rq_path = [lit ''api'', lit ''faults'', lit ''x'', lit ''token''],
     rq_query = [], rq_body = None\<rparr>" demo_env demo_draw demo_app]
  by (simp add: gw_route_of_def fault_routes_def)

theorem executions_start_by_decision_witness:
  "\<exists>job. ga_jobs (snd (gw_http demo_env demo_draw approve_request (demo_app\<lparr>ga_store := demo_detected\<rparr>))) = [job]
     \<and> ej_fault_id job = lit ''f1'' \<and> ej_step_ids job = [lit ''drain'']"
proof -
  let ?app = "demo_app\<lparr>ga_store := demo_detected\<rparr>"
  have e: "map_of (gs_faults demo_detected) (lit ''f1'') = Some (new_fault_event demo_pack (lit ''f1'') demo_time demo_request)"
    by (simp add: demo_detected_state)
  have dec: "Option.bind (rq_body approve_request) parse_decision = Some decision_approved"
    by (simp add: approve_request_def post_def parse_decision_def get_str_def ApprovalDecision_of_def)
  have "ga_jobs (snd (gw_http demo_env demo_draw approve_request ?app)) =
      [decision_job demo_orch_steps (lit ''f1'') (new_fault_event demo_pack (lit ''f1'') demo_time demo_request)
         (lit ''token-'' @ str_of_nat 0)]"
    using dec by (simp add: http_eval approve_request_def with_body_def decision_route_def)
      (simp add: demo_env_def demo_app_def decision_approved_eq [OF e] demo_mint)
  then have "ga_jobs (snd (gw_http demo_env demo_draw approve_request ?app)) \<noteq> ga_jobs ?app"
    by (simp add: demo_app_def)
  from executions_start_by_decision [OF this] show ?thesis
    by (auto simp: approve_request_def post_def demo_app_def demo_env_def demo_orch_steps_def)
qed

end
