(* ===== verification/Log_Text.thy ===== *)
theory Log_Text
  imports Py_Text
begin

text \<open>
  The two log-bundle transformations of \<open>services/orchestrator/router.py\<close>: \<open>_stamp_today\<close>
  rewrites every ISO date to today's, \<open>_extract_highlight\<close> cuts the excerpt the dashboard quotes
  as evidence. \<open>\d\<close> in \<open>_DATE_RE\<close> matches the decimal digits of Unicode 14 (Python 3.11).
\<close>

section \<open>Stamping dates\<close>

text \<open>The zero of every run of ten decimal digits (category Nd).\<close>

definition nd_zeros :: "int list" where
  "nd_zeros = [48, 1632, 1776, 1984, 2406, 2534, 2662, 2790, 2918, 3046, 3174, 3302, 3430, 3558,
     3664, 3792, 3872, 4160, 4240, 6112, 6160, 6470, 6608, 6784, 6800, 6992, 7088, 7232, 7248,
     42528, 43216, 43264, 43472, 43504, 43600, 44016, 65296, 66720, 68912, 69734, 69872, 69942,
     70096, 70384, 70736, 70864, 71248, 71360, 71472, 71904, 72016, 72784, 73040, 73120, 92768,
     92864, 93008, 120782, 120792, 120802, 120812, 120822, 123200, 123632, 125264, 130032]"

definition is_nd :: "int \<Rightarrow> bool" where
  "is_nd c \<longleftrightarrow> list_ex (\<lambda>z. z \<le> c \<and> c \<le> z + 9) nd_zeros"

lemma is_nd_not_T [simp]: "\<not> is_nd 84"
  by (simp add: is_nd_def nd_zeros_def)

lemma is_nd_ascii: "c < 1632 \<Longrightarrow> is_nd c \<longleftrightarrow> is_digit c"
  by (simp add: is_digit_def is_nd_def nd_zeros_def)

text \<open>\<open>_DATE_RE\<close> matches here: \<open>dddd-dd-dd\<close>, followed by a \<open>T\<close> that is not consumed.\<close>

definition date_at :: "pystr \<Rightarrow> bool" where
  "date_at s \<longleftrightarrow> 10 < length s
     \<and> list_all (\<lambda>i. is_nd (s ! i)) [0, 1, 2, 3, 5, 6, 8, 9]
     \<and> s ! 4 = 45 \<and> s ! 7 = 45 \<and> s ! 10 = 84"

text \<open>\<open>_DATE_RE.sub(today, s)\<close>: leftmost matches, one after the other.\<close>

fun stamp_dates :: "pystr \<Rightarrow> pystr \<Rightarrow> pystr" where
  "stamp_dates today [] = []"
| "stamp_dates today (c # s) =
     (if date_at (c # s) then today @ stamp_dates today (drop 9 s) else c # stamp_dates today s)"

definition stamp_today :: "datetime \<Rightarrow> pystr \<Rightarrow> pystr" where
  "stamp_today now log_text = stamp_dates (iso_date now) log_text"

lemma date_at_take: "date_at s \<longleftrightarrow> date_at (take 11 s)"
  by (auto simp: date_at_def)

text \<open>A replacement that looks like a date itself: ten characters, digits and dashes.\<close>

definition date_like :: "pystr \<Rightarrow> bool" where
  "date_like d \<longleftrightarrow> length d = 10 \<and> 84 \<notin> set d"

lemma date_like_iso_date: "valid_datetime t \<Longrightarrow> date_like (iso_date t)"
  using zpad_digits [of 84] by (auto simp: date_like_def length_iso_date) (auto simp: iso_date_def is_digit_def)

lemma length_stamp_dates: "length today = 10 \<Longrightarrow> length (stamp_dates today s) = length s"
proof (induction today s rule: stamp_dates.induct)
  case (2 today c s)
  then show ?case by (auto simp: date_at_def)
qed simp

text \<open>Up to its first \<open>T\<close> within ten characters, the output is the input.\<close>

lemma stamp_dates_T:
  "date_like today \<Longrightarrow> k < 10 \<Longrightarrow> k < length (stamp_dates today s) \<Longrightarrow> stamp_dates today s ! k = 84 \<Longrightarrow>
     k < length s \<and> take (Suc k) (stamp_dates today s) = take (Suc k) s"
proof (induction today s arbitrary: k rule: stamp_dates.induct)
  case (2 today c s)
  show ?case
  proof (cases "date_at (c # s)")
    case True
    with 2 have "today ! k = 84" by (simp add: date_like_def nth_append)
    with 2 show ?thesis by (metis date_like_def nth_mem)
  next
    case False
    show ?thesis
    proof (cases k)
      case 0
      with False show ?thesis by simp
    next
      case (Suc k')
      with False 2 show ?thesis by simp
    qed
  qed
qed simp

lemma date_at_stamp_tail:
  assumes "date_like today" "date_at (c # stamp_dates today s)"
  shows "date_at (c # s)"
proof -
  from assms(2) have "9 < length (stamp_dates today s)" "stamp_dates today s ! 9 = 84"
    by (auto simp: date_at_def)
  with assms(1) have "take 10 (stamp_dates today s) = take 10 s"
    using stamp_dates_T [of today 9 s] by simp
  then have "take 11 (c # stamp_dates today s) = take 11 (c # s)" by simp
  with assms(2) show ?thesis by (metis date_at_take)
qed

lemma date_at_inside:
  assumes "date_at s" "0 < k" "k < 10"
  shows "s ! k \<noteq> 84"
proof -
  have "k \<in> set [1, 2, 3, 4, 5, 6, 7, 8, 9]" using assms(2,3) by auto
  with assms(1) show ?thesis by (auto simp: date_at_def)
qed

lemma stamp_dates_head_T: "stamp_dates today (84 # s) = 84 # stamp_dates today s"
  by (simp add: date_at_def)

lemma stamp_dates_only_today:
  "date_like today \<Longrightarrow> date_at (drop i (stamp_dates today s)) \<Longrightarrow>
     take 10 (drop i (stamp_dates today s)) = today"
proof (induction today s arbitrary: i rule: stamp_dates.induct)
  case (1 today)
  then show ?case by (simp add: date_at_def)
next
  case (2 today c s)
  show ?case
  proof (cases "date_at (c # s)")
    case True
    let ?rest = "stamp_dates today (drop 9 s)"
    from True have "drop 9 s = 84 # drop 10 s"
      using Cons_nth_drop_Suc [of 9 s] by (auto simp: date_at_def)
    then have T: "?rest = 84 # stamp_dates today (drop 10 s)"
      by (simp only: stamp_dates_head_T)
    have len: "length today = 10" using 2 by (simp add: date_like_def)
    consider "i = 0" | "0 < i" "i < 10" | "10 \<le> i" by linarith
    then show ?thesis
    proof cases
      case 1
      with True len show ?thesis by simp
    next
      case 2
      have "drop i (today @ ?rest) ! (10 - i) = (today @ ?rest) ! 10"
        using 2 len by (subst nth_drop) auto
      also have "\<dots> = 84" using len T by (simp add: nth_append)
      finally have "drop i (today @ ?rest) ! (10 - i) = 84" .
      moreover have "date_at (drop i (today @ ?rest))" using "2.prems"(2) True by simp
      ultimately show ?thesis using date_at_inside [of "drop i (today @ ?rest)" "10 - i"] 2 by auto
    next
      case 3
      with True len have "drop i (stamp_dates today (c # s)) = drop (i - 10) ?rest" by simp
      with "2.IH"(1) [OF True, of "i - 10"] "2.prems" show ?thesis by simp
    qed
  next
    case False
    show ?thesis
    proof (cases i)
      case 0
      with False "2.prems" have "date_at (c # stamp_dates today s)" by simp
      with False "2.prems"(1) date_at_stamp_tail show ?thesis by blast
    next
      case (Suc i')
      with False 2 show ?thesis by simp
    qed
  qed
qed

section \<open>The highlighted excerpt\<close>

definition context_lines :: nat where
  "context_lines = 2"

definition cluster_gap :: nat where
  "cluster_gap = 6"

definition log_lines :: "pystr \<Rightarrow> pystr list" where
  "log_lines log_text =
     filter (\<lambda>l. strip l \<noteq> [] \<and> \<not> startswith (lit ''#'') (lstrip l)) (splitlines log_text)"

definition line_matches :: "pystr list \<Rightarrow> pystr \<Rightarrow> bool" where
  "line_matches sigs l \<longleftrightarrow> list_ex (\<lambda>sig. contains sig l) sigs"

definition match_indices :: "pystr list \<Rightarrow> pystr list \<Rightarrow> nat list" where
  "match_indices sigs ls = filter (\<lambda>i. line_matches sigs (ls ! i)) [0..<length ls]"

text \<open>The loop that extends the cluster until a gap is too wide.\<close>

fun cluster_end :: "nat \<Rightarrow> nat list \<Rightarrow> nat" where
  "cluster_end lst [] = lst"
| "cluster_end lst (idx # idxs) =
     (if idx > lst + cluster_gap then lst else cluster_end idx idxs)"

definition extract_highlight :: "pystr \<Rightarrow> pystr list \<Rightarrow> pystr option" where
  "extract_highlight log_text error_signatures =
     (let ls = log_lines log_text in
      if ls = [] then None
      else (case match_indices error_signatures ls of
        [] \<Rightarrow> Some (join [10] (take (context_lines * 2 + 1) ls))
      | first # more \<Rightarrow>
          (let lst = cluster_end first more;
               start = first - context_lines;
               stop = min (length ls) (lst + context_lines + 1)
           in Some (join [10] (take (stop - start) (drop start ls))))))"

lemma cluster_end_ge:
  "sorted (i # is) \<Longrightarrow> i \<le> cluster_end i is"
  by (induction i "is" rule: cluster_end.induct) auto

lemma cluster_end_in: "cluster_end i is \<in> set (i # is)"
  by (induction i "is" rule: cluster_end.induct) auto

text \<open>The cluster is maximal: the next match lies more than the gap away.\<close>

lemma cluster_end_maximal:
  "sorted (i # is) \<Longrightarrow> j \<in> set is \<Longrightarrow> cluster_end i is < j \<Longrightarrow> cluster_end i is + cluster_gap < j"
proof (induction i "is" rule: cluster_end.induct)
  case (2 lst idx idxs)
  show ?case
  proof (cases "idx > lst + cluster_gap")
    case True
    with 2 show ?thesis by auto
  next
    case False
    with 2 show ?thesis
      using cluster_end_ge [of idx idxs] by auto
  qed
qed simp

lemma sorted_match_indices: "sorted (match_indices sigs ls)"
  by (simp add: match_indices_def sorted_wrt_filter)

lemma set_match_indices:
  "set (match_indices sigs ls) = {i. i < length ls \<and> line_matches sigs (ls ! i)}"
  by (auto simp: match_indices_def)

lemma log_lines_props:
  assumes "l \<in> set (log_lines log_text)"
  shows "l \<noteq> []" and "contains l log_text" and "\<forall>c \<in> set l. \<not> is_line_break c"
  using assms splitlines_contains splitlines_no_break
  by (auto simp: log_lines_def strip_def lstrip_def lstrip_by_def rstrip_def rstrip_by_def)

text \<open>Joining lines with newlines and splitting again gives the lines back.\<close>

lemma splitlines_from_line:
  "\<forall>c \<in> set l. \<not> is_line_break c \<Longrightarrow> splitlines_from acc (l @ s) = splitlines_from (rev l @ acc) s"
  by (induction l arbitrary: acc) auto

lemma splitlines_join:
  "\<forall>l \<in> set ls. l \<noteq> [] \<and> (\<forall>c \<in> set l. \<not> is_line_break c) \<Longrightarrow> splitlines (join [10] ls) = ls"
proof (induction "[10] :: pystr" ls rule: join.induct)
  case 1
  then show ?case by (simp add: splitlines_def)
next
  case (2 l)
  then show ?case
    using splitlines_from_line [of l "[]" "[]"] by (simp add: splitlines_def)
next
  case (3 l t ls)
  have "splitlines (l @ [10] @ join [10] (t # ls)) = l # splitlines (join [10] (t # ls))"
    using 3 splitlines_from_line [of l "[]" "[10] @ join [10] (t # ls)"]
    by (simp add: splitlines_def is_line_break_def)
  with 3 show ?case by simp
qed

section \<open>Properties\<close>

text \<open>
  \<open>_stamp_today\<close> leaves no stale date. Wherever the stamped text has an ISO date before a
  \<open>T\<close>, that date is today's; nothing is inserted or removed, so the text keeps its length.
\<close>

theorem stamp_today_no_stale_date:
  assumes "valid_datetime now" and "date_at (drop i (stamp_today now log_text))"
  shows "take 10 (drop i (stamp_today now log_text)) = iso_date now
    \<and> length (stamp_today now log_text) = length log_text"
  using assms stamp_dates_only_today [OF date_like_iso_date] length_stamp_dates [OF length_iso_date]
  by (simp add: stamp_today_def)

theorem stamp_today_no_stale_date_witness:
  "take 10 (drop 1 (stamp_today (DateTime 2026 7 4 1 2 3 0) (lit ''x2025-01-31T00:00 ok'')))
     = lit ''2026-07-04''"
proof -
  let ?t = "DateTime 2026 7 4 1 2 3 0"
  have iso: "iso_date ?t = lit ''2026-07-04''"
    by (simp add: iso_date_def zpad_def str_of_nat.simps lit_def)
  have "valid_datetime ?t" by (simp add: valid_datetime_def)
  moreover have "date_at (drop 1 (stamp_today ?t (lit ''x2025-01-31T00:00 ok'')))"
    unfolding stamp_today_def iso by (simp add: lit_def date_at_def is_nd_ascii is_digit_def)
  ultimately have "take 10 (drop 1 (stamp_today ?t (lit ''x2025-01-31T00:00 ok''))) = iso_date ?t"
    using stamp_today_no_stale_date by blast
  then show ?thesis by (simp only: iso)
qed



end
