(* ===== verification/Orchestrator.thy ===== *)
theory Orchestrator
  imports Sim_Engine Log_Text
begin

text \<open>
  The scenario orchestrator: \<open>services/orchestrator/rotation.py\<close> (which scenario comes next) and
  \<open>services/orchestrator/router.py\<close> (the routes that inject and clear scenarios through the
  simulator client, and the read-only routes). The handlers take the client's two calls as
  arguments; the facts about them are proved in the locale \<open>simulator_client\<close> and hold for the
  HTTP client through the interpretation \<open>sim\<close>.
\<close>

section \<open>Rotation policy\<close>

record rotation =
  rot_ids :: "pystr list"
  rot_last :: "pystr option"

datatype rotation_error = NoScenarioIds | UnknownScenarioId pystr

definition rotation_init :: "pystr list \<Rightarrow> rotation_error + rotation" where
  "rotation_init scenario_ids =
     (if scenario_ids = [] then Inl NoScenarioIds
      else Inr \<lparr>rot_ids = scenario_ids, rot_last = None\<rparr>)"

text \<open>\<open>random.choice\<close> picks the element at a random index; \<open>r\<close> is that random number.\<close>

definition random_choice :: "nat \<Rightarrow> 'a list \<Rightarrow> 'a" where
  "random_choice r xs = xs ! (r mod length xs)"

definition rotation_next :: "nat \<Rightarrow> rotation \<Rightarrow> pystr \<times> rotation" where
  "rotation_next r rot =
     (let candidates = filter (\<lambda>sid. Some sid \<noteq> rot_last rot) (rot_ids rot);
          candidates' = (if candidates = [] then rot_ids rot else candidates);
          chosen = random_choice r candidates'
      in (chosen, rot\<lparr>rot_last := Some chosen\<rparr>))"

definition rotation_force :: "pystr \<Rightarrow> rotation \<Rightarrow> rotation_error + pystr \<times> rotation" where
  "rotation_force scenario_id rot =
     (if scenario_id \<notin> set (rot_ids rot) then Inl (UnknownScenarioId scenario_id)
      else Inr (scenario_id, rot\<lparr>rot_last := Some scenario_id\<rparr>))"

definition rotation_reset :: "rotation \<Rightarrow> rotation" where
  "rotation_reset rot = rot\<lparr>rot_last := None\<rparr>"

lemma random_choice_in: "xs \<noteq> [] \<Longrightarrow> random_choice r xs \<in> set xs"
  by (simp add: random_choice_def)

lemma rotation_next_last:
  "rotation_next r rot = (sid, rot') \<Longrightarrow> rot_last rot' = Some sid \<and> rot_ids rot' = rot_ids rot"
  by (auto simp: rotation_next_def Let_def)

lemma rotation_next_in:
  assumes "rot_ids rot \<noteq> []" "rotation_next r rot = (sid, rot')"
  shows "sid \<in> set (rot_ids rot)"
proof -
  let ?c = "filter (\<lambda>sid. Some sid \<noteq> rot_last rot) (rot_ids rot)"
  have "random_choice r (if ?c = [] then rot_ids rot else ?c) \<in> set (if ?c = [] then rot_ids rot else ?c)"
    using assms(1) by (intro random_choice_in) auto
  with assms(2) show ?thesis by (auto simp: rotation_next_def Let_def split: if_splits)
qed

lemma rotation_next_differs:
  assumes "\<exists>x \<in> set (rot_ids rot). Some x \<noteq> rot_last rot" "rotation_next r rot = (sid, rot')"
  shows "Some sid \<noteq> rot_last rot"
proof -
  let ?c = "filter (\<lambda>sid. Some sid \<noteq> rot_last rot) (rot_ids rot)"
  have "?c \<noteq> []" using assms(1) by (simp add: filter_empty_conv)
  then have "random_choice r ?c \<in> set ?c" by (rule random_choice_in)
  with assms(2) \<open>?c \<noteq> []\<close> show ?thesis by (auto simp: rotation_next_def Let_def)
qed

section \<open>Responses\<close>

record RunResponse =
  rr_scenario_id :: pystr
  rr_target_asset :: pystr
  rr_fault_type :: pystr
  rr_error_signatures :: "pystr list"
  rr_kb_article_ref :: pystr
  rr_remediation_steps :: "RemediationStep list"
  rr_log_extract :: "pystr option"

record ScenarioSummary =
  ss_id :: pystr
  ss_fault_type :: pystr
  ss_target_asset :: pystr
  ss_error_signatures :: "pystr list"
  ss_status :: ScenarioStatus

record LogsResponse =
  lr_asset_id :: pystr
  lr_scenario_id :: pystr
  lr_log_text :: pystr
  lr_log_highlight :: "pystr option"

text \<open>An exception that leaves a handler: an \<open>HTTPException\<close>, a failed simulator call, a \<open>KeyError\<close>.\<close>

datatype orch_exn = OrchHttp http_exc | SimulatorCallFailed | OrchKeyError pystr

record orch =
  oc_pack :: LoadedPack
  oc_rotation :: rotation
  oc_active :: "pystr option dict"

definition orch_init :: "LoadedPack \<Rightarrow> rotation_error + orch" where
  "orch_init lp =
     bind_res (rotation_init (map sc_id (lp_scenarios lp))) (\<lambda>rot.
       Inr \<lparr>oc_pack = lp, oc_rotation = rot,
            oc_active = dict_of (map (\<lambda>a. (pa_id a, None)) (pk_assets (lp_pack lp)))\<rparr>)"

definition scenario_response :: "Scenario \<Rightarrow> RunResponse" where
  "scenario_response sc =
     \<lparr>rr_scenario_id = sc_id sc, rr_target_asset = sc_target_asset sc, rr_fault_type = sc_fault_type sc,
      rr_error_signatures = sc_error_signatures sc, rr_kb_article_ref = sc_kb_article_ref sc,
      rr_remediation_steps = sc_remediation_steps sc, rr_log_extract = sc_log_extract sc\<rparr>"

definition run_response :: "pystr \<Rightarrow> LoadedPack \<Rightarrow> orch_exn + RunResponse" where
  "run_response scenario_id lp =
     (case map_of (lp_scenarios_by_id lp) scenario_id of
        None \<Rightarrow> Inl (OrchKeyError scenario_id)
      | Some sc \<Rightarrow> Inr (scenario_response sc))"

section \<open>Injecting and clearing\<close>

text \<open>
  The loop over \<open>list(active.items())\<close>: an active asset is cleared in the simulator, then marked
  idle; a call that raises ends the loop with the changes made so far.
\<close>

fun clear_active ::
  "(pystr \<Rightarrow> 's \<Rightarrow> bool \<times> 's) \<Rightarrow> (pystr \<times> pystr option) list \<Rightarrow> pystr option dict \<Rightarrow> 's
     \<Rightarrow> bool \<times> pystr option dict \<times> 's" where
  "clear_active sim_clear [] active s = (True, active, s)"
| "clear_active sim_clear ((asset_id, current_id) # items) active s =
     (if current_id \<noteq> None
      then (case sim_clear asset_id s of
              (True, s') \<Rightarrow> clear_active sim_clear items (dict_set asset_id None active) s'
            | (False, s') \<Rightarrow> (False, active, s'))
      else clear_active sim_clear items active s)"

definition inject_scenario ::
  "(pystr \<Rightarrow> 's \<Rightarrow> bool \<times> 's) \<Rightarrow> (pystr \<Rightarrow> pystr \<Rightarrow> 's \<Rightarrow> bool \<times> 's) \<Rightarrow> pystr \<Rightarrow> LoadedPack
     \<Rightarrow> pystr option dict \<Rightarrow> 's \<Rightarrow> (orch_exn + RunResponse) \<times> pystr option dict \<times> 's" where
  "inject_scenario sim_clear sim_inject scenario_id lp active s =
     (case clear_active sim_clear active active s of
        (False, active', s') \<Rightarrow> (Inl SimulatorCallFailed, active', s')
      | (True, active', s') \<Rightarrow>
          (case map_of (lp_scenarios_by_id lp) scenario_id of
             None \<Rightarrow> (Inl (OrchKeyError scenario_id), active', s')
           | Some sc \<Rightarrow>
               (case sim_inject (sc_target_asset sc) scenario_id s' of
                  (False, s'') \<Rightarrow> (Inl SimulatorCallFailed, active', s'')
                | (True, s'') \<Rightarrow>
                    (run_response scenario_id lp,
                     dict_set (sc_target_asset sc) (Some scenario_id) active', s''))))"

definition run_next ::
  "(pystr \<Rightarrow> 's \<Rightarrow> bool \<times> 's) \<Rightarrow> (pystr \<Rightarrow> pystr \<Rightarrow> 's \<Rightarrow> bool \<times> 's) \<Rightarrow> nat \<Rightarrow> orch \<Rightarrow> 's
     \<Rightarrow> (orch_exn + RunResponse) \<times> orch \<times> 's" where
  "run_next sim_clear sim_inject r oc s =
     (let (scenario_id, rot') = rotation_next r (oc_rotation oc);
          (res, active', s') = inject_scenario sim_clear sim_inject scenario_id (oc_pack oc) (oc_active oc) s
      in (res, oc\<lparr>oc_rotation := rot', oc_active := active'\<rparr>, s'))"

definition run_specific ::
  "(pystr \<Rightarrow> 's \<Rightarrow> bool \<times> 's) \<Rightarrow> (pystr \<Rightarrow> pystr \<Rightarrow> 's \<Rightarrow> bool \<times> 's) \<Rightarrow> pystr \<Rightarrow> orch \<Rightarrow> 's
     \<Rightarrow> (orch_exn + RunResponse) \<times> orch \<times> 's" where
  "run_specific sim_clear sim_inject scenario_id oc s =
     (case rotation_force scenario_id (oc_rotation oc) of
        Inl _ \<Rightarrow> (Inl (OrchHttp (HTTPException 404 (UnknownScenario scenario_id))), oc, s)
      | Inr (_, rot') \<Rightarrow>
          (let (res, active', s') =
             inject_scenario sim_clear sim_inject scenario_id (oc_pack oc) (oc_active oc) s
           in (res, oc\<lparr>oc_rotation := rot', oc_active := active'\<rparr>, s')))"

definition orch_reset ::
  "(pystr \<Rightarrow> 's \<Rightarrow> bool \<times> 's) \<Rightarrow> orch \<Rightarrow> 's \<Rightarrow> (orch_exn + pystr) \<times> orch \<times> 's" where
  "orch_reset sim_clear oc s =
     (case clear_active sim_clear (oc_active oc) (oc_active oc) s of
        (False, active', s') \<Rightarrow> (Inl SimulatorCallFailed, oc\<lparr>oc_active := active'\<rparr>, s')
      | (True, active', s') \<Rightarrow>
          (Inr (lit ''idle''),
           oc\<lparr>oc_active := active', oc_rotation := rotation_reset (oc_rotation oc)\<rparr>, s'))"

section \<open>Read-only routes\<close>

definition get_current :: "orch \<Rightarrow> orch_exn + RunResponse option dict" where
  "get_current oc =
     map_res (\<lambda>(asset_id, sid).
       if sid = None \<or> sid = Some [] then Inr (asset_id, None)
       else bind_res (run_response (the sid) (oc_pack oc)) (\<lambda>r. Inr (asset_id, Some r)))
     (oc_active oc)"

definition list_scenarios :: "orch \<Rightarrow> ScenarioSummary list \<times> pystr option" where
  "list_scenarios oc =
     (map (\<lambda>s. \<lparr>ss_id = sc_id s, ss_fault_type = sc_fault_type s, ss_target_asset = sc_target_asset s,
               ss_error_signatures = sc_error_signatures s, ss_status = sc_status s\<rparr>)
        (lp_scenarios (oc_pack oc)),
      rot_last (oc_rotation oc))"

definition active_scenario :: "orch \<Rightarrow> pystr \<Rightarrow> pystr option" where
  "active_scenario oc asset_id = (case map_of (oc_active oc) asset_id of None \<Rightarrow> None | Some sid \<Rightarrow> sid)"

definition get_logs :: "datetime \<Rightarrow> pystr \<Rightarrow> orch \<Rightarrow> orch_exn + LogsResponse" where
  "get_logs now asset_id oc =
     (case active_scenario oc asset_id of
        None \<Rightarrow> Inl (OrchHttp (HTTPException 404 (NoActiveScenario asset_id)))
      | Some scenario_id \<Rightarrow>
          (case map_of (lp_scenarios_by_id (oc_pack oc)) scenario_id of
             None \<Rightarrow> Inl (OrchKeyError scenario_id)
           | Some sc \<Rightarrow>
               (let log_text = (case map_of (lp_log_bundles (oc_pack oc)) (sc_log_bundle_ref sc) of
                                  None \<Rightarrow> [] | Some t \<Rightarrow> t);
                    log_text' = stamp_today now log_text
                in Inr \<lparr>lr_asset_id = asset_id, lr_scenario_id = scenario_id, lr_log_text = log_text',
                        lr_log_highlight = extract_highlight log_text' (sc_error_signatures sc)\<rparr>)))"

definition get_asset_scenario :: "pystr \<Rightarrow> orch \<Rightarrow> orch_exn + RunResponse" where
  "get_asset_scenario asset_id oc =
     (case active_scenario oc asset_id of
        None \<Rightarrow> Inl (OrchHttp (HTTPException 404 (NoActiveScenario asset_id)))
      | Some scenario_id \<Rightarrow> run_response scenario_id (oc_pack oc))"

section \<open>What holds for every simulator client\<close>

definition active_id :: "pystr option dict \<Rightarrow> pystr \<Rightarrow> pystr option" where
  "active_id active a = (case map_of active a of None \<Rightarrow> None | Some sid \<Rightarrow> sid)"

lemma active_id_set [simp]:
  "active_id (dict_set a sid active) a' = (if a' = a then sid else active_id active a')"
  by (simp add: active_id_def dict_simps)

lemma active_scenario_id: "active_scenario oc a = active_id (oc_active oc) a"
  by (simp add: active_scenario_def active_id_def)

lemma active_id_items: "active_id active a = Some sid \<Longrightarrow> (a, Some sid) \<in> set active"
  by (auto simp: active_id_def split: option.splits dest: map_of_SomeD)

context simulator_client
begin

text \<open>
  The orchestrator tracks the simulator: every fault in the simulator is the scenario the
  orchestrator has as active on that asset. (The converse fails after a remediation, which clears
  the simulator behind the orchestrator's back.)
\<close>

definition tracks :: "pystr option dict \<Rightarrow> 's \<Rightarrow> bool" where
  "tracks active s \<longleftrightarrow> (\<forall>a sid. fault_of s a = Some sid \<longrightarrow> active_id active a = Some sid)"

lemma tracks_after_clear: "tracks active s \<Longrightarrow> clear_fn a s = (b, s') \<Longrightarrow> tracks active s'"
  using clear_never_faults unfolding tracks_def by (metis insertE option.distinct(1) singletonD)

lemma tracks_after_clear_idle:
  assumes "tracks active s" "clear_fn a s = (True, s')"
  shows "tracks (dict_set a None active) s'"
  using assms clear_ok [OF assms(2)] tracks_after_clear [OF assms]
  unfolding tracks_def by (metis active_id_set option.distinct(1))

lemma tracks_set:
  "tracks active s \<Longrightarrow> fault_of s' a = Some sid \<Longrightarrow> (\<And>a'. a' \<noteq> a \<Longrightarrow> fault_of s' a' = fault_of s a') \<Longrightarrow>
     tracks (dict_set a (Some sid) active) s'"
  by (auto simp: tracks_def)

lemma clear_active_Cons:
  assumes "clear_active clear_fn ((asset_id, cur) # items) active s = (ok, active', s')"
  obtains (idle) "cur = None" "clear_active clear_fn items active s = (ok, active', s')"
    | (cleared) s1 where "cur \<noteq> None" "clear_fn asset_id s = (True, s1)"
      "clear_active clear_fn items (dict_set asset_id None active) s1 = (ok, active', s')"
    | (failed) "cur \<noteq> None" "clear_fn asset_id s = (False, s')" "\<not> ok" "active' = active"
  using assms by (cases cur; cases "clear_fn asset_id s"; cases "fst (clear_fn asset_id s)") auto

lemma clear_active_tracks:
  "tracks active s \<Longrightarrow> clear_active clear_fn items active s = (ok, active', s') \<Longrightarrow> tracks active' s'"
proof (induction items arbitrary: active s)
  case Nil
  then show ?case by simp
next
  case (Cons x items)
  obtain asset_id cur where x: "x = (asset_id, cur)" by (cases x)
  from Cons.prems(2) [unfolded x] show ?case
  proof (cases rule: clear_active_Cons)
    case idle
    with Cons show ?thesis by blast
  next
    case (cleared s1)
    with Cons tracks_after_clear_idle show ?thesis by blast
  next
    case failed
    with Cons.prems(1) tracks_after_clear show ?thesis by blast
  qed
qed

text \<open>Every asset whose entry is in the list is idle afterwards; the others keep their entry.\<close>

lemma clear_active_ids:
  "clear_active clear_fn items active s = (True, active', s') \<Longrightarrow>
     active_id active' a = (if \<exists>sid. (a, Some sid) \<in> set items then None else active_id active a)"
proof (induction items arbitrary: active s)
  case Nil
  then show ?case by simp
next
  case (Cons x items)
  obtain asset_id cur where x: "x = (asset_id, cur)" by (cases x)
  from Cons.prems [unfolded x] show ?case
  proof (cases rule: clear_active_Cons)
    case idle
    with Cons.IH x show ?thesis by auto
  next
    case (cleared s1)
    with Cons.IH [OF cleared(3)] x show ?thesis by auto
  qed simp
qed

lemma clear_active_complete:
  assumes "tracks active s" "clear_active clear_fn active active s = (True, active', s')"
  shows "active_id active' a = None" and "fault_of s' a = None"
proof -
  show idle: "active_id active' a = None" for a
    using clear_active_ids [OF assms(2)] active_id_items [of active a] by (cases "active_id active a") auto
  show "fault_of s' a = None"
    using clear_active_tracks [OF assms] idle [of a] by (cases "fault_of s' a") (auto simp: tracks_def)
qed

lemma inject_scenario_Inr:
  assumes "tracks active s"
    and "inject_scenario clear_fn inject_fn sid lp active s = (Inr resp, active', s')"
  shows "\<exists>sc. map_of (lp_scenarios_by_id lp) sid = Some sc \<and> resp = scenario_response sc
     \<and> active_id active' a = (if a = sc_target_asset sc then Some sid else None)
     \<and> fault_of s' a = (if a = sc_target_asset sc then Some sid else None)"
proof -
  from assms(2) obtain active1 s1 sc where
    clr: "clear_active clear_fn active active s = (True, active1, s1)" and
    sc: "map_of (lp_scenarios_by_id lp) sid = Some sc" and
    inj: "inject_fn (sc_target_asset sc) sid s1 = (True, s')" and
    act: "active' = dict_set (sc_target_asset sc) (Some sid) active1" and
    resp: "resp = scenario_response sc"
    by (auto simp: inject_scenario_def run_response_def split: prod.splits bool.splits option.splits)
  note idle = clear_active_complete [OF assms(1) clr]
  show ?thesis
    using sc resp act idle inject_ok [OF inj] inject_frame [OF inj] by auto
qed

lemma orch_reset_tracks:
  assumes "tracks (oc_active oc) s" "orch_reset clear_fn oc s = (res, oc', s')"
  shows "tracks (oc_active oc') s'"
proof -
  obtain ok active1 s1 where c: "clear_active clear_fn (oc_active oc) (oc_active oc) s = (ok, active1, s1)"
    by (cases "clear_active clear_fn (oc_active oc) (oc_active oc) s")
  from clear_active_tracks [OF assms(1) c] assms(2) c show ?thesis
    by (cases ok) (auto simp: orch_reset_def)
qed

lemma orch_reset_Inr:
  assumes "tracks (oc_active oc) s" "orch_reset clear_fn oc s = (Inr msg, oc', s')"
  shows "active_id (oc_active oc') a = None \<and> fault_of s' a = None \<and> rot_last (oc_rotation oc') = None"
proof -
  from assms(2) obtain active1 where
    clr: "clear_active clear_fn (oc_active oc) (oc_active oc) s = (True, active1, s')" and
    oc': "oc' = oc\<lparr>oc_active := active1, oc_rotation := rotation_reset (oc_rotation oc)\<rparr>"
    by (auto simp: orch_reset_def split: prod.splits bool.splits)
  show ?thesis
    using clear_active_complete [OF assms(1) clr] by (simp add: oc' rotation_reset_def)
qed

end

text \<open>On a reliable network the injections, too, keep the orchestrator in step with the simulator.\<close>

context reliable_client
begin

lemma reliable_clear_active:
  "reliable s \<Longrightarrow> clear_active clear_fn items active s = (ok, active', s') \<Longrightarrow> reliable s'"
proof (induction items arbitrary: active s)
  case Nil
  then show ?case by simp
next
  case (Cons x items)
  obtain asset_id cur where x: "x = (asset_id, cur)" by (cases x)
  from Cons.prems(2) [unfolded x] show ?case
    by (cases rule: clear_active_Cons) (use Cons reliable_clear in blast)+
qed

lemma inject_scenario_reliable:
  assumes "reliable s" "inject_scenario clear_fn inject_fn sid lp active s = (res, active', s')"
  shows "reliable s'"
proof -
  obtain ok active1 s1 where clr: "clear_active clear_fn active active s = (ok, active1, s1)"
    by (cases "clear_active clear_fn active active s")
  have r1: "reliable s1" using reliable_clear_active [OF assms(1) clr] .
  show ?thesis
  proof (cases "ok \<and> map_of (lp_scenarios_by_id lp) sid \<noteq> None")
    case False
    with assms(2) clr r1 show ?thesis by (auto simp: inject_scenario_def split: bool.splits)
  next
    case True
    then obtain sc where sc: "map_of (lp_scenarios_by_id lp) sid = Some sc" and ok by auto
    obtain b s2 where inj: "inject_fn (sc_target_asset sc) sid s1 = (b, s2)"
      by (cases "inject_fn (sc_target_asset sc) sid s1")
    with assms(2) clr sc \<open>ok\<close> have "s' = s2" by (cases b) (auto simp: inject_scenario_def)
    with reliable_inject [OF r1 inj] show ?thesis by simp
  qed
qed

lemma inject_scenario_tracks:
  assumes "tracks active s" "reliable s"
    and "inject_scenario clear_fn inject_fn sid lp active s = (res, active', s')"
  shows "tracks active' s'"
proof -
  obtain ok active1 s1 where clr: "clear_active clear_fn active active s = (ok, active1, s1)"
    by (cases "clear_active clear_fn active active s")
  have t1: "tracks active1 s1" using clear_active_tracks [OF assms(1) clr] .
  show ?thesis
  proof (cases "ok \<and> map_of (lp_scenarios_by_id lp) sid \<noteq> None")
    case False
    with assms(3) clr t1 show ?thesis by (auto simp: inject_scenario_def split: bool.splits)
  next
    case True
    then obtain sc where sc: "map_of (lp_scenarios_by_id lp) sid = Some sc" and ok by auto
    obtain b s2 where inj: "inject_fn (sc_target_asset sc) sid s1 = (b, s2)"
      by (cases "inject_fn (sc_target_asset sc) sid s1")
    show ?thesis
    proof (cases b)
      case True
      with assms(3) clr sc inj \<open>ok\<close> have "active' = dict_set (sc_target_asset sc) (Some sid) active1" "s' = s2"
        by (auto simp: inject_scenario_def)
      moreover have "inject_fn (sc_target_asset sc) sid s1 = (True, s2)" using inj True by simp
      ultimately show ?thesis
        using tracks_set [OF t1 inject_ok inject_frame] by simp
    next
      case False
      with assms(3) clr sc inj \<open>ok\<close> have eqs: "active' = active1" "s' = s2"
        by (auto simp: inject_scenario_def)
      have "fault_of s2 (sc_target_asset sc) = fault_of s1 (sc_target_asset sc)"
        using inject_reliable [of s1] reliable_clear_active [OF assms(2) clr] inj False by simp
      with eqs t1 inject_frame [OF inj] show ?thesis unfolding tracks_def by metis
    qed
  qed
qed

lemma run_next_tracks:
  assumes "tracks (oc_active oc) s" "reliable s" "run_next clear_fn inject_fn r oc s = (res, oc', s')"
  shows "tracks (oc_active oc') s'"
proof -
  obtain sid rot' where n: "rotation_next r (oc_rotation oc) = (sid, rot')"
    by (cases "rotation_next r (oc_rotation oc)")
  obtain res1 active1 s1 where
    i: "inject_scenario clear_fn inject_fn sid (oc_pack oc) (oc_active oc) s = (res1, active1, s1)"
    by (cases "inject_scenario clear_fn inject_fn sid (oc_pack oc) (oc_active oc) s")
  from inject_scenario_tracks [OF assms(1,2) i] assms(3) n i show ?thesis
    by (auto simp: run_next_def)
qed

lemma run_specific_tracks:
  assumes "tracks (oc_active oc) s" "reliable s" "run_specific clear_fn inject_fn sid oc s = (res, oc', s')"
  shows "tracks (oc_active oc') s'"
proof (cases "rotation_force sid (oc_rotation oc)")
  case (Inl e)
  with assms(1,3) show ?thesis by (auto simp: run_specific_def)
next
  case (Inr p)
  obtain res1 active1 s1 where
    i: "inject_scenario clear_fn inject_fn sid (oc_pack oc) (oc_active oc) s = (res1, active1, s1)"
    by (cases "inject_scenario clear_fn inject_fn sid (oc_pack oc) (oc_active oc) s")
  from inject_scenario_tracks [OF assms(1,2) i] assms(3) Inr i show ?thesis
    by (cases p) (auto simp: run_specific_def)
qed

end

section \<open>Every stored scenario id is known\<close>

text \<open>
  The routes index \<open>scenarios_by_id\<close> without a check: ids in the rotation and in the
  active map must be keys of it. A scenario is active on the asset it targets.
\<close>

definition orch_ok :: "orch \<Rightarrow> bool" where
  "orch_ok oc \<longleftrightarrow>
     rot_ids (oc_rotation oc) \<noteq> []
   \<and> set (rot_ids (oc_rotation oc)) \<subseteq> dom (map_of (lp_scenarios_by_id (oc_pack oc)))
   \<and> (\<forall>a sid. (a, Some sid) \<in> set (oc_active oc) \<longrightarrow>
        (\<exists>sc. map_of (lp_scenarios_by_id (oc_pack oc)) sid = Some sc \<and> sc_target_asset sc = a))"

lemma set_dict_of: "set (dict_of kvs) \<subseteq> set kvs"
proof (induction kvs rule: rev_induct)
  case Nil
  then show ?case by (simp add: dict_of_def)
next
  case (snoc x xs)
  then show ?case using set_dict_set [of "fst x" "snd x" "dict_of xs"] dict_of_append [of xs "fst x" "snd x"]
    by auto
qed

lemma clear_active_set:
  "clear_active c items active s = (ok, active', s') \<Longrightarrow> (a, Some sid) \<in> set active' \<Longrightarrow> (a, Some sid) \<in> set active"
proof (induction items arbitrary: active s)
  case Nil
  then show ?case by simp
next
  case (Cons x items)
  obtain asset_id cur where x: "x = (asset_id, cur)" by (cases x)
  obtain b s1 where c: "c asset_id s = (b, s1)" by (cases "c asset_id s")
  show ?case
  proof (cases "cur = None")
    case True
    with Cons x show ?thesis by simp
  next
    case False
    show ?thesis
    proof (cases b)
      case True
      with Cons.prems x c False have "clear_active c items (dict_set asset_id None active) s1 = (ok, active', s')"
        by simp
      from Cons.IH [OF this Cons.prems(2)] set_dict_set [of asset_id None active] show ?thesis by auto
    qed (use Cons.prems x c False in simp)
  qed
qed

lemma inject_scenario_set:
  assumes "inject_scenario c i sid0 lp active s = (res, active', s')" "(a, Some sid) \<in> set active'"
  shows "(a, Some sid) \<in> set active \<or> (\<exists>sc. map_of (lp_scenarios_by_id lp) sid = Some sc \<and> sc_target_asset sc = a)"
proof -
  obtain ok active1 s1 where clr: "clear_active c active active s = (ok, active1, s1)"
    by (cases "clear_active c active active s")
  note old = clear_active_set [OF clr, of a sid]
  have "active' = active1 \<or> (\<exists>sc. active' = dict_set (sc_target_asset sc) (Some sid0) active1
      \<and> map_of (lp_scenarios_by_id lp) sid0 = Some sc)"
    using assms(1) clr by (auto simp: inject_scenario_def split: bool.splits option.splits prod.splits)
  then show ?thesis
  proof
    assume "active' = active1"
    with assms(2) old show ?thesis by simp
  next
    assume "\<exists>sc. active' = dict_set (sc_target_asset sc) (Some sid0) active1 \<and> map_of (lp_scenarios_by_id lp) sid0 = Some sc"
    then obtain sc where t: "active' = dict_set (sc_target_asset sc) (Some sid0) active1"
      and d: "map_of (lp_scenarios_by_id lp) sid0 = Some sc" by blast
    have "(a, Some sid) \<in> insert (sc_target_asset sc, Some sid0) (set active1)"
      using assms(2) set_dict_set [of "sc_target_asset sc" "Some sid0" active1] unfolding t by blast
    with old d show ?thesis by auto
  qed
qed

lemma inject_scenario_no_KeyError:
  assumes "sid \<in> dom (map_of (lp_scenarios_by_id lp))"
    and "inject_scenario c i sid lp active s = (res, active', s')"
  shows "res \<noteq> Inl (OrchKeyError k)"
  using assms by (auto simp: inject_scenario_def run_response_def split: bool.splits option.splits prod.splits)

lemma rotation_force_Inr:
  "rotation_force sid rot = Inr p \<longleftrightarrow>
     sid \<in> set (rot_ids rot) \<and> p = (sid, rot\<lparr>rot_last := Some sid\<rparr>)"
  by (auto simp: rotation_force_def)

lemma orch_ok_run_next:
  assumes "orch_ok oc" "run_next c i r oc s = (res, oc', s')"
  shows "orch_ok oc' \<and> oc_pack oc' = oc_pack oc \<and> res \<noteq> Inl (OrchKeyError k)"
proof -
  obtain sid rot' where n: "rotation_next r (oc_rotation oc) = (sid, rot')"
    by (cases "rotation_next r (oc_rotation oc)")
  obtain res1 active1 s1 where inj: "inject_scenario c i sid (oc_pack oc) (oc_active oc) s = (res1, active1, s1)"
    by (cases "inject_scenario c i sid (oc_pack oc) (oc_active oc) s")
  have oc': "oc' = oc\<lparr>oc_rotation := rot', oc_active := active1\<rparr>" "res = res1"
    using assms(2) n inj by (auto simp: run_next_def)
  have "sid \<in> set (rot_ids (oc_rotation oc))" "rot_ids rot' = rot_ids (oc_rotation oc)"
    using rotation_next_in [OF _ n] rotation_next_last [OF n] assms(1) by (auto simp: orch_ok_def)
  moreover from this assms(1) have "sid \<in> dom (map_of (lp_scenarios_by_id (oc_pack oc)))"
    unfolding orch_ok_def by blast
  moreover note inject_scenario_set [OF inj] inject_scenario_no_KeyError [OF _ inj]
  ultimately show ?thesis
    using assms(1) unfolding orch_ok_def oc' by (simp add: oc') blast
qed

lemma orch_ok_run_specific:
  assumes "orch_ok oc" "run_specific c i sid oc s = (res, oc', s')"
  shows "orch_ok oc' \<and> oc_pack oc' = oc_pack oc \<and> res \<noteq> Inl (OrchKeyError k)"
proof (cases "sid \<in> set (rot_ids (oc_rotation oc))")
  case False
  with assms show ?thesis by (auto simp: run_specific_def rotation_force_def)
next
  case True
  obtain res1 active1 s1 where inj: "inject_scenario c i sid (oc_pack oc) (oc_active oc) s = (res1, active1, s1)"
    by (cases "inject_scenario c i sid (oc_pack oc) (oc_active oc) s")
  have oc': "oc' = oc\<lparr>oc_rotation := (oc_rotation oc)\<lparr>rot_last := Some sid\<rparr>, oc_active := active1\<rparr>" "res = res1"
    using assms(2) True inj by (auto simp: run_specific_def rotation_force_def)
  from True assms(1) have "sid \<in> dom (map_of (lp_scenarios_by_id (oc_pack oc)))"
    unfolding orch_ok_def by blast
  moreover note inject_scenario_set [OF inj] inject_scenario_no_KeyError [OF _ inj]
  ultimately show ?thesis
    using assms(1) unfolding orch_ok_def oc' by (simp add: oc') blast
qed

lemma orch_ok_reset:
  assumes "orch_ok oc" "orch_reset c oc s = (res, oc', s')"
  shows "orch_ok oc' \<and> oc_pack oc' = oc_pack oc"
proof -
  obtain ok active1 s1 where clr: "clear_active c (oc_active oc) (oc_active oc) s = (ok, active1, s1)"
    by (cases "clear_active c (oc_active oc) (oc_active oc) s")
  have "oc_active oc' = active1 \<and> oc_pack oc' = oc_pack oc \<and> rot_ids (oc_rotation oc') = rot_ids (oc_rotation oc)"
    using assms(2) clr by (cases ok) (auto simp: orch_reset_def rotation_reset_def)
  with clear_active_set [OF clr] assms(1) show ?thesis unfolding orch_ok_def by simp
qed

lemma orch_ok_init:
  assumes "wf_loaded lp" "orch_init lp = Inr oc"
  shows "orch_ok oc" "oc_pack oc = lp" "active_scenario oc a = None"
proof -
  from assms(2) have oc: "oc = \<lparr>oc_pack = lp, oc_rotation = \<lparr>rot_ids = map sc_id (lp_scenarios lp), rot_last = None\<rparr>,
      oc_active = dict_of (map (\<lambda>a. (pa_id a, None)) (pk_assets (lp_pack lp)))\<rparr>"
    and ne: "lp_scenarios lp \<noteq> []"
    by (auto simp: orch_init_def rotation_init_def split: if_splits)
  have none: "x \<in> set (oc_active oc) \<Longrightarrow> snd x = None" for x
    using set_dict_of [of "map (\<lambda>a. (pa_id a, None)) (pk_assets (lp_pack lp))"] by (auto simp: oc)
  then show "orch_ok oc"
    using ne wf_loaded_by_id(2) [OF assms(1)] by (fastforce simp: orch_ok_def oc)
  show "oc_pack oc = lp" by (simp add: oc)
  show "active_scenario oc a = None"
    using none [OF active_id_items [of "oc_active oc" a]]
    by (cases "active_scenario oc a") (auto simp: active_scenario_id)
qed

section \<open>The rotation over a session\<close>

fun rotation_run :: "nat list \<Rightarrow> rotation \<Rightarrow> pystr list" where
  "rotation_run [] rot = []"
| "rotation_run (r # rs) rot =
     (let (sid, rot') = rotation_next r rot in sid # rotation_run rs rot')"

definition two_scenarios :: "rotation \<Rightarrow> bool" where
  "two_scenarios rot \<longleftrightarrow> (\<exists>x \<in> set (rot_ids rot). \<exists>y \<in> set (rot_ids rot). x \<noteq> y)"

lemma two_scenarios_other: "two_scenarios rot \<Longrightarrow> \<exists>x \<in> set (rot_ids rot). Some x \<noteq> l"
  unfolding two_scenarios_def by (metis option.inject)

lemma rotation_run_adj:
  "two_scenarios rot \<Longrightarrow> distinct_adj (rotation_run rs rot) \<and>
     (\<forall>sid. rotation_run rs rot \<noteq> [] \<longrightarrow> rot_last rot = Some sid \<longrightarrow> hd (rotation_run rs rot) \<noteq> sid)"
proof (induction rs arbitrary: rot)
  case Nil
  then show ?case by simp
next
  case (Cons r rs)
  obtain sid rot' where n: "rotation_next r rot = (sid, rot')" by (cases "rotation_next r rot")
  have l: "rot_last rot' = Some sid" "rot_ids rot' = rot_ids rot" using rotation_next_last [OF n] by auto
  have "two_scenarios rot'" using Cons.prems l by (simp add: two_scenarios_def)
  from Cons.IH [OF this] have tl: "distinct_adj (rotation_run rs rot')"
    "rotation_run rs rot' \<noteq> [] \<Longrightarrow> hd (rotation_run rs rot') \<noteq> sid" using l by auto
  have "Some sid \<noteq> rot_last rot"
    using rotation_next_differs [OF two_scenarios_other [OF Cons.prems] n] .
  with n tl show ?case by (cases "rotation_run rs rot'") auto
qed

lemma rotation_run_in:
  "rot_ids rot \<noteq> [] \<Longrightarrow> set (rotation_run rs rot) \<subseteq> set (rot_ids rot)"
proof (induction rs arbitrary: rot)
  case (Cons r rs)
  obtain sid rot' where n: "rotation_next r rot = (sid, rot')" by (cases "rotation_next r rot")
  from rotation_next_last [OF n] Cons.prems Cons.IH [of rot'] have "set (rotation_run rs rot') \<subseteq> set (rot_ids rot)"
    by simp
  with rotation_next_in [OF Cons.prems n] show ?case by (simp add: n)
qed simp

lemma rotation_next_can:
  assumes "x \<in> set (rot_ids rot)" "Some x \<noteq> rot_last rot"
  shows "\<exists>r. fst (rotation_next r rot) = x"
proof -
  let ?c = "filter (\<lambda>sid. Some sid \<noteq> rot_last rot) (rot_ids rot)"
  have "x \<in> set ?c" using assms by simp
  then obtain i where i: "i < length ?c" "?c ! i = x" by (meson in_set_conv_nth)
  then have "?c \<noteq> []" by auto
  with i show ?thesis
    by (intro exI [of _ i]) (simp add: rotation_next_def random_choice_def Let_def)
qed

text \<open>
  With at least two scenarios in the pack, \<open>POST /api/run\<close> never repeats the scenario it
  drew just before, however the random numbers fall: over any run of draws neighbours differ, the
  first draw differs from \<open>last_used\<close>, and every draw is a scenario of the pack; and every
  scenario other than the last one can be drawn next.
\<close>
theorem rotation_never_repeats:
  assumes "two_scenarios rot"
  shows "distinct_adj (rotation_run rs rot)
     \<and> set (rotation_run rs rot) \<subseteq> set (rot_ids rot)
     \<and> (rs \<noteq> [] \<longrightarrow> rot_last rot \<noteq> Some (hd (rotation_run rs rot)))
     \<and> (\<forall>x \<in> set (rot_ids rot). rot_last rot \<noteq> Some x \<longrightarrow> (\<exists>r. fst (rotation_next r rot) = x))"
proof -
  have ne: "rot_ids rot \<noteq> []" using assms by (auto simp: two_scenarios_def)
  have first: "rs \<noteq> [] \<longrightarrow> rot_last rot \<noteq> Some (hd (rotation_run rs rot))"
    using rotation_run_adj [OF assms, of rs] by (cases rs) (auto split: prod.splits)
  show ?thesis
    using rotation_run_adj [OF assms] rotation_run_in [OF ne] rotation_next_can [of _ rot] first
    by fastforce
qed

definition demo_rotation :: rotation where
  "demo_rotation = \<lparr>rot_ids = [lit ''s1'', lit ''s2''], rot_last = Some (lit ''s1'')\<rparr>"

theorem rotation_never_repeats_witness:
  "distinct_adj (rotation_run [0, 5, 2, 7] demo_rotation)
     \<and> (\<exists>r. fst (rotation_next r demo_rotation) = lit ''s2'')"
proof -
  have "two_scenarios demo_rotation"
    unfolding two_scenarios_def by (intro bexI [of _ "lit ''s1''"] bexI [of _ "lit ''s2''"])
      (simp_all add: demo_rotation_def)
  note p = rotation_never_repeats [OF this, of "[0, 5, 2, 7]"]
  then have "\<exists>r. fst (rotation_next r demo_rotation) = lit ''s2''"
    by (simp add: demo_rotation_def)
  with p show ?thesis by blast
qed

section \<open>Properties of the routes\<close>

text \<open>The orchestrator knows about every fault that is active in the simulator.\<close>

definition faults_tracked :: "orch \<Rightarrow> sim_world \<Rightarrow> bool" where
  "faults_tracked oc w \<longleftrightarrow> (\<forall>a sid. sim_fault_of w a = Some sid \<longrightarrow> active_scenario oc a = Some sid)"

lemma faults_tracked_iff: "faults_tracked oc w \<longleftrightarrow> sim.tracks (oc_active oc) w"
  by (simp add: faults_tracked_def sim.tracks_def active_scenario_id)

text \<open>Everything that can change the orchestrator or the simulator's faults during a session.\<close>

datatype lab_op = RunNext nat | RunSpecific pystr | ResetLab | Remediated pystr

fun lab_step :: "orch \<times> sim_world \<Rightarrow> lab_op \<Rightarrow> orch \<times> sim_world" where
  "lab_step (oc, w) (RunNext r) = snd (run_next http_clear http_inject r oc w)"
| "lab_step (oc, w) (RunSpecific sid) = snd (run_specific http_clear http_inject sid oc w)"
| "lab_step (oc, w) ResetLab = snd (orch_reset http_clear oc w)"
| "lab_step (oc, w) (Remediated a) = (oc, snd (http_clear a w))"

definition lab_inv :: "orch \<times> sim_world \<Rightarrow> bool" where
  "lab_inv s \<longleftrightarrow> faults_tracked (fst s) (snd s) \<and> no_lost_replies (snd s) \<and> orch_ok (fst s)"

lemma orch_reliable:
  assumes "no_lost_replies w"
  shows "run_next http_clear http_inject r oc w = (res, oc', w') \<Longrightarrow> no_lost_replies w'"
    and "run_specific http_clear http_inject sid oc w = (res, oc', w') \<Longrightarrow> no_lost_replies w'"
    and "orch_reset http_clear oc w = (msg, oc', w') \<Longrightarrow> no_lost_replies w'"
proof -
  note i = rel.inject_scenario_reliable [OF assms]
  show "run_next http_clear http_inject r oc w = (res, oc', w') \<Longrightarrow> no_lost_replies w'"
    by (auto simp: run_next_def split: prod.splits dest: i)
  show "run_specific http_clear http_inject sid oc w = (res, oc', w') \<Longrightarrow> no_lost_replies w'"
    using assms by (auto simp: run_specific_def split: prod.splits sum.splits dest: i)
  show "orch_reset http_clear oc w = (msg, oc', w') \<Longrightarrow> no_lost_replies w'"
    by (auto simp: orch_reset_def split: prod.splits bool.splits dest: rel.reliable_clear_active [OF assms])
qed

lemma lab_inv_step: "lab_inv s \<Longrightarrow> lab_inv (lab_step s op)"
proof -
  assume inv: "lab_inv s"
  obtain oc w where s: "s = (oc, w)" by (cases s)
  from inv have t: "sim.tracks (oc_active oc) w" and n: "no_lost_replies w" and ok: "orch_ok oc"
    by (simp_all add: lab_inv_def faults_tracked_iff s)
  show "lab_inv (lab_step s op)"
  proof (cases op)
    case (RunNext r)
    obtain res oc' w' where e: "run_next http_clear http_inject r oc w = (res, oc', w')"
      by (cases "run_next http_clear http_inject r oc w")
    show ?thesis
      using rel.run_next_tracks [OF t n e] orch_reliable(1) [OF n e] orch_ok_run_next [OF ok e]
      by (simp add: s RunNext e lab_inv_def faults_tracked_iff)
  next
    case (RunSpecific sid)
    obtain res oc' w' where e: "run_specific http_clear http_inject sid oc w = (res, oc', w')"
      by (cases "run_specific http_clear http_inject sid oc w")
    show ?thesis
      using rel.run_specific_tracks [OF t n e] orch_reliable(2) [OF n e] orch_ok_run_specific [OF ok e]
      by (simp add: s RunSpecific e lab_inv_def faults_tracked_iff)
  next
    case ResetLab
    obtain res oc' w' where e: "orch_reset http_clear oc w = (res, oc', w')"
      by (cases "orch_reset http_clear oc w")
    show ?thesis
      using sim.orch_reset_tracks [OF t e] orch_reliable(3) [OF n e] orch_ok_reset [OF ok e]
      by (simp add: s ResetLab e lab_inv_def faults_tracked_iff)
  next
    case (Remediated a)
    obtain b w' where e: "http_clear a w = (b, w')" by (cases "http_clear a w")
    show ?thesis
      using sim.tracks_after_clear [OF t e] rel.reliable_clear [OF n e] ok
      by (simp add: s Remediated e lab_inv_def faults_tracked_iff)
  qed
qed

lemma lab_inv_run: "lab_inv s \<Longrightarrow> lab_inv (foldl lab_step s ops)"
proof (induction ops arbitrary: s)
  case (Cons op ops)
  from Cons.IH [OF lab_inv_step [OF Cons.prems]] show ?case by simp
qed simp

lemma lab_inv_start:
  assumes "wf_loaded lp" "orch_init lp = Inr oc" "no_lost_replies w" "sw_engine w = engine_init lp"
  shows "lab_inv (oc, w)"
  using assms(3,4) orch_ok_init [OF assms(1,2)]
  by (simp add: lab_inv_def faults_tracked_def sim_fault_of_def engine_init_get_fault)

text \<open>Where the invariant holds, no lookup of the read-only routes raises \<open>KeyError\<close>.\<close>

lemma orch_ok_lookups:
  assumes ok: "orch_ok oc"
  shows "\<exists>resp. get_current oc = Inr resp"
    and "get_logs now a oc = Inl e \<Longrightarrow> e = OrchHttp (HTTPException 404 (NoActiveScenario a))"
    and "get_asset_scenario a oc = Inl e \<Longrightarrow> e = OrchHttp (HTTPException 404 (NoActiveScenario a))"
proof -
  let ?by_id = "map_of (lp_scenarios_by_id (oc_pack oc))"
  have known: "(a, Some sid) \<in> set (oc_active oc) \<Longrightarrow> \<exists>sc. ?by_id sid = Some sc" for a sid
    using ok unfolding orch_ok_def by blast
  have act: "active_scenario oc a = Some sid \<Longrightarrow> \<exists>sc. ?by_id sid = Some sc" for a sid
    using known active_id_items [of "oc_active oc" a sid] by (auto simp: active_scenario_id)
  show "\<exists>resp. get_current oc = Inr resp"
    unfolding get_current_def
  proof (rule exI, rule map_res_total)
    fix x assume "x \<in> set (oc_active oc)"
    with known [of "fst x" "the (snd x)"]
    show "(\<lambda>(asset_id, sid). if sid = None \<or> sid = Some [] then Inr (asset_id, None)
        else bind_res (run_response (the sid) (oc_pack oc)) (\<lambda>r. Inr (asset_id, Some r))) x
      = Inr (fst x, if snd x = None \<or> snd x = Some [] then None
          else Some (scenario_response (the (?by_id (the (snd x))))))"
      by (cases x; cases "snd x") (auto simp: run_response_def)
  qed
  show "get_logs now a oc = Inl e \<Longrightarrow> e = OrchHttp (HTTPException 404 (NoActiveScenario a))"
    using act [of a] by (cases "active_scenario oc a") (auto simp: get_logs_def Let_def)
  show "get_asset_scenario a oc = Inl e \<Longrightarrow> e = OrchHttp (HTTPException 404 (NoActiveScenario a))"
    using act [of a] by (cases "active_scenario oc a") (auto simp: get_asset_scenario_def run_response_def)
qed

text \<open>
  After any sequence of runs, forced runs, resets and remediations, with requests refused at
  will but no answer lost, the orchestrator knows every fault that is active in the simulator, and
  no scenario id it stores is unknown: the lookups of the routes never raise \<open>KeyError\<close>.
\<close>
theorem session_tracks_every_fault:
  assumes "wf_loaded lp" and "orch_init lp = Inr oc0"
    and "no_lost_replies w0" and "sw_engine w0 = engine_init lp"
    and "foldl lab_step (oc0, w0) ops = (oc, w)"
  shows "(\<forall>a sid. sim_fault_of w a = Some sid \<longrightarrow> active_scenario oc a = Some sid)
     \<and> (\<exists>resp. get_current oc = Inr resp)
     \<and> (\<forall>a now. get_logs now a oc = Inl e \<longrightarrow> e = OrchHttp (HTTPException 404 (NoActiveScenario a)))
     \<and> (\<forall>a. get_asset_scenario a oc = Inl e \<longrightarrow> e = OrchHttp (HTTPException 404 (NoActiveScenario a)))"
proof -
  have "lab_inv (oc, w)"
    using lab_inv_run [OF lab_inv_start [OF assms(1-4)], of ops] assms(5) by simp
  then have "faults_tracked oc w" and ok: "orch_ok oc" by (simp_all add: lab_inv_def)
  with orch_ok_lookups [OF ok] show ?thesis by (auto simp: faults_tracked_def)
qed

lemma run_specific_isolates:
  assumes "faults_tracked oc w"
    and "run_specific http_clear http_inject sid oc w = (Inr resp, oc', w')"
  shows "\<exists>sc. map_of (lp_scenarios_by_id (oc_pack oc)) sid = Some sc \<and> resp = scenario_response sc
     \<and> (\<forall>a. sim_fault_of w' a = (if a = sc_target_asset sc then Some sid else None))
     \<and> (\<forall>a. active_scenario oc' a = (if a = sc_target_asset sc then Some sid else None))
     \<and> rot_last (oc_rotation oc') = Some sid"
proof -
  obtain res1 active1 w1 where
    inj: "inject_scenario http_clear http_inject sid (oc_pack oc) (oc_active oc) w = (res1, active1, w1)"
    by (cases "inject_scenario http_clear http_inject sid (oc_pack oc) (oc_active oc) w")
  from assms(2) inj have sid: "sid \<in> set (rot_ids (oc_rotation oc))"
    by (auto simp: run_specific_def rotation_force_def split: if_splits)
  with assms(2) inj have eqs: "res1 = Inr resp" "w' = w1" "oc_active oc' = active1"
    "rot_last (oc_rotation oc') = Some sid"
    by (auto simp: run_specific_def rotation_force_def)
  have "sim.tracks (oc_active oc) w" using assms(1) by (simp add: faults_tracked_iff)
  note iso = sim.inject_scenario_Inr [OF this inj [unfolded eqs(1)]]
  then obtain sc where sc: "map_of (lp_scenarios_by_id (oc_pack oc)) sid = Some sc"
    and r: "resp = scenario_response sc" by blast
  have "active_id active1 a = (if a = sc_target_asset sc then Some sid else None)
      \<and> sim_fault_of w1 a = (if a = sc_target_asset sc then Some sid else None)" for a
    using iso [of a] sc by simp
  with sc r eqs show ?thesis by (auto simp: active_scenario_id)
qed

text \<open>
  A successful \<open>POST /api/run/{id}\<close> leaves exactly one fault in the lab: the forced
  scenario on its target asset, in the simulator and in the orchestrator's map, with every fault
  that was active before cleared; the answer is the scenario's data and \<open>last_used\<close> is its id.
\<close>
theorem run_specific_isolates_fault:
  assumes "faults_tracked oc w"
    and "run_specific http_clear http_inject sid oc w = (Inr resp, oc', w')"
  shows "\<exists>sc. map_of (lp_scenarios_by_id (oc_pack oc)) sid = Some sc \<and> resp = scenario_response sc
     \<and> (\<forall>a. sim_fault_of w' a = (if a = sc_target_asset sc then Some sid else None))
     \<and> (\<forall>a. active_scenario oc' a = (if a = sc_target_asset sc then Some sid else None))
     \<and> rot_last (oc_rotation oc') = Some sid"
  by (rule run_specific_isolates [OF assms])

text \<open>
  C22: A successful \<open>POST /api/run\<close> draws a scenario of the pack, a different one from the
  last when there is a choice, and leaves exactly that fault in the lab.
\<close>
theorem run_next_isolates_fault:
  assumes "faults_tracked oc w" and "orch_ok oc"
    and "run_next http_clear http_inject r oc w = (Inr resp, oc', w')"
  shows "\<exists>sid sc. sid \<in> set (rot_ids (oc_rotation oc))
     \<and> (two_scenarios (oc_rotation oc) \<longrightarrow> rot_last (oc_rotation oc) \<noteq> Some sid)
     \<and> map_of (lp_scenarios_by_id (oc_pack oc)) sid = Some sc \<and> resp = scenario_response sc
     \<and> (\<forall>a. sim_fault_of w' a = (if a = sc_target_asset sc then Some sid else None))
     \<and> (\<forall>a. active_scenario oc' a = (if a = sc_target_asset sc then Some sid else None))
     \<and> rot_last (oc_rotation oc') = Some sid"
proof -
  obtain sid rot' where n: "rotation_next r (oc_rotation oc) = (sid, rot')"
    by (cases "rotation_next r (oc_rotation oc)")
  obtain res1 active1 w1 where
    inj: "inject_scenario http_clear http_inject sid (oc_pack oc) (oc_active oc) w = (res1, active1, w1)"
    by (cases "inject_scenario http_clear http_inject sid (oc_pack oc) (oc_active oc) w")
  with assms(3) n have eqs: "res1 = Inr resp" "w' = w1" "oc_active oc' = active1" "oc_rotation oc' = rot'"
    by (auto simp: run_next_def)
  have "sim.tracks (oc_active oc) w" using assms(1) by (simp add: faults_tracked_iff)
  note iso = sim.inject_scenario_Inr [OF this inj [unfolded eqs(1)]]
  then obtain sc where sc: "map_of (lp_scenarios_by_id (oc_pack oc)) sid = Some sc"
    and r: "resp = scenario_response sc" by blast
  have state: "active_id active1 a = (if a = sc_target_asset sc then Some sid else None)
      \<and> sim_fault_of w1 a = (if a = sc_target_asset sc then Some sid else None)" for a
    using iso [of a] sc by simp
  have mem: "sid \<in> set (rot_ids (oc_rotation oc))"
    using rotation_next_in [OF _ n] assms(2) by (simp add: orch_ok_def)
  have diff: "two_scenarios (oc_rotation oc) \<longrightarrow> rot_last (oc_rotation oc) \<noteq> Some sid"
    using rotation_next_differs [OF two_scenarios_other n] by metis
  show ?thesis
    using mem diff sc r state rotation_next_last [OF n] eqs
    by (intro exI [of _ sid] exI [of _ sc]) (simp add: active_scenario_id)
qed

text \<open>
  \<open>GET /api/assets/{id}/logs\<close> after a successful forced run returns, for the target
  asset, the log bundle of that scenario with every date replaced by today's, and an excerpt of it;
  for every other asset it is a 404.
\<close>
theorem logs_after_run:
  assumes "wf_loaded (oc_pack oc)" and "faults_tracked oc w"
    and "run_specific http_clear http_inject sid oc w = (Inr resp, oc', w')"
  shows "(\<exists>sc raw. map_of (lp_scenarios_by_id (oc_pack oc)) sid = Some sc
       \<and> map_of (lp_log_bundles (oc_pack oc)) (sc_log_bundle_ref sc) = Some raw
       \<and> get_logs now (rr_target_asset resp) oc' =
           Inr \<lparr>lr_asset_id = rr_target_asset resp, lr_scenario_id = sid, lr_log_text = stamp_today now raw,
                lr_log_highlight = extract_highlight (stamp_today now raw) (rr_error_signatures resp)\<rparr>)
     \<and> (\<forall>a. a \<noteq> rr_target_asset resp \<longrightarrow>
           get_logs now a oc' = Inl (OrchHttp (HTTPException 404 (NoActiveScenario a))))"
proof -
  from run_specific_isolates [OF assms(2,3)] obtain sc where
    sc: "map_of (lp_scenarios_by_id (oc_pack oc)) sid = Some sc" "resp = scenario_response sc" and
    act: "\<And>a. active_scenario oc' a = (if a = sc_target_asset sc then Some sid else None)"
    by blast
  have pack: "oc_pack oc' = oc_pack oc"
    using assms(3) by (auto simp: run_specific_def split: sum.splits prod.splits)
  have "sc \<in> set (lp_scenarios (oc_pack oc))"
    using wf_loaded_by_id(1) [OF assms(1) sc(1)] by simp
  from wf_loadedD(2) [OF assms(1) this] obtain raw where
    "map_of (lp_log_bundles (oc_pack oc)) (sc_log_bundle_ref sc) = Some raw" by blast
  with sc act pack show ?thesis
    by (simp add: get_logs_def scenario_response_def Let_def)
qed

text \<open>An unknown id is a 404 and changes nothing.\<close>

lemma run_unknown_scenario:
  "sid \<notin> set (rot_ids (oc_rotation oc)) \<Longrightarrow>
     run_specific sim_clear sim_inject sid oc w = (Inl (OrchHttp (HTTPException 404 (UnknownScenario sid))), oc, w)"
  by (simp add: run_specific_def rotation_force_def)

text \<open>
  A lost answer orphans a fault. When the injection of a forced run reaches the simulator but
  its answer is lost, the route fails and the orchestrator does not record the scenario, so a later
  \<open>POST /api/reset\<close>, with every request delivered, answers \<open>idle\<close> and leaves the fault
  in the simulator (its docstring: "Clear all active faults and return all assets to idle").
\<close>
theorem lost_reply_orphans_fault:
  assumes "\<And>a. active_scenario oc a = None"
    and "wf_dict (oc_active oc)"
    and "sid \<in> set (rot_ids (oc_rotation oc))"
    and "map_of (lp_scenarios_by_id (oc_pack oc)) sid = Some sc"
    and "sc_target_asset sc \<in> set (asset_ids (sw_engine w))" and "sid \<in> set (known_scenario_ids (sw_engine w))"
    and "sw_net w = [Reply_lost]"
  shows "\<exists>oc1 w1 oc2 w2. run_specific http_clear http_inject sid oc w = (Inl SimulatorCallFailed, oc1, w1)
     \<and> orch_reset http_clear oc1 w1 = (Inr (lit ''idle''), oc2, w2)
     \<and> sim_fault_of w2 (sc_target_asset sc) = Some sid
     \<and> active_scenario oc2 (sc_target_asset sc) = None"
proof -
  have idle: "(a, x) \<in> set (oc_active oc) \<Longrightarrow> x = None" for a x
    using assms(1) [of a] map_of_is_SomeI [OF assms(2), of a x] by (auto simp: active_scenario_def)
  have skip: "\<forall>x \<in> set items. snd x = None \<Longrightarrow> clear_active c items active s = (True, active, s)"
    for c :: "pystr \<Rightarrow> sim_world \<Rightarrow> bool \<times> sim_world" and items active s
    by (induction items) auto
  have idle: "\<forall>x \<in> set (oc_active oc). snd x = None" using idle by auto
  let ?a = "sc_target_asset sc"
  obtain e' f where inj: "inject_fault (sw_clock w (sw_ticks w)) ?a sid (sw_engine w) = (Inr f, e')"
    and fault: "map_option if_scenario_id (get_fault e' ?a) = Some sid"
    by (cases rule: inject_fault_cases [of "sw_clock w (sw_ticks w)" ?a sid "sw_engine w"])
      (use assms(5,6) in \<open>auto simp: inject_get_fault\<close>)
  let ?w1 = "w\<lparr>sw_net := [], sw_ticks := Suc (sw_ticks w), sw_engine := e'\<rparr>"
  let ?oc1 = "oc\<lparr>oc_rotation := (oc_rotation oc)\<lparr>rot_last := Some sid\<rparr>\<rparr>"
  have "http_inject ?a sid w = (False, ?w1)"
    using assms(7) inj by (simp add: http_inject_def returned_def post_inject_def deliver_def)
  then have run: "run_specific http_clear http_inject sid oc w = (Inl SimulatorCallFailed, ?oc1, ?w1)"
    using assms(3,4) by (simp add: run_specific_def rotation_force_def inject_scenario_def skip idle)
  have reset: "orch_reset http_clear ?oc1 ?w1 =
      (Inr (lit ''idle''), ?oc1\<lparr>oc_rotation := rotation_reset (oc_rotation ?oc1)\<rparr>, ?w1)"
    by (simp add: orch_reset_def skip idle)
  show ?thesis
    using run reset fault assms(1) by (intro exI conjI) (auto simp: sim_fault_of_def active_scenario_def)
qed

text \<open>
  The orchestrator is not told about a remediation: after the fault of a forced run has been
  cleared in the simulator, \<open>GET /api/current\<close> and the routes of the asset still report the
  scenario as active (the module documents \<open>current\<close> as "null if idle").
\<close>
theorem remediated_asset_still_active:
  assumes "faults_tracked oc w"
    and "run_specific http_clear http_inject sid oc w = (Inr resp, oc1, w1)"
    and "http_clear (rr_target_asset resp) w1 = (True, w2)"
  shows "(\<forall>a. sim_fault_of w2 a = None) \<and> active_scenario oc1 (rr_target_asset resp) = Some sid
     \<and> get_asset_scenario (rr_target_asset resp) oc1 = Inr resp"
proof -
  from run_specific_isolates [OF assms(1,2)] obtain sc where
    sc: "map_of (lp_scenarios_by_id (oc_pack oc)) sid = Some sc" "resp = scenario_response sc" and
    flt: "\<And>a. sim_fault_of w1 a = (if a = sc_target_asset sc then Some sid else None)" and
    act: "\<And>a. active_scenario oc1 a = (if a = sc_target_asset sc then Some sid else None)"
    by blast
  have pack: "oc_pack oc1 = oc_pack oc"
    using assms(2) by (auto simp: run_specific_def split: sum.splits prod.splits)
  have t: "rr_target_asset resp = sc_target_asset sc" by (simp add: sc(2) scenario_response_def)
  have "sim_fault_of w2 a = None" for a
    using sim.clear_ok [OF assms(3)] sim.clear_frame [OF assms(3), of a] flt [of a] t
    by (cases "a = sc_target_asset sc") auto
  moreover have "get_asset_scenario (sc_target_asset sc) oc1 = Inr resp"
    by (simp add: act get_asset_scenario_def run_response_def pack sc)
  ultimately show ?thesis using act [of "sc_target_asset sc"] by (simp only: t) simp
qed

section \<open>Runs on a working network\<close>

lemma http_clear_delivered:
  assumes "sw_net w = []" "a \<in> set (asset_ids (sw_engine w))"
  shows "\<exists>w'. http_clear a w = (True, w') \<and> sw_net w' = [] \<and> asset_ids (sw_engine w') = asset_ids (sw_engine w)
     \<and> en_scenarios (sw_engine w') = en_scenarios (sw_engine w)"
proof (cases rule: clear_fault_cases [of a "sw_engine w"])
  case (cleared e')
  with assms show ?thesis
    by (auto simp: http_clear_def returned_def post_clear_def deliver_def Let_def response_code_def
        status_ok_def clear_asset_ids) (auto simp: clear_asset_Inr_iff)
qed (use assms in simp)

lemma http_inject_delivered:
  assumes "sw_net w = []" "a \<in> set (asset_ids (sw_engine w))" "sid \<in> set (known_scenario_ids (sw_engine w))"
  shows "\<exists>w'. http_inject a sid w = (True, w') \<and> sw_net w' = [] \<and> asset_ids (sw_engine w') = asset_ids (sw_engine w)"
proof (cases rule: inject_fault_cases [of "sw_clock w (sw_ticks w)" a sid "sw_engine w"])
  case (injected sc e')
  with assms show ?thesis
    by (auto simp: http_inject_def returned_def post_inject_def deliver_def Let_def response_code_def
        status_ok_def dest: inject_asset_ids)
qed (use assms in simp)

lemma clear_active_delivered:
  "sw_net w = [] \<Longrightarrow> (\<And>a sid. (a, Some sid) \<in> set items \<Longrightarrow> a \<in> set (asset_ids (sw_engine w))) \<Longrightarrow>
     \<exists>active' w'. clear_active http_clear items active w = (True, active', w') \<and> sw_net w' = []
       \<and> asset_ids (sw_engine w') = asset_ids (sw_engine w) \<and> en_scenarios (sw_engine w') = en_scenarios (sw_engine w)"
proof (induction items arbitrary: active w)
  case (Cons x items)
  obtain a cur where x: "x = (a, cur)" by (cases x)
  show ?case
  proof (cases cur)
    case None
    with Cons x show ?thesis by simp
  next
    case (Some sid)
    with Cons.prems x obtain w1 where w1: "http_clear a w = (True, w1)" "sw_net w1 = []"
      "asset_ids (sw_engine w1) = asset_ids (sw_engine w)" "en_scenarios (sw_engine w1) = en_scenarios (sw_engine w)"
      using http_clear_delivered [of w a] by auto
    have "(a', Some sid') \<in> set items \<Longrightarrow> a' \<in> set (asset_ids (sw_engine w1))" for a' sid'
      using Cons.prems(2) [of a' sid'] w1(3) by simp
    from Cons.IH [where w = w1 and active = "dict_set a None active", OF w1(2) this] w1 x Some
    show ?thesis by simp
  qed
qed simp

text \<open>
  With every request delivered, a forced run of a scenario of the pack succeeds, whatever is
  active: the active faults are cleared and the new one is injected.
\<close>
theorem run_specific_succeeds:
  assumes "sw_net w = []"
    and "\<And>a sid. (a, Some sid) \<in> set (oc_active oc) \<Longrightarrow> a \<in> set (asset_ids (sw_engine w))"
    and "sid \<in> set (rot_ids (oc_rotation oc))"
    and "map_of (lp_scenarios_by_id (oc_pack oc)) sid = Some sc"
    and "sc_target_asset sc \<in> set (asset_ids (sw_engine w))" and "sid \<in> set (known_scenario_ids (sw_engine w))"
  shows "\<exists>oc' w'. run_specific http_clear http_inject sid oc w = (Inr (scenario_response sc), oc', w')"
proof -
  obtain active1 w1 where c: "clear_active http_clear (oc_active oc) (oc_active oc) w = (True, active1, w1)"
    and w1: "sw_net w1 = []" "asset_ids (sw_engine w1) = asset_ids (sw_engine w)"
      "en_scenarios (sw_engine w1) = en_scenarios (sw_engine w)"
    using clear_active_delivered [OF assms(1), of "oc_active oc" "oc_active oc"] assms(2) by metis
  then obtain w2 where "http_inject (sc_target_asset sc) sid w1 = (True, w2)"
    using http_inject_delivered [of w1 "sc_target_asset sc" sid] assms(5,6) by (auto simp: known_scenario_ids_def)
  with c assms(3,4) show ?thesis
    by (simp add: run_specific_def rotation_force_def inject_scenario_def run_response_def)
qed

section \<open>The properties on a concrete lab\<close>

definition demo_lab :: "delivery list \<Rightarrow> sim_world" where
  "demo_lab net = \<lparr>sw_engine = engine_init demo_pack, sw_net = net,
     sw_clock = (\<lambda>n. DateTime 2026 1 1 0 0 n 0), sw_ticks = 0\<rparr>"

definition demo_orch :: orch where
  "demo_orch = \<lparr>oc_pack = demo_pack, oc_rotation = \<lparr>rot_ids = [lit ''s1''], rot_last = None\<rparr>,
     oc_active = [(lit ''gpu-1'', None), (lit ''gpu-2'', None)]\<rparr>"

definition demo_run :: "(orch_exn + RunResponse) \<times> orch \<times> sim_world" where
  "demo_run = run_specific http_clear http_inject (lit ''s1'') demo_orch (demo_lab [])"

lemma demo_wf: "wf_loaded demo_pack"
  by (rule load_pack_Inr(1) [OF load_demo_pack])

lemma demo_orch_init: "orch_init demo_pack = Inr demo_orch"
  by code_simp

lemma demo_lab_inv: "no_lost_replies (demo_lab net) \<Longrightarrow> lab_inv (demo_orch, demo_lab net)"
  by (rule lab_inv_start [OF demo_wf demo_orch_init]) (simp_all add: demo_lab_def)

lemma demo_tracked: "faults_tracked demo_orch (demo_lab net)" "orch_ok demo_orch"
  using demo_lab_inv [of "[]"] orch_ok_init [OF demo_wf demo_orch_init]
  by (auto simp: lab_inv_def faults_tracked_def sim_fault_of_def demo_lab_def engine_init_get_fault no_lost_replies_def)

lemma demo_lab_ids:
  "asset_ids (sw_engine (demo_lab net)) = [lit ''gpu-1'', lit ''gpu-2'']"
  "known_scenario_ids (sw_engine (demo_lab net)) = [lit ''s1'']"
proof -
  have "asset_ids (engine_init demo_pack) = [lit ''gpu-1'', lit ''gpu-2'']"
    "known_scenario_ids (engine_init demo_pack) = [lit ''s1'']" by code_simp+
  then show "asset_ids (sw_engine (demo_lab net)) = [lit ''gpu-1'', lit ''gpu-2'']"
    "known_scenario_ids (sw_engine (demo_lab net)) = [lit ''s1'']" by (simp_all add: demo_lab_def)
qed

lemma demo_lookup:
  "map_of (lp_scenarios_by_id (oc_pack demo_orch)) (lit ''s1'') = Some (backfill_log_extract demo_scenario)"
  "sc_target_asset demo_scenario = lit ''gpu-1''"
  by (simp_all add: demo_orch_def demo_pack_def) (simp add: demo_scenario_def)

theorem run_specific_succeeds_witness:
  "\<exists>oc' w'. demo_run = (Inr (scenario_response (backfill_log_extract demo_scenario)), oc', w')"
  unfolding demo_run_def
  by (rule run_specific_succeeds [OF _ _ _ demo_lookup(1)])
    (simp_all add: demo_lab_ids demo_lookup, simp_all add: demo_lab_def demo_orch_def)

lemma demo_run_ok:
  "\<exists>oc' w'. demo_run = (Inr (scenario_response (backfill_log_extract demo_scenario)), oc', w') \<and> sw_net w' = []
     \<and> asset_ids (sw_engine w') = [lit ''gpu-1'', lit ''gpu-2'']"
proof -
  have "clear_active http_clear (oc_active demo_orch) (oc_active demo_orch) (demo_lab [])
      = (True, oc_active demo_orch, demo_lab [])" by (simp add: demo_orch_def)
  moreover obtain w2 where "http_inject (lit ''gpu-1'') (lit ''s1'') (demo_lab []) = (True, w2)" "sw_net w2 = []"
      "asset_ids (sw_engine w2) = [lit ''gpu-1'', lit ''gpu-2'']"
    using http_inject_delivered [of "demo_lab []" "lit ''gpu-1''" "lit ''s1''"] demo_lab_ids [of "[]"]
    by (auto simp: demo_lab_def)
  moreover have "lit ''s1'' \<in> set (rot_ids (oc_rotation demo_orch))" by (simp add: demo_orch_def)
  ultimately show ?thesis
    by (simp add: demo_run_def run_specific_def rotation_force_def inject_scenario_def run_response_def demo_lookup)
qed

theorem session_tracks_every_fault_witness:
  "\<exists>oc w resp. foldl lab_step (demo_orch, demo_lab [Delivered, Refused]) [RunNext 3, ResetLab] = (oc, w)
     \<and> get_current oc = Inr resp"
proof -
  obtain oc w where r: "foldl lab_step (demo_orch, demo_lab [Delivered, Refused]) [RunNext 3, ResetLab] = (oc, w)"
    by (cases "foldl lab_step (demo_orch, demo_lab [Delivered, Refused]) [RunNext 3, ResetLab]")
  have "no_lost_replies (demo_lab [Delivered, Refused])" "sw_engine (demo_lab [Delivered, Refused]) = engine_init demo_pack"
    by (simp_all add: no_lost_replies_def demo_lab_def)
  from session_tracks_every_fault [OF demo_wf demo_orch_init this r] r show ?thesis by blast
qed

theorem run_specific_isolates_fault_witness:
  "\<exists>resp oc' w'. demo_run = (Inr resp, oc', w') \<and> sim_fault_of w' (lit ''gpu-2'') = None
     \<and> rot_last (oc_rotation oc') = Some (lit ''s1'')"
proof -
  obtain resp oc' w' where r: "demo_run = (Inr resp, oc', w')" using demo_run_ok by blast
  obtain sc where "map_of (lp_scenarios_by_id (oc_pack demo_orch)) (lit ''s1'') = Some sc"
    and "\<forall>a. sim_fault_of w' a = (if a = sc_target_asset sc then Some (lit ''s1'') else None)"
    and "rot_last (oc_rotation oc') = Some (lit ''s1'')"
    using run_specific_isolates_fault [OF demo_tracked(1) r [unfolded demo_run_def]] by blast
  then have "sim_fault_of w' (lit ''gpu-2'') = None" "rot_last (oc_rotation oc') = Some (lit ''s1'')"
    by (auto simp: demo_orch_def demo_pack_def demo_scenario_def)
  with r show ?thesis by blast
qed

theorem run_next_isolates_fault_witness:
  "\<exists>resp oc' w'. run_next http_clear http_inject 7 demo_orch (demo_lab []) = (Inr resp, oc', w')
     \<and> (\<exists>a. sim_fault_of w' a = Some (lit ''s1''))"
proof -
  have "rotation_next 7 (oc_rotation demo_orch) = (lit ''s1'', \<lparr>rot_ids = [lit ''s1''], rot_last = Some (lit ''s1'')\<rparr>)"
    by (simp add: demo_orch_def rotation_next_def random_choice_def Let_def)
  moreover obtain resp oc' w' where "demo_run = (Inr resp, oc', w')" using demo_run_ok by blast
  ultimately obtain resp oc' w' where
    r: "run_next http_clear http_inject 7 demo_orch (demo_lab []) = (Inr resp, oc', w')"
    by (auto simp: demo_run_def run_specific_def rotation_force_def run_next_def split: if_splits prod.splits)
  from run_next_isolates_fault [OF demo_tracked r] have "\<exists>a. sim_fault_of w' a = Some (lit ''s1'')"
  proof (elim exE conjE)
    fix sid sc
    assume "sid \<in> set (rot_ids (oc_rotation demo_orch))"
      and "\<forall>a. sim_fault_of w' a = (if a = sc_target_asset sc then Some sid else None)"
    then have "sim_fault_of w' (sc_target_asset sc) = Some (lit ''s1'')" by (simp add: demo_orch_def)
    then show ?thesis by blast
  qed
  with r show ?thesis by blast
qed

theorem logs_after_run_witness:
  "\<exists>resp oc' w' t. demo_run = (Inr resp, oc', w')
     \<and> get_logs (DateTime 2026 5 6 0 0 0 0) (rr_target_asset resp) oc' = Inr t"
proof -
  obtain resp oc' w' where r: "demo_run = (Inr resp, oc', w')" using demo_run_ok by blast
  have "wf_loaded (oc_pack demo_orch)" using demo_wf by (simp add: demo_orch_def)
  from logs_after_run [OF this demo_tracked(1) r [unfolded demo_run_def], of "DateTime 2026 5 6 0 0 0 0"] r
  show ?thesis by blast
qed

theorem lost_reply_orphans_fault_witness:
  "\<exists>oc1 w1 oc2 w2. run_specific http_clear http_inject (lit ''s1'') demo_orch (demo_lab [Reply_lost])
        = (Inl SimulatorCallFailed, oc1, w1)
     \<and> orch_reset http_clear oc1 w1 = (Inr (lit ''idle''), oc2, w2)
     \<and> sim_fault_of w2 (lit ''gpu-1'') = Some (lit ''s1'')"
proof -
  have "lit ''s1'' \<in> set (rot_ids (oc_rotation demo_orch))" "sw_net (demo_lab [Reply_lost]) = [Reply_lost]"
    and "wf_dict (oc_active demo_orch)"
    and "map_of (lp_scenarios_by_id (oc_pack demo_orch)) (lit ''s1'') = Some (backfill_log_extract demo_scenario)"
    and sc: "sc_target_asset (backfill_log_extract demo_scenario) = lit ''gpu-1''"
    by (simp_all add: demo_orch_def demo_lab_def demo_pack_def) (simp add: demo_scenario_def)
  moreover note demo_lab_ids [of "[Reply_lost]"]
  ultimately show ?thesis
    using lost_reply_orphans_fault [OF orch_ok_init(3) [OF demo_wf demo_orch_init], of "lit ''s1''"
        "backfill_log_extract demo_scenario" "demo_lab [Reply_lost]"] by auto
qed

theorem remediated_asset_still_active_witness:
  "\<exists>resp oc1 w1 w2. demo_run = (Inr resp, oc1, w1) \<and> http_clear (rr_target_asset resp) w1 = (True, w2)
     \<and> active_scenario oc1 (rr_target_asset resp) = Some (lit ''s1'')"
proof -
  let ?resp = "scenario_response (backfill_log_extract demo_scenario)"
  obtain oc1 w1 where r: "demo_run = (Inr ?resp, oc1, w1)" "sw_net w1 = []"
    "asset_ids (sw_engine w1) = [lit ''gpu-1'', lit ''gpu-2'']" using demo_run_ok by blast
  have "rr_target_asset ?resp = lit ''gpu-1''" by (simp add: scenario_response_def demo_lookup)
  with http_clear_delivered [of w1 "rr_target_asset ?resp"] r obtain w2 where
    c: "http_clear (rr_target_asset ?resp) w1 = (True, w2)" by auto
  from remediated_asset_still_active [OF demo_tracked(1) r(1) [unfolded demo_run_def] c] r c show ?thesis by blast
qed

end
