(* ===== verification/Sim_Surfaces.thy ===== *)
theory Sim_Surfaces
  imports Sim_Engine
begin

text \<open>
  The simulator's read-only surfaces: the generic REST routes of
  \<open>services/simulator/surfaces/generic.py\<close> and the Redfish routes of
  \<open>services/simulator/surfaces/redfish.py\<close>, mounted side by side by
  \<open>services/simulator/main.py\<close>. A route answers the decoded JSON body or an
  \<open>HTTPException\<close>; \<open>sim_get\<close> is the dispatch on the segments of the request path, with the
  query parameter \<open>asset_id\<close> (its default is the empty string).
\<close>

definition obj :: "(string \<times> json) list \<Rightarrow> json" where
  "obj kvs = JObj (map (\<lambda>(k, v). (lit k, v)) kvs)"

lemma jget_obj [simp]: "jget (obj kvs) (lit k) d = Some (case map_of kvs k of None \<Rightarrow> d | Some v \<Rightarrow> v)"
proof -
  have "map_of (map (\<lambda>(k, v). (lit k, v)) kvs) (lit k) = map_of kvs k" by (induction kvs) auto
  then show ?thesis by (simp add: obj_def)
qed

definition str :: "string \<Rightarrow> json" where
  "str s = JStr (lit s)"

definition odata_count :: "'a list \<Rightarrow> json" where
  "odata_count xs = JInt (int (length xs))"

section \<open>The generic surface\<close>

definition generic_asset :: "engine \<Rightarrow> pystr \<times> pystr \<Rightarrow> json" where
  "generic_asset e a = obj [(''id'', JStr (fst a)), (''type'', JStr (asset_type e (fst a))), (''state'', JStr (snd a))]"

definition generic_list_assets :: "engine \<Rightarrow> json" where
  "generic_list_assets e = JArr (map (generic_asset e) (all_states e))"

definition generic_get_asset :: "engine \<Rightarrow> pystr \<Rightarrow> http_exc + json" where
  "generic_get_asset e asset_id =
     (case map_of (all_states e) asset_id of
        None \<Rightarrow> Inl (HTTPException 404 (AssetNotFound asset_id))
      | Some state \<Rightarrow> Inr (generic_asset e (asset_id, state)))"

definition generic_event :: "pystr \<Rightarrow> InjectedFault \<Rightarrow> json" where
  "generic_event aid f =
     obj [(''asset_id'', JStr aid), (''severity'', JStr (if_event_severity f)),
          (''message'', JStr (case if_log_entries f of [] \<Rightarrow> lit ''Fault on '' @ aid | e # _ \<Rightarrow> snd e)),
          (''message_id'', JStr (if_event_message_id f)), (''ts'', JStr (isoformat (if_injected_at f)))]"

definition generic_list_events :: "engine \<Rightarrow> pystr \<Rightarrow> json" where
  "generic_list_events e asset_id =
     JArr (concat (map (\<lambda>aid. case get_fault e aid of None \<Rightarrow> [] | Some f \<Rightarrow> [generic_event aid f])
       (if asset_id \<noteq> [] then [asset_id] else asset_ids e)))"

section \<open>The Redfish surface\<close>

definition require_asset :: "pystr \<Rightarrow> engine \<Rightarrow> (engine \<Rightarrow> json) \<Rightarrow> http_exc + json" where
  "require_asset asset_id e body =
     (if asset_id \<in> set (asset_ids e) then Inr (body e)
      else Inl (HTTPException 404 (AssetNotFound asset_id)))"

definition link :: "pystr \<Rightarrow> json" where
  "link path = obj [(''@odata.id'', JStr path)]"

definition systems_path :: "pystr \<Rightarrow> pystr" where
  "systems_path asset_id = lit ''/redfish/v1/Systems/'' @ asset_id"

definition chassis_path :: "pystr \<Rightarrow> pystr" where
  "chassis_path asset_id = lit ''/redfish/v1/Chassis/'' @ asset_id"

definition service_root :: json where
  "service_root = obj
     [(''@odata.type'', str ''#ServiceRoot.v1_5_0.ServiceRoot''), (''@odata.id'', str ''/redfish/v1/''),
      (''Id'', str ''RootService''), (''Name'', str ''Root Service''), (''RedfishVersion'', str ''1.13.0''),
      (''Systems'', link (lit ''/redfish/v1/Systems'')), (''Chassis'', link (lit ''/redfish/v1/Chassis'')),
      (''EventService'', link (lit ''/redfish/v1/EventService''))]"

definition systems_collection :: "engine \<Rightarrow> json" where
  "systems_collection e = obj
     [(''@odata.type'', str ''#ComputerSystemCollection.ComputerSystemCollection''),
      (''@odata.id'', str ''/redfish/v1/Systems''), (''Name'', str ''Computer System Collection''),
      (''Members'', JArr (map (\<lambda>a. link (systems_path a)) (asset_ids e))),
      (''Members@odata.count'', odata_count (asset_ids e))]"

definition system_health :: "engine \<Rightarrow> pystr \<Rightarrow> json" where
  "system_health e asset_id = str (if get_fault e asset_id \<noteq> None then ''Critical'' else ''OK'')"

definition get_system :: "engine \<Rightarrow> pystr \<Rightarrow> http_exc + json" where
  "get_system e asset_id = require_asset asset_id e (\<lambda>e. obj
     [(''@odata.type'', str ''#ComputerSystem.v1_13_0.ComputerSystem''),
      (''@odata.id'', JStr (systems_path asset_id)), (''Id'', JStr asset_id), (''Name'', JStr asset_id),
      (''SystemType'', JStr (asset_type e asset_id)),
      (''Status'', obj [(''State'', str ''Enabled''), (''Health'', system_health e asset_id),
                        (''HealthRollup'', system_health e asset_id)]),
      (''LogServices'', link (systems_path asset_id @ lit ''/LogServices''))])"

definition log_services_collection :: "engine \<Rightarrow> pystr \<Rightarrow> http_exc + json" where
  "log_services_collection e asset_id = require_asset asset_id e (\<lambda>e. obj
     [(''@odata.type'', str ''#LogServiceCollection.LogServiceCollection''),
      (''@odata.id'', JStr (systems_path asset_id @ lit ''/LogServices'')),
      (''Name'', str ''Log Service Collection''),
      (''Members'', JArr [link (systems_path asset_id @ lit ''/LogServices/DCGM'')]),
      (''Members@odata.count'', JInt 1)])"

definition dcgm_log_service :: "engine \<Rightarrow> pystr \<Rightarrow> http_exc + json" where
  "dcgm_log_service e asset_id = require_asset asset_id e (\<lambda>e. obj
     [(''@odata.type'', str ''#LogService.v1_2_0.LogService''),
      (''@odata.id'', JStr (systems_path asset_id @ lit ''/LogServices/DCGM'')), (''Id'', str ''DCGM''),
      (''Name'', str ''DCGM Log Service''),
      (''Description'', str ''NVIDIA Data Center GPU Manager event log''),
      (''Entries'', link (systems_path asset_id @ lit ''/LogServices/DCGM/Entries''))])"

definition log_entry_member :: "pystr \<Rightarrow> InjectedFault \<Rightarrow> nat \<times> pystr \<times> pystr \<Rightarrow> json" where
  "log_entry_member asset_id f entry = (case entry of (idx, severity, message) \<Rightarrow> obj
     [(''@odata.type'', str ''#LogEntry.v1_9_0.LogEntry''),
      (''@odata.id'', JStr (systems_path asset_id @ lit ''/LogServices/DCGM/Entries/'' @ str_of_nat (idx + 1))),
      (''Id'', JStr (str_of_nat (idx + 1))), (''Name'', str ''Log Entry''), (''EntryType'', str ''Event''),
      (''Severity'', JStr severity), (''Message'', JStr message),
      (''MessageId'', JStr (if_event_message_id f)), (''Created'', JStr (isoformat (if_injected_at f)))])"

definition build_log_entry_members :: "pystr \<Rightarrow> InjectedFault option \<Rightarrow> json list" where
  "build_log_entry_members asset_id fault =
     (case fault of None \<Rightarrow> []
      | Some f \<Rightarrow> map (log_entry_member asset_id f) (enumerate 0 (if_log_entries f)))"

definition dcgm_log_entries :: "engine \<Rightarrow> pystr \<Rightarrow> http_exc + json" where
  "dcgm_log_entries e asset_id = require_asset asset_id e (\<lambda>e.
     let members = build_log_entry_members asset_id (get_fault e asset_id) in obj
     [(''@odata.type'', str ''#LogEntryCollection.LogEntryCollection''),
      (''@odata.id'', JStr (systems_path asset_id @ lit ''/LogServices/DCGM/Entries'')),
      (''Name'', str ''Log Entry Collection''), (''Members'', JArr members),
      (''Members@odata.count'', odata_count members)])"

definition chassis_collection :: "engine \<Rightarrow> json" where
  "chassis_collection e = obj
     [(''@odata.type'', str ''#ChassisCollection.ChassisCollection''), (''@odata.id'', str ''/redfish/v1/Chassis''),
      (''Name'', str ''Chassis Collection''),
      (''Members'', JArr (map (\<lambda>a. link (chassis_path a)) (asset_ids e))),
      (''Members@odata.count'', odata_count (asset_ids e))]"

definition psu_failed :: "InjectedFault option \<Rightarrow> bool" where
  "psu_failed fault \<longleftrightarrow> (case fault of None \<Rightarrow> False | Some f \<Rightarrow> if_fault_type f = lit ''psu_failure'')"

definition get_chassis :: "engine \<Rightarrow> pystr \<Rightarrow> http_exc + json" where
  "get_chassis e asset_id = require_asset asset_id e (\<lambda>e. obj
     [(''@odata.type'', str ''#Chassis.v1_16_0.Chassis''), (''@odata.id'', JStr (chassis_path asset_id)),
      (''Id'', JStr asset_id), (''Name'', JStr asset_id), (''ChassisType'', str ''RackMount''),
      (''Status'', obj [(''State'', str ''Enabled''),
                        (''Health'', str (if psu_failed (get_fault e asset_id) then ''Critical'' else ''OK''))]),
      (''Power'', link (chassis_path asset_id @ lit ''/Power''))])"

definition psu_member :: "pystr \<Rightarrow> InjectedFault option \<Rightarrow> nat \<times> string \<Rightarrow> json" where
  "psu_member asset_id fault psu = (case psu of (idx, name) \<Rightarrow>
     let failed = psu_failed fault \<and> idx = 1 in obj
     [(''@odata.id'', JStr (chassis_path asset_id @ lit ''/Power#/PowerSupplies/'' @ str_of_nat idx)),
      (''MemberId'', JStr (str_of_nat idx)), (''Name'', str name), (''PowerSupplyType'', str ''AC''),
      (''Status'', obj [(''State'', str (if failed then ''Absent'' else ''Enabled'')),
                        (''Health'', str (if failed then ''Critical'' else ''OK''))])])"

definition build_psu_members :: "pystr \<Rightarrow> InjectedFault option \<Rightarrow> json list" where
  "build_psu_members asset_id fault =
     map (psu_member asset_id fault) (enumerate 0 [''PSU 1'', ''PSU 2'', ''PSU 3'', ''PSU 4''])"

definition get_power :: "engine \<Rightarrow> pystr \<Rightarrow> http_exc + json" where
  "get_power e asset_id = require_asset asset_id e (\<lambda>e. obj
     [(''@odata.type'', str ''#Power.v1_7_0.Power''), (''@odata.id'', JStr (chassis_path asset_id @ lit ''/Power'')),
      (''Id'', str ''Power''), (''Name'', str ''Power''),
      (''PowerSupplies'', JArr (build_psu_members asset_id (get_fault e asset_id)))])"

definition event_service :: json where
  "event_service = obj
     [(''@odata.type'', str ''#EventService.v1_7_0.EventService''), (''@odata.id'', str ''/redfish/v1/EventService''),
      (''Id'', str ''EventService''), (''Name'', str ''Event Service''),
      (''Status'', obj [(''State'', str ''Enabled''), (''Health'', str ''OK'')]),
      (''Events'', link (lit ''/redfish/v1/EventService/Events''))]"

definition build_event :: "pystr \<Rightarrow> InjectedFault \<Rightarrow> json" where
  "build_event asset_id f = obj
     [(''@odata.type'', str ''#Event.v1_7_0.Event''),
      (''@odata.id'', JStr (lit ''/redfish/v1/EventService/Events/'' @ asset_id)), (''Id'', JStr asset_id),
      (''Name'', str ''Alert Event''),
      (''Events'', JArr [obj
        [(''EventType'', str ''Alert''), (''EventTimestamp'', JStr (isoformat (if_injected_at f))),
         (''Severity'', JStr (if_event_severity f)), (''MessageId'', JStr (if_event_message_id f)),
         (''Message'', JStr (case if_log_entries f of [] \<Rightarrow> [] | e # _ \<Rightarrow> snd e)), (''MemberId'', JStr asset_id),
         (''OriginOfCondition'', link (systems_path asset_id))]])]"

definition active_events :: "engine \<Rightarrow> json list" where
  "active_events e =
     concat (map (\<lambda>a. case get_fault e a of None \<Rightarrow> [] | Some f \<Rightarrow> [build_event a f]) (asset_ids e))"

definition redfish_list_events :: "engine \<Rightarrow> json" where
  "redfish_list_events e = obj
     [(''@odata.type'', str ''#EventCollection.EventCollection''), (''@odata.id'', str ''/redfish/v1/EventService/Events''),
      (''Name'', str ''Event Collection''), (''Members'', JArr (active_events e)),
      (''Members@odata.count'', odata_count (active_events e))]"

section \<open>Dispatch\<close>

definition no_route :: "http_exc + json" where
  "no_route = Inl (HTTPException 404 (Detail (lit ''Not Found'')))"

text \<open>A path parameter is one non-empty segment.\<close>

definition at_asset :: "(engine \<Rightarrow> pystr \<Rightarrow> http_exc + json) \<Rightarrow> engine \<Rightarrow> pystr \<Rightarrow> http_exc + json" where
  "at_asset route e asset_id = (if asset_id = [] then no_route else route e asset_id)"

fun redfish_route :: "engine \<Rightarrow> pystr list \<Rightarrow> http_exc + json" where
  "redfish_route e [x] =
     (if x = [] then Inr service_root
      else if x = lit ''Systems'' then Inr (systems_collection e)
      else if x = lit ''Chassis'' then Inr (chassis_collection e)
      else if x = lit ''EventService'' then Inr event_service else no_route)"
| "redfish_route e [x, y] =
     (if x = lit ''Systems'' then at_asset get_system e y
      else if x = lit ''Chassis'' then at_asset get_chassis e y
      else if x = lit ''EventService'' \<and> y = lit ''Events'' then Inr (redfish_list_events e) else no_route)"
| "redfish_route e [x, y, z] =
     (if x = lit ''Systems'' \<and> z = lit ''LogServices'' then at_asset log_services_collection e y
      else if x = lit ''Chassis'' \<and> z = lit ''Power'' then at_asset get_power e y else no_route)"
| "redfish_route e [x, y, z, u] =
     (if x = lit ''Systems'' \<and> z = lit ''LogServices'' \<and> u = lit ''DCGM''
      then at_asset dcgm_log_service e y else no_route)"
| "redfish_route e [x, y, z, u, v] =
     (if x = lit ''Systems'' \<and> z = lit ''LogServices'' \<and> u = lit ''DCGM'' \<and> v = lit ''Entries''
      then at_asset dcgm_log_entries e y else no_route)"
| "redfish_route e segs = no_route"

definition generic_route :: "engine \<Rightarrow> pystr list \<Rightarrow> pystr \<Rightarrow> http_exc + json" where
  "generic_route e segs query =
     (case segs of
        [x] \<Rightarrow> if x = lit ''assets'' then Inr (generic_list_assets e)
               else if x = lit ''events'' then Inr (generic_list_events e query) else no_route
      | [x, a] \<Rightarrow> if x = lit ''assets'' then at_asset generic_get_asset e a else no_route
      | _ \<Rightarrow> no_route)"

definition sim_route :: "engine \<Rightarrow> pystr list \<Rightarrow> pystr \<Rightarrow> http_exc + json" where
  "sim_route e segs query =
     (case segs of
        x # y # segs' \<Rightarrow> if x = lit ''redfish'' \<and> y = lit ''v1'' then redfish_route e segs'
                        else generic_route e segs query
      | _ \<Rightarrow> generic_route e segs query)"

definition sim_get :: "engine \<Rightarrow> pystr \<Rightarrow> pystr \<Rightarrow> http_exc + json" where
  "sim_get e path query =
     (case split_on [47] path of
        x # segs \<Rightarrow> if x = [] then sim_route e segs query else no_route
      | [] \<Rightarrow> no_route)"

end
