(* ===== verification/Orch_Http.thy ===== *)
theory Orch_Http
  imports Orchestrator Sim_Surfaces
begin

text \<open>
  The orchestrator as an HTTP application: the routes of \<open>services/orchestrator/router.py\<close> below
  \<open>/api\<close>, the JSON of their response models, and the code of each answer. The framework's part is a
  parameter: the reply to a request no route takes, and the body of an error.
\<close>

section \<open>Response models\<close>

definition scenario_status_name :: "ScenarioStatus \<Rightarrow> json" where
  "scenario_status_name s = (case s of Active \<Rightarrow> str ''active'' | Scaffold \<Rightarrow> str ''scaffold'')"

definition step_json :: "RemediationStep \<Rightarrow> json" where
  "step_json s = obj [(''id'', JStr (rs_id s)), (''label'', JStr (rs_label s))]"

definition run_json :: "RunResponse \<Rightarrow> json" where
  "run_json r = obj
     [(''scenario_id'', JStr (rr_scenario_id r)), (''target_asset'', JStr (rr_target_asset r)),
      (''fault_type'', JStr (rr_fault_type r)), (''error_signatures'', JArr (map JStr (rr_error_signatures r))),
      (''kb_article_ref'', JStr (rr_kb_article_ref r)),
      (''remediation_steps'', JArr (map step_json (rr_remediation_steps r))),
      (''log_extract'', jopt (rr_log_extract r))]"

definition summary_json :: "ScenarioSummary \<Rightarrow> json" where
  "summary_json s = obj
     [(''id'', JStr (ss_id s)), (''fault_type'', JStr (ss_fault_type s)), (''target_asset'', JStr (ss_target_asset s)),
      (''error_signatures'', JArr (map JStr (ss_error_signatures s))), (''status'', scenario_status_name (ss_status s))]"

definition scenarios_json :: "ScenarioSummary list \<times> pystr option \<Rightarrow> json" where
  "scenarios_json r = obj [(''scenarios'', JArr (map summary_json (fst r))), (''last_used'', jopt (snd r))]"

definition current_json :: "RunResponse option dict \<Rightarrow> json" where
  "current_json d = obj
     [(''active'', JObj (map (\<lambda>(a, r). (a, case r of None \<Rightarrow> JNull | Some x \<Rightarrow> run_json x)) d))]"

definition logs_json :: "LogsResponse \<Rightarrow> json" where
  "logs_json r = obj
     [(''asset_id'', JStr (lr_asset_id r)), (''scenario_id'', JStr (lr_scenario_id r)),
      (''log_text'', JStr (lr_log_text r)), (''log_highlight'', jopt (lr_log_highlight r))]"

section \<open>Routes\<close>

datatype orch_route =
    OHealthz | ORunNext | ORun pystr | OReset | OCurrent | OScenarios | OLogs pystr | OAssetScenario pystr

definition orch_route_of :: "pystr \<Rightarrow> pystr list \<Rightarrow> orch_route option" where
  "orch_route_of m path =
     (case path of
        [a] \<Rightarrow> if m = lit ''GET'' \<and> a = lit ''healthz'' then Some OHealthz else None
      | [a, b] \<Rightarrow>
          if a \<noteq> lit ''api'' then None
          else map_of [((lit ''POST'', lit ''run''), ORunNext), ((lit ''POST'', lit ''reset''), OReset),
                 ((lit ''GET'', lit ''current''), OCurrent), ((lit ''GET'', lit ''scenarios''), OScenarios)] (m, b)
      | [a, b, c] \<Rightarrow>
          if a = lit ''api'' \<and> b = lit ''run'' \<and> m = lit ''POST'' \<and> c \<noteq> [] then Some (ORun c) else None
      | [a, b, c, d] \<Rightarrow>
          if a \<noteq> lit ''api'' \<or> b \<noteq> lit ''assets'' \<or> m \<noteq> lit ''GET'' \<or> c = [] then None
          else if d = lit ''logs'' then Some (OLogs c)
          else if d = lit ''scenario'' then Some (OAssetScenario c) else None
      | _ \<Rightarrow> None)"

definition with_json :: "('a \<Rightarrow> json) \<Rightarrow> (orch_exn + 'a) \<times> orch \<times> 's \<Rightarrow> (orch_exn + json) \<times> orch \<times> 's" where
  "with_json out r = (case fst r of Inl e \<Rightarrow> Inl e | Inr x \<Rightarrow> Inr (out x), snd r)"

text \<open>\<open>r\<close> is the random number of a rotation, \<open>now\<close> the clock.\<close>

fun orch_handle ::
  "(pystr \<Rightarrow> 's \<Rightarrow> bool \<times> 's) \<Rightarrow> (pystr \<Rightarrow> pystr \<Rightarrow> 's \<Rightarrow> bool \<times> 's) \<Rightarrow> datetime \<Rightarrow> nat \<Rightarrow> orch_route
     \<Rightarrow> orch \<Rightarrow> 's \<Rightarrow> (orch_exn + json) \<times> orch \<times> 's" where
  "orch_handle sim_clear sim_inject now r OHealthz oc s = (Inr (obj [(''status'', str ''ok'')]), oc, s)"
| "orch_handle sim_clear sim_inject now r ORunNext oc s = with_json run_json (run_next sim_clear sim_inject r oc s)"
| "orch_handle sim_clear sim_inject now r (ORun sid) oc s =
     with_json run_json (run_specific sim_clear sim_inject sid oc s)"
| "orch_handle sim_clear sim_inject now r OReset oc s =
     with_json (\<lambda>x. obj [(''status'', JStr x)]) (orch_reset sim_clear oc s)"
| "orch_handle sim_clear sim_inject now r OCurrent oc s = with_json current_json (get_current oc, oc, s)"
| "orch_handle sim_clear sim_inject now r OScenarios oc s = (Inr (scenarios_json (list_scenarios oc)), oc, s)"
| "orch_handle sim_clear sim_inject now r (OLogs a) oc s = with_json logs_json (get_logs now a oc, oc, s)"
| "orch_handle sim_clear sim_inject now r (OAssetScenario a) oc s =
     with_json run_json (get_asset_scenario a oc, oc, s)"

section \<open>The application\<close>

record orch_framework =
  of_no_route :: "nat \<times> json"
  of_error_body :: "orch_exn \<Rightarrow> json"

definition orch_code :: "orch_exn \<Rightarrow> nat" where
  "orch_code e = (case e of OrchHttp exc \<Rightarrow> http_status exc | SimulatorCallFailed \<Rightarrow> 500 | OrchKeyError _ \<Rightarrow> 500)"

definition orch_reply :: "orch_framework \<Rightarrow> orch_exn + json \<Rightarrow> nat \<times> json" where
  "orch_reply fw r = (case r of Inl e \<Rightarrow> (orch_code e, of_error_body fw e) | Inr j \<Rightarrow> (200, j))"

definition orch_http ::
  "orch_framework \<Rightarrow> (pystr \<Rightarrow> 's \<Rightarrow> bool \<times> 's) \<Rightarrow> (pystr \<Rightarrow> pystr \<Rightarrow> 's \<Rightarrow> bool \<times> 's) \<Rightarrow> datetime \<Rightarrow> nat
     \<Rightarrow> pystr \<Rightarrow> pystr \<Rightarrow> orch \<Rightarrow> 's \<Rightarrow> (nat \<times> json) \<times> orch \<times> 's" where
  "orch_http fw sim_clear sim_inject now r m path oc s =
     (case split_on [47] path of
        x # segs \<Rightarrow>
          (case if x = [] then orch_route_of m segs else None of
             None \<Rightarrow> (of_no_route fw, oc, s)
           | Some route \<Rightarrow>
               (let (res, oc', s') = orch_handle sim_clear sim_inject now r route oc s
                in (orch_reply fw res, oc', s')))
      | [] \<Rightarrow> (of_no_route fw, oc, s))"

text \<open>A \<open>GET\<close> of a client that reaches the orchestrator in a given state.\<close>

definition orch_get :: "orch_framework \<Rightarrow> datetime \<Rightarrow> orch \<Rightarrow> sim_world \<Rightarrow> pystr \<Rightarrow> nat \<times> json" where
  "orch_get fw now oc w path = fst (orch_http fw http_clear http_inject now 0 (lit ''GET'') path oc w)"

section \<open>Facts\<close>

lemma get_routes_read:
  assumes "orch_route_of (lit ''GET'') segs = Some route"
  shows "route \<noteq> ORunNext \<and> (\<forall>sid. route \<noteq> ORun sid) \<and> route \<noteq> OReset"
proof -
  have "lit ''GET'' \<noteq> lit ''POST''" by (simp add: lit_def)
  then have two: "map_of [((lit ''POST'', lit ''run''), ORunNext), ((lit ''POST'', lit ''reset''), OReset),
      ((lit ''GET'', lit ''current''), OCurrent), ((lit ''GET'', lit ''scenarios''), OScenarios)] (lit ''GET'', b)
    = (if b = lit ''current'' then Some OCurrent else if b = lit ''scenarios'' then Some OScenarios else None)" for b
    by simp
  show ?thesis
    using assms \<open>lit ''GET'' \<noteq> lit ''POST''\<close> unfolding orch_route_of_def two
    by (auto split: list.splits if_splits)
qed

lemma orch_get_frame:
  assumes "orch_http fw sim_clear sim_inject now r (lit ''GET'') path oc s = (reply, oc', s')"
  shows "oc' = oc \<and> s' = s"
proof -
  have frame: "snd (orch_handle sim_clear sim_inject now r route oc s) = (oc, s)"
    if "orch_route_of (lit ''GET'') segs = Some route" for segs route
    using get_routes_read [OF that] by (cases route) (simp_all add: with_json_def)
  show ?thesis
  proof (cases "split_on [47] path")
    case (Cons x segs)
    show ?thesis
    proof (cases "if x = [] then orch_route_of (lit ''GET'') segs else None")
      case (Some route)
      then have "snd (orch_handle sim_clear sim_inject now r route oc s) = (oc, s)"
        by (intro frame) (auto split: if_splits)
      with assms Cons Some show ?thesis
        by (cases "orch_handle sim_clear sim_inject now r route oc s") (simp add: orch_http_def)
    qed (use assms Cons in \<open>simp add: orch_http_def\<close>)
  qed (use assms in \<open>simp add: orch_http_def\<close>)
qed

end
