(* ===== verification/Monitor_Adapters.thy ===== *)
theory Monitor_Adapters
  imports Sim_Surfaces
begin

text \<open>
  The monitoring adapters of the MCP tools service (\<open>services/mcp_tools/adapters/\<close>) and the three
  \<open>monitor.*\<close> tools over them (\<open>services/mcp_tools/tools/monitor.py\<close>, the wrappers in
  \<open>server.py\<close>). An adapter asks the simulator over HTTP: \<open>get n path query\<close> is the answer to its
  \<open>n\<close>-th request, after \<open>raise_for_status\<close> and JSON decoding. The locale \<open>monitoring_adapter\<close> is
  the protocol of \<open>adapters/base.py\<close> against the simulator's engine; both adapters interpret it.
\<close>

section \<open>Values read from a JSON body\<close>

datatype mon_exn = MonHttp http_exn | MonKeyError pystr | MonTypeError | MonAttributeError

text \<open>\<open>for x in v\<close>, \<open>v[k]\<close>, \<open>v.get(k, d)\<close> and \<open>v.rstrip("/").split("/")[-1]\<close> on a decoded value.\<close>

fun json_iter :: "json \<Rightarrow> mon_exn + json list" where
  "json_iter (JArr xs) = Inr xs"
| "json_iter (JObj d) = Inr (map (\<lambda>(k, _). JStr k) d)"
| "json_iter (JStr s) = Inr (map (\<lambda>c. JStr [c]) s)"
| "json_iter _ = Inl MonTypeError"

definition json_item :: "json \<Rightarrow> string \<Rightarrow> mon_exn + json" where
  "json_item j k = (case j of
     JObj d \<Rightarrow> (case map_of d (lit k) of None \<Rightarrow> Inl (MonKeyError (lit k)) | Some v \<Rightarrow> Inr v)
   | _ \<Rightarrow> Inl MonTypeError)"

definition json_get :: "json \<Rightarrow> string \<Rightarrow> json \<Rightarrow> mon_exn + json" where
  "json_get j k d = (case jget j (lit k) d of None \<Rightarrow> Inl MonAttributeError | Some v \<Rightarrow> Inr v)"

definition last_segment :: "json \<Rightarrow> mon_exn + pystr \<times> pystr" where
  "last_segment j = (case j of JStr u \<Rightarrow> Inr (u, after_last 47 (rstrip_chars (lit ''/'') u)) | _ \<Rightarrow> Inl MonAttributeError)"

lemma json_obj [simp]:
  "json_get (obj kvs) k d = Inr (case map_of kvs k of None \<Rightarrow> d | Some v \<Rightarrow> v)"
  "json_item (obj kvs) k = (case map_of kvs k of None \<Rightarrow> Inl (MonKeyError (lit k)) | Some v \<Rightarrow> Inr v)"
proof -
  have "map_of (map (\<lambda>(k, v). (lit k, v)) kvs) (lit k) = map_of kvs k" by (induction kvs) auto
  then show "json_get (obj kvs) k d = Inr (case map_of kvs k of None \<Rightarrow> d | Some v \<Rightarrow> v)"
    "json_item (obj kvs) k = (case map_of kvs k of None \<Rightarrow> Inl (MonKeyError (lit k)) | Some v \<Rightarrow> Inr v)"
    by (simp_all add: json_get_def json_item_def, simp_all add: obj_def)
qed

section \<open>The protocol's data\<close>

text \<open>Dataclass fields are not checked, so they hold what the body held.\<close>

record MonitorAsset =
  ma_id :: json
  ma_type :: json
  ma_state :: json

record MonitorEvent =
  me_asset_id :: json
  me_severity :: json
  me_message :: json
  me_message_id :: json
  me_ts :: json

type_synonym http_get = "nat \<Rightarrow> pystr \<Rightarrow> pystr \<Rightarrow> http_exn + json"

definition ask :: "http_get \<Rightarrow> nat \<Rightarrow> pystr \<Rightarrow> pystr \<Rightarrow> mon_exn + json" where
  "ask get n path query = (case get n path query of Inl e \<Rightarrow> Inl (MonHttp e) | Inr j \<Rightarrow> Inr j)"

section \<open>The generic adapter\<close>

definition generic_asset_of :: "json \<Rightarrow> mon_exn + MonitorAsset" where
  "generic_asset_of a =
     bind_res (json_item a ''id'') (\<lambda>i. bind_res (json_get a ''type'' (str ''device'')) (\<lambda>t.
     bind_res (json_get a ''state'' (str ''healthy'')) (\<lambda>st.
       Inr \<lparr>ma_id = i, ma_type = t, ma_state = st\<rparr>)))"

definition generic_event_of :: "json \<Rightarrow> mon_exn + MonitorEvent" where
  "generic_event_of ev =
     bind_res (json_get ev ''asset_id'' (str [])) (\<lambda>a. bind_res (json_get ev ''severity'' (str ''Unknown'')) (\<lambda>sv.
     bind_res (json_get ev ''message'' (str [])) (\<lambda>m. bind_res (json_get ev ''message_id'' (str [])) (\<lambda>mi.
     bind_res (json_get ev ''ts'' (str [])) (\<lambda>t.
       Inr \<lparr>me_asset_id = a, me_severity = sv, me_message = m, me_message_id = mi, me_ts = t\<rparr>)))))"

definition generic_adapter_list_assets :: "http_get \<Rightarrow> mon_exn + MonitorAsset list" where
  "generic_adapter_list_assets get =
     bind_res (ask get 0 (lit ''/assets'') []) (\<lambda>body. bind_res (json_iter body) (map_res generic_asset_of))"

definition generic_adapter_list_events :: "http_get \<Rightarrow> pystr option \<Rightarrow> mon_exn + MonitorEvent list" where
  "generic_adapter_list_events get asset_id =
     bind_res (ask get 0 (lit ''/events'') (case asset_id of None \<Rightarrow> [] | Some a \<Rightarrow> a))
       (\<lambda>body. bind_res (json_iter body) (map_res generic_event_of))"

definition generic_adapter_get_asset :: "http_get \<Rightarrow> pystr \<Rightarrow> mon_exn + MonitorAsset" where
  "generic_adapter_get_asset get asset_id = bind_res (ask get 0 (lit ''/assets/'' @ asset_id) []) generic_asset_of"

section \<open>The Redfish adapter\<close>

definition health_state :: "json \<Rightarrow> json" where
  "health_state health = (if health \<noteq> str ''OK'' then str ''faulted'' else str ''healthy'')"

definition redfish_asset_of :: "pystr \<Rightarrow> json \<Rightarrow> mon_exn + MonitorAsset" where
  "redfish_asset_of asset_id data =
     bind_res (json_get data ''Status'' (JObj [])) (\<lambda>status. bind_res (json_get status ''Health'' (str ''OK'')) (\<lambda>health.
     bind_res (json_get data ''SystemType'' (str ''server'')) (\<lambda>t.
       Inr \<lparr>ma_id = JStr asset_id, ma_type = t, ma_state = health_state health\<rparr>)))"

definition redfish_member :: "http_get \<Rightarrow> nat \<times> json \<Rightarrow> mon_exn + MonitorAsset" where
  "redfish_member get m =
     bind_res (json_item (snd m) ''@odata.id'') (\<lambda>url. bind_res (last_segment url) (\<lambda>(path, asset_id).
     bind_res (ask get (Suc (fst m)) path []) (redfish_asset_of asset_id)))"

definition redfish_adapter_list_assets :: "http_get \<Rightarrow> mon_exn + MonitorAsset list" where
  "redfish_adapter_list_assets get =
     bind_res (ask get 0 (lit ''/redfish/v1/Systems'') []) (\<lambda>data. bind_res (json_get data ''Members'' (JArr [])) (\<lambda>ms.
     bind_res (json_iter ms) (\<lambda>members. map_res (redfish_member get) (enumerate 0 members))))"

definition redfish_entry_of :: "pystr \<Rightarrow> json \<Rightarrow> mon_exn + MonitorEvent" where
  "redfish_entry_of asset_id ev =
     bind_res (json_get ev ''Severity'' (str ''Unknown'')) (\<lambda>sv. bind_res (json_get ev ''Message'' (str [])) (\<lambda>m.
     bind_res (json_get ev ''MessageId'' (str [])) (\<lambda>mi. bind_res (json_get ev ''Created'' (str [])) (\<lambda>t.
       Inr \<lparr>me_asset_id = JStr asset_id, me_severity = sv, me_message = m, me_message_id = mi, me_ts = t\<rparr>))))"

definition redfish_event_of :: "json \<Rightarrow> json \<Rightarrow> mon_exn + MonitorEvent" where
  "redfish_event_of aid ev =
     bind_res (json_get ev ''Severity'' (str ''Unknown'')) (\<lambda>sv. bind_res (json_get ev ''Message'' (str [])) (\<lambda>m.
     bind_res (json_get ev ''MessageId'' (str [])) (\<lambda>mi. bind_res (json_get ev ''EventTimestamp'' (str [])) (\<lambda>t.
       Inr \<lparr>me_asset_id = aid, me_severity = sv, me_message = m, me_message_id = mi, me_ts = t\<rparr>))))"

definition redfish_member_events :: "json \<Rightarrow> mon_exn + MonitorEvent list" where
  "redfish_member_events m =
     bind_res (json_item m ''Id'') (\<lambda>aid. bind_res (json_get m ''Events'' (JArr [])) (\<lambda>evs.
     bind_res (json_iter evs) (map_res (redfish_event_of aid))))"

definition redfish_all_events :: "http_get \<Rightarrow> mon_exn + MonitorEvent list" where
  "redfish_all_events get =
     bind_res (ask get 0 (lit ''/redfish/v1/EventService/Events'') []) (\<lambda>data.
     bind_res (json_get data ''Members'' (JArr [])) (\<lambda>ms. bind_res (json_iter ms) (\<lambda>members.
     bind_res (map_res redfish_member_events members) (\<lambda>evs. Inr (concat evs)))))"

definition redfish_adapter_list_events :: "http_get \<Rightarrow> pystr option \<Rightarrow> mon_exn + MonitorEvent list" where
  "redfish_adapter_list_events get asset_id =
     (let a = (case asset_id of None \<Rightarrow> [] | Some a \<Rightarrow> a) in
      if a \<noteq> [] then
        bind_res (ask get 0 (lit ''/redfish/v1/Systems/'' @ a @ lit ''/LogServices/DCGM/Entries'') []) (\<lambda>data.
        bind_res (json_get data ''Members'' (JArr [])) (\<lambda>ms. bind_res (json_iter ms) (map_res (redfish_entry_of a))))
      else redfish_all_events get)"

definition redfish_adapter_get_asset :: "http_get \<Rightarrow> pystr \<Rightarrow> mon_exn + MonitorAsset" where
  "redfish_adapter_get_asset get asset_id =
     bind_res (ask get 0 (lit ''/redfish/v1/Systems/'' @ asset_id) []) (redfish_asset_of asset_id)"

section \<open>The tools\<close>

text \<open>
  An adapter object; \<open>pack_adapter\<close> is the choice \<open>create_app\<close> makes for the pack. The tools
  return the dataclasses as dicts; the wrappers turn an empty \<open>asset_id\<close> into \<open>None\<close>.
\<close>

record adapter =
  ad_list_assets :: "http_get \<Rightarrow> mon_exn + MonitorAsset list"
  ad_list_events :: "http_get \<Rightarrow> pystr option \<Rightarrow> mon_exn + MonitorEvent list"
  ad_get_asset :: "http_get \<Rightarrow> pystr \<Rightarrow> mon_exn + MonitorAsset"

definition generic_adapter :: adapter where
  "generic_adapter = \<lparr>ad_list_assets = generic_adapter_list_assets, ad_list_events = generic_adapter_list_events,
     ad_get_asset = generic_adapter_get_asset\<rparr>"

definition redfish_adapter :: adapter where
  "redfish_adapter = \<lparr>ad_list_assets = redfish_adapter_list_assets, ad_list_events = redfish_adapter_list_events,
     ad_get_asset = redfish_adapter_get_asset\<rparr>"

definition pack_adapter :: "LoadedPack \<Rightarrow> adapter" where
  "pack_adapter lp = (if pk_monitoring_adapter (lp_pack lp) = Generic then generic_adapter else redfish_adapter)"

definition asset_dict :: "MonitorAsset \<Rightarrow> json" where
  "asset_dict a = obj [(''id'', ma_id a), (''type'', ma_type a), (''state'', ma_state a)]"

definition event_dict :: "MonitorEvent \<Rightarrow> json" where
  "event_dict ev = obj [(''asset_id'', me_asset_id ev), (''severity'', me_severity ev), (''message'', me_message ev),
     (''message_id'', me_message_id ev), (''ts'', me_ts ev)]"

definition monitor_list_events :: "adapter \<Rightarrow> http_get \<Rightarrow> pystr \<Rightarrow> mon_exn + json list" where
  "monitor_list_events ad get asset_id =
     bind_res (ad_list_events ad get (if asset_id \<noteq> [] then Some asset_id else None)) (\<lambda>evs. Inr (map event_dict evs))"

definition monitor_get_asset :: "adapter \<Rightarrow> http_get \<Rightarrow> pystr \<Rightarrow> mon_exn + json" where
  "monitor_get_asset ad get asset_id = bind_res (ad_get_asset ad get asset_id) (\<lambda>a. Inr (asset_dict a))"

definition monitor_list_assets :: "adapter \<Rightarrow> http_get \<Rightarrow> mon_exn + json list" where
  "monitor_list_assets ad get = bind_res (ad_list_assets ad get) (\<lambda>as. Inr (map asset_dict as))"

end
