(* ===== verification/Monitor_Contract.thy ===== *)
theory Monitor_Contract
  imports Monitor_Adapters Py_Values
begin

text \<open>
  The adapters over the simulator they talk to: \<open>monitoring_adapter\<close> states what the agent's
  tools may rely on, whatever surface a pack uses; the client lemmas and the properties of the
  \<open>monitor.*\<close> tools follow from it once.
\<close>

section \<open>Requests to the simulator\<close>

definition engine_get :: "engine \<Rightarrow> http_get" where
  "engine_get e n path query =
     (case sim_get e path query of Inl exc \<Rightarrow> Inl (HTTPStatusError (http_status exc)) | Inr j \<Rightarrow> Inr j)"

text \<open>An id that is one segment of a path.\<close>

definition segment :: "pystr \<Rightarrow> bool" where
  "segment a \<longleftrightarrow> a \<noteq> [] \<and> 47 \<notin> set a"

definition paths_ok :: "engine \<Rightarrow> bool" where
  "paths_ok e \<longleftrightarrow> wf_dict (en_faults e) \<and> (\<forall>a \<in> set (asset_ids e). segment a)"

lemma cut_segment: "47 \<notin> set a \<Longrightarrow> cut [47] (a @ 47 # b) = Some (a, b)"
  by (induction a) (auto simp: startswith_def)

lemma cut_last_segment: "47 \<notin> set a \<Longrightarrow> cut [47] a = None"
  by (induction a) (auto simp: startswith_def)

lemma split_max_join:
  "segs \<noteq> [] \<Longrightarrow> \<forall>x \<in> set segs. 47 \<notin> set x \<Longrightarrow> length segs \<le> Suc n \<Longrightarrow> split_max n [47] (join [47] segs) = segs"
proof (induction segs arbitrary: n)
  case Nil
  then show ?case by simp
next
  case (Cons x segs)
  show ?case
  proof (cases segs)
    case Nil
    with Cons.prems show ?thesis by (cases n) (simp_all add: cut_last_segment)
  next
    case (Cons y ys)
    with Cons.prems obtain m where n: "n = Suc m" by (cases n) auto
    have "split_max m [47] (join [47] segs) = segs"
      using Cons.IH [of m] Cons.prems Cons n by simp
    with Cons Cons.prems n show ?thesis by (simp add: cut_segment)
  qed
qed

lemma length_join_segments: "segs \<noteq> [] \<Longrightarrow> length segs \<le> Suc (length (join [47] segs))"
  by (induction segs rule: induct_list012) auto

lemma split_join:
  "segs \<noteq> [] \<Longrightarrow> \<forall>x \<in> set segs. 47 \<notin> set x \<Longrightarrow> split_on [47] (join [47] segs) = segs"
  unfolding split_on_def by (rule split_max_join) (use length_join_segments in auto)

lemma redfish_path:
  assumes "\<forall>x \<in> set segs. 47 \<notin> set x" "segs \<noteq> []"
  shows "sim_get e (lit ''/redfish/v1/'' @ join [47] segs) query = redfish_route e segs"
proof -
  have "lit ''/redfish/v1/'' @ join [47] segs = join [47] ([] # lit ''redfish'' # lit ''v1'' # segs)"
    using assms(2) by (cases segs) (simp_all add: lit_def)
  moreover have "\<forall>x \<in> set ([] # lit ''redfish'' # lit ''v1'' # segs). 47 \<notin> set x"
    using assms(1) by (simp add: lit_def)
  ultimately show ?thesis
    using split_join [of "[] # lit ''redfish'' # lit ''v1'' # segs"] by (simp add: sim_get_def sim_route_def)
qed

lemma get_routes:
  "engine_get e n (lit ''/assets'') q = Inr (generic_list_assets e)"
  "engine_get e n (lit ''/events'') q = Inr (generic_list_events e q)"
  "engine_get e n (lit ''/redfish/v1/Systems'') q = Inr (systems_collection e)"
  "engine_get e n (lit ''/redfish/v1/EventService/Events'') q = Inr (redfish_list_events e)"
proof -
  have "split_on [47] (lit ''/assets'') = [[], lit ''assets'']" "split_on [47] (lit ''/events'') = [[], lit ''events'']"
    using split_join [of "[[], lit ''assets'']"] split_join [of "[[], lit ''events'']"] by (simp_all add: lit_def)
  then show "engine_get e n (lit ''/assets'') q = Inr (generic_list_assets e)"
    "engine_get e n (lit ''/events'') q = Inr (generic_list_events e q)"
    by (simp_all add: engine_get_def sim_get_def sim_route_def generic_route_def)
  show "engine_get e n (lit ''/redfish/v1/Systems'') q = Inr (systems_collection e)"
    using redfish_path [of "[lit ''Systems'']" e q] by (simp add: engine_get_def lit_def)
  show "engine_get e n (lit ''/redfish/v1/EventService/Events'') q = Inr (redfish_list_events e)"
    using redfish_path [of "[lit ''EventService'', lit ''Events'']" e q] by (simp add: engine_get_def lit_def)
qed

definition answered :: "http_exc + json \<Rightarrow> http_exn + json" where
  "answered r = (case r of Inl exc \<Rightarrow> Inl (HTTPStatusError (http_status exc)) | Inr j \<Rightarrow> Inr j)"

lemma get_asset_routes:
  assumes "segment a"
  shows "engine_get e n (lit ''/assets/'' @ a) q = answered (generic_get_asset e a)"
    and "engine_get e n (lit ''/redfish/v1/Systems/'' @ a) q = answered (get_system e a)"
    and "engine_get e n (systems_path a) q = answered (get_system e a)"
    and "engine_get e n (lit ''/redfish/v1/Systems/'' @ a @ lit ''/LogServices/DCGM/Entries'') q
      = answered (dcgm_log_entries e a)"
proof -
  have "split_on [47] (lit ''/assets/'' @ a) = [[], lit ''assets'', a]"
    using split_join [of "[[], lit ''assets'', a]"] assms by (simp add: lit_def segment_def)
  then show "engine_get e n (lit ''/assets/'' @ a) q = answered (generic_get_asset e a)"
    using assms by (simp add: engine_get_def sim_get_def sim_route_def generic_route_def answered_def at_asset_def segment_def)
  show system: "engine_get e n (lit ''/redfish/v1/Systems/'' @ a) q = answered (get_system e a)"
    using redfish_path [of "[lit ''Systems'', a]" e q] assms
    by (simp add: engine_get_def lit_def answered_def at_asset_def segment_def)
  then show "engine_get e n (systems_path a) q = answered (get_system e a)" by (simp add: systems_path_def)
  show "engine_get e n (lit ''/redfish/v1/Systems/'' @ a @ lit ''/LogServices/DCGM/Entries'') q
      = answered (dcgm_log_entries e a)"
    using redfish_path [of "[lit ''Systems'', a, lit ''LogServices'', lit ''DCGM'', lit ''Entries'']" e q] assms
    by (simp add: engine_get_def lit_def answered_def at_asset_def segment_def)
qed

section \<open>The contract\<close>

definition asset_of :: "engine \<Rightarrow> pystr \<Rightarrow> MonitorAsset" where
  "asset_of e a = \<lparr>ma_id = JStr a, ma_type = JStr (asset_type e a), ma_state = JStr (state_name (get_fault e a))\<rparr>"

text \<open>What identifies an event; the message is left out, an asset without log lines has none.\<close>

definition event_key :: "MonitorEvent \<Rightarrow> json \<times> json \<times> json \<times> json" where
  "event_key ev = (me_asset_id ev, me_severity ev, me_message_id ev, me_ts ev)"

definition fault_key :: "pystr \<Rightarrow> InjectedFault \<Rightarrow> json \<times> json \<times> json \<times> json" where
  "fault_key a f = (JStr a, JStr (if_event_severity f), JStr (if_event_message_id f), JStr (isoformat (if_injected_at f)))"

definition fault_keys :: "engine \<Rightarrow> (json \<times> json \<times> json \<times> json) list" where
  "fault_keys e = concat (map (\<lambda>a. case get_fault e a of None \<Rightarrow> [] | Some f \<Rightarrow> [fault_key a f]) (asset_ids e))"

locale monitoring_adapter =
  fixes list_assets :: "http_get \<Rightarrow> mon_exn + MonitorAsset list"
    and list_events :: "http_get \<Rightarrow> pystr option \<Rightarrow> mon_exn + MonitorEvent list"
    and get_asset :: "http_get \<Rightarrow> pystr \<Rightarrow> mon_exn + MonitorAsset"
  assumes all_assets: "paths_ok e \<Longrightarrow> list_assets (engine_get e) = Inr (map (asset_of e) (asset_ids e))"
    and one_asset: "segment a \<Longrightarrow> get_asset (engine_get e) a
      = (if a \<in> set (asset_ids e) then Inr (asset_of e a) else Inl (MonHttp (HTTPStatusError 404)))"
    and all_events: "\<exists>evs. list_events (engine_get e) None = Inr evs \<and> map event_key evs = fault_keys e"
    and healthy_events: "segment a \<Longrightarrow> a \<in> set (asset_ids e) \<Longrightarrow> get_fault e a = None
      \<Longrightarrow> list_events (engine_get e) (Some a) = Inr []"
    and fault_events: "segment a \<Longrightarrow> a \<in> set (asset_ids e) \<Longrightarrow> get_fault e a = Some f \<Longrightarrow> if_log_entries f \<noteq> []
      \<Longrightarrow> \<exists>evs. list_events (engine_get e) (Some a) = Inr evs
        \<and> (\<forall>ev \<in> set evs. me_asset_id ev = JStr a \<and> me_message_id ev = JStr (if_event_message_id f))
        \<and> (\<exists>ev \<in> set evs. me_message ev = JStr (snd (hd (if_log_entries f))))"
begin

lemma events_of_faults:
  "\<exists>evs. list_events (engine_get e) None = Inr evs
     \<and> (\<forall>a f. a \<in> set (asset_ids e) \<and> get_fault e a = Some f \<longrightarrow> (\<exists>ev \<in> set evs. event_key ev = fault_key a f))
     \<and> (\<forall>ev \<in> set evs. \<exists>a f. a \<in> set (asset_ids e) \<and> get_fault e a = Some f \<and> event_key ev = fault_key a f)"
proof -
  obtain evs where evs: "list_events (engine_get e) None = Inr evs" "map event_key evs = fault_keys e"
    using all_events by blast
  then have keys: "event_key ` set evs = set (fault_keys e)" by (metis set_map)
  have "set (fault_keys e) = {fault_key a f | a f. a \<in> set (asset_ids e) \<and> get_fault e a = Some f}"
    by (auto simp: fault_keys_def split: option.splits) force
  with keys have "event_key ` set evs = {fault_key a f | a f. a \<in> set (asset_ids e) \<and> get_fault e a = Some f}" by simp
  then have in_keys: "k \<in> event_key ` set evs \<longleftrightarrow> (\<exists>a f. a \<in> set (asset_ids e) \<and> get_fault e a = Some f \<and> k = fault_key a f)" for k
    by blast
  have "\<exists>ev \<in> set evs. event_key ev = fault_key a f" if "a \<in> set (asset_ids e)" "get_fault e a = Some f" for a f
  proof -
    have "fault_key a f \<in> event_key ` set evs" unfolding in_keys using that by blast
    then show ?thesis by (elim imageE) (metis)
  qed
  moreover have "\<exists>a f. a \<in> set (asset_ids e) \<and> get_fault e a = Some f \<and> event_key ev = fault_key a f"
    if "ev \<in> set evs" for ev
    using in_keys [of "event_key ev"] that by (blast intro: imageI)
  ultimately show ?thesis using evs(1) by blast
qed

lemma injection_visible:
  assumes "inject now a sid e = Inr (f, e')"
  shows "\<exists>evs. list_events (engine_get e') None = Inr evs \<and> (\<exists>ev \<in> set evs. event_key ev = fault_key a f)"
proof -
  have "a \<in> set (asset_ids e')" "get_fault e' a = Some f"
    using assms inject_get_fault [OF assms] dom_get_fault [of e' a] by (simp_all add: set_asset_ids)
  then show ?thesis using events_of_faults [of e'] by blast
qed

lemma clearance_visible:
  assumes "clear_asset a e = Inr e'"
  shows "\<exists>evs. list_events (engine_get e') None = Inr evs \<and> (\<forall>ev \<in> set evs. me_asset_id ev \<noteq> JStr a)"
proof -
  have "get_fault e' a = None" using clear_get_fault [OF assms] by simp
  then show ?thesis
    using events_of_faults [of e'] by (fastforce simp: event_key_def fault_key_def)
qed

end

section \<open>The generic adapter keeps the contract\<close>

lemma generic_assets_read:
  "map_res generic_asset_of (map (\<lambda>a. generic_asset e (a, state_name (get_fault e a))) xs) = Inr (map (asset_of e) xs)"
  by (induction xs) (simp_all add: generic_asset_of_def generic_asset_def asset_of_def)

lemma all_states_map: "wf_dict (en_faults e) \<Longrightarrow> all_states e = map (\<lambda>a. (a, state_name (get_fault e a))) (asset_ids e)"
  by (auto simp: all_states_def asset_ids_def get_fault_def map_of_eq_Some_iff)

lemma generic_events_read: "map_res generic_event_of
    (concat (map (\<lambda>a. case g a of None \<Rightarrow> [] | Some f \<Rightarrow> [generic_event a f]) xs)) =
  Inr (concat (map (\<lambda>a. case g a of None \<Rightarrow> [] | Some f \<Rightarrow>
     [\<lparr>me_asset_id = JStr a, me_severity = JStr (if_event_severity f),
       me_message = JStr (case if_log_entries f of [] \<Rightarrow> lit ''Fault on '' @ a | x # _ \<Rightarrow> snd x),
       me_message_id = JStr (if_event_message_id f), me_ts = JStr (isoformat (if_injected_at f))\<rparr>]) xs))"
  by (induction xs) (simp_all add: generic_event_of_def generic_event_def split: option.split)

lemma map_concat_option: "map k (concat (map (\<lambda>a. case g a of None \<Rightarrow> [] | Some f \<Rightarrow> [h a f]) xs))
    = concat (map (\<lambda>a. case g a of None \<Rightarrow> [] | Some f \<Rightarrow> [k (h a f)]) xs)"
  by (induction xs) (simp_all split: option.split)

lemma map_concat_concat: "map k (concat (concat (map (\<lambda>a. case g a of None \<Rightarrow> [] | Some f \<Rightarrow> [[h a f]]) xs)))
    = concat (map (\<lambda>a. case g a of None \<Rightarrow> [] | Some f \<Rightarrow> [k (h a f)]) xs)"
  by (induction xs) (simp_all split: option.split)

interpretation generic: monitoring_adapter
  generic_adapter_list_assets generic_adapter_list_events generic_adapter_get_asset
proof unfold_locales
  fix e
  show "generic_adapter_list_assets (engine_get e) = Inr (map (asset_of e) (asset_ids e))" if "paths_ok e"
    using that all_states_map [of e]
    by (simp add: generic_adapter_list_assets_def ask_def get_routes generic_list_assets_def generic_assets_read
        paths_ok_def comp_def)
  show "\<exists>evs. generic_adapter_list_events (engine_get e) None = Inr evs \<and> map event_key evs = fault_keys e"
    by (simp add: generic_adapter_list_events_def ask_def get_routes generic_list_events_def generic_events_read
        map_concat_option fault_keys_def event_key_def fault_key_def cong: option.case_cong)
  fix a assume a: "segment a"
  show "generic_adapter_get_asset (engine_get e) a
      = (if a \<in> set (asset_ids e) then Inr (asset_of e a) else Inl (MonHttp (HTTPStatusError 404)))"
    using a by (simp add: generic_adapter_get_asset_def ask_def get_asset_routes answered_def generic_get_asset_def
        map_of_all_states generic_asset_of_def generic_asset_def asset_of_def)
  assume "a \<in> set (asset_ids e)"
  show "generic_adapter_list_events (engine_get e) (Some a) = Inr []" if "get_fault e a = None"
    using a that by (simp add: generic_adapter_list_events_def ask_def get_routes generic_list_events_def segment_def)
  fix f assume f: "get_fault e a = Some f" "if_log_entries f \<noteq> []"
  then show "\<exists>evs. generic_adapter_list_events (engine_get e) (Some a) = Inr evs
        \<and> (\<forall>ev \<in> set evs. me_asset_id ev = JStr a \<and> me_message_id ev = JStr (if_event_message_id f))
        \<and> (\<exists>ev \<in> set evs. me_message ev = JStr (snd (hd (if_log_entries f))))"
    using a by (cases "if_log_entries f")
      (simp_all add: generic_adapter_list_events_def ask_def get_routes generic_list_events_def segment_def
        generic_event_of_def generic_event_def)
qed

section \<open>The Redfish adapter keeps the contract\<close>

lemma last_segment_system: "segment a \<Longrightarrow> last_segment (JStr (systems_path a)) = Inr (systems_path a, a)"
proof -
  assume a: "segment a"
  then have "last (systems_path a) \<noteq> 47" by (auto simp: segment_def systems_path_def dest: last_in_set)
  then have "rstrip_chars (lit ''/'') (systems_path a) = systems_path a"
    by (intro rstrip_chars_id) (simp add: lit_def)
  moreover have "after_last 47 (systems_path a) = a"
    using a after_last_notin [of 47 a "lit ''/redfish/v1/Systems''"] by (simp add: segment_def systems_path_def lit_def)
  ultimately show ?thesis by (simp add: last_segment_def)
qed

lemma redfish_member_read:
  assumes "segment a" "a \<in> set (asset_ids e)"
  shows "redfish_member (engine_get e) (n, link (systems_path a)) = Inr (asset_of e a)"
  using assms
  by (simp add: redfish_member_def link_def last_segment_system ask_def get_asset_routes answered_def get_system_def
      require_asset_def redfish_asset_of_def asset_of_def system_health_def health_state_def state_name_def str_def)

lemma map_res_enumerate:
  "(\<And>n x. x \<in> set xs \<Longrightarrow> f (n, g x) = Inr (h x)) \<Longrightarrow> map_res f (enumerate k (map g xs)) = Inr (map h xs)"
  by (induction xs arbitrary: k) simp_all

lemma redfish_events_read: "map_res redfish_member_events
    (concat (map (\<lambda>a. case g a of None \<Rightarrow> [] | Some f \<Rightarrow> [build_event a f]) xs)) =
  Inr (concat (map (\<lambda>a. case g a of None \<Rightarrow> [] | Some f \<Rightarrow>
     [[\<lparr>me_asset_id = JStr a, me_severity = JStr (if_event_severity f),
       me_message = JStr (case if_log_entries f of [] \<Rightarrow> [] | x # _ \<Rightarrow> snd x),
       me_message_id = JStr (if_event_message_id f), me_ts = JStr (isoformat (if_injected_at f))\<rparr>]]) xs))"
  by (induction xs) (simp_all add: redfish_member_events_def redfish_event_of_def build_event_def split: option.split)

definition entry_event :: "pystr \<Rightarrow> InjectedFault \<Rightarrow> nat \<times> pystr \<times> pystr \<Rightarrow> MonitorEvent" where
  "entry_event a f x = \<lparr>me_asset_id = JStr a, me_severity = JStr (fst (snd x)), me_message = JStr (snd (snd x)),
     me_message_id = JStr (if_event_message_id f), me_ts = JStr (isoformat (if_injected_at f))\<rparr>"

lemma redfish_entry_read: "redfish_entry_of a (log_entry_member a f x) = Inr (entry_event a f x)"
  by (simp add: redfish_entry_of_def log_entry_member_def entry_event_def case_prod_beta)

lemma redfish_entries_read: "map_res (redfish_entry_of a) (map (log_entry_member a f) ls) = Inr (map (entry_event a f) ls)"
  by (induction ls) (simp_all add: redfish_entry_read)

lemma redfish_asset_events:
  assumes "segment a" "a \<in> set (asset_ids e)"
  shows "redfish_adapter_list_events (engine_get e) (Some a) =
    map_res (redfish_entry_of a) (build_log_entry_members a (get_fault e a))"
  using assms by (simp add: redfish_adapter_list_events_def Let_def segment_def ask_def get_asset_routes answered_def
      dcgm_log_entries_def require_asset_def)

interpretation redfish: monitoring_adapter
  redfish_adapter_list_assets redfish_adapter_list_events redfish_adapter_get_asset
proof unfold_locales
  fix e
  show "redfish_adapter_list_assets (engine_get e) = Inr (map (asset_of e) (asset_ids e))" if "paths_ok e"
  proof -
    have "map_res (redfish_member (engine_get e)) (enumerate 0 (map (\<lambda>a. link (systems_path a)) (asset_ids e)))
        = Inr (map (asset_of e) (asset_ids e))"
      using that by (intro map_res_enumerate redfish_member_read) (simp_all add: paths_ok_def)
    then show ?thesis
      by (simp add: redfish_adapter_list_assets_def ask_def get_routes systems_collection_def)
  qed
  show "\<exists>evs. redfish_adapter_list_events (engine_get e) None = Inr evs \<and> map event_key evs = fault_keys e"
    by (simp add: redfish_adapter_list_events_def redfish_all_events_def ask_def get_routes redfish_list_events_def
        active_events_def redfish_events_read map_concat_concat fault_keys_def event_key_def fault_key_def
        cong: option.case_cong)
  fix a assume a: "segment a"
  show "redfish_adapter_get_asset (engine_get e) a
      = (if a \<in> set (asset_ids e) then Inr (asset_of e a) else Inl (MonHttp (HTTPStatusError 404)))"
    using a by (simp add: redfish_adapter_get_asset_def ask_def get_asset_routes answered_def get_system_def
        require_asset_def redfish_asset_of_def asset_of_def system_health_def health_state_def state_name_def str_def)
  assume ids: "a \<in> set (asset_ids e)"
  show "redfish_adapter_list_events (engine_get e) (Some a) = Inr []" if "get_fault e a = None"
    using that by (simp add: redfish_asset_events [OF a ids] build_log_entry_members_def)
  fix f assume f: "get_fault e a = Some f" "if_log_entries f \<noteq> []"
  then obtain x xs where "if_log_entries f = x # xs" by (cases "if_log_entries f") auto
  with f show "\<exists>evs. redfish_adapter_list_events (engine_get e) (Some a) = Inr evs
        \<and> (\<forall>ev \<in> set evs. me_asset_id ev = JStr a \<and> me_message_id ev = JStr (if_event_message_id f))
        \<and> (\<exists>ev \<in> set evs. me_message ev = JStr (snd (hd (if_log_entries f))))"
    by (simp add: redfish_asset_events [OF a ids] build_log_entry_members_def redfish_entry_read redfish_entries_read entry_event_def)
qed

section \<open>The tools over either surface\<close>

lemma event_dict_fields:
  "jget (event_dict ev) (lit ''asset_id'') d = Some (me_asset_id ev)"
  "jget (event_dict ev) (lit ''message_id'') d = Some (me_message_id ev)"
  "jget (event_dict ev) (lit ''ts'') d = Some (me_ts ev)"
  by (simp_all add: event_dict_def)

lemma pack_adapter_cases:
  obtains "pack_adapter lp = generic_adapter" | "pack_adapter lp = redfish_adapter"
  by (cases "pk_monitoring_adapter (lp_pack lp) = Generic") (simp_all add: pack_adapter_def)

lemma tool_sees_injection:
  assumes "inject now a sid e = Inr (f, e')"
  shows "\<exists>evs. ad_list_events (pack_adapter lp) (engine_get e') None = Inr evs \<and> (\<exists>ev \<in> set evs. event_key ev = fault_key a f)"
  by (rule pack_adapter_cases [of lp])
    (simp_all add: generic_adapter_def redfish_adapter_def generic.injection_visible [OF assms]
      redfish.injection_visible [OF assms])

lemma tool_sees_clearance:
  assumes "clear_asset a e = Inr e'"
  shows "\<exists>evs. ad_list_events (pack_adapter lp) (engine_get e') None = Inr evs \<and> (\<forall>ev \<in> set evs. me_asset_id ev \<noteq> JStr a)"
  by (rule pack_adapter_cases [of lp])
    (simp_all add: generic_adapter_def redfish_adapter_def generic.clearance_visible [OF assms]
      redfish.clearance_visible [OF assms])


text \<open>
  The two adapters are interchangeable: over the same simulator they list the same assets with
  the same types and states, answer the same for every single asset, known or not, and report the
  same faults in the same order.
\<close>

theorem adapters_agree:
  assumes "paths_ok e"
  shows "monitor_list_assets generic_adapter (engine_get e) = monitor_list_assets redfish_adapter (engine_get e)
     \<and> (\<forall>a. segment a \<longrightarrow>
          monitor_get_asset generic_adapter (engine_get e) a = monitor_get_asset redfish_adapter (engine_get e) a)
     \<and> (\<exists>g r. ad_list_events generic_adapter (engine_get e) None = Inr g
          \<and> ad_list_events redfish_adapter (engine_get e) None = Inr r \<and> map event_key g = map event_key r)"
proof (intro conjI allI impI)
  show "monitor_list_assets generic_adapter (engine_get e) = monitor_list_assets redfish_adapter (engine_get e)"
    using generic.all_assets [OF assms] redfish.all_assets [OF assms]
    by (simp add: monitor_list_assets_def generic_adapter_def redfish_adapter_def)
  show "monitor_get_asset generic_adapter (engine_get e) a = monitor_get_asset redfish_adapter (engine_get e) a"
    if "segment a" for a
    using generic.one_asset [OF that] redfish.one_asset [OF that]
    by (simp add: monitor_get_asset_def generic_adapter_def redfish_adapter_def)
  show "\<exists>g r. ad_list_events generic_adapter (engine_get e) None = Inr g
      \<and> ad_list_events redfish_adapter (engine_get e) None = Inr r \<and> map event_key g = map event_key r"
    using generic.all_events [of e] redfish.all_events [of e]
    by (auto simp: generic_adapter_def redfish_adapter_def)
qed

text \<open>
  They differ where an asset is named that the simulator does not have: the generic adapter
  answers that there is no event, the Redfish adapter fails with the surface's 404.
\<close>

theorem unknown_asset_events_differ:
  assumes "segment a" "a \<notin> set (asset_ids e)"
  shows "monitor_list_events generic_adapter (engine_get e) a = Inr []
     \<and> monitor_list_events redfish_adapter (engine_get e) a = Inl (MonHttp (HTTPStatusError 404))"
proof
  have "get_fault e a = None" using assms(2) dom_get_fault [of e a] by (auto simp: set_asset_ids)
  with assms(1) show "monitor_list_events generic_adapter (engine_get e) a = Inr []"
    by (simp add: monitor_list_events_def generic_adapter_def generic_adapter_list_events_def ask_def get_routes
        generic_list_events_def segment_def)
  show "monitor_list_events redfish_adapter (engine_get e) a = Inl (MonHttp (HTTPStatusError 404))"
    using assms by (simp add: monitor_list_events_def redfish_adapter_def redfish_adapter_list_events_def Let_def
        ask_def get_asset_routes answered_def dcgm_log_entries_def require_asset_def segment_def)
qed

section \<open>Witnesses\<close>

definition monitor_time :: datetime where
  "monitor_time = DateTime 2026 10 1 9 30 0 0"

definition monitor_engine :: engine where
  "monitor_engine = engine_init demo_pack"

lemma monitor_engine_facts:
  "asset_ids monitor_engine = [lit ''gpu-1'', lit ''gpu-2'']" "wf_dict (en_faults monitor_engine)"
  "map_of (en_scenarios monitor_engine) (lit ''s1'') = Some (backfill_log_extract demo_scenario)"
  by code_simp+

lemma monitor_engine_paths: "paths_ok monitor_engine"
  by (simp add: paths_ok_def monitor_engine_facts segment_def) (simp add: lit_def)

lemma monitor_engine_lifecycle:
  "\<exists>f e' e''. inject monitor_time (lit ''gpu-1'') (lit ''s1'') monitor_engine = Inr (f, e')
     \<and> clear_asset (lit ''gpu-1'') e' = Inr e''"
proof -
  have "map_of (en_faults monitor_engine) (lit ''gpu-1'') \<noteq> None"
    using set_asset_ids [of monitor_engine] by (auto simp: monitor_engine_facts)
  then have "\<exists>f e'. inject monitor_time (lit ''gpu-1'') (lit ''s1'') monitor_engine = Inr (f, e')
      \<and> map_of (en_faults e') (lit ''gpu-1'') \<noteq> None"
    by (simp add: inject_def monitor_engine_facts Let_def AList.update_conv')
  then show ?thesis by (auto simp: clear_asset_def)
qed


theorem adapters_agree_witness:
  "monitor_list_assets generic_adapter (engine_get monitor_engine)
     = monitor_list_assets redfish_adapter (engine_get monitor_engine)"
  using adapters_agree [OF monitor_engine_paths] by (rule conjunct1)

theorem unknown_asset_events_differ_witness:
  "monitor_list_events generic_adapter (engine_get monitor_engine) (lit ''gpu-9'') = Inr []
   \<and> monitor_list_events redfish_adapter (engine_get monitor_engine) (lit ''gpu-9'') = Inl (MonHttp (HTTPStatusError 404))"
proof -
  have "segment (lit ''gpu-9'')" by (simp add: segment_def lit_def)
  moreover have "lit ''gpu-9'' \<notin> set (asset_ids monitor_engine)" by (simp add: monitor_engine_facts)
  ultimately show ?thesis by (rule unknown_asset_events_differ)
qed

end
