(* ===== verification/Wire_Formats.thy ===== *)
theory Wire_Formats
  imports Lab_System Orch_Http Model_Json Monitor_Contract
begin

text \<open>
  What goes over the wire between the services. The internal endpoints of
  \<open>services/mcp_tools/main.py\<close> and the control routes of \<open>services/simulator/control.py\<close> take JSON
  bodies and validate them against request models; the gateway and the orchestrator write those
  bodies and read the answers. A route answers a status code and, unless the framework writes it, a
  body.
\<close>

section \<open>Request models\<close>

definition req_strs :: "json \<Rightarrow> string \<Rightarrow> pystr list option" where
  "req_strs j k = (case jget j (lit k) JNull of Some (JArr xs) \<Rightarrow> strs_of xs | _ \<Rightarrow> None)"

definition str_default :: "json \<Rightarrow> string \<Rightarrow> string \<Rightarrow> pystr option" where
  "str_default j k d = (case jget j (lit k) (JStr (lit d)) of Some (JStr s) \<Rightarrow> Some s | _ \<Rightarrow> None)"

definition parse_register :: "json \<Rightarrow> (pystr \<times> pystr \<times> pystr \<times> pystr list) option" where
  "parse_register j =
     Option.bind (get_str j ''fault_event_id'') (\<lambda>f.
     Option.bind (get_str j ''asset_id'') (\<lambda>a.
     Option.bind (get_str j ''scenario_id'') (\<lambda>sid.
     Option.bind (req_strs j ''allowed_step_ids'') (\<lambda>ids. Some (f, a, sid, ids)))))"

definition parse_mint :: "json \<Rightarrow> (pystr \<times> ApprovalDecision \<times> pystr) option" where
  "parse_mint j =
     Option.bind (get_str j ''fault_event_id'') (\<lambda>f.
     Option.bind (Option.bind (get_str j ''decision'') ApprovalDecision_of) (\<lambda>d.
     Option.bind (str_default j ''decided_by'' ''human'') (\<lambda>by_whom. Some (f, d, by_whom))))"

definition parse_inject :: "json \<Rightarrow> (pystr \<times> pystr) option" where
  "parse_inject j =
     Option.bind (get_str j ''asset_id'') (\<lambda>a. Option.bind (get_str j ''scenario_id'') (\<lambda>sid. Some (a, sid)))"

definition parse_clear :: "json \<Rightarrow> pystr option" where
  "parse_clear j = get_str j ''asset_id''"

section \<open>The endpoints\<close>

type_synonym wire_answer = "nat \<times> json option"

text \<open>A body that does not validate answers 422, and the endpoint does not run.\<close>

definition validated :: "(json \<Rightarrow> 'b option) \<Rightarrow> json option \<Rightarrow> ('b \<Rightarrow> wire_answer \<times> 's) \<Rightarrow> 's \<Rightarrow> wire_answer \<times> 's" where
  "validated parse body run s = (case Option.bind body parse of None \<Rightarrow> ((422, None), s) | Some b \<Rightarrow> run b)"

text \<open>
  The explicit routes of the MCP tools service; \<open>None\<close> goes on to the MCP transport, which is
  mounted last. \<open>k\<close> is the token string \<open>secrets.token_urlsafe\<close> would draw.
\<close>

definition mcp_internal ::
  "pystr \<Rightarrow> datetime \<Rightarrow> pystr \<Rightarrow> pystr \<Rightarrow> json option \<Rightarrow> mcp_state \<Rightarrow> (wire_answer \<times> mcp_state) option" where
  "mcp_internal k now m path body s =
     (if m = lit ''GET'' \<and> path = lit ''/healthz'' then Some ((200, Some (obj [(''status'', str ''ok'')])), s)
      else if m \<noteq> lit ''POST'' then None
      else if path = lit ''/internal/fault-events'' then Some (validated parse_register body
        (\<lambda>(f, a, sid, ids). let (j, s') = register_fault_event f a sid ids s in ((200, Some j), s')) s)
      else if path = lit ''/internal/tokens'' then Some (validated parse_mint body
        (\<lambda>(f, d, by_whom). case mint_token k now f d by_whom s of
            (Inl _, s') \<Rightarrow> ((500, None), s')
          | (Inr j, s') \<Rightarrow> ((200, Some j), s')) s)
      else if path = lit ''/internal/reset'' then Some (let (j, s') = reset_state s in ((200, Some j), s'))
      else None)"

definition inject_response_json :: "InjectResponse \<Rightarrow> json" where
  "inject_response_json r = obj
     [(''asset_id'', JStr (ir_asset_id r)), (''scenario_id'', JStr (ir_scenario_id r)),
      (''fault_type'', JStr (ir_fault_type r)), (''injected_at'', JStr (ir_injected_at r))]"

definition dict_json :: "pystr dict \<Rightarrow> json" where
  "dict_json d = JObj (map (\<lambda>(k, v). (k, JStr v)) d)"

definition wire_reply :: "('a \<Rightarrow> json) \<Rightarrow> http_exc + 'a \<Rightarrow> wire_answer" where
  "wire_reply out r = (case r of Inl exc \<Rightarrow> (http_status exc, None) | Inr x \<Rightarrow> (200, Some (out x)))"

text \<open>The control routes of the simulator; \<open>None\<close> is a request none of them takes.\<close>

definition sim_control ::
  "datetime \<Rightarrow> pystr \<Rightarrow> pystr \<Rightarrow> json option \<Rightarrow> engine \<Rightarrow> (wire_answer \<times> engine) option" where
  "sim_control now m path body e =
     (if m = lit ''POST'' \<and> path = lit ''/control/inject'' then Some (validated parse_inject body
        (\<lambda>(a, sid). let (r, e') = inject_fault now a sid e in (wire_reply inject_response_json r, e')) e)
      else if m = lit ''POST'' \<and> path = lit ''/control/clear'' then Some (validated parse_clear body
        (\<lambda>a. let (r, e') = clear_fault a e in (wire_reply dict_json r, e')) e)
      else if m = lit ''GET'' \<and> path = lit ''/control/state''
      then Some ((200, Some (obj [(''states'', dict_json (get_state e))])), e)
      else None)"

section \<open>The clients\<close>

definition register_body :: "pystr \<Rightarrow> pystr \<Rightarrow> pystr \<Rightarrow> pystr list \<Rightarrow> json" where
  "register_body f a sid ids = obj
     [(''fault_event_id'', JStr f), (''asset_id'', JStr a), (''scenario_id'', JStr sid),
      (''allowed_step_ids'', JArr (map JStr ids))]"

definition mint_body :: "pystr \<Rightarrow> pystr \<Rightarrow> pystr \<Rightarrow> json" where
  "mint_body f decision by_whom = obj
     [(''fault_event_id'', JStr f), (''decision'', JStr decision), (''decided_by'', JStr by_whom)]"

definition inject_body :: "pystr \<Rightarrow> pystr \<Rightarrow> json" where
  "inject_body a sid = obj [(''asset_id'', JStr a), (''scenario_id'', JStr sid)]"

definition clear_body :: "pystr \<Rightarrow> json" where
  "clear_body a = obj [(''asset_id'', JStr a)]"

text \<open>A request that no route takes is answered by the framework with 404.\<close>

definition answered_code :: "(wire_answer \<times> 's) option \<Rightarrow> 's \<Rightarrow> wire_answer \<times> 's" where
  "answered_code r s = (case r of None \<Rightarrow> ((404, None), s) | Some x \<Rightarrow> x)"

text \<open>
  The gateway's client on the service: its requests with their bodies, \<open>raise_for_status\<close> and the
  \<open>token\<close> of the answer. A request that does not mint draws no token string.
\<close>

definition wire_post :: "pystr \<Rightarrow> datetime \<Rightarrow> string \<Rightarrow> json option \<Rightarrow> mcp_state \<Rightarrow> wire_answer \<times> mcp_state" where
  "wire_post k now path body s = answered_code (mcp_internal k now (lit ''POST'') (lit path) body s) s"

definition wire_client :: "datetime \<Rightarrow> lab mcp_client" where
  "wire_client now = \<lparr>
     mc_register = (\<lambda>f a sid ids (m, ks).
       let ((code, _), m') = wire_post [] now ''/internal/fault-events'' (Some (register_body f a sid ids)) m
       in (Inr code, (m', ks))),
     mc_mint = (\<lambda>f decision by_whom (m, ks).
       case ks of
         [] \<Rightarrow> (Inl (HTTPStatusError 422), (m, ks))
       | k # ks' \<Rightarrow>
           (let ((code, body), m') = wire_post k now ''/internal/tokens'' (Some (mint_body f decision by_whom)) m;
                l = (m', if code = 422 then ks else ks')
            in case (raise_for_status code, body) of
                 (Inr _, Some j) \<Rightarrow> (Inr (token_of j), l)
               | _ \<Rightarrow> (Inl (HTTPStatusError code), l))),
     mc_reset = (\<lambda>(m, ks).
       let ((code, _), m') = wire_post [] now ''/internal/reset'' None m in (Inr code, (m', ks)))\<rparr>"

text \<open>\<open>HttpSimulatorClient\<close>: the request, and the status code of the answer.\<close>

definition control_post :: "string \<Rightarrow> json \<Rightarrow> datetime \<Rightarrow> engine \<Rightarrow> nat \<times> engine" where
  "control_post path body now e =
     (let ((code, _), e') = answered_code (sim_control now (lit ''POST'') (lit path) (Some body) e) e in (code, e'))"

text \<open>
  The gateway's reading of the orchestrator's scenario: the ids and labels of its steps; nothing when
  an entry is no object with an id.
\<close>

definition step_of_json :: "json \<Rightarrow> RemediationStep option" where
  "step_of_json j =
     Option.bind (get_str j ''id'') (\<lambda>i.
     Option.bind (case jget j (lit ''label'') (JStr i) of Some (JStr l) \<Rightarrow> Some l | _ \<Rightarrow> None) (\<lambda>l.
       Some \<lparr>rs_id = i, rs_label = l\<rparr>))"

fun steps_of_list :: "json list \<Rightarrow> RemediationStep list option" where
  "steps_of_list [] = Some []"
| "steps_of_list (j # js) = Option.bind (step_of_json j) (\<lambda>s. map_option ((#) s) (steps_of_list js))"

definition steps_of_json :: "json \<Rightarrow> RemediationStep list option" where
  "steps_of_json j = (case jget j (lit ''remediation_steps'') (JArr []) of Some (JArr xs) \<Rightarrow> steps_of_list xs | _ \<Rightarrow> None)"

section \<open>What arrives is what was sent\<close>

lemma bind_Some_map: "Option.bind x (\<lambda>d. Some (g d)) = map_option g x"
  by (cases x) simp_all

lemma parse_bodies [simp]:
  "parse_register (register_body f a sid ids) = Some (f, a, sid, ids)"
  "parse_mint (mint_body f decision by_whom) = map_option (\<lambda>d. (f, d, by_whom)) (ApprovalDecision_of decision)"
  "parse_inject (inject_body a sid) = Some (a, sid)"
  "parse_clear (clear_body a) = Some a"
  by (simp_all add: bind_Some_map parse_register_def register_body_def parse_mint_def mint_body_def parse_inject_def inject_body_def
      parse_clear_def clear_body_def get_str_def req_strs_def str_default_def)

lemma steps_of_list_map: "steps_of_list (map step_json xs) = Some xs"
  by (induction xs) (simp_all add: step_of_json_def step_json_def get_str_def)

lemma steps_of_run_json: "steps_of_json (run_json r) = Some (rr_remediation_steps r)"
  by (simp add: steps_of_json_def run_json_def steps_of_list_map)


section \<open>Properties\<close>

lemma wire_posts:
  "wire_post k now ''/internal/fault-events'' (Some (register_body f a sid ids)) m =
     ((200, Some (fst (register_fault_event f a sid ids m))), snd (register_fault_event f a sid ids m))"
  "wire_post k now ''/internal/tokens'' (Some (mint_body f decision by_whom)) m =
     (case ApprovalDecision_of decision of
        None \<Rightarrow> ((422, None), m)
      | Some d \<Rightarrow> (case mint_token k now f d by_whom m of (Inl _, m') \<Rightarrow> ((500, None), m') | (Inr j, m') \<Rightarrow> ((200, Some j), m')))"
  "wire_post k now ''/internal/reset'' None m = ((200, Some (fst (reset_state m))), snd (reset_state m))"
  by (simp_all add: wire_post_def mcp_internal_def answered_code_def validated_def split: option.split prod.split)

lemma wire_mint: "mc_mint (wire_client now) f decision by_whom l = mc_mint (lab_client now) f decision by_whom l"
proof (cases l)
  case (Pair m ks)
  have codes: "status_ok 200" "\<not> status_ok 422" "\<not> status_ok 500" by (simp_all add: status_ok_def)
  show ?thesis
  proof (cases "ks = [] \<or> ApprovalDecision_of decision = None")
    case True
    with Pair show ?thesis
      by (cases ks) (auto simp: wire_client_def lab_client_def lab_mint_def wire_posts raise_for_status_def codes)
  next
    case False
    then obtain k ks' d where ks: "ks = k # ks'" and d: "ApprovalDecision_of decision = Some d"
      by (cases ks) auto
    with Pair show ?thesis
      by (cases "mint_token k now f d by_whom m"; cases "fst (mint_token k now f d by_whom m)")
        (simp_all add: wire_client_def lab_client_def lab_mint_def wire_posts raise_for_status_def codes)
  qed
qed

lemma wire_client_lab: "wire_client now = lab_client now"
proof -
  have "mc_mint (wire_client now) = mc_mint (lab_client now)" by (intro ext wire_mint)
  moreover have "mc_register (wire_client now) = mc_register (lab_client now)"
    by (intro ext) (simp add: wire_client_def lab_client_def wire_posts case_prod_beta)
  moreover have "mc_reset (wire_client now) = mc_reset (lab_client now)"
    by (intro ext) (simp add: wire_client_def lab_client_def wire_posts case_prod_beta)
  ultimately show ?thesis by simp
qed

text \<open>
  C14: The services understand each other. The requests the gateway writes for an approval and a reset
  are accepted by the request models of the MCP tools service, reach the endpoint they are meant for,
  and have there exactly the effect, the code and the token of the direct calls \<open>lab_client\<close> makes, so
  the properties of the composed lab hold over the wire; a decision that is neither \<open>approved\<close> nor
  \<open>denied\<close> is refused and mints nothing. The orchestrator's \<open>HttpSimulatorClient\<close> reaches the
  injection and the clearing of the engine with the asset and the scenario it was given.
\<close>

theorem clients_reach_their_endpoints:
  "wire_client now = lab_client now
   \<and> post_inject a sid = deliver (control_post ''/control/inject'' (inject_body a sid))
   \<and> post_clear a = deliver (control_post ''/control/clear'' (clear_body a))"
proof (intro conjI)
  show "wire_client now = lab_client now" by (rule wire_client_lab)
  show "post_inject a sid = deliver (control_post ''/control/inject'' (inject_body a sid))"
    by (auto simp: post_inject_def control_post_def sim_control_def validated_def answered_code_def wire_reply_def
        response_code_def fun_eq_iff case_prod_beta split: sum.split intro!: arg_cong2 [where f = deliver])
  show "post_clear a = deliver (control_post ''/control/clear'' (clear_body a))"
    by (auto simp: post_clear_def control_post_def sim_control_def validated_def answered_code_def wire_reply_def
        response_code_def fun_eq_iff case_prod_beta split: sum.split intro!: arg_cong2 [where f = deliver])
qed

text \<open>
  The steps an approval allows are those of the scenario that is active on the asset. After an
  injection, the gateway's request for the scenario of an asset, whose id is one path segment, is
  answered for the asset the scenario targets, with exactly its remediation steps in order; for every
  other asset it is refused with 404, and the approval allows no step.
\<close>

theorem approval_gets_scenario_steps:
  assumes "faults_tracked oc w" and "wf_loaded (oc_pack oc)"
    and "run_specific http_clear http_inject sid oc w = (Inr resp, oc', w')" and "segment a"
  shows "\<exists>sc. map_of (lp_scenarios_by_id (oc_pack oc)) sid = Some sc
    \<and> (if a = sc_target_asset sc
       then \<exists>j. orch_get fw now oc' w' (lit ''/api/assets/'' @ a @ lit ''/scenario'') = (200, j)
         \<and> steps_of_json j = Some (sc_remediation_steps sc)
       else fst (orch_get fw now oc' w' (lit ''/api/assets/'' @ a @ lit ''/scenario'')) = 404)"
proof -
  from run_specific_isolates [OF assms(1,3)] obtain sc where
    sc: "map_of (lp_scenarios_by_id (oc_pack oc)) sid = Some sc" and
    act: "\<And>a. active_scenario oc' a = (if a = sc_target_asset sc then Some sid else None)"
    by blast
  have pack: "oc_pack oc' = oc_pack oc"
    using assms(3) by (auto simp: run_specific_def case_prod_beta split: sum.splits)
  have "split_on [47] (lit ''/api/assets/'' @ a @ lit ''/scenario'') = [[], lit ''api'', lit ''assets'', a, lit ''scenario'']"
    using split_join [of "[[], lit ''api'', lit ''assets'', a, lit ''scenario'']"] assms(4)
    by (simp add: lit_def segment_def)
  then have "orch_get fw now oc' w' (lit ''/api/assets/'' @ a @ lit ''/scenario'')
      = orch_reply fw (fst (with_json run_json (get_asset_scenario a oc', oc', w')))"
    using assms(4) by (simp add: orch_get_def orch_http_def orch_route_of_def segment_def case_prod_beta)
  then show ?thesis
    using sc by (auto simp: with_json_def get_asset_scenario_def act run_response_def pack orch_reply_def orch_code_def
        steps_of_run_json scenario_response_def)
qed

theorem approval_gets_scenario_steps_witness:
  "\<exists>resp oc w. demo_run = (Inr resp, oc, w)
     \<and> (\<forall>fw now. fst (orch_get fw now oc w (lit ''/api/assets/'' @ lit ''gpu-2'' @ lit ''/scenario'')) = 404)"
proof -
  obtain resp oc w where r: "demo_run = (Inr resp, oc, w)" using demo_run_ok by blast
  have wf: "wf_loaded (oc_pack demo_orch)" using demo_wf by (simp add: demo_orch_def)
  have seg: "segment (lit ''gpu-2'')" by (simp add: segment_def) (simp add: lit_def)
  have "sc_target_asset sc \<noteq> lit ''gpu-2''"
    if "map_of (lp_scenarios_by_id (oc_pack demo_orch)) (lit ''s1'') = Some sc" for sc
    using that by (auto simp: demo_orch_def demo_pack_def demo_scenario_def)
  then have "fst (orch_get fw now oc w (lit ''/api/assets/'' @ lit ''gpu-2'' @ lit ''/scenario'')) = 404" for fw now
    using approval_gets_scenario_steps [OF demo_tracked(1) wf r [unfolded demo_run_def] seg, of fw now]
    by (auto split: if_splits)
  with r show ?thesis by blast
qed

end
