(* ===== verification/Lab_Http.thy ===== *)
theory Lab_Http
  imports Lab_Safety Gw_Http_Safety Wire_Formats
begin

text \<open>
  The composed lab as it is reached from outside: HTTP requests to the gateway, whose client calls
  the internal endpoints of the MCP tools service, and the tools of that service on the simulator,
  interleaved. What is not a request of the gateway's own is the same as in \<open>Lab_Safety\<close>; here the
  operator's approval is the request itself, with its body.
\<close>

text \<open>\<open>hl_answered\<close> is history: the requests answered, each with the fault events at that time.\<close>

record 'o http_lab =
  hl_app :: "(GatewayStore, 'o, lab) gw_app"
  hl_answered :: "(gw_request \<times> FaultEvent dict) list"

text \<open>
  Steps: a request, with any upstream answers and clock, a fresh fault event id and a fresh token
  string; the executor's writes; the event streams; a step of the tools.
\<close>

inductive http_lab_step :: "LoadedPack \<Rightarrow> 'o http_lab \<Rightarrow> 'o http_lab \<Rightarrow> bool" for lp where
  request: "mem_env env \<Longrightarrow> ge_pack env = lp \<Longrightarrow> ge_mcp env = wire_client now \<Longrightarrow>
     map_of (gs_faults (ga_store (hl_app x))) (dr_id dr) = None \<Longrightarrow> k \<notin> set (ms_issued (fst (ga_mcp (hl_app x)))) \<Longrightarrow>
     app = (hl_app x)\<lparr>ga_mcp := (fst (ga_mcp (hl_app x)), [k])\<rparr> \<Longrightarrow>
     http_lab_step lp x \<lparr>hl_app = snd (gw_http env dr rq app),
       hl_answered = (rq, gs_faults (ga_store app)) # hl_answered x\<rparr>"
| executor_status: "app = hl_app x \<Longrightarrow>
     http_lab_step lp x (x\<lparr>hl_app := app\<lparr>ga_store := snd (set_status mem_ops f a y (ga_store app))\<rparr>\<rparr>)"
| executor_narrates: "app = hl_app x \<Longrightarrow>
     http_lab_step lp x (x\<lparr>hl_app := app\<lparr>ga_store := narrate mem_ops aid t f stp msg (ga_store app)\<rparr>\<rparr>)"
| stream: "app = hl_app x \<Longrightarrow>
     http_lab_step lp x (x\<lparr>hl_app := app\<lparr>ga_store := (ga_store app)\<lparr>gs_sse := b\<rparr>\<rparr>\<rparr>)"
| tools: "app = hl_app x \<Longrightarrow> ga_mcp app = (m, ks) \<Longrightarrow> mcp_step False m m' \<Longrightarrow> ms_issued m' = ms_issued m \<Longrightarrow>
     ms_registered m' = ms_registered m \<Longrightarrow> http_lab_step lp x (x\<lparr>hl_app := app\<lparr>ga_mcp := (m', ks)\<rparr>\<rparr>)"

inductive http_lab_reachable :: "LoadedPack \<Rightarrow> 'o http_lab \<Rightarrow> bool" for lp where
  start: "http_lab_reachable lp
     \<lparr>hl_app = \<lparr>ga_store = gateway_start mem_ops lp redis_url flag store_init, ga_orch = os, ga_mcp = (mcp_init w, []),
        ga_jobs = [], ga_hooks = []\<rparr>, hl_answered = []\<rparr>"
| step: "http_lab_reachable lp x \<Longrightarrow> http_lab_step lp x y \<Longrightarrow> http_lab_reachable lp y"

text \<open>A request that approves a fault event of the asset.\<close>

definition approves :: "gw_request \<times> FaultEvent dict \<Rightarrow> pystr \<Rightarrow> pystr \<Rightarrow> bool" where
  "approves h f a \<longleftrightarrow> rq_method (fst h) = lit ''POST'' \<and> rq_path (fst h) = [lit ''api'', lit ''faults'', f, lit ''decision'']
     \<and> (\<exists>body. rq_body (fst h) = Some body \<and> jget body (lit ''decision'') JNull = Some (JStr (lit ''approved'')))
     \<and> (\<exists>e. map_of (snd h) f = Some e \<and> fe_asset_id e = a)"

section \<open>What a request does to the MCP tools service\<close>

lemma mcp_with_body:
  "(\<And>b. ga_mcp (snd (handler b app)) = ga_mcp app) \<Longrightarrow> ga_mcp (snd (with_body parse rq handler app)) = ga_mcp app"
  using with_body_cases [of parse rq handler app] by auto

lemma mcp_route:
  assumes "ga_mcp (snd (gw_handle env dr rq r app)) \<noteq> ga_mcp app"
  obtains (decision) f d where "r = GDecision f" "Option.bind (rq_body rq) parse_decision = Some d"
      "gw_handle env dr rq r app = decision_route env f d app"
    | (reset) "r = GReset"
proof (cases r)
  case (GDecision f)
  with assms with_body_cases [of parse_decision rq "decision_route env f" app] decision show ?thesis by auto
next
  case GPostActivity
  with assms show ?thesis by (simp add: mcp_with_body activity_route_def)
next
  case GReset
  then show ?thesis by (rule reset)
qed (use assms in \<open>auto simp: mcp_with_body inject_route_def split: prod.splits\<close>)

lemma reset_route_mcp:
  "ga_mcp (snd (reset_route env app)) = ga_mcp app \<or> ga_mcp (snd (reset_route env app)) = snd (mc_reset (ge_mcp env) (ga_mcp app))"
  by (auto simp: reset_route_def presenter_reset_def Let_def split: prod.split sum.split option.split)

lemma unknown_decision:
  assumes "mem_env env" and "map_of (gs_faults (ga_store app)) f = None"
  shows "snd (decision_route env f d app) = app"
  using assms by (simp add: decision_route_def post_decision_def mem_env_def store_get_fault_def)

text \<open>
  A request leaves the service as it is or resets it, and steps the store, or it is a decision on a
  known fault event.
\<close>

lemma request_cases:
  assumes "mem_env env" and "ge_mcp env = lab_client now" and "map_of (gs_faults (ga_store app)) (dr_id dr) = None"
    and "ga_mcp app = (m, [k])" and "app' = snd (gw_http env dr rq app)"
  obtains (plain) "fst (ga_mcp app') = m \<or> fst (ga_mcp app') = snd (reset_state m)"
      "ga_store app' = ga_store app \<or> gw_step (ge_pack env) (ga_store app) (ga_store app')"
  | (decided) f d e orch r job where "map_of (gs_faults (ga_store app)) f = Some e"
      "d = decision_approved \<Longrightarrow> approves (rq, gs_faults (ga_store app)) f (fe_asset_id e)"
      "post_decision mem_ops orch (lab_client now) f d (ga_store app) (m, [k]) = (r, ga_store app', ga_mcp app', job)"
proof (cases "gw_route_of (rq_method rq) (rq_path rq)")
  case None
  with plain assms(4,5) show ?thesis by (simp add: gw_http_def)
next
  case (Some route)
  then have app': "app' = snd (gw_handle env dr rq route app)" using assms(5) by (simp add: gw_http_def)
  note st = route_step [OF assms(1,3), of rq route, folded app']
  show ?thesis
  proof (cases "ga_mcp app' = ga_mcp app")
    case True
    with plain st assms(4) show ?thesis by simp
  next
    case False
    then have "ga_mcp (snd (gw_handle env dr rq route app)) \<noteq> ga_mcp app" by (simp add: app')
    then show ?thesis
    proof (cases rule: mcp_route)
      case (decision f d)
      then have route': "app' = snd (decision_route env f d app)" by (simp add: app')
      then obtain e where e: "map_of (gs_faults (ga_store app)) f = Some e"
        using False unknown_decision [OF assms(1), of app f d] by (cases "map_of (gs_faults (ga_store app)) f") auto
      obtain r s' m' job where p: "post_decision mem_ops (ge_steps env (ga_orch app)) (lab_client now) f d (ga_store app) (m, [k])
          = (r, s', m', job)"
        by (metis surj_pair)
      with route' assms(1,2,4) have "s' = ga_store app'" "m' = ga_mcp app'"
        by (simp_all add: decision_route_def mem_env_def)
      with p have p': "post_decision mem_ops (ge_steps env (ga_orch app)) (lab_client now) f d (ga_store app) (m, [k])
          = (r, ga_store app', ga_mcp app', job)" by simp
      have "approves (rq, gs_faults (ga_store app)) f (fe_asset_id e)" if "d = decision_approved"
        using that decision(1,2) e decision_path [OF Some [unfolded decision(1)]] parsed_approval [of "rq_body rq"]
        by (auto simp: approves_def)
      from decided [OF e this p'] show ?thesis .
    next
      case reset
      with reset_route_mcp [of env app] False have "ga_mcp app' = snd (mc_reset (ge_mcp env) (ga_mcp app))" by (simp add: app')
      with plain st assms(2,4) show ?thesis by (simp add: lab_client_def)
    qed
  qed
qed

text \<open>No request touches the simulator through the MCP tools service.\<close>

lemma request_sim:
  assumes "mem_env env" and "ge_mcp env = lab_client now" and "map_of (gs_faults (ga_store app)) (dr_id dr) = None"
    and "ga_mcp app = (m, [k])"
  shows "ms_sim (fst (ga_mcp (snd (gw_http env dr rq app)))) = ms_sim m"
  using assms refl
proof (cases rule: request_cases [of env now app dr m k "snd (gw_http env dr rq app)" rq])
  case plain
  then show ?thesis by (auto simp: reset_state_def)
next
  case (decided f d e orch r job)
  obtain m' ks where m': "ga_mcp (snd (gw_http env dr rq app)) = (m', ks)" by fastforce
  from decision_on_lab [OF decided(1) decided(3) [unfolded m']] m' show ?thesis by (auto simp: approved_state_fields)
qed

section \<open>The lab over HTTP is the lab\<close>

text \<open>
  A state of the lab over HTTP has its counterpart in \<open>Lab_Safety\<close>, whose approvals are approving
  requests that were answered.
\<close>

definition matches :: "LoadedPack \<Rightarrow> 'o http_lab \<Rightarrow> system_state \<Rightarrow> bool" where
  "matches lp x y \<longleftrightarrow> system_reachable lp y \<and> lb_gateway y = ga_store (hl_app x) \<and> lb_mcp y = fst (ga_mcp (hl_app x))
     \<and> (\<forall>(f, a) \<in> set (lb_approved y). \<exists>h \<in> set (hl_answered x). approves h f a)"

lemma matches_gateway:
  assumes "matches lp x y" and "s' = ga_store (hl_app x) \<or> gw_step lp (ga_store (hl_app x)) s'"
    and "ga_store (hl_app x') = s'" "ga_mcp (hl_app x') = ga_mcp (hl_app x)" "set (hl_answered x) \<subseteq> set (hl_answered x')"
  shows "\<exists>y'. matches lp x' y'"
proof -
  have "system_reachable lp (y\<lparr>lb_gateway := s'\<rparr>)"
    using assms(2)
  proof
    assume "s' = ga_store (hl_app x)"
    with assms(1) have "y\<lparr>lb_gateway := s'\<rparr> = y" by (simp add: matches_def)
    with assms(1) show ?thesis by (simp add: matches_def)
  next
    assume "gw_step lp (ga_store (hl_app x)) s'"
    with assms(1) show ?thesis
      by (intro system_reachable.step [OF _ system_step.gateway]) (simp_all add: matches_def)
  qed
  with assms show ?thesis by (intro exI [of _ "y\<lparr>lb_gateway := s'\<rparr>"]) (fastforce simp: matches_def)
qed

lemma matches_tools:
  assumes "matches lp x y" and "mcp_step False (fst (ga_mcp (hl_app x))) m'"
    and "ms_issued m' = ms_issued (fst (ga_mcp (hl_app x)))" "ms_registered m' = ms_registered (fst (ga_mcp (hl_app x)))"
    and "ga_store (hl_app x') = ga_store (hl_app x)" "fst (ga_mcp (hl_app x')) = m'" "set (hl_answered x) \<subseteq> set (hl_answered x')"
  shows "\<exists>y'. matches lp x' y'"
proof -
  have "system_reachable lp (y\<lparr>lb_mcp := m'\<rparr>)"
    using assms(1-4) by (intro system_reachable.step [OF _ system_step.tools]) (simp_all add: matches_def)
  with assms show ?thesis by (intro exI [of _ "y\<lparr>lb_mcp := m'\<rparr>"]) (fastforce simp: matches_def)
qed

lemma matches_decision:
  assumes "matches lp x y" and "map_of (gs_faults (ga_store (hl_app x))) f = Some e" and "k \<notin> set (ms_issued (fst (ga_mcp (hl_app x))))"
    and "post_decision mem_ops orch (lab_client now) f d (ga_store (hl_app x)) (fst (ga_mcp (hl_app x)), [k])
      = (r, ga_store (hl_app x'), ga_mcp (hl_app x'), job)"
    and "d = decision_approved \<Longrightarrow> \<exists>h \<in> set (hl_answered x'). approves h f (fe_asset_id e)"
    and "set (hl_answered x) \<subseteq> set (hl_answered x')"
  shows "\<exists>y'. matches lp x' y'"
proof -
  obtain m' ks where m': "ga_mcp (hl_app x') = (m', ks)" by fastforce
  let ?y = "\<lparr>lb_gateway = ga_store (hl_app x'), lb_mcp = m',
    lb_approved = (if d = decision_approved then (f, fe_asset_id e) # lb_approved y else lb_approved y)\<rparr>"
  have "system_step lp y ?y"
    using assms(1-4) m' by (intro system_step.decide [where f = f and k = k and orch = orch and now = now and r = r])
      (simp_all add: matches_def)
  with assms(1) have "system_reachable lp ?y" by (auto simp: matches_def intro: system_reachable.step)
  moreover have "\<exists>h \<in> set (hl_answered x'). approves h g a" if "(g, a) \<in> set (lb_approved ?y)" for g a
    using that assms(1,5,6) by (fastforce simp: matches_def split: if_splits)
  ultimately show ?thesis using m' by (intro exI [of _ ?y]) (fastforce simp: matches_def)
qed

lemma matches_start: "matches lp \<lparr>hl_app = \<lparr>ga_store = gateway_start mem_ops lp redis_url flag store_init, ga_orch = os,
    ga_mcp = (mcp_init w, []), ga_jobs = [], ga_hooks = []\<rparr>, hl_answered = []\<rparr>
  \<lparr>lb_gateway = gateway_start mem_ops lp redis_url flag store_init, lb_mcp = mcp_init w, lb_approved = []\<rparr>"
  by (simp add: matches_def system_reachable.init)

lemma http_lab_step_matches: "http_lab_step lp x x' \<Longrightarrow> matches lp x y \<Longrightarrow> \<exists>y'. matches lp x' y'"
proof (induction rule: http_lab_step.induct)
  case (request env now x dr k app rq)
  let ?x' = "\<lparr>hl_app = snd (gw_http env dr rq app), hl_answered = (rq, gs_faults (ga_store app)) # hl_answered x\<rparr>"
  have st: "ga_store app = ga_store (hl_app x)" "ga_mcp app = (fst (ga_mcp (hl_app x)), [k])" using request.hyps(6) by simp_all
  note client = request.hyps(3) [unfolded wire_client_lab]
  note fresh = request.hyps(4) [folded st(1)]
  from request.hyps(1) client fresh st(2) refl show ?case
  proof (cases rule: request_cases [of env now app dr "fst (ga_mcp (hl_app x))" k "snd (gw_http env dr rq app)" rq])
    case plain
    let ?x0 = "x\<lparr>hl_app := (snd (gw_http env dr rq app))\<lparr>ga_store := ga_store app\<rparr>\<rparr>"
    from plain(1) have "\<exists>y0. matches lp ?x0 y0"
    proof
      assume "fst (ga_mcp (snd (gw_http env dr rq app))) = fst (ga_mcp (hl_app x))"
      with request.prems st(1) show ?thesis by (auto simp: matches_def)
    next
      assume r: "fst (ga_mcp (snd (gw_http env dr rq app))) = snd (reset_state (fst (ga_mcp (hl_app x))))"
      show ?thesis
        by (rule matches_tools [OF request.prems mcp_step.reset]) (simp_all add: r st(1), simp_all add: reset_state_def)
    qed
    then obtain y0 where "matches lp ?x0 y0" ..
    then show ?thesis
      by (rule matches_gateway [where s' = "ga_store (snd (gw_http env dr rq app))"])
        (use plain(2) request.hyps(2) in \<open>auto\<close>)
  next
    case (decided f d e orch r job)
    then show ?thesis using request.prems request.hyps(5)
      by (intro matches_decision [of lp x y f e k orch now d r ?x' job]) (simp_all add: st, blast+)
  qed
next
  case (executor_status app x f a b)
  then show ?case by (intro matches_gateway) (auto intro: gw_step.exec_status)
next
  case (executor_narrates app x aid t f stp msg)
  then show ?case by (intro matches_gateway) (auto intro: gw_step.exec_narrate)
next
  case (stream app x b)
  then show ?case by (intro matches_gateway) (auto intro: gw_step.stream)
next
  case (tools app x m ks m')
  then show ?case by (intro matches_tools [of lp x y m']) auto
qed

lemma http_lab_matches: "http_lab_reachable lp x \<Longrightarrow> \<exists>y. matches lp x y"
proof (induction rule: http_lab_reachable.induct)
  case start
  show ?case by (rule exI) (rule matches_start)
next
  case (step x x')
  then obtain y where "matches lp x y" by blast
  with step.hyps(2) show ?case by (rule http_lab_step_matches)
qed

text \<open>
  No repair without an approving request. In the composed lab as it is reached over HTTP,
  whatever requests of anyone (decisions, resets, proposals, malformed bodies), tool calls with any
  tokens, writes of the executor and streams are interleaved, a fault leaves the simulator
  only if an earlier request was a \<open>POST /api/faults/{id}/decision\<close> whose body says \<open>approved\<close>, for
  a fault event that the gateway then knew and that is of that very asset. (The orchestrator's own
  clean-up, before an injection and on a reset, is the presenter's and no repair: the orchestrator
  is a parameter here, and what it clears is treated in \<open>Orchestrator\<close>.)
\<close>

theorem repairs_need_approval_request:
  assumes "http_lab_reachable lp x" and "http_lab_step lp x x'"
    and "sim_fault_of (ms_sim (fst (ga_mcp (hl_app x)))) a \<noteq> None"
    and "sim_fault_of (ms_sim (fst (ga_mcp (hl_app x')))) a = None"
  shows "\<exists>(rq, faults) \<in> set (hl_answered x). \<exists>f body e.
     rq_method rq = lit ''POST'' \<and> rq_path rq = [lit ''api'', lit ''faults'', f, lit ''decision'']
     \<and> rq_body rq = Some body \<and> jget body (lit ''decision'') JNull = Some (JStr (lit ''approved''))
     \<and> map_of faults f = Some e \<and> fe_asset_id e = a"
proof -
  obtain y where y: "matches lp x y" using http_lab_matches [OF assms(1)] by blast
  have "\<exists>f. (f, a) \<in> set (lb_approved y)"
    using assms(2)
  proof (cases rule: http_lab_step.cases)
    case (request env now dr k app rq)
    then have "ms_sim (fst (ga_mcp (hl_app x'))) = ms_sim (fst (ga_mcp (hl_app x)))"
      using request_sim [of env now app dr "fst (ga_mcp (hl_app x))" k rq] by (simp add: wire_client_lab)
    with assms(3,4) show ?thesis by simp
  next
    case (tools app m ks m')
    with y assms(3,4) show ?thesis
      by (intro repairs_were_approved [of lp y "y\<lparr>lb_mcp := m'\<rparr>"] system_step.tools) (simp_all add: matches_def)
  qed (use assms(3,4) in simp_all)
  with y show ?thesis by (fastforce simp: matches_def approves_def)
qed

section \<open>A run over HTTP\<close>

text \<open>A fault is reported, the operator approves, an execution starts and clears the fault.\<close>

definition wire_env :: "(GatewayStore, unit, lab) gw_env" where
  "wire_env = \<lparr>ge_ops = mem_ops, ge_subscribe = mem_subscribe, ge_pack = demo_pack, ge_environ = [],
     ge_net = quiet_net 200, ge_daemon = (\<lambda>_ _ _ _. None), ge_steps = (\<lambda>_. demo_orch_steps),
     ge_scenarios = (\<lambda>_. Inr (JObj [])), ge_ids = (\<lambda>_. ([], [])), ge_run_next = (\<lambda>u. (Inr (JObj []), u)),
     ge_run = (\<lambda>_ u. (Inr (JObj []), u)), ge_orch_reset = (\<lambda>u. (Inr (), u)), ge_mcp = wire_client demo_time,
     ge_float = (\<lambda>_. None), ge_static = (\<lambda>_. 404)\<rparr>"

definition wire_app :: "GatewayStore \<Rightarrow> lab \<Rightarrow> (GatewayStore, unit, lab) gw_app" where
  "wire_app s l = \<lparr>ga_store = s, ga_orch = (), ga_mcp = l, ga_jobs = [], ga_hooks = []\<rparr>"

lemma wire_env_fields: "mem_env wire_env" "ge_pack wire_env = demo_pack" "ge_mcp wire_env = wire_client demo_time"
  by (simp_all add: wire_env_def mem_env_def)

lemma wire_app_fields [simp]:
  "ga_store (wire_app s l) = s" "ga_mcp (wire_app s l) = l" "(wire_app s l)\<lparr>ga_mcp := l'\<rparr> = wire_app s l'"
  by (simp_all add: wire_app_def)

lemma wire_create: "snd (gw_http wire_env demo_draw create_request (wire_app demo_gateway l)) = wire_app demo_detected l"
  by (simp add: create_request_def http_eval with_body_def parse_create_fault_def writing_def wire_env_def wire_app_def
      demo_draw_def demo_detected_def demo_request_def case_prod_beta)

lemma wire_approve:
  "ga_mcp (snd (gw_http wire_env dr approve_request (wire_app demo_detected (mcp_init faulty_world, [lit ''tok''])))) =
     (lab_mcp_approved, [])"
proof -
  have dec: "Option.bind (rq_body approve_request) parse_decision = Some decision_approved"
    by (simp add: approve_request_def post_def parse_decision_def get_str_def ApprovalDecision_of_def)
  have e: "map_of (gs_faults demo_detected) (lit ''f1'') = Some lab_event" by (simp add: demo_detected_state lab_event_def)
  have ids: "map rs_id (orch_steps demo_orch_steps lab_event) = [lit ''drain'']"
    by (simp add: orch_steps_def demo_orch_steps_def)
  show ?thesis
    using dec by (simp add: http_eval approve_request_def with_body_def decision_route_def)
      (simp add: wire_env_def wire_app_def wire_client_lab decision_approved_eq [OF e] mint_for_lab ids
        lab_mcp_approved_def approved_state_def)
qed

lemma http_lab_run:
  "\<exists>x :: unit http_lab. http_lab_reachable demo_pack x \<and> fst (ga_mcp (hl_app x)) = lab_executing
     \<and> hl_answered x = [(approve_request, gs_faults demo_detected), (create_request, gs_faults demo_gateway)]"
proof -
  let ?l = "(mcp_init faulty_world, [lit ''tok''])"
  let ?x1 = "\<lparr>hl_app = wire_app demo_detected ?l, hl_answered = [(create_request, gs_faults demo_gateway)]\<rparr>"
  let ?y = "snd (gw_http wire_env (demo_draw\<lparr>dr_id := lit ''f2''\<rparr>) approve_request (wire_app demo_detected ?l))"
  let ?x2 = "\<lparr>hl_app = ?y, hl_answered = (approve_request, gs_faults demo_detected) # hl_answered ?x1\<rparr>"
  have fresh: "lit ''tok'' \<notin> set (ms_issued (mcp_init faulty_world))" by (simp add: mcp_init_def)
  have "http_lab_reachable demo_pack \<lparr>hl_app = wire_app demo_gateway (mcp_init faulty_world, []), hl_answered = []\<rparr>"
    unfolding demo_gateway_def wire_app_def by (rule http_lab_reachable.start)
  moreover have "http_lab_step demo_pack \<lparr>hl_app = wire_app demo_gateway (mcp_init faulty_world, []), hl_answered = []\<rparr> ?x1"
    using http_lab_step.request [of wire_env demo_pack demo_time "\<lparr>hl_app = wire_app demo_gateway (mcp_init faulty_world, []), hl_answered = []\<rparr>"
        demo_draw "lit ''tok''" "wire_app demo_gateway ?l" create_request] fresh
    by (simp add: wire_env_fields wire_create) (simp add: demo_gateway_def start_faults)
  ultimately have x1: "http_lab_reachable demo_pack ?x1" by (rule http_lab_reachable.step)
  have "http_lab_step demo_pack ?x1 ?x2"
    using http_lab_step.request [of wire_env demo_pack demo_time ?x1 "demo_draw\<lparr>dr_id := lit ''f2''\<rparr>" "lit ''tok''"
        "wire_app demo_detected ?l" approve_request] fresh
    by (simp add: wire_env_fields) (simp add: demo_detected_state)
  with x1 have x2: "http_lab_reachable demo_pack ?x2" by (rule http_lab_reachable.step)
  have "http_lab_step demo_pack ?x2 (?x2\<lparr>hl_app := ?y\<lparr>ga_mcp := (lab_executing, [])\<rparr>\<rparr>)"
    using lab_begins by (intro http_lab_step.tools [OF _ wire_approve]) simp_all
  from http_lab_reachable.step [OF x2 this] show ?thesis by fastforce
qed

theorem repairs_need_approval_request_witness:
  "\<exists>x x' :: unit http_lab. http_lab_reachable demo_pack x \<and> http_lab_step demo_pack x x'
     \<and> sim_fault_of (ms_sim (fst (ga_mcp (hl_app x)))) (lit ''gpu-1'') \<noteq> None
     \<and> sim_fault_of (ms_sim (fst (ga_mcp (hl_app x')))) (lit ''gpu-1'') = None
     \<and> (\<exists>h \<in> set (hl_answered x). rq_path (fst h) = [lit ''api'', lit ''faults'', lit ''f1'', lit ''decision''])"
proof -
  obtain x :: "unit http_lab" where x: "http_lab_reachable demo_pack x" and m: "fst (ga_mcp (hl_app x)) = lab_executing"
    and h: "hl_answered x = [(approve_request, gs_faults demo_detected), (create_request, gs_faults demo_gateway)]"
    using http_lab_run by blast
  obtain m' where m': "mcp_step False lab_executing m'" "ms_issued m' = ms_issued lab_executing"
      "ms_registered m' = ms_registered lab_executing" "sim_fault_of (ms_sim m') (lit ''gpu-1'') = None"
    using lab_clears by blast
  have mcp: "ga_mcp (hl_app x) = (lab_executing, snd (ga_mcp (hl_app x)))" using m by (metis prod.collapse)
  let ?x' = "x\<lparr>hl_app := (hl_app x)\<lparr>ga_mcp := (m', snd (ga_mcp (hl_app x)))\<rparr>\<rparr>"
  have step: "http_lab_step demo_pack x ?x'" by (rule http_lab_step.tools [OF refl mcp m'(1-3)])
  have before: "sim_fault_of (ms_sim (fst (ga_mcp (hl_app x)))) (lit ''gpu-1'') \<noteq> None"
    by (simp add: m lab_executing_fault)
  have after: "sim_fault_of (ms_sim (fst (ga_mcp (hl_app ?x')))) (lit ''gpu-1'') = None" using m'(4) by simp
  from repairs_need_approval_request [OF x step before after] obtain rq fs f where
    "(rq, fs) \<in> set (hl_answered x)" "rq_path rq = [lit ''api'', lit ''faults'', f, lit ''decision'']" by blast
  then have "rq_path approve_request = [lit ''api'', lit ''faults'', f, lit ''decision'']"
    by (auto simp: h create_request_def post_def)
  then have "\<exists>h \<in> set (hl_answered x). rq_path (fst h) = [lit ''api'', lit ''faults'', lit ''f1'', lit ''decision'']"
    by (simp add: h approve_request_def post_def)
  with x step before after show ?thesis by blast
qed

end
