(* ===== verification/Sse_Stream.thy ===== *)
theory Sse_Stream
  imports Gw_Properties
begin

text \<open>
  The event stream, \<open>GET /api/events\<close> in \<open>services/gateway/router.py\<close> over the broker of
  \<open>services/gateway/store.py\<close>: a connection subscribes, then forwards what its queue holds and
  sends a keepalive when the queue stays empty, until the client is gone.
\<close>

section \<open>Histories of the broker\<close>

datatype sse_op = Subscribe | Unsubscribe nat | Publish pystr json | Read nat

fun sse_step :: "sse_broker \<Rightarrow> sse_op \<Rightarrow> sse_broker" where
  "sse_step b Subscribe = snd (sse_subscribe b)"
| "sse_step b (Unsubscribe q) = sse_unsubscribe q b"
| "sse_step b (Publish t d) = sse_publish t d b"
| "sse_step b (Read q) = snd (sse_read q b)"

text \<open>What is published, and what the subscriber \<open>q\<close> reads.\<close>

fun published :: "sse_op list \<Rightarrow> json list" where
  "published [] = []"
| "published (Publish t d # ops) = sse_payload t d # published ops"
| "published (_ # ops) = published ops"

fun delivered :: "nat \<Rightarrow> sse_broker \<Rightarrow> sse_op list \<Rightarrow> json list" where
  "delivered q b [] = []"
| "delivered q b (op # ops) =
     (case op of
        Read q' \<Rightarrow> (if q' = q then (case fst (sse_read q b) of None \<Rightarrow> [] | Some p \<Rightarrow> [p]) else [])
      | _ \<Rightarrow> []) @ delivered q (sse_step b op) ops"

definition broker_ok :: "sse_broker \<Rightarrow> bool" where
  "broker_ok b \<longleftrightarrow> wf_dict (br_queues b) \<and> (\<forall>q \<in> set (map fst (br_queues b)). q < br_next b)"

lemma map_of_append_new: "k \<noteq> q \<Longrightarrow> map_of (d @ [(k, v)]) q = map_of d q"
  by (induction d) auto

lemma map_of_filter_key: "k \<noteq> q \<Longrightarrow> map_of (filter (\<lambda>x. fst x \<noteq> k) d) q = map_of d q"
  by (induction d) auto

lemma fst_map_values: "map fst (map (\<lambda>(q, items). (q, f items)) d) = map fst d"
  by (induction d) auto

lemma broker_ok_step: "broker_ok b \<Longrightarrow> broker_ok (sse_step b op)"
proof (cases op)
  case Subscribe
  moreover assume "broker_ok b"
  ultimately show ?thesis by (auto simp: broker_ok_def sse_subscribe_def less_Suc_eq)
next
  case (Unsubscribe q)
  moreover assume "broker_ok b"
  ultimately show ?thesis
    by (auto simp: broker_ok_def sse_unsubscribe_def distinct_map_filter)
next
  case (Publish t d)
  moreover assume "broker_ok b"
  ultimately show ?thesis
    by (simp add: broker_ok_def sse_publish_def sse_fanout_def fst_map_values del: map_map)
next
  case (Read q)
  moreover assume "broker_ok b"
  ultimately show ?thesis
    by (simp add: broker_ok_def sse_read_def keys_dict_set_old del: set_map split: option.split list.split)
qed

lemma subscribe_other:
  "broker_ok b \<Longrightarrow> map_of (br_queues b) q = Some items \<Longrightarrow> map_of (br_queues (snd (sse_subscribe b))) q = Some items"
  by (auto simp: sse_subscribe_def map_add_def split: option.split)

section \<open>Nothing lost, nothing twice\<close>

text \<open>One operation: what the subscriber reads by it, and what stays in its queue.\<close>

definition read_by :: "nat \<Rightarrow> sse_broker \<Rightarrow> sse_op \<Rightarrow> json list" where
  "read_by q b op = (case op of
     Read q' \<Rightarrow> if q' = q then (case fst (sse_read q b) of None \<Rightarrow> [] | Some p \<Rightarrow> [p]) else []
   | _ \<Rightarrow> [])"

lemma sse_step_no_loss:
  assumes "broker_ok b" "map_of (br_queues b) q = Some pending" "op \<noteq> Unsubscribe q"
  shows "\<exists>pending'. map_of (br_queues (sse_step b op)) q = Some pending'
     \<and> read_by q b op @ pending' = pending @ published [op]"
proof (cases op)
  case Subscribe
  with subscribe_other [OF assms(1,2)] show ?thesis by (simp add: read_by_def)
next
  case (Unsubscribe q')
  with assms(2,3) show ?thesis by (simp add: read_by_def sse_unsubscribe_def map_of_filter_key)
next
  case (Publish t d)
  with assms(2) show ?thesis by (simp add: read_by_def sse_publish_def sse_fanout_def map_of_map_value)
next
  case (Read q')
  show ?thesis
  proof (cases "q' = q")
    case True
    with Read assms(2) show ?thesis
      by (cases pending) (simp_all add: read_by_def sse_read_def dict_simps)
  next
    case False
    with Read assms(2) show ?thesis
      by (auto simp: read_by_def sse_read_def dict_simps split: option.split list.split)
  qed
qed

text \<open>
  A subscriber gets every event, once and in order. From any moment on, as long as it stays
  subscribed, what a subscriber has read plus what waits in its queue is what waited at the start
  followed by everything published since, however other clients come, go and read.
\<close>
theorem sse_no_loss:
  assumes "broker_ok b" and "map_of (br_queues b) q = Some pending" and "Unsubscribe q \<notin> set ops"
  shows "\<exists>rest. map_of (br_queues (foldl sse_step b ops)) q = Some rest
     \<and> delivered q b ops @ rest = pending @ published ops"
  using assms
proof (induction ops arbitrary: b pending)
  case Nil
  then show ?case by simp
next
  case (Cons op ops)
  obtain pending' where p: "map_of (br_queues (sse_step b op)) q = Some pending'"
    "read_by q b op @ pending' = pending @ published [op]"
    using sse_step_no_loss [OF Cons.prems(1,2), of op] Cons.prems(3) by auto
  from Cons.IH [OF broker_ok_step [OF Cons.prems(1)] p(1)] Cons.prems(3) obtain rest where
    rest: "map_of (br_queues (foldl sse_step (sse_step b op) ops)) q = Some rest"
    "delivered q (sse_step b op) ops @ rest = pending' @ published ops" by auto
  have pub: "published (op # ops) = published [op] @ published ops" by (cases op) simp_all
  have "delivered q b (op # ops) @ rest = read_by q b op @ pending' @ published ops"
    by (simp only: delivered.simps read_by_def append_assoc rest(2))
  also have "\<dots> = pending @ published (op # ops)"
    unfolding pub append_assoc [symmetric] p(2) by simp
  finally show ?case using rest(1) by auto
qed

theorem sse_no_loss_witness:
  "\<exists>rest. map_of (br_queues (foldl sse_step (snd (sse_subscribe broker_init))
       [Publish (lit ''a'') JNull, Read 0, Subscribe, Publish (lit ''b'') JNull])) 0 = Some rest
     \<and> delivered 0 (snd (sse_subscribe broker_init)) [Publish (lit ''a'') JNull, Read 0, Subscribe, Publish (lit ''b'') JNull]
         @ rest = [sse_payload (lit ''a'') JNull, sse_payload (lit ''b'') JNull]"
proof -
  have "broker_ok (snd (sse_subscribe broker_init))" "map_of (br_queues (snd (sse_subscribe broker_init))) 0 = Some []"
    by (simp_all add: broker_ok_def sse_subscribe_def broker_init_def)
  from sse_no_loss [OF this, of "[Publish (lit ''a'') JNull, Read 0, Subscribe, Publish (lit ''b'') JNull]"]
  show ?thesis by simp
qed

section \<open>The generator\<close>

text \<open>
  One round of \<open>generate()\<close>: stop when the client is gone, else send the next payload
  (\<open>dumps\<close> is its JSON text) or a keepalive when none arrived within 25 seconds (\<open>waiting\<close> is
  what arrived meanwhile).
\<close>

definition stream_round ::
  "(json \<Rightarrow> pystr) \<Rightarrow> bool \<Rightarrow> (sse_broker \<Rightarrow> sse_broker) \<Rightarrow> nat \<Rightarrow> sse_broker \<Rightarrow> pystr option \<times> sse_broker" where
  "stream_round dumps disconnected waiting q b =
     (if disconnected then (None, sse_unsubscribe q b)
      else (case sse_read q b of
        (Some payload, b') \<Rightarrow> (Some (lit ''data: '' @ dumps payload @ [10, 10]), b')
      | (None, b') \<Rightarrow>
          (case sse_read q (waiting b') of
             (Some payload, b'') \<Rightarrow> (Some (lit ''data: '' @ dumps payload @ [10, 10]), b'')
           | (None, b'') \<Rightarrow> (Some (lit '': keepalive'' @ [10, 10]), b''))))"

lemma stream_round_disconnect:
  "broker_ok b \<Longrightarrow> stream_round dumps True w q b = (None, b') \<Longrightarrow> map_of (br_queues b') q = None"
  by (auto simp: stream_round_def sse_unsubscribe_def map_of_eq_None_iff)

end
