(* ===== verification/Redis_Replicas.thy ===== *)
theory Redis_Replicas
  imports Sse_Stream
begin

text \<open>
  Several gateway replicas on one Redis, \<open>RedisSSEBroker\<close> in
  \<open>services/gateway/redis_store.py\<close>: \<open>publish()\<close> writes to a channel, a listener task per process
  fans what arrives on the channel out to the queues of that process. A \<open>redis_broker\<close> is the
  broker of one process, a \<open>cluster\<close> one per replica, and an execution is a list of
  \<open>cluster_op\<close>. What Redis does (when it registers a subscription, what it sends on one) is not
  computed but read off the execution, and \<open>feed_step\<close> says which executions its documentation
  allows: a connection gets what is published after its subscription was registered, in order.
\<close>

section \<open>The broker of one replica\<close>

text \<open>
  \<open>_listener\<close>: \<open>None\<close>, a running task that has not come back from \<open>pubsub.subscribe\<close>, one in its
  receive loop, or one that ended with an exception.
\<close>

datatype listener = NoListener | Connecting | Listening | Crashed

record redis_broker =
  rb_base :: sse_broker
  rb_listener :: listener
  rb_ready :: bool

datatype pubsub_error = ListenerError

definition redis_broker_init :: redis_broker where
  "redis_broker_init = \<lparr>rb_base = broker_init, rb_listener = NoListener, rb_ready = False\<rparr>"

definition start_listener :: "redis_broker \<Rightarrow> redis_broker" where
  "start_listener b =
     (if rb_listener b = NoListener \<or> rb_listener b = Crashed
      then b\<lparr>rb_listener := Connecting, rb_ready := False\<rparr> else b)"

definition redis_subscribe :: "redis_broker \<Rightarrow> nat \<times> redis_broker" where
  "redis_subscribe b =
     (let b1 = start_listener b; (q, base) = sse_subscribe (rb_base b1)
      in (q, b1\<lparr>rb_base := base\<rparr>))"

text \<open>Whether \<open>wait_ready()\<close> returns now.\<close>

definition redis_wait_ready :: "redis_broker \<Rightarrow> bool" where
  "redis_wait_ready b = rb_ready b"

text \<open>\<open>_listen\<close>: back from \<open>pubsub.subscribe\<close>, one message of the loop, and an exception.\<close>

definition listen_subscribed :: "redis_broker \<Rightarrow> redis_broker" where
  "listen_subscribed b =
     (if rb_listener b = Connecting then b\<lparr>rb_listener := Listening, rb_ready := True\<rparr> else b)"

definition listen_failed :: "redis_broker \<Rightarrow> redis_broker" where
  "listen_failed b =
     (if rb_listener b = Connecting \<or> rb_listener b = Listening then b\<lparr>rb_listener := Crashed\<rparr> else b)"

definition is_event :: "json dict \<Rightarrow> bool" where
  "is_event m \<longleftrightarrow> map_of m (lit ''type'') = Some (JStr (lit ''message''))"

definition listen_message :: "json dict \<Rightarrow> redis_broker \<Rightarrow> redis_broker" where
  "listen_message m b =
     (if rb_listener b \<noteq> Listening then b
      else if is_event m then
        (case map_of m (lit ''data'') of
           Some payload \<Rightarrow> b\<lparr>rb_base := sse_fanout payload (rb_base b)\<rparr>
         | None \<Rightarrow> listen_failed b)
      else b)"

text \<open>
  \<open>aclose\<close>: cancelling a task that already failed changes nothing, and awaiting it raises what it
  failed with. \<open>close_raises\<close> is the \<open>pubsub.aclose()\<close> of the task's \<open>finally\<close>.
\<close>

definition redis_aclose :: "bool \<Rightarrow> redis_broker \<Rightarrow> (pubsub_error + unit) \<times> redis_broker" where
  "redis_aclose close_raises b =
     (case rb_listener b of
        NoListener \<Rightarrow> (Inr (), b)
      | Crashed \<Rightarrow> (Inl ListenerError, b)
      | Connecting \<Rightarrow> (Inr (), b\<lparr>rb_listener := NoListener\<rparr>)
      | Listening \<Rightarrow>
          if close_raises then (Inl ListenerError, b\<lparr>rb_listener := Crashed\<rparr>)
          else (Inr (), b\<lparr>rb_listener := NoListener\<rparr>))"

section \<open>Executions of a cluster\<close>

datatype replica_op =
    ROpen | RLeave nat | RRead nat
  | RSubscribed | RMessage "json dict" | RFailed | RClose bool

datatype cluster_op =
    At nat replica_op
  | PublishFrom nat pystr json
  | Registered nat

fun replica_step :: "redis_broker \<Rightarrow> replica_op \<Rightarrow> redis_broker" where
  "replica_step b ROpen = snd (redis_subscribe b)"
| "replica_step b (RLeave q) = b\<lparr>rb_base := sse_unsubscribe q (rb_base b)\<rparr>"
| "replica_step b (RRead q) = b\<lparr>rb_base := snd (sse_read q (rb_base b))\<rparr>"
| "replica_step b RSubscribed = listen_subscribed b"
| "replica_step b (RMessage m) = listen_message m b"
| "replica_step b RFailed = listen_failed b"
| "replica_step b (RClose r) = snd (redis_aclose r b)"

type_synonym cluster = "nat \<Rightarrow> redis_broker"

text \<open>\<open>publish()\<close> talks to Redis only: no queue of the publishing process changes by it.\<close>

fun cluster_step :: "cluster \<Rightarrow> cluster_op \<Rightarrow> cluster" where
  "cluster_step c (At i op) = c(i := replica_step (c i) op)"
| "cluster_step c (PublishFrom i t d) = c"
| "cluster_step c (Registered i) = c"

text \<open>
  The feed of replica \<open>i\<close>: nothing while its connection is not registered, else the payloads
  published since that it has not been sent. \<open>None\<close>: Redis does not behave so.
\<close>

type_synonym feed = "json list option"

definition feed_message :: "json dict \<Rightarrow> redis_broker \<Rightarrow> feed \<Rightarrow> feed option" where
  "feed_message m b fl =
     (if rb_listener b \<noteq> Listening then None
      else if is_event m then
        (case fl of
           Some (p # rest) \<Rightarrow> if map_of m (lit ''data'') = Some p then Some (Some rest) else None
         | _ \<Rightarrow> None)
      else Some fl)"

fun feed_step :: "nat \<Rightarrow> redis_broker \<Rightarrow> feed \<Rightarrow> cluster_op \<Rightarrow> feed option" where
  "feed_step i b fl (Registered j) =
     (if j \<noteq> i then Some fl
      else if fl = None \<and> (rb_listener b = Connecting \<or> rb_listener b = Listening) then Some (Some [])
      else None)"
| "feed_step i b fl (PublishFrom j t d) = Some (map_option (\<lambda>l. l @ [sse_payload t d]) fl)"
| "feed_step i b fl (At j (RMessage m)) = (if j = i then feed_message m b fl else Some fl)"
| "feed_step i b fl (At j RFailed) = Some (if j = i then None else fl)"
| "feed_step i b fl (At j (RClose r)) = Some (if j = i then None else fl)"
| "feed_step i b fl (At j _) = Some fl"

fun redis_feed :: "nat \<Rightarrow> cluster \<Rightarrow> feed \<Rightarrow> cluster_op list \<Rightarrow> feed option" where
  "redis_feed i c fl [] = Some fl"
| "redis_feed i c fl (op # ops) =
     Option.bind (feed_step i (c i) fl op) (\<lambda>fl'. redis_feed i (cluster_step c op) fl' ops)"

definition in_flight :: "feed \<Rightarrow> json list" where
  "in_flight fl = (case fl of None \<Rightarrow> [] | Some l \<Rightarrow> l)"

lemma in_flight_simps [simp]: "in_flight None = []" "in_flight (Some l) = l"
  by (simp_all add: in_flight_def)

text \<open>What is published by any replica, from the registration of replica \<open>i\<close> on; and what
  subscriber \<open>q\<close> of replica \<open>i\<close> reads.\<close>

fun heard :: "nat \<Rightarrow> bool \<Rightarrow> cluster_op list \<Rightarrow> json list" where
  "heard i held [] = []"
| "heard i held (PublishFrom j t d # ops) = (if held then [sse_payload t d] else []) @ heard i held ops"
| "heard i held (Registered j # ops) = heard i (held \<or> j = i) ops"
| "heard i held (At j op # ops) = heard i held ops"

definition read_at :: "nat \<Rightarrow> nat \<Rightarrow> cluster \<Rightarrow> cluster_op \<Rightarrow> json list" where
  "read_at i q c op = (case op of
     At j (RRead q') \<Rightarrow> if j = i then read_by q (rb_base (c i)) (Read q') else []
   | _ \<Rightarrow> [])"

fun received :: "nat \<Rightarrow> nat \<Rightarrow> cluster \<Rightarrow> cluster_op list \<Rightarrow> json list" where
  "received i q c [] = []"
| "received i q c (op # ops) = read_at i q c op @ received i q (cluster_step c op) ops"

text \<open>An operation that takes the subscriber, or its listener, away.\<close>

definition breaks :: "nat \<Rightarrow> nat \<Rightarrow> cluster_op \<Rightarrow> bool" where
  "breaks i q op = (case op of
     At j (RLeave q') \<Rightarrow> j = i \<and> q' = q
   | At j RFailed \<Rightarrow> j = i
   | At j (RClose r) \<Rightarrow> j = i
   | _ \<Rightarrow> False)"

section \<open>One step\<close>

abbreviation queue_of :: "redis_broker \<Rightarrow> nat \<Rightarrow> json list option" where
  "queue_of b q \<equiv> map_of (br_queues (rb_base b)) q"

lemma start_listener_base [simp]: "rb_base (start_listener b) = rb_base b"
  by (simp add: start_listener_def)

lemma listener_base [simp]:
  "rb_base (listen_subscribed b) = rb_base b" "rb_base (listen_failed b) = rb_base b"
  "rb_base (snd (redis_aclose r b)) = rb_base b"
  by (simp_all add: listen_subscribed_def listen_failed_def redis_aclose_def split: listener.split)

lemma redis_subscribe_base [simp]: "rb_base (snd (redis_subscribe b)) = snd (sse_subscribe (rb_base b))"
  by (simp add: redis_subscribe_def Let_def split: prod.splits)

lemma fanout_queue: "map_of (br_queues (sse_fanout p b)) q = map_option (\<lambda>items. items @ [p]) (map_of (br_queues b) q)"
  by (simp add: sse_fanout_def map_of_map_value)

lemma broker_ok_fanout: "broker_ok b \<Longrightarrow> broker_ok (sse_fanout p b)"
  by (simp add: broker_ok_def sse_fanout_def fst_map_values del: map_map)

lemma broker_ok_replica: "broker_ok (rb_base b) \<Longrightarrow> broker_ok (rb_base (replica_step b op))"
  using broker_ok_step [of "rb_base b" Subscribe] broker_ok_step [of "rb_base b" "Unsubscribe q" for q]
    broker_ok_step [of "rb_base b" "Read q" for q]
  by (cases op) (auto simp: listen_message_def broker_ok_fanout split: option.split)

lemma broker_ok_cluster: "broker_ok (rb_base (c i)) \<Longrightarrow> broker_ok (rb_base (cluster_step c op i))"
  by (cases op) (auto simp: broker_ok_replica)

text \<open>A message the feed allows goes from the wire into every queue.\<close>

lemma message_step:
  assumes "feed_message m b fl = Some fl'" "queue_of b q = Some pending"
  shows "\<exists>pending'. queue_of (listen_message m b) q = Some pending'
     \<and> pending' @ in_flight fl' = pending @ in_flight fl"
  using assms
  by (auto simp: feed_message_def listen_message_def fanout_queue split: if_splits option.splits list.splits)

text \<open>The operations of the browsers of the replica are those of its base broker.\<close>

lemma browser_step:
  assumes "broker_ok (rb_base b)" "queue_of b q = Some pending" "op \<noteq> Unsubscribe q"
    and "rb_base b' = sse_step (rb_base b) op" "published [op] = []"
  shows "\<exists>pending'. queue_of b' q = Some pending' \<and> read_by q (rb_base b) op @ pending' = pending"
  using sse_step_no_loss [OF assms(1-3)] assms(4,5) by simp


lemma cluster_step_no_loss:
  assumes "broker_ok (rb_base (c i))" "queue_of (c i) q = Some pending"
    and "feed_step i (c i) fl op = Some fl'" "\<not> breaks i q op"
  shows "\<exists>pending'. queue_of (cluster_step c op i) q = Some pending'
     \<and> read_at i q c op @ pending' @ in_flight fl' = pending @ in_flight fl @ heard i (fl \<noteq> None) [op]"
proof (cases op)
  case (PublishFrom j t d)
  with assms(2,3) show ?thesis by (cases fl) (auto simp: read_at_def)
next
  case (Registered j)
  with assms(2,3) show ?thesis by (auto simp: read_at_def split: if_splits)
next
  case (At j rop)
  show ?thesis
  proof (cases "j = i")
    case False
    with At assms(2,3) show ?thesis by (cases rop) (auto simp: read_at_def)
  next
    case True
    show ?thesis
    proof (cases rop)
      case ROpen
      then show ?thesis
        using browser_step [OF assms(1,2), of Subscribe "replica_step (c i) ROpen"] assms(3) At True
        by (auto simp: read_at_def read_by_def)
    next
      case (RLeave q')
      then show ?thesis
        using browser_step [OF assms(1,2), of "Unsubscribe q'" "replica_step (c i) (RLeave q')"] assms(3,4) At True
        by (auto simp: read_at_def read_by_def breaks_def)
    next
      case (RRead q')
      then show ?thesis
        using browser_step [OF assms(1,2), of "Read q'" "replica_step (c i) (RRead q')"] assms(3) At True
        by (auto simp: read_at_def)
    next
      case (RMessage m)
      then show ?thesis using message_step [of m "c i" fl fl'] assms(2,3) At True by (auto simp: read_at_def)
    qed (use At True assms(2-4) in \<open>auto simp: read_at_def breaks_def\<close>)
  qed
qed

lemma feed_held:
  assumes "feed_step i b fl op = Some fl'" "\<not> breaks i q op"
  shows "fl' \<noteq> None \<longleftrightarrow> fl \<noteq> None \<or> op = Registered i"
proof (cases op)
  case (At j rop)
  with assms show ?thesis
    by (cases rop) (auto simp: breaks_def feed_message_def split: if_splits option.splits list.splits)
qed (use assms in \<open>auto split: if_splits\<close>)

lemma heard_Cons: "heard i held (op # ops) = heard i held [op] @ heard i (held \<or> op = Registered i) ops"
  by (cases op) auto

section \<open>Across replicas\<close>

lemma replicas_no_loss:
  assumes "broker_ok (rb_base (c i))" "queue_of (c i) q = Some pending"
    and "redis_feed i c fl ops = Some fl'" "\<forall>op \<in> set ops. \<not> breaks i q op"
  shows "\<exists>rest. queue_of (foldl cluster_step c ops i) q = Some rest
     \<and> received i q c ops @ rest @ in_flight fl' = pending @ in_flight fl @ heard i (fl \<noteq> None) ops"
  using assms
proof (induction ops arbitrary: c pending fl)
  case Nil
  then show ?case by simp
next
  case (Cons op ops)
  from Cons.prems(3) obtain fl1 where f: "feed_step i (c i) fl op = Some fl1"
    and fs: "redis_feed i (cluster_step c op) fl1 ops = Some fl'"
    by (auto simp: bind_eq_Some_conv)
  have nb: "\<not> breaks i q op" using Cons.prems(4) by simp
  obtain pending' where p: "queue_of (cluster_step c op i) q = Some pending'"
    "read_at i q c op @ pending' @ in_flight fl1 = pending @ in_flight fl @ heard i (fl \<noteq> None) [op]"
    using cluster_step_no_loss [where c = c and i = i, OF Cons.prems(1,2) f nb] by blast
  from Cons.IH [where c = "cluster_step c op", OF broker_ok_cluster [where c = c and i = i, OF Cons.prems(1)] p(1) fs] Cons.prems(4) obtain rest where
    rest: "queue_of (foldl cluster_step (cluster_step c op) ops i) q = Some rest"
    "received i q (cluster_step c op) ops @ rest @ in_flight fl' =
       pending' @ in_flight fl1 @ heard i (fl1 \<noteq> None) ops" by auto
  have h: "heard i (fl \<noteq> None) (op # ops) = heard i (fl \<noteq> None) [op] @ heard i (fl1 \<noteq> None) ops"
    unfolding feed_held [OF f nb] by (rule heard_Cons)
  have "received i q c (op # ops) @ rest @ in_flight fl'
      = (read_at i q c op @ pending' @ in_flight fl1) @ heard i (fl1 \<noteq> None) ops"
    by (simp add: rest(2))
  also have "\<dots> = pending @ in_flight fl @ heard i (fl \<noteq> None) (op # ops)"
    unfolding p(2) h by simp
  finally show ?case using rest(1) by auto
qed

text \<open>Published by any replica.\<close>

fun published_anywhere :: "cluster_op list \<Rightarrow> json list" where
  "published_anywhere [] = []"
| "published_anywhere (PublishFrom j t d # ops) = sse_payload t d # published_anywhere ops"
| "published_anywhere (_ # ops) = published_anywhere ops"

lemma heard_held: "heard i True ops = published_anywhere ops"
  by (induction ops rule: published_anywhere.induct) auto

lemma heard_unheld: "heard i False ops = published_anywhere (dropWhile (\<lambda>op. op \<noteq> Registered i) ops)"
proof (induction ops)
  case (Cons op ops)
  then show ?case by (cases op) (auto simp: heard_held)
qed simp

definition cluster_init :: cluster where
  "cluster_init i = redis_broker_init"

lemma cluster_ok: "broker_ok (rb_base (foldl cluster_step cluster_init ops i))"
proof (induction ops rule: rev_induct)
  case Nil
  then show ?case by (simp add: cluster_init_def redis_broker_init_def broker_init_def broker_ok_def)
qed (simp add: broker_ok_cluster)

lemma subscribe_new:
  "broker_ok (rb_base b) \<Longrightarrow> queue_of (snd (redis_subscribe b)) (fst (redis_subscribe b)) = Some []"
proof -
  assume "broker_ok (rb_base b)"
  then have "br_next (rb_base b) \<notin> fst ` set (br_queues (rb_base b))" by (auto simp: broker_ok_def)
  then have "queue_of b (br_next (rb_base b)) = None" by (simp add: map_of_eq_None_iff)
  then show ?thesis by (simp add: redis_subscribe_def sse_subscribe_def Let_def map_add_def)
qed

text \<open>
  C31: On any replica, a dashboard stream gets what any replica publishes, once and in order, but
  only from the moment Redis has registered the replica's listener. After \<open>history\<close> a browser opens
  the stream on replica \<open>i\<close> and becomes subscriber \<open>q\<close>. As long as it stays and the listener
  lives, what it has read, what waits in its queue and what Redis has not sent yet are together
  what Redis owed the replica already, followed by everything published since, if the replica was
  registered; and if this stream is the one that started the listener, everything published since
  the registration, without what was published between the opening and it (\<open>events_stream\<close> does
  not call \<open>wait_ready\<close>).
\<close>
theorem replicas_share_events:
  assumes "c0 = foldl cluster_step cluster_init history" and "q = fst (redis_subscribe (c0 i))"
    and "redis_feed i (cluster_step c0 (At i ROpen)) fl ops = Some fl'"
    and "\<forall>op \<in> set ops. \<not> breaks i q op"
  shows "\<exists>rest. queue_of (foldl cluster_step c0 (At i ROpen # ops) i) q = Some rest
     \<and> received i q (cluster_step c0 (At i ROpen)) ops @ rest @ in_flight fl' =
         (case fl of
            Some owed \<Rightarrow> owed @ published_anywhere ops
          | None \<Rightarrow> published_anywhere (dropWhile (\<lambda>op. op \<noteq> Registered i) ops))"
proof -
  let ?c = "cluster_step c0 (At i ROpen)"
  have ok: "broker_ok (rb_base (c0 i))" unfolding assms(1) by (rule cluster_ok)
  have "queue_of (?c i) q = Some []" using subscribe_new [OF ok] assms(2) by simp
  from replicas_no_loss [where c = ?c and i = i, OF broker_ok_cluster [where c = c0 and i = i, OF ok] this assms(3,4)]
  show ?thesis by (auto simp: heard_held heard_unheld split: option.split)
qed

text \<open>
  Two replicas. The browser opens its stream on replica 0, replica 1 publishes \<open>a\<close> before Redis
  has registered replica 0, and \<open>b\<close> after: the browser reads \<open>b\<close> only.
\<close>

definition demo_ops :: "cluster_op list" where
  "demo_ops =
     [PublishFrom 1 (lit ''a'') JNull, At 0 RSubscribed, Registered 0,
      At 0 (RMessage [(lit ''type'', JStr (lit ''subscribe''))]),
      PublishFrom 1 (lit ''b'') JNull,
      At 0 (RMessage [(lit ''type'', JStr (lit ''message'')), (lit ''data'', sse_payload (lit ''b'') JNull)]),
      At 0 (RRead 0)]"

theorem replicas_share_events_witness:
  "\<exists>rest. queue_of (foldl cluster_step cluster_init (At 0 ROpen # demo_ops) 0) 0 = Some rest
     \<and> received 0 0 (cluster_step cluster_init (At 0 ROpen)) demo_ops @ rest = [sse_payload (lit ''b'') JNull]"
proof -
  have q: "0 = fst (redis_subscribe (cluster_init 0))"
    by (simp add: cluster_init_def redis_broker_init_def broker_init_def redis_subscribe_def sse_subscribe_def
        start_listener_def)
  have feed: "redis_feed 0 (cluster_step cluster_init (At 0 ROpen)) None demo_ops = Some (Some [])"
    by (simp add: demo_ops_def cluster_init_def redis_broker_init_def broker_init_def redis_subscribe_def
        sse_subscribe_def start_listener_def listen_subscribed_def listen_message_def feed_message_def is_event_def Let_def)
  have stays: "\<forall>op \<in> set demo_ops. \<not> breaks 0 0 op" by (simp add: demo_ops_def breaks_def)
  from replicas_share_events [of cluster_init "[]" 0 0, OF _ q feed stays]
  show ?thesis by (simp add: demo_ops_def)
qed

section \<open>A listener that failed\<close>

text \<open>
  Nothing restarts a listener but the next \<open>subscribe()\<close> of its process: until a further browser
  opens a stream there, the open streams of that replica get keepalives only, whatever is published.
\<close>

lemma dead_step:
  assumes "rb_listener (c i) = Crashed \<or> rb_listener (c i) = NoListener" "broker_ok (rb_base (c i))"
    and "queue_of (c i) q = Some pending" "\<not> breaks i q op" "op \<noteq> At i ROpen"
  shows "(rb_listener (cluster_step c op i) = Crashed \<or> rb_listener (cluster_step c op i) = NoListener)
     \<and> (\<exists>pending'. queue_of (cluster_step c op i) q = Some pending' \<and> read_at i q c op @ pending' = pending)"
proof (cases "\<exists>rop. op = At i rop")
  case True
  then obtain rop where op: "op = At i rop" by blast
  show ?thesis
  proof (cases rop)
    case (RLeave q')
    then show ?thesis
      using browser_step [OF assms(2,3), of "Unsubscribe q'" "replica_step (c i) (RLeave q')"] assms(1,4) op
      by (auto simp: read_at_def read_by_def breaks_def)
  next
    case (RRead q')
    then show ?thesis
      using browser_step [OF assms(2,3), of "Read q'" "replica_step (c i) (RRead q')"] assms(1) op
      by (auto simp: read_at_def)
  qed (use op assms in \<open>auto simp: read_at_def breaks_def listen_subscribed_def listen_message_def\<close>)
next
  case False
  with assms show ?thesis by (cases op) (auto simp: read_at_def split: replica_op.split)
qed

lemma dead_listener_starves:
  assumes "rb_listener (c i) = Crashed \<or> rb_listener (c i) = NoListener" "broker_ok (rb_base (c i))"
    and "queue_of (c i) q = Some pending" "\<forall>op \<in> set ops. \<not> breaks i q op \<and> op \<noteq> At i ROpen"
  shows "\<exists>rest. received i q c ops @ rest = pending"
  using assms
proof (induction ops arbitrary: c pending)
  case (Cons op ops)
  then obtain pending' where
    "rb_listener (cluster_step c op i) = Crashed \<or> rb_listener (cluster_step c op i) = NoListener"
    and p: "queue_of (cluster_step c op i) q = Some pending'" "read_at i q c op @ pending' = pending"
    using dead_step [of c i q pending op] by auto
  from Cons.IH [where c = "cluster_step c op", OF this(1) broker_ok_cluster [where c = c and i = i] p(1)] Cons.prems(2,4)
  show ?case using p(2) by auto
qed simp

lemma crash_is_silent: "rb_ready b \<Longrightarrow> redis_wait_ready (listen_failed b)"
  by (simp add: redis_wait_ready_def listen_failed_def)

end
