(* ===== verification/Redis_Store.thy ===== *)
theory Redis_Store
  imports Model_Json Approval_Gate
begin

text \<open>
  The shared store, \<open>services/gateway/redis_store.py\<close>: hashes and a list of a Redis server, keyed
  by a prefix, holding each object as JSON (modelled by the JSON value the text denotes). The
  pydantic readers and the order of \<open>HGETALL\<close> are a \<open>codec\<close>; \<open>redis_codec\<close> states what the
  code relies on, and gives the contract \<open>gateway_store\<close>: every handler and the executor act on
  the Redis state as on the in-memory store. What the class lacks is \<open>reset\<close>.
\<close>

section \<open>The server\<close>

record redis =
  rd_hashes :: "pystr \<Rightarrow> json dict"
  rd_lists :: "pystr \<Rightarrow> json list"
  rd_channels :: "pystr \<Rightarrow> json list"

definition hset :: "pystr \<Rightarrow> pystr \<Rightarrow> json \<Rightarrow> redis \<Rightarrow> redis" where
  "hset key field v r = r\<lparr>rd_hashes := (rd_hashes r)(key := dict_set field v (rd_hashes r key))\<rparr>"

definition hget :: "pystr \<Rightarrow> pystr \<Rightarrow> redis \<Rightarrow> json option" where
  "hget key field r = map_of (rd_hashes r key) field"

definition hexists :: "pystr \<Rightarrow> pystr \<Rightarrow> redis \<Rightarrow> bool" where
  "hexists key field r \<longleftrightarrow> field \<in> set (map fst (rd_hashes r key))"

definition rpush :: "pystr \<Rightarrow> json \<Rightarrow> redis \<Rightarrow> redis" where
  "rpush key v r = r\<lparr>rd_lists := (rd_lists r)(key := rd_lists r key @ [v])\<rparr>"

definition redis_publish :: "pystr \<Rightarrow> json \<Rightarrow> redis \<Rightarrow> redis" where
  "redis_publish channel payload r = r\<lparr>rd_channels := (rd_channels r)(channel := rd_channels r channel @ [payload])\<rparr>"

section \<open>The store\<close>

text \<open>A reader answers \<open>None\<close> where the validator would raise.\<close>

record codec =
  cd_fault :: "json \<Rightarrow> FaultEvent option"
  cd_notification :: "json \<Rightarrow> Notification option"
  cd_activity :: "json \<Rightarrow> ActivityEvent option"
  cd_order :: "json dict \<Rightarrow> json dict"

definition redis_key :: "pystr \<Rightarrow> string \<Rightarrow> pystr" where
  "redis_key p name = p @ [58] @ lit name"

definition asset_payload :: "AssetRecord \<Rightarrow> json" where
  "asset_payload a = JObj [(lit ''id'', JStr (ar_id a)), (lit ''type'', JStr (ar_type a)),
     (lit ''state'', JStr (AssetState_value (ar_state a))),
     (lit ''active_fault_event_id'', jopt (ar_active_fault a))]"

definition deserialize_asset :: "json \<Rightarrow> AssetRecord option" where
  "deserialize_asset raw =
     Option.bind (get_str raw ''id'') (\<lambda>i. Option.bind (get_str raw ''type'') (\<lambda>t.
     Option.bind (Option.bind (get_str raw ''state'') AssetState_of) (\<lambda>st.
     Option.bind (get_opt raw ''active_fault_event_id'') (\<lambda>f.
       Some \<lparr>ar_id = i, ar_type = t, ar_state = st, ar_active_fault = f\<rparr>))))"

lemma asset_round_trip: "deserialize_asset (asset_payload a) = Some a"
  by (simp add: deserialize_asset_def asset_payload_def get_str_def get_opt_def get_opt_jopt)

definition redis_update_fault ::
  "codec \<Rightarrow> pystr \<Rightarrow> pystr \<Rightarrow> (FaultEvent \<Rightarrow> FaultEvent) \<Rightarrow> redis \<Rightarrow> FaultEvent option \<times> redis" where
  "redis_update_fault cd p fault_event_id upd r =
     (case Option.bind (hget (redis_key p ''faults'') fault_event_id r) (cd_fault cd) of
        None \<Rightarrow> (None, r)
      | Some evt \<Rightarrow> (Some (upd evt), hset (redis_key p ''faults'') fault_event_id (fault_json (upd evt)) r))"

definition redis_mark_read :: "codec \<Rightarrow> pystr \<Rightarrow> pystr \<Rightarrow> redis \<Rightarrow> bool \<times> redis" where
  "redis_mark_read cd p notification_id r =
     (case Option.bind (hget (redis_key p ''notifs'') notification_id r) (cd_notification cd) of
        None \<Rightarrow> (False, r)
      | Some n \<Rightarrow> (True, hset (redis_key p ''notifs'') notification_id (notification_json (n\<lparr>nt_read := True\<rparr>)) r))"

definition redis_values :: "codec \<Rightarrow> pystr \<Rightarrow> string \<Rightarrow> (json \<Rightarrow> 'a option) \<Rightarrow> redis \<Rightarrow> 'a list" where
  "redis_values cd p name read r =
     map (\<lambda>kv. the (read (snd kv))) (cd_order cd (rd_hashes r (redis_key p name)))"

definition str_of_token :: "json \<Rightarrow> pystr option" where
  "str_of_token j = (case j of JStr t \<Rightarrow> Some t | _ \<Rightarrow> None)"

definition redis_get_token :: "pystr \<Rightarrow> pystr \<Rightarrow> redis \<Rightarrow> pystr option" where
  "redis_get_token p fault_id r = Option.bind (hget (redis_key p ''tokens'') fault_id r) str_of_token"

definition redis_ops :: "codec \<Rightarrow> pystr \<Rightarrow> redis store_ops" where
  "redis_ops cd p = \<lparr>
     op_create_fault_event = (\<lambda>e. hset (redis_key p ''faults'') (fe_id e) (fault_json e)),
     op_update_fault = redis_update_fault cd p,
     op_list_faults = redis_values cd p ''faults'' (cd_fault cd),
     op_get_fault = (\<lambda>f r. Option.bind (hget (redis_key p ''faults'') f r) (cd_fault cd)),
     op_has_fault = hexists (redis_key p ''faults''),
     op_list_assets = redis_values cd p ''assets'' deserialize_asset,
     op_get_asset = (\<lambda>a r. Option.bind (hget (redis_key p ''assets'') a r) deserialize_asset),
     op_has_asset = hexists (redis_key p ''assets''),
     op_set_asset = (\<lambda>a. hset (redis_key p ''assets'') (ar_id a) (asset_payload a)),
     op_create_notification = (\<lambda>n. hset (redis_key p ''notifs'') (nt_id n) (notification_json n)),
     op_mark_read = redis_mark_read cd p,
     op_list_notifications = redis_values cd p ''notifs'' (cd_notification cd),
     op_get_unread_count = (\<lambda>r. length (filter (\<lambda>n. \<not> nt_read n) (redis_values cd p ''notifs'' (cd_notification cd) r))),
     op_create_activity = (\<lambda>e. rpush (redis_key p ''activity'') (activity_json e)),
     op_list_activity_events = (\<lambda>r. map (\<lambda>j. the (cd_activity cd j)) (rd_lists r (redis_key p ''activity''))),
     op_set_pending_token = (\<lambda>f k. hset (redis_key p ''tokens'') f (JStr k)),
     op_get_pending_token = redis_get_token p,
     op_publish = (\<lambda>t d. redis_publish (redis_key p ''events'') (sse_payload t d)),
     op_reset = None\<rparr>"

lemma redis_ops_simps [simp]:
  "op_create_fault_event (redis_ops cd p) e = hset (redis_key p ''faults'') (fe_id e) (fault_json e)"
  "op_update_fault (redis_ops cd p) = redis_update_fault cd p"
  "op_list_faults (redis_ops cd p) = redis_values cd p ''faults'' (cd_fault cd)"
  "op_get_fault (redis_ops cd p) f r = Option.bind (hget (redis_key p ''faults'') f r) (cd_fault cd)"
  "op_has_fault (redis_ops cd p) = hexists (redis_key p ''faults'')"
  "op_list_assets (redis_ops cd p) = redis_values cd p ''assets'' deserialize_asset"
  "op_get_asset (redis_ops cd p) a r = Option.bind (hget (redis_key p ''assets'') a r) deserialize_asset"
  "op_has_asset (redis_ops cd p) = hexists (redis_key p ''assets'')"
  "op_set_asset (redis_ops cd p) a' = hset (redis_key p ''assets'') (ar_id a') (asset_payload a')"
  "op_create_notification (redis_ops cd p) n = hset (redis_key p ''notifs'') (nt_id n) (notification_json n)"
  "op_mark_read (redis_ops cd p) = redis_mark_read cd p"
  "op_list_notifications (redis_ops cd p) = redis_values cd p ''notifs'' (cd_notification cd)"
  "op_get_unread_count (redis_ops cd p) r =
     length (filter (\<lambda>n. \<not> nt_read n) (redis_values cd p ''notifs'' (cd_notification cd) r))"
  "op_create_activity (redis_ops cd p) ev = rpush (redis_key p ''activity'') (activity_json ev)"
  "op_list_activity_events (redis_ops cd p) r = map (\<lambda>j. the (cd_activity cd j)) (rd_lists r (redis_key p ''activity''))"
  "op_set_pending_token (redis_ops cd p) f k = hset (redis_key p ''tokens'') f (JStr k)"
  "op_get_pending_token (redis_ops cd p) = redis_get_token p"
  "op_publish (redis_ops cd p) t d = redis_publish (redis_key p ''events'') (sse_payload t d)"
  "op_reset (redis_ops cd p) = None"
  by (simp_all add: redis_ops_def)

section \<open>The Redis state as an in-memory store\<close>

text \<open>
  A hash holds encodings only. The view decodes them; its one subscriber has the whole channel in
  its queue.
\<close>

definition holds :: "('a \<Rightarrow> json) \<Rightarrow> json dict \<Rightarrow> bool" where
  "holds enc d \<longleftrightarrow> (\<forall>kv \<in> set d. snd kv \<in> range enc)"

definition decoded :: "(json \<Rightarrow> 'a option) \<Rightarrow> json dict \<Rightarrow> 'a dict" where
  "decoded read d = map (\<lambda>kv. (fst kv, the (read (snd kv)))) d"

definition redis_ok :: "pystr \<Rightarrow> redis \<Rightarrow> bool" where
  "redis_ok p r \<longleftrightarrow> holds fault_json (rd_hashes r (redis_key p ''faults''))
     \<and> holds asset_payload (rd_hashes r (redis_key p ''assets''))
     \<and> holds notification_json (rd_hashes r (redis_key p ''notifs''))
     \<and> holds JStr (rd_hashes r (redis_key p ''tokens''))
     \<and> set (rd_lists r (redis_key p ''activity'')) \<subseteq> range activity_json"

definition redis_view :: "codec \<Rightarrow> pystr \<Rightarrow> redis \<Rightarrow> GatewayStore" where
  "redis_view cd p r =
     \<lparr>gs_faults = decoded (cd_fault cd) (rd_hashes r (redis_key p ''faults'')),
      gs_notifications = decoded (cd_notification cd) (rd_hashes r (redis_key p ''notifs'')),
      gs_activity = map (\<lambda>j. the (cd_activity cd j)) (rd_lists r (redis_key p ''activity'')),
      gs_assets = decoded deserialize_asset (rd_hashes r (redis_key p ''assets'')),
      gs_tokens = decoded str_of_token (rd_hashes r (redis_key p ''tokens'')),
      gs_sse = \<lparr>br_next = 1, br_queues = [(0, rd_channels r (redis_key p ''events''))]\<rparr>\<rparr>"

lemma redis_key_eq [simp]: "redis_key p a = redis_key p b \<longleftrightarrow> a = b"
  by (simp add: redis_key_def)

lemma mset_length_filter: "mset xs = mset ys \<Longrightarrow> length (filter P xs) = length (filter P ys)"
  by (metis mset_filter size_mset)

lemma holds_set: "holds enc d \<Longrightarrow> holds enc (dict_set k (enc x) d)"
  using set_dict_set [of k "enc x" d] by (auto simp: holds_def)

lemma decoded_set: "read v = Some x \<Longrightarrow> decoded read (dict_set k v d) = dict_set k x (decoded read d)"
  by (induction d) (auto simp: decoded_def)

lemma decoded_lookup: "map_of (decoded read d) k = map_option (\<lambda>v. the (read v)) (map_of d k)"
  by (induction d) (auto simp: decoded_def)

lemma fst_decoded [simp]: "map fst (decoded read d) = map fst d"
  by (induction d) (auto simp: decoded_def)

lemma holds_lookup:
  assumes "holds enc d" "\<And>x. read (enc x) = Some x"
  shows "Option.bind (map_of d k) read = map_of (decoded read d) k"
proof (cases "map_of d k")
  case None
  then show ?thesis by (simp add: decoded_lookup)
next
  case (Some v)
  then have "v \<in> range enc" using assms(1) by (auto simp: holds_def dest!: map_of_SomeD)
  then obtain x where "v = enc x" by blast
  with Some assms(2) show ?thesis by (simp add: decoded_lookup)
qed

section \<open>The contract\<close>

text \<open>
  What the code relies on: the readers invert the dumps, and \<open>HGETALL\<close> returns each field once,
  in some order.
\<close>

locale redis_codec =
  fixes cd :: codec
  assumes read_fault: "cd_fault cd (fault_json e) = Some e"
    and read_notification: "cd_notification cd (notification_json n) = Some n"
    and read_activity: "cd_activity cd (activity_json ev) = Some ev"
    and order_mset: "mset (cd_order cd d) = mset d"
begin

lemma values_mset: "mset (redis_values cd p name read r) = mset (map snd (decoded read (rd_hashes r (redis_key p name))))"
proof -
  have "mset (redis_values cd p name read r) = image_mset (\<lambda>kv. the (read (snd kv))) (mset (rd_hashes r (redis_key p name)))"
    by (simp add: redis_values_def order_mset)
  then show ?thesis by (simp add: decoded_def comp_def)
qed

lemma view_simps:
  "gs_faults (redis_view cd p r) = decoded (cd_fault cd) (rd_hashes r (redis_key p ''faults''))"
  "gs_notifications (redis_view cd p r) = decoded (cd_notification cd) (rd_hashes r (redis_key p ''notifs''))"
  "gs_assets (redis_view cd p r) = decoded deserialize_asset (rd_hashes r (redis_key p ''assets''))"
  "gs_activity (redis_view cd p r) = map (\<lambda>j. the (cd_activity cd j)) (rd_lists r (redis_key p ''activity''))"
  "gs_tokens (redis_view cd p r) = decoded str_of_token (rd_hashes r (redis_key p ''tokens''))"
  by (simp_all add: redis_view_def)

lemma hget_fault: "redis_ok p r \<Longrightarrow>
    Option.bind (hget (redis_key p ''faults'') f r) (cd_fault cd) = map_of (gs_faults (redis_view cd p r)) f"
  by (simp add: redis_ok_def hget_def view_simps holds_lookup [of fault_json] read_fault)

lemma hget_notification: "redis_ok p r \<Longrightarrow>
    Option.bind (hget (redis_key p ''notifs'') n r) (cd_notification cd) = map_of (gs_notifications (redis_view cd p r)) n"
  by (simp add: redis_ok_def hget_def view_simps holds_lookup [of notification_json] read_notification)

lemma hget_asset: "redis_ok p r \<Longrightarrow>
    Option.bind (hget (redis_key p ''assets'') a r) deserialize_asset = map_of (gs_assets (redis_view cd p r)) a"
  by (simp add: redis_ok_def hget_def view_simps holds_lookup [of asset_payload] asset_round_trip)

lemma hset_fault: "redis_ok p r \<Longrightarrow> redis_ok p (hset (redis_key p ''faults'') f (fault_json e) r)
    \<and> redis_view cd p (hset (redis_key p ''faults'') f (fault_json e) r)
      = (redis_view cd p r)\<lparr>gs_faults := dict_set f e (gs_faults (redis_view cd p r))\<rparr>"
  by (simp add: redis_ok_def hset_def redis_view_def holds_set decoded_set read_fault)

lemma hset_notification: "redis_ok p r \<Longrightarrow> redis_ok p (hset (redis_key p ''notifs'') k (notification_json n) r)
    \<and> redis_view cd p (hset (redis_key p ''notifs'') k (notification_json n) r)
      = (redis_view cd p r)\<lparr>gs_notifications := dict_set k n (gs_notifications (redis_view cd p r))\<rparr>"
  by (simp add: redis_ok_def hset_def redis_view_def holds_set decoded_set read_notification)

lemma hset_asset: "redis_ok p r \<Longrightarrow> redis_ok p (hset (redis_key p ''assets'') k (asset_payload a) r)
    \<and> redis_view cd p (hset (redis_key p ''assets'') k (asset_payload a) r)
      = (redis_view cd p r)\<lparr>gs_assets := dict_set k a (gs_assets (redis_view cd p r))\<rparr>"
  by (simp add: redis_ok_def hset_def redis_view_def holds_set decoded_set asset_round_trip)

lemma hset_token: "redis_ok p r \<Longrightarrow> redis_ok p (hset (redis_key p ''tokens'') f (JStr k) r)
    \<and> redis_view cd p (hset (redis_key p ''tokens'') f (JStr k) r)
      = (redis_view cd p r)\<lparr>gs_tokens := dict_set f k (gs_tokens (redis_view cd p r))\<rparr>"
  by (simp add: redis_ok_def hset_def redis_view_def holds_set decoded_set str_of_token_def)

lemma redis_store: "gateway_store (redis_ops cd p) (redis_ok p) (redis_view cd p)"
proof unfold_locales
  fix s assume ok: "redis_ok p s"
  show "redis_ok p (op_create_fault_event (redis_ops cd p) e s)
      \<and> redis_view cd p (op_create_fault_event (redis_ops cd p) e s) = store_create_fault_event e (redis_view cd p s)" for e
    using hset_fault [OF ok] by (simp add: store_create_fault_event_def)
  show "op_update_fault (redis_ops cd p) f upd s = (r, s') \<Longrightarrow>
      redis_ok p s' \<and> store_update_fault f upd (redis_view cd p s) = (r, redis_view cd p s')" for f upd r s'
    using hset_fault [OF ok] ok
    by (auto simp: redis_update_fault_def store_update_fault_def hget_fault [OF ok] split: option.split_asm)
  show "mset (op_list_faults (redis_ops cd p) s) = mset (store_list_faults (redis_view cd p s))"
    by (simp add: values_mset store_list_faults_def view_simps)
  show "op_get_fault (redis_ops cd p) f s = store_get_fault f (redis_view cd p s)" for f
    by (simp add: hget_fault [OF ok] store_get_fault_def)
  show "op_has_fault (redis_ops cd p) f s = store_has_fault f (redis_view cd p s)" for f
    by (simp add: hexists_def store_has_fault_def view_simps del: set_map)
  show "mset (op_list_assets (redis_ops cd p) s) = mset (store_list_assets (redis_view cd p s))"
    by (simp add: values_mset store_list_assets_def view_simps)
  show "op_get_asset (redis_ops cd p) a s = store_get_asset a (redis_view cd p s)" for a
    by (simp add: hget_asset [OF ok] store_get_asset_def)
  show "op_has_asset (redis_ops cd p) a s = store_has_asset a (redis_view cd p s)" for a
    by (simp add: hexists_def store_has_asset_def view_simps del: set_map)
  show "redis_ok p (op_set_asset (redis_ops cd p) rec s)
      \<and> redis_view cd p (op_set_asset (redis_ops cd p) rec s) = store_set_asset rec (redis_view cd p s)" for rec
    using hset_asset [OF ok] by (simp add: store_set_asset_def)
  show "redis_ok p (op_create_notification (redis_ops cd p) n s)
      \<and> redis_view cd p (op_create_notification (redis_ops cd p) n s) = store_create_notification n (redis_view cd p s)" for n
    using hset_notification [OF ok] by (simp add: store_create_notification_def)
  show "op_mark_read (redis_ops cd p) nid s = (b, s') \<Longrightarrow>
      redis_ok p s' \<and> store_mark_read nid (redis_view cd p s) = (b, redis_view cd p s')" for nid b s'
    using hset_notification [OF ok] ok
    by (auto simp: redis_mark_read_def store_mark_read_def hget_notification [OF ok] split: option.split_asm)
  show "mset (op_list_notifications (redis_ops cd p) s) = mset (store_list_notifications (redis_view cd p s))"
    by (simp add: values_mset store_list_notifications_def view_simps)
  show "op_get_unread_count (redis_ops cd p) s = store_get_unread_count (redis_view cd p s)"
    unfolding redis_ops_simps store_get_unread_count_def view_simps by (rule mset_length_filter [OF values_mset])
  show "redis_ok p (op_create_activity (redis_ops cd p) ev s)
      \<and> redis_view cd p (op_create_activity (redis_ops cd p) ev s) = store_create_activity ev (redis_view cd p s)" for ev
    using ok by (simp add: redis_ok_def rpush_def redis_view_def store_create_activity_def read_activity)
  show "op_list_activity_events (redis_ops cd p) s = store_list_activity_events (redis_view cd p s)"
    by (simp add: store_list_activity_events_def view_simps)
  show "redis_ok p (op_set_pending_token (redis_ops cd p) f k s)
      \<and> redis_view cd p (op_set_pending_token (redis_ops cd p) f k s) = store_set_pending_token f k (redis_view cd p s)" for f k
    using hset_token [OF ok] by (simp add: store_set_pending_token_def)
  show "op_get_pending_token (redis_ops cd p) f s = store_get_pending_token f (redis_view cd p s)" for f
    using ok by (simp add: redis_get_token_def hget_def store_get_pending_token_def view_simps redis_ok_def
        str_of_token_def holds_lookup [of JStr])
  show "redis_ok p (op_publish (redis_ops cd p) t d s)
      \<and> redis_view cd p (op_publish (redis_ops cd p) t d s) = store_publish t d (redis_view cd p s)" for t d
    using ok by (simp add: redis_ok_def redis_publish_def redis_view_def store_publish_def sse_publish_def sse_fanout_def)
qed

end

section \<open>The code's own codec\<close>

text \<open>\<open>ord\<close> is the order in which \<open>HGETALL\<close> returns the fields of a hash.\<close>

definition model_codec :: "(json dict \<Rightarrow> json dict) \<Rightarrow> codec" where
  "model_codec ord = \<lparr>cd_fault = fault_of_json, cd_notification = notification_of_json,
     cd_activity = activity_of_json, cd_order = ord\<rparr>"

lemma model_codec_laws: "\<forall>d. mset (ord d) = mset d \<Longrightarrow> redis_codec (model_codec ord)"
  by unfold_locales
    (simp_all add: model_codec_def fault_round_trip notification_round_trip activity_round_trip)

interpretation insertion_order: redis_codec "model_codec (\<lambda>d. d)"
  by (rule model_codec_laws) simp

interpretation redis: gateway_store "redis_ops (model_codec (\<lambda>d. d)) p" "redis_ok p" "redis_view (model_codec (\<lambda>d. d)) p"
  by (rule insertion_order.redis_store)

lemma redis_contract: "\<forall>d. mset (ord d) = mset d \<Longrightarrow>
    gateway_store (redis_ops (model_codec ord) p) (redis_ok p) (redis_view (model_codec ord) p)"
  by (rule redis_codec.redis_store [OF model_codec_laws])

definition redis_empty :: redis where
  "redis_empty = \<lparr>rd_hashes = (\<lambda>_. []), rd_lists = (\<lambda>_. []), rd_channels = (\<lambda>_. [])\<rparr>"

lemma redis_empty_ok: "redis_ok p redis_empty"
  by (simp add: redis_ok_def redis_empty_def holds_def)

section \<open>Refinement of the in-memory store\<close>

lemma view_pair:
  "(\<And>x s'. a = (x, s') \<Longrightarrow> ok s' \<and> b = (x, view s')) \<Longrightarrow> ok (snd a) \<and> b = map_prod id view a"
  by (cases a) simp

lemma view_quad:
  "(\<And>x s' m' j. a = (x, s', m', j) \<Longrightarrow> ok s' \<and> b = (x, view s', m', j))
     \<Longrightarrow> ok (fst (snd a)) \<and> b = map_prod id (map_prod view id) a"
  by (cases a) simp

lemma view_triple:
  "(\<And>x s' m'. a = (x, s', m') \<Longrightarrow> ok s' \<and> b = (x, view s', m'))
     \<Longrightarrow> ok (fst (snd a)) \<and> b = map_prod id (map_prod view id) a"
  by (cases a) simp



text \<open>
  The remediation executor over Redis: for every interference of other requests that the
  in-memory store can mirror, the run returns the same verdict, drives the same calls of
  \<open>remediation.execute\<close>, and leaves a database that encodes the store the in-memory run leaves.
\<close>

theorem redis_execution_refines:
  assumes "\<forall>d. mset (ord d) = mset d" "redis_ok p r"
    and "xe_ids env' = xe_ids env" "xe_clock env' = xe_clock env"
    and "\<forall>n s. redis_ok p s \<longrightarrow> redis_ok p (xe_others env n s)
           \<and> redis_view (model_codec ord) p (xe_others env n s) = xe_others env' n (redis_view (model_codec ord) p s)"
  shows "let mem_of = redis_view (model_codec ord) p;
             ran = run_remediation (redis_ops (model_codec ord) p) env shw execute job r m
         in redis_ok p (fst (snd ran))
          \<and> run_remediation mem_ops env' shw execute job (mem_of r) m = map_prod id (map_prod mem_of id) ran"
proof -
  note c = redis_contract [OF assms(1), of p]
  have "gateway_store.env_matches (redis_ok p) (redis_view (model_codec ord) p) env env'"
    using assms(3-5) by (simp add: gateway_store.env_matches_def [OF c])
  from gateway_store.run_remediation_view [OF c this assms(2)] show ?thesis
    unfolding Let_def by (rule view_triple [where ok = "redis_ok p"])
qed

definition redis_env :: "redis exec_env" where
  "redis_env = \<lparr>xe_ids = (\<lambda>_. lit ''a1''), xe_clock = (\<lambda>_. demo_time), xe_others = (\<lambda>_ s. s)\<rparr>"

definition mirror_env :: "GatewayStore exec_env" where
  "mirror_env = \<lparr>xe_ids = (\<lambda>_. lit ''a1''), xe_clock = (\<lambda>_. demo_time), xe_others = (\<lambda>_ s. s)\<rparr>"

theorem redis_execution_refines_witness:
  "fst (run_remediation (redis_ops (model_codec (\<lambda>d. d)) (lit ''nemoclaw'')) redis_env (\<lambda>_. []) (demo_execute ''resolved'')
          demo_job redis_empty 0)
   = fst (run_remediation mem_ops mirror_env (\<lambda>_. []) (demo_execute ''resolved'') demo_job
          (redis_view (model_codec (\<lambda>d. d)) (lit ''nemoclaw'') redis_empty) 0)"
proof -
  have o: "\<forall>d :: json dict. mset ((\<lambda>d. d) d) = mset d" by simp
  have "xe_ids mirror_env = xe_ids redis_env" "xe_clock mirror_env = xe_clock redis_env"
    "\<forall>n s. redis_ok (lit ''nemoclaw'') s \<longrightarrow> redis_ok (lit ''nemoclaw'') (xe_others redis_env n s)
       \<and> redis_view (model_codec (\<lambda>d. d)) (lit ''nemoclaw'') (xe_others redis_env n s)
         = xe_others mirror_env n (redis_view (model_codec (\<lambda>d. d)) (lit ''nemoclaw'') s)"
    by (simp_all add: redis_env_def mirror_env_def)
  note p = redis_execution_refines [OF o redis_empty_ok this, unfolded Let_def, THEN conjunct2]
  show ?thesis unfolding p by simp
qed

section \<open>The missing reset\<close>

lemma seed_keeps_faults:
  "rd_hashes (fold (\<lambda>a. hset (redis_key p ''assets'') (k a) (v a)) as r) (redis_key p ''faults'')
     = rd_hashes r (redis_key p ''faults'')"
  by (induction as arbitrary: r) (simp_all add: hset_def)

text \<open>
  \<open>RedisGatewayStore\<close> has no \<open>reset\<close>, so with it the presenter's reset answers an
  \<open>AttributeError\<close> after the orchestrator and the MCP tools have been reset, with every fault
  card still in the store, where the in-memory store answers idle and holds none; and a start with
  \<open>RESET_STATE_ON_START=1\<close> keeps the previous run's faults without an error.
\<close>

theorem redis_cannot_reset:
  assumes "orch_reset os = (Inr (), os')" "mc_reset mc m = (x, m')"
  shows "presenter_reset (redis_ops cd p) orch_reset mc r os m = (Inl GwAttributeError, r, os', m')
     \<and> (\<exists>s'. presenter_reset mem_ops orch_reset mc s os m
           = (Inr (JObj [(lit ''status'', JStr (lit ''idle''))]), s', os', m') \<and> gs_faults s' = [])
     \<and> rd_hashes (gateway_start (redis_ops cd p) lp url (Some (lit ''1'')) r) (redis_key p ''faults'')
           = rd_hashes r (redis_key p ''faults'')"
proof (intro conjI)
  show "presenter_reset (redis_ops cd p) orch_reset mc r os m = (Inl GwAttributeError, r, os', m')"
    using assms by (simp add: presenter_reset_def)
  have "gs_faults (publish_assets mem_ops as s) = gs_faults s" for as s
    by (induction as arbitrary: s) (simp_all add: publish_assets_def store_publish_def)
  then show "\<exists>s'. presenter_reset mem_ops orch_reset mc s os m
      = (Inr (JObj [(lit ''status'', JStr (lit ''idle''))]), s', os', m') \<and> gs_faults s' = []"
    using assms by (simp add: presenter_reset_def Let_def store_reset_def store_publish_def)
  show "rd_hashes (gateway_start (redis_ops cd p) lp url (Some (lit ''1'')) r) (redis_key p ''faults'')
      = rd_hashes r (redis_key p ''faults'')"
    by (simp add: gateway_start_def Let_def seed_keeps_faults)
qed

definition quiet_client :: "nat mcp_client" where
  "quiet_client = \<lparr>mc_register = (\<lambda>_ _ _ _ n. (Inr 200, Suc n)), mc_mint = (\<lambda>_ _ _ n. (Inr (lit ''tok''), Suc n)),
     mc_reset = (\<lambda>n. (Inr 200, Suc n))\<rparr>"

theorem redis_cannot_reset_witness:
  "presenter_reset (redis_ops (model_codec (\<lambda>d. d)) (lit ''nemoclaw'')) (\<lambda>n. (Inr (), Suc n)) quiet_client redis_empty 3 4
     = (Inl GwAttributeError, redis_empty, Suc 3, Suc (4 :: nat))"
  using redis_cannot_reset [of "\<lambda>n. (Inr (), Suc n)" 3 "Suc 3" quiet_client 4 "Inr 200" "Suc 4"]
  by (simp add: quiet_client_def)

end
