(* ===== verification/Kb_Index.thy ===== *)
theory Kb_Index
  imports Pack_Loader Mcp_Service
begin

text \<open>
  Knowledge-base search: \<open>KBIndex\<close> of \<open>services/mcp_tools/kb_index.py\<close>, the tools \<open>kb.search\<close>
  and \<open>logs.get_bundle\<close> (\<open>tools/kb.py\<close>, \<open>tools/logs.py\<close> and their wrappers in \<open>server.py\<close>). The
  embedding model and the vector index are libraries: \<open>build texts\<close> is what building them over the
  article texts yields, nothing when they are not installed or fail, and then a search from a query
  to the score and the index of the nearest text.
\<close>

section \<open>The index\<close>

record KBSearchResult =
  kr_kb_id :: pystr
  kr_title :: pystr
  kr_body_md :: pystr
  kr_remediation_step_ids :: "pystr list"
  kr_score :: rat
  kr_via :: pystr

type_synonym vector_search = "pystr \<Rightarrow> rat \<times> int"

record KBIndex =
  ki_pack :: LoadedPack
  ki_threshold :: rat
  ki_semantic :: "vector_search option"
  ki_article_ids :: "pystr list"

definition default_threshold :: rat where
  "default_threshold = 60 / 100"

definition article_text :: "KBArticle \<Rightarrow> pystr" where
  "article_text a = kb_title a @ [10] @ take 500 (kb_body_md a)"

definition kb_index_init :: "(pystr list \<Rightarrow> vector_search option) \<Rightarrow> LoadedPack \<Rightarrow> rat \<Rightarrow> KBIndex" where
  "kb_index_init build lp threshold =
     \<lparr>ki_pack = lp, ki_threshold = threshold,
      ki_semantic = build (map (article_text \<circ> snd) (lp_kb_articles lp)),
      ki_article_ids = map fst (lp_kb_articles lp)\<rparr>"

definition has_semantic :: "KBIndex \<Rightarrow> bool" where
  "has_semantic ki \<longleftrightarrow> ki_semantic ki \<noteq> None"

text \<open>\<open>KeyError\<close> (here \<open>Inl\<close> the id) when an indexed article is not in the pack.\<close>

definition article_result :: "pystr \<Rightarrow> KBArticle \<Rightarrow> rat \<Rightarrow> string \<Rightarrow> KBSearchResult" where
  "article_result kid a score via =
     \<lparr>kr_kb_id = kid, kr_title = kb_title a, kr_body_md = kb_body_md a,
      kr_remediation_step_ids = kb_remediation_step_ids a, kr_score = score, kr_via = lit via\<rparr>"

definition semantic_search :: "KBIndex \<Rightarrow> vector_search \<Rightarrow> pystr \<Rightarrow> pystr + KBSearchResult option" where
  "semantic_search ki nearest query =
     (case nearest query of (score, idx) \<Rightarrow>
        if idx < 0 \<or> int (length (ki_article_ids ki)) \<le> idx then Inr None
        else (let kid = ki_article_ids ki ! nat idx in
              case map_of (lp_kb_articles (ki_pack ki)) kid of
                None \<Rightarrow> Inl kid
              | Some a \<Rightarrow> Inr (Some (article_result kid a score ''semantic''))))"

definition deterministic_search :: "KBIndex \<Rightarrow> pystr \<Rightarrow> pystr option \<Rightarrow> KBSearchResult option" where
  "deterministic_search ki signature fallback_kb_id =
     (let kid0 = (case map_of (lp_signature_index (ki_pack ki)) signature of None \<Rightarrow> fallback_kb_id | Some k \<Rightarrow> Some k)
      in case kid0 of
           None \<Rightarrow> None
         | Some kid \<Rightarrow>
             (if kid = [] then None
              else map_option (\<lambda>a. article_result kid a 1 ''deterministic'') (map_of (lp_kb_articles (ki_pack ki)) kid)))"

definition kb_search :: "KBIndex \<Rightarrow> pystr \<Rightarrow> pystr option \<Rightarrow> pystr + KBSearchResult option" where
  "kb_search ki signature fallback_kb_id =
     (case ki_semantic ki of
        None \<Rightarrow> Inr (deterministic_search ki signature fallback_kb_id)
      | Some nearest \<Rightarrow> bind_res (semantic_search ki nearest signature) (\<lambda>result.
          case result of
            Some r \<Rightarrow> if ki_threshold ki \<le> kr_score r then Inr (Some r)
                      else Inr (deterministic_search ki signature fallback_kb_id)
          | None \<Rightarrow> Inr (deterministic_search ki signature fallback_kb_id)))"

section \<open>The tools\<close>

definition result_json :: "KBSearchResult option \<Rightarrow> json" where
  "result_json r = (case r of
     None \<Rightarrow> JNull
   | Some x \<Rightarrow> JObj [(lit ''kb_id'', JStr (kr_kb_id x)), (lit ''title'', JStr (kr_title x)),
       (lit ''body_md'', JStr (kr_body_md x)),
       (lit ''remediation_step_ids'', JArr (map JStr (kr_remediation_step_ids x))),
       (lit ''score'', JFloat (kr_score x)), (lit ''via'', JStr (kr_via x))])"

definition server_kb_search :: "KBIndex \<Rightarrow> pystr \<Rightarrow> pystr \<Rightarrow> pystr + json" where
  "server_kb_search ki signature fallback_kb_id =
     bind_res (kb_search ki signature (if fallback_kb_id \<noteq> [] then Some fallback_kb_id else None))
       (\<lambda>r. Inr (result_json r))"

text \<open>\<open>orch path\<close> is the orchestrator's answer: a transport error, or a status code and a body.\<close>

definition logs_get_bundle :: "(pystr \<Rightarrow> http_exn + nat \<times> json) \<Rightarrow> pystr \<Rightarrow> http_exn + json" where
  "logs_get_bundle orch asset_id =
     bind_res (orch (lit ''/api/assets/'' @ asset_id @ lit ''/logs'')) (\<lambda>(code, body).
     bind_res (raise_for_status code) (\<lambda>_. Inr body))"

section \<open>Facts\<close>

lemma semantic_article_ids:
  "ki = kb_index_init build lp th \<Longrightarrow> semantic_search ki nearest q \<noteq> Inl k"
proof -
  assume ki: "ki = kb_index_init build lp th"
  have "\<exists>a. map_of (lp_kb_articles lp) (map fst (lp_kb_articles lp) ! n) = Some a"
    if "n < length (lp_kb_articles lp)" for n
    using that by (metis dom_map_of_conv_image_fst domD length_map list.set_map nth_mem)
  then show ?thesis
    by (auto simp: semantic_search_def ki kb_index_init_def Let_def split: prod.splits option.splits)
      (metis nat_less_iff not_le option.discI not_less)
qed

lemma kb_search_total: "\<exists>r. kb_search (kb_index_init build lp th) q fb = Inr r"
proof (cases "ki_semantic (kb_index_init build lp th)")
  case None
  then show ?thesis by (simp add: kb_search_def)
next
  case (Some nearest)
  then obtain r where "semantic_search (kb_index_init build lp th) nearest q = Inr r"
    using semantic_article_ids by (metis sumE)
  with Some show ?thesis by (cases r) (auto simp: kb_search_def)
qed

lemma article_result_fields [simp]:
  "kr_kb_id (article_result kid a score via) = kid" "kr_title (article_result kid a score via) = kb_title a"
  "kr_body_md (article_result kid a score via) = kb_body_md a"
  "kr_remediation_step_ids (article_result kid a score via) = kb_remediation_step_ids a"
  "kr_score (article_result kid a score via) = score" "kr_via (article_result kid a score via) = lit via"
  by (simp_all add: article_result_def)

lemma semantic_search_Some:
  assumes "semantic_search ki nearest q = Inr (Some r)"
  obtains kid a score where "map_of (lp_kb_articles (ki_pack ki)) kid = Some a"
    "r = article_result kid a score ''semantic''"
  using assms by (auto simp: semantic_search_def Let_def split: prod.splits option.splits if_splits)

lemma deterministic_search_Some:
  assumes "deterministic_search ki q fb = Some r"
  obtains kid a where "map_of (lp_kb_articles (ki_pack ki)) kid = Some a" "r = article_result kid a 1 ''deterministic''"
    "map_of (lp_signature_index (ki_pack ki)) q = Some kid \<or> map_of (lp_signature_index (ki_pack ki)) q = None \<and> fb = Some kid"
  using assms by (auto simp: deterministic_search_def Let_def split: option.splits if_splits)


text \<open>
  The lookup of a scenario's own error signature never comes back empty: in a loaded pack whose
  article references resolve to files of the same name, \<open>kb.search\<close> answers an article for every
  error signature of every scenario, and without a semantic hit above the threshold it is the
  article of a scenario with that signature, whatever fallback the caller gives.
\<close>

theorem kb_search_answers_signature:
  assumes "load_pack fs lb dir = Inr lp"
    and "\<And>s. s \<in> set (lp_scenarios lp) \<Longrightarrow>
       path_stem (fs_resolve fs (path_join (fs_resolve fs dir) (sc_kb_article_ref s)))
         = path_stem (path_parts (sc_kb_article_ref s)) \<and> path_stem (path_parts (sc_kb_article_ref s)) \<noteq> []"
    and "s \<in> set (lp_scenarios lp)" "sig \<in> set (sc_error_signatures s)"
  shows "\<exists>r. kb_search (kb_index_init build lp th) sig fb = Inr (Some r)
     \<and> (kr_via r = lit ''deterministic'' \<longrightarrow>
          (\<exists>s' \<in> set (lp_scenarios lp). sig \<in> set (sc_error_signatures s')
             \<and> kr_kb_id r = path_stem (path_parts (sc_kb_article_ref s'))))"
proof -
  let ?ki = "kb_index_init build lp th"
  have lp: "ki_pack ?ki = lp" by (simp add: kb_index_init_def)
  note idx = signature_index_resolves [OF assms(1) conjunct1 [OF assms(2)]]
  obtain kid where kid: "map_of (lp_signature_index lp) sig = Some kid"
    using idx assms(3,4) by blast
  then obtain a s' where a: "map_of (lp_kb_articles lp) kid = Some a"
    and s': "s' \<in> set (lp_scenarios lp)" "sig \<in> set (sc_error_signatures s')"
      "kid = path_stem (path_parts (sc_kb_article_ref s'))"
    using idx by blast
  have "kid \<noteq> []" using assms(2) [OF s'(1)] s'(3) by simp
  with kid a have det: "deterministic_search ?ki sig fb = Some (article_result kid a 1 ''deterministic'')"
    by (simp add: deterministic_search_def lp)
  obtain answer where ans: "kb_search ?ki sig fb = Inr answer" using kb_search_total by blast
  then consider "answer = Some (article_result kid a 1 ''deterministic'')"
    | r nearest where "answer = Some r" "semantic_search ?ki nearest sig = Inr (Some r)"
    using det by (cases "ki_semantic ?ki") (auto simp: kb_search_def bind_res_eq_Inr split: option.splits if_splits)
  then show ?thesis
  proof cases
    case 1
    then show ?thesis using ans s' by auto
  next
    case 2
    from 2(2) have "kr_via r = lit ''semantic''" by (rule semantic_search_Some) simp
    with 2 ans show ?thesis by auto
  qed
qed

text \<open>Without the embedding libraries, and with a model that scores everything below the threshold.\<close>

definition weak_model :: "pystr list \<Rightarrow> vector_search option" where
  "weak_model texts = Some (\<lambda>q. (1 / 10, 0))"

theorem kb_search_answers_signature_witness:
  "(\<exists>r. kb_search (kb_index_init (\<lambda>_. None) demo_pack default_threshold) (lit ''Xid 79'') None = Inr (Some r))
   \<and> (\<exists>r. kb_search (kb_index_init weak_model demo_pack default_threshold) (lit ''Xid 79'') None = Inr (Some r))"
proof -
  have scs: "lp_scenarios demo_pack = [backfill_log_extract demo_scenario]" by (simp add: demo_pack_def)
  have "path_stem (fs_resolve demo_fs (path_join (fs_resolve demo_fs [lit ''p'']) (sc_kb_article_ref demo_scenario)))
      = path_stem (path_parts (sc_kb_article_ref demo_scenario))
    \<and> path_stem (path_parts (sc_kb_article_ref demo_scenario)) \<noteq> []"
    by code_simp
  then have refs: "path_stem (fs_resolve demo_fs (path_join (fs_resolve demo_fs [lit ''p'']) (sc_kb_article_ref s)))
      = path_stem (path_parts (sc_kb_article_ref s)) \<and> path_stem (path_parts (sc_kb_article_ref s)) \<noteq> []"
    if "s \<in> set (lp_scenarios demo_pack)" for s
    using that by (simp add: scs)
  have "backfill_log_extract demo_scenario \<in> set (lp_scenarios demo_pack)"
    "lit ''Xid 79'' \<in> set (sc_error_signatures (backfill_log_extract demo_scenario))"
    by (simp add: scs) (simp add: demo_scenario_def backfill_log_extract_def)
  note p = kb_search_answers_signature [OF load_demo_pack refs this]
  show ?thesis
    using p [of "\<lambda>_. None" default_threshold None] p [of weak_model default_threshold None] by blast
qed

end
