(* ===== verification/Console_Safety.thy ===== *)
theory Console_Safety
  imports Operator_Console
begin

text \<open>
  What the restricted console guarantees: the command lines it can run, what its check marks mean,
  which skill files it pushes, what a reset leaves in the sandbox, and which editor it starts.
\<close>

section \<open>Commands\<close>

definition target_commands :: "ConsoleConfig \<Rightarrow> MenuTarget \<Rightarrow> pystr list set" where
  "target_commands cfg t =
     {download_argv cfg t (path_div (cc_workspace_dir cfg) (mt_scratch_rel t)),
      editor_argv cfg (edit_path t (cc_workspace_dir cfg)), push_argv cfg t}"

definition menu_commands :: "ConsoleConfig \<Rightarrow> pystr list set" where
  "menu_commands cfg = insert (session_reset_argv cfg) (\<Union>t \<in> set menu_targets. target_commands cfg t)"

named_theorems con_simps \<open>effects of the console's steps on its command log\<close>

lemma run_cmd_calls [con_simps]: "run_cmd sh argv c = (r, c') \<Longrightarrow> cn_calls c' = cn_calls c @ [argv]"
  by (auto simp: run_cmd_def split: prod.splits)

lemma say_calls [simp]: "cn_calls (say l c) = cn_calls c" "cn_world (say l c) = cn_world c"
  by (simp_all add: say_def)

lemma write_file_calls [simp]: "cn_calls (write_file sh p x c) = cn_calls c"
  by (simp add: write_file_def)

lemma show_menu_calls [simp]: "cn_calls (show_menu cfg d c) = cn_calls c" "cn_world (show_menu cfg d c) = cn_world c"
  by (simp_all add: show_menu_def)

text \<open>A step adds commands of \<open>S\<close> only.\<close>

definition adds :: "pystr list set \<Rightarrow> 'w con \<Rightarrow> 'w con \<Rightarrow> bool" where
  "adds S c c' \<longleftrightarrow> (\<exists>new. cn_calls c' = cn_calls c @ new \<and> set new \<subseteq> S)"

lemma adds_refl [simp]: "adds S c c" "adds S c (say l c)"
  by (simp_all add: adds_def)

lemma adds_trans: "adds S a b \<Longrightarrow> adds S b c \<Longrightarrow> adds S a c"
  unfolding adds_def by (metis append.assoc le_supI set_append)

lemma adds_mono: "adds S a b \<Longrightarrow> S \<subseteq> T \<Longrightarrow> adds T a b"
  unfolding adds_def by blast

lemma adds_run: "run_cmd sh argv c = (r, c') \<Longrightarrow> argv \<in> S \<Longrightarrow> adds S c c'"
  by (auto simp: adds_def run_cmd_calls)

lemma adds_same: "cn_calls c' = cn_calls c \<Longrightarrow> adds S c c'"
  by (simp add: adds_def)

lemma adds_calls: "adds S a b \<Longrightarrow> set (cn_calls a) \<subseteq> set (cn_calls b)"
  by (auto simp: adds_def)

lemma adds_same_right: "adds S a b \<Longrightarrow> cn_calls c = cn_calls b \<Longrightarrow> adds S a c"
  by (simp add: adds_def)

lemma push_target_adds:
  assumes "push_target sh cfg t c = (r, c')"
  shows "adds {push_argv cfg t} c c' \<and> (r = Inr True \<longrightarrow> push_argv cfg t \<in> set (cn_calls c'))"
proof -
  obtain a c1 where run: "run_cmd sh (push_argv cfg t) c = (a, c1)" by (cases "run_cmd sh (push_argv cfg t) c")
  from assms run have "cn_calls c' = cn_calls c1"
    by (auto simp: push_target_def Let_def split: option.split_asm if_split_asm)
  with run_cmd_calls [OF run] show ?thesis by (auto simp: adds_def)
qed

lemma check_and_push_adds:
  assumes "check_and_push sh cfg t c = (r, c')"
  shows "adds {push_argv cfg t} c c' \<and> (r = Inr True \<longrightarrow> push_argv cfg t \<in> set (cn_calls c'))"
  using assms push_target_adds [of sh cfg t c r c']
  by (auto simp: check_and_push_def Let_def adds_def split: option.split_asm if_split_asm)

lemma run_target_adds:
  assumes "run_target sh cfg t c = (r, c')"
  shows "adds (target_commands cfg t) c c' \<and> (r = Inr True \<longrightarrow> push_argv cfg t \<in> set (cn_calls c'))"
proof -
  let ?dl = "download_argv cfg t (path_div (cc_workspace_dir cfg) (mt_scratch_rel t))"
  let ?ed = "editor_argv cfg (edit_path t (cc_workspace_dir cfg))"
  obtain a c1 where d: "run_cmd sh ?dl c = (a, c1)" by (cases "run_cmd sh ?dl c")
  have d': "adds (target_commands cfg t) c c1" by (rule adds_run [OF d]) (simp add: target_commands_def)
  show ?thesis
  proof (cases a)
    case None
    with assms d d' show ?thesis by (auto simp: run_target_def)
  next
    case (Some dl)
    define c2 where "c2 = (if rr_code dl \<noteq> 0
      then say (lit ''[console] download skipped (not yet in sandbox?): '' @ strip (rr_stderr dl)) c1 else c1)"
    have c2: "cn_calls c2 = cn_calls c1" by (simp add: c2_def)
    obtain b c3 where ed: "run_cmd sh ?ed c2 = (b, c3)" by (cases "run_cmd sh ?ed c2")
    have "adds (target_commands cfg t) c2 c3" by (rule adds_run [OF ed]) (simp add: target_commands_def)
    with d' c2 have e': "adds (target_commands cfg t) c c3"
      using adds_trans adds_same_right by blast
    show ?thesis
    proof (cases b)
      case None
      with assms d Some ed e' show ?thesis by (auto simp: run_target_def Let_def c2_def [symmetric] adds_def)
    next
      case (Some e)
      with assms d \<open>a = Some dl\<close> ed have p: "check_and_push sh cfg t c3 = (r, c')"
        by (simp add: run_target_def Let_def c2_def [symmetric])
      have "adds (target_commands cfg t) c3 c'"
        by (rule adds_mono [OF conjunct1 [OF check_and_push_adds [OF p]]]) (simp add: target_commands_def)
      with e' check_and_push_adds [OF p] show ?thesis using adds_trans by blast
    qed
  qed
qed

lemma reset_targets_adds:
  "reset_targets sh cfg ts ok c = (r, c') \<Longrightarrow> set ts \<subseteq> set menu_targets \<Longrightarrow> adds (menu_commands cfg) c c'"
proof (induction ts arbitrary: ok c)
  case Nil
  then show ?case by simp
next
  case (Cons t ts)
  let ?c0 = "write_file sh (edit_path t (cc_workspace_dir cfg)) (blank_content t) c"
  obtain a c1 where run: "run_cmd sh (push_argv cfg t) ?c0 = (a, c1)" by (cases "run_cmd sh (push_argv cfg t) ?c0")
  have "push_argv cfg t \<in> menu_commands cfg" using Cons.prems(2) by (auto simp: menu_commands_def target_commands_def)
  then have c1: "adds (menu_commands cfg) c c1"
    using adds_run [OF run] by (simp add: adds_def)
  show ?case
  proof (cases a)
    case None
    with Cons.prems run c1 show ?thesis by simp
  next
    case (Some q)
    with Cons.prems run obtain ok' l where "reset_targets sh cfg ts ok' (say l c1) = (r, c')"
      by (simp split: if_split_asm)
    from Cons.IH [OF this] Cons.prems(2) have "adds (menu_commands cfg) (say l c1) c'" by simp
    with c1 show ?thesis using adds_trans adds_refl(2) by blast
  qed
qed

lemma run_reset_adds:
  assumes "run_reset sh cfg menu_targets c = (r, c')"
  shows "adds (menu_commands cfg) c c'"
proof -
  obtain a c1 where t: "reset_targets sh cfg menu_targets True c = (a, c1)"
    by (cases "reset_targets sh cfg menu_targets True c")
  note t' = reset_targets_adds [OF t subset_refl]
  obtain b c2 where run: "run_cmd sh (session_reset_argv cfg) c1 = (b, c2)"
    by (cases "run_cmd sh (session_reset_argv cfg) c1")
  have s': "adds (menu_commands cfg) c1 c2" by (rule adds_run [OF run]) (simp add: menu_commands_def)
  have "cn_calls (snd (reset_main_session sh cfg c1)) = cn_calls c2"
    using run by (simp add: reset_main_session_def split: option.split)
  then have s: "adds (menu_commands cfg) c (snd (reset_main_session sh cfg c1))"
    using adds_trans [OF t' s'] adds_same_right by blast
  show ?thesis
  proof (cases a)
    case (Inl e)
    with assms t t' show ?thesis by (simp add: run_reset_def)
  next
    case (Inr ok)
    with assms t have "cn_calls c' = cn_calls (snd (reset_main_session sh cfg c1))"
      by (auto simp: run_reset_def Let_def split: if_split_asm)
    then show ?thesis by (rule adds_same_right [OF s])
  qed
qed

section \<open>A session\<close>

text \<open>What a whole session keeps: menu commands only, and every check mark has its push.\<close>

definition session_ok :: "ConsoleConfig \<Rightarrow> pystr set \<Rightarrow> 'w con \<Rightarrow> bool" where
  "session_ok cfg completed c \<longleftrightarrow> set (cn_calls c) \<subseteq> menu_commands cfg
     \<and> (\<forall>k \<in> completed. \<exists>t \<in> set menu_targets. mt_key t = k \<and> push_argv cfg t \<in> set (cn_calls c))"

lemma session_ok_adds: "session_ok cfg d c \<Longrightarrow> adds (menu_commands cfg) c c' \<Longrightarrow> session_ok cfg d c'"
  unfolding session_ok_def adds_def by fastforce

lemma session_ok_say [simp]: "session_ok cfg d (say l c) = session_ok cfg d c"
  "session_ok cfg d (show_menu cfg e c) = session_ok cfg d c"
  by (simp_all add: session_ok_def)

lemma session_ok_empty: "session_ok cfg d c \<Longrightarrow> session_ok cfg {} c"
  by (simp add: session_ok_def)

lemma do_reset_ok:
  assumes "do_reset sh cfg confirm d c = (r, c')" "session_ok cfg d c"
  shows "case r of Inl _ \<Rightarrow> session_ok cfg d c' | Inr d' \<Rightarrow> session_ok cfg d' c'"
proof (cases "lower (strip confirm) = lit ''yes''")
  case False
  with assms show ?thesis by (auto simp: do_reset_def)
next
  case True
  obtain a c1 where t: "run_reset sh cfg menu_targets c = (a, c1)" by (cases "run_reset sh cfg menu_targets c")
  have ok: "session_ok cfg d c1" by (rule session_ok_adds [OF assms(2) run_reset_adds [OF t]])
  with assms(1) t True show ?thesis
    by (cases a) (auto simp: do_reset_def intro: session_ok_empty)
qed

lemma find_target_menu: "find_target sel ts = Some t \<Longrightarrow> t \<in> set ts \<and> mt_key t = strip sel"
  by (auto simp: find_target_def find_Some_iff)

lemma do_target_ok:
  assumes "do_target sh cfg t d c = (r, c')" "session_ok cfg d c" "t \<in> set menu_targets"
  shows "case r of Inl _ \<Rightarrow> session_ok cfg d c' | Inr d' \<Rightarrow> session_ok cfg d' c'"
proof -
  obtain a c1 where t: "run_target sh cfg t c = (a, c1)" by (cases "run_target sh cfg t c")
  have "target_commands cfg t \<subseteq> menu_commands cfg" using assms(3) by (auto simp: menu_commands_def)
  then have ok: "session_ok cfg d c1"
    using session_ok_adds [OF assms(2) adds_mono [OF conjunct1 [OF run_target_adds [OF t]]]] by blast
  show ?thesis
  proof (cases a)
    case (Inl e)
    with assms(1) t ok show ?thesis by (auto simp: do_target_def)
  next
    case (Inr b)
    with assms(1) t have "r = Inr (if b then insert (mt_key t) d else d)" "c' = c1" by (auto simp: do_target_def)
    with ok Inr conjunct2 [OF run_target_adds [OF t]] assms(3) show ?thesis by (auto simp: session_ok_def)
  qed
qed

definition session_end_ok :: "ConsoleConfig \<Rightarrow> 'w session \<Rightarrow> bool" where
  "session_end_ok cfg r \<longleftrightarrow> session_ok cfg (fst (snd r)) (snd (snd r))"

lemma after_step_ok:
  assumes "case r of Inl _ \<Rightarrow> session_ok cfg d c1 | Inr d' \<Rightarrow> session_ok cfg d' c1"
    and "\<And>ins' d' c'. length ins' < n \<Longrightarrow> session_ok cfg d' c' \<Longrightarrow> session_end_ok cfg (console_loop sh cfg ins' d' c')"
    and "length ins \<le> n"
  shows "session_end_ok cfg (case r of Inl e \<Rightarrow> (Inl e, d, c1)
     | Inr d' \<Rightarrow> (case ins of [] \<Rightarrow> (Inr (), d', say [] (say pause_prompt c1))
                  | _ # ins' \<Rightarrow> console_loop sh cfg ins' d' (say pause_prompt c1)))"
  using assms by (cases r; cases ins) (auto simp: session_end_ok_def)

lemma console_loop_ok:
  "session_ok cfg d c \<Longrightarrow> session_end_ok cfg (console_loop sh cfg inputs d c)"
proof (induction inputs arbitrary: d c rule: length_induct)
  case (1 inputs)
  note IH = 1(1) [rule_format]
  show ?case
  proof (cases inputs)
    case Nil
    with 1(2) show ?thesis by (simp add: session_end_ok_def)
  next
    case (Cons sel ins)
    let ?c0 = "show_menu cfg d c"
    have c0: "session_ok cfg d ?c0" using 1(2) by simp
    have step: "session_end_ok cfg (console_loop sh cfg ins' d' c')" if "length ins' < length inputs" "session_ok cfg d' c'" for ins' d' c'
      using IH that by blast
    consider (quit) "strip sel \<in> set quit_keys"
      | (reset) "strip sel \<notin> set quit_keys" "lower (strip sel) = reset_key"
      | (other) "strip sel \<notin> set quit_keys" "lower (strip sel) \<noteq> reset_key" by blast
    then show ?thesis
    proof cases
      case quit
      with Cons c0 show ?thesis by (simp add: session_end_ok_def Let_def)
    next
      case reset
      show ?thesis
      proof (cases ins)
        case Nil
        with Cons reset c0 show ?thesis by (simp add: session_end_ok_def Let_def)
      next
        case (Cons confirm ins1)
        obtain r c1 where r: "do_reset sh cfg confirm d (say confirm_prompt ?c0) = (r, c1)"
          by (cases "do_reset sh cfg confirm d (say confirm_prompt ?c0)")
        have "case r of Inl _ \<Rightarrow> session_ok cfg d c1 | Inr d' \<Rightarrow> session_ok cfg d' c1"
          using do_reset_ok [OF r] c0 by simp
        from after_step_ok [OF this step, where ins = ins1] \<open>inputs = sel # ins\<close> Cons reset r show ?thesis
          by (simp add: Let_def)
      qed
    next
      case other
      show ?thesis
      proof (cases "find_target sel menu_targets")
        case None
        have "session_end_ok cfg (console_loop sh cfg ins d (say (lit ''[console] no such option: '' @ sh_repr sh sel) ?c0))"
          using step Cons c0 by simp
        with Cons other None show ?thesis by (simp add: Let_def)
      next
        case (Some t)
        obtain r c1 where r: "do_target sh cfg t d ?c0 = (r, c1)" by (cases "do_target sh cfg t d ?c0")
        have "case r of Inl _ \<Rightarrow> session_ok cfg d c1 | Inr d' \<Rightarrow> session_ok cfg d' c1"
          using do_target_ok [OF r c0] find_target_menu [OF Some] by simp
        from after_step_ok [OF this step, where ins = ins] Cons other Some r show ?thesis
          by (simp add: Let_def)
      qed
    qed
  qed
qed

text \<open>
  C37: Whatever the operator types, however long, and whatever the host and the commands do, the
  session ends, every command line it runs is one of the fixed lines of the menu (download, edit
  and push of one of the six targets, and the session reset), so that nothing typed reaches a
  command line; and every check mark stands for a target of the menu that was pushed.
\<close>

theorem console_runs_menu_commands_only:
  "\<exists>outcome completed c. console_main sh cfg inputs w = (outcome, completed, c)
     \<and> set (cn_calls c) \<subseteq> menu_commands cfg
     \<and> completed \<subseteq> {mt_key t | t. t \<in> set menu_targets \<and> push_argv cfg t \<in> set (cn_calls c)}"
proof -
  obtain outcome completed c where r: "console_main sh cfg inputs w = (outcome, completed, c)"
    by (cases "console_main sh cfg inputs w")
  have "session_ok cfg {} \<lparr>cn_world = w, cn_calls = [], cn_out = []\<rparr>" by (simp add: session_ok_def)
  from console_loop_ok [OF this, of sh inputs] r have "session_ok cfg completed c"
    by (simp add: console_main_def session_end_ok_def)
  then show ?thesis
    by (intro exI [of _ outcome] exI [of _ completed] exI [of _ c] conjI r) (auto simp: session_ok_def)
qed

section \<open>Skill files\<close>

lemma takeWhile_front:
  assumes "strip bottom = lit ''---''" "lit ''---'' \<notin> strip ` set front"
  shows "takeWhile (\<lambda>x. strip x \<noteq> lit ''---'') (front @ bottom # rest) = front"
proof -
  have "\<And>x. x \<in> set front \<Longrightarrow> strip x \<noteq> lit ''---''" using assms(2) by (metis imageI)
  then show ?thesis by (subst takeWhile_append2) (simp_all add: assms(1))
qed

lemma front_matter_accepted:
  assumes "splitlines text = line1 # front @ bottom # rest" "strip line1 = lit ''---''" "strip bottom = lit ''---''"
    "lit ''---'' \<notin> strip ` set front" "\<exists>l. l \<in> set front \<and> startswith (lit ''name:'') (lstrip l)"
  shows "validate_skill_content text = None"
  unfolding validate_skill_content_def assms(1) using assms takeWhile_front [OF assms(3,4), of rest] by auto

lemma front_matter_found:
  assumes "validate_skill_content text = None"
  shows "\<exists>top front bottom rest. splitlines text = top # front @ bottom # rest
        \<and> strip top = lit ''---'' \<and> strip bottom = lit ''---'' \<and> lit ''---'' \<notin> strip ` set front
        \<and> (\<exists>l. l \<in> set front \<and> startswith (lit ''name:'') (lstrip l))"
proof -
  let ?p = "\<lambda>x. strip x \<noteq> lit ''---''"
  from assms obtain top ls where ls: "splitlines text = top # ls" "strip top = lit ''---''"
      "\<exists>x \<in> set ls. strip x = lit ''---''"
      "\<exists>x \<in> set (takeWhile ?p ls). startswith (lit ''name:'') (lstrip x)"
    by (auto simp: validate_skill_content_def split: list.split_asm if_split_asm)
  obtain bottom rest where d: "dropWhile ?p ls = bottom # rest" "strip bottom = lit ''---''"
  proof (cases "dropWhile ?p ls")
    case Nil
    then show ?thesis using ls(3) by (auto simp: dropWhile_eq_Nil_conv)
  next
    case (Cons b r)
    then have "\<not> ?p b" using hd_dropWhile [of ?p ls] by simp
    with Cons that show ?thesis by simp
  qed
  have split: "splitlines text = top # takeWhile ?p ls @ bottom # rest"
    using takeWhile_dropWhile_id [of ?p ls] d ls(1) by simp
  have unclosed: "lit ''---'' \<notin> strip ` set (takeWhile ?p ls)" by (auto dest: set_takeWhileD)
  have named: "\<exists>l. l \<in> set (takeWhile ?p ls) \<and> startswith (lit ''name:'') (lstrip l)" using ls(4) by blast
  show ?thesis
    by (rule exI [of _ top], rule exI [of _ "takeWhile ?p ls"], rule exI [of _ bottom], rule exI [of _ rest])
      (intro conjI split ls(2) d(2) unclosed named)
qed

text \<open>
  A skill file is pushed exactly when its first line is a \<open>---\<close> line, a later line closes the
  front matter, and a line between the two starts with \<open>name:\<close>; the stub the reset writes for each
  of the four skills passes this check.
\<close>

theorem skill_file_accepted:
  "(validate_skill_content text = None \<longleftrightarrow>
     (\<exists>top front bottom rest. splitlines text = top # front @ bottom # rest
        \<and> strip top = lit ''---'' \<and> strip bottom = lit ''---'' \<and> lit ''---'' \<notin> strip ` set front
        \<and> (\<exists>l. l \<in> set front \<and> startswith (lit ''name:'') (lstrip l))))
   \<and> list_all (\<lambda>t. mt_kind t = workspace_file \<or> validate_skill_content (blank_content t) = None) menu_targets"
proof
  show "validate_skill_content text = None \<longleftrightarrow>
     (\<exists>top front bottom rest. splitlines text = top # front @ bottom # rest
        \<and> strip top = lit ''---'' \<and> strip bottom = lit ''---'' \<and> lit ''---'' \<notin> strip ` set front
        \<and> (\<exists>l. l \<in> set front \<and> startswith (lit ''name:'') (lstrip l)))"
    using front_matter_found front_matter_accepted by blast
  show "list_all (\<lambda>t. mt_kind t = workspace_file \<or> validate_skill_content (blank_content t) = None) menu_targets"
    by code_simp
qed

section \<open>The editor\<close>

definition restricted_editors :: "(pystr \<times> pystr list) list" where
  "restricted_editors = [(lit ''vim'', [lit ''-Z'']), (lit ''rvim'', [lit ''-Z'']), (lit ''vi'', [lit ''-Z'']),
     (lit ''nano'', [lit ''-R''])]"

text \<open>
  With no editor configured, the console starts an installed editor of the table with that
  editor's own restricting flag (\<open>-R\<close> for nano, \<open>-Z\<close> for the vim family), and with none installed
  it is still vim with \<open>-Z\<close>. An explicit empty \<open>TERMINAL_EDITOR_ARGS\<close> is not honoured: nano is
  then started with vim's \<open>-Z\<close>, which does not restrict it.
\<close>

theorem editor_restriction:
  "(\<exists>cfg. load_config [(lit ''SANDBOX_NAME'', lit ''t1'')] home which = Some cfg
      \<and> (cc_editor_bin cfg, cc_editor_args cfg) \<in> set restricted_editors
      \<and> (which (cc_editor_bin cfg) \<or> filter which (map fst editors) = []))
   \<and> map_option cc_editor_args (load_config [(lit ''SANDBOX_NAME'', lit ''t1''), (lit ''TERMINAL_EDITOR_BIN'', lit ''nano''),
        (lit ''TERMINAL_EDITOR_ARGS'', [])] home which) = Some [lit ''-Z'']"
  by (auto simp: load_config_def Let_def getenv_or_def getenv_def resolve_editor_def editors_def restricted_editors_def)

section \<open>Reset and the configuration check\<close>

text \<open>
  What the console relies on the \<open>nemoclaw\<close> program for: \<open>remote t\<close> is the content the sandbox
  holds for a target. A push that exits 0 puts the scratch file there and touches no other target, a
  download changes nothing there and, exiting 0, leaves the content in the file that is read next,
  the session reset leaves the files alone, and a file reads back what was written.
\<close>

definition sandbox_laws ::
  "'w shell \<Rightarrow> ConsoleConfig \<Rightarrow> (MenuTarget \<Rightarrow> pystr) \<Rightarrow> (MenuTarget \<Rightarrow> 'w \<Rightarrow> pystr option) \<Rightarrow> bool" where
  "sandbox_laws sh cfg tmp remote \<longleftrightarrow> (\<forall>w. \<forall>t \<in> set menu_targets. \<forall>t' \<in> set menu_targets.
     (\<forall>r w'. sh_run sh (push_argv cfg t) w = (Some r, w') \<and> rr_code r = 0 \<longrightarrow>
        remote t' w' = (if t' = t then sh_read sh (edit_path t (cc_workspace_dir cfg)) w else remote t' w))
   \<and> (\<forall>r w'. sh_run sh (download_argv cfg t (tmp t)) w = (Some r, w') \<longrightarrow> remote t' w' = remote t' w
        \<and> (rr_code r = 0 \<longrightarrow> sh_read sh (downloaded t (tmp t)) w' = remote t w))
   \<and> (\<forall>r w'. sh_run sh (session_reset_argv cfg) w = (r, w') \<longrightarrow> remote t w' = remote t w)
   \<and> (\<forall>x. remote t' (sh_write sh (edit_path t (cc_workspace_dir cfg)) x w) = remote t' w
        \<and> sh_read sh (edit_path t (cc_workspace_dir cfg)) (sh_write sh (edit_path t (cc_workspace_dir cfg)) x w) = Some x))"

lemma run_cmd_world: "run_cmd sh argv c = (r, c') \<Longrightarrow> sh_run sh argv (cn_world c) = (r, cn_world c')"
  by (auto simp: run_cmd_def split: prod.splits)

lemma write_file_world [simp]: "cn_world (write_file sh p x c) = sh_write sh p x (cn_world c)"
  by (simp add: write_file_def)

lemma reset_targets_blank:
  assumes "sandbox_laws sh cfg tmp remote"
  shows "reset_targets sh cfg ts ok c = (Inr True, c') \<Longrightarrow> set ts \<subseteq> set menu_targets \<Longrightarrow> distinct ts \<Longrightarrow>
     (\<forall>t \<in> set ts. remote t (cn_world c') = Some (blank_content t))
   \<and> (\<forall>t \<in> set menu_targets - set ts. remote t (cn_world c') = remote t (cn_world c))"
proof (induction ts arbitrary: ok c)
  case Nil
  then show ?case by simp
next
  case (Cons t ts)
  let ?c0 = "write_file sh (edit_path t (cc_workspace_dir cfg)) (blank_content t) c"
  obtain a c1 where run: "run_cmd sh (push_argv cfg t) ?c0 = (a, c1)" by (cases "run_cmd sh (push_argv cfg t) ?c0")
  with Cons.prems obtain r where a: "a = Some r" by (cases a) auto
  have t: "t \<in> set menu_targets" using Cons.prems(2) by simp
  show ?case
  proof (cases "rr_code r = 0")
    case True
    note w = run_cmd_world [OF run [unfolded a]]
    have pushed: "remote t' (cn_world c1) = (if t' = t then Some (blank_content t) else remote t' (cn_world c))"
      if "t' \<in> set menu_targets" for t'
      using assms [unfolded sandbox_laws_def, rule_format, OF t that] w True by simp
    from Cons.prems run a True obtain l where "reset_targets sh cfg ts ok (say l c1) = (Inr True, c')" by auto
    from Cons.IH [OF this] Cons.prems
    have IH: "\<forall>t \<in> set ts. remote t (cn_world c') = Some (blank_content t)"
      "\<forall>t \<in> set menu_targets - set ts. remote t (cn_world c') = remote t (cn_world c1)" by simp_all
    have "remote t (cn_world c') = Some (blank_content t)"
      using IH(2) t Cons.prems(3) pushed [OF t] by simp
    moreover have "remote t' (cn_world c') = remote t' (cn_world c)" if "t' \<in> set menu_targets - set (t # ts)" for t'
      using IH(2) that pushed [of t'] by auto
    ultimately show ?thesis using IH(1) by simp
  next
    case False
    with Cons.prems run a obtain l where f: "reset_targets sh cfg ts False (say l c1) = (Inr True, c')" by auto
    have "reset_targets sh cfg us False d \<noteq> (Inr True, d')" for us d d'
      by (induction us arbitrary: d) (auto split: prod.split option.split)
    with f show ?thesis by blast
  qed
qed

lemma check_configured_flags:
  assumes "sandbox_laws sh cfg tmp remote" "\<forall>t \<in> set menu_targets. remote t (cn_world c) = Some (blank_content t)"
  shows "check_configured sh cfg tmp ts c = (Inr flags, c') \<Longrightarrow> set ts \<subseteq> set menu_targets
     \<Longrightarrow> flags = map (\<lambda>t. (mt_key t, False)) ts"
  using assms(2)
proof (induction ts arbitrary: c flags c')
  case Nil
  then show ?case by simp
next
  case (Cons t ts)
  obtain a c1 where run: "run_cmd sh (download_argv cfg t (tmp t)) c = (a, c1)"
    by (cases "run_cmd sh (download_argv cfg t (tmp t)) c")
  with Cons.prems obtain r where a: "a = Some r" by (cases a) auto
  have t: "t \<in> set menu_targets" using Cons.prems(2) by simp
  note w = run_cmd_world [OF run [unfolded a]]
  have kept: "remote t' (cn_world c1) = remote t' (cn_world c)" if "t' \<in> set menu_targets" for t'
    using assms(1) [unfolded sandbox_laws_def, rule_format, OF t that] w by simp
  have content: "rr_code r = 0 \<Longrightarrow> sh_read sh (downloaded t (tmp t)) (cn_world c1) = Some (blank_content t)"
    using assms(1) [unfolded sandbox_laws_def, rule_format, OF t t] w Cons.prems(3) t by simp
  obtain b c2 where rest: "check_configured sh cfg tmp ts c1 = (b, c2)" by (cases "check_configured sh cfg tmp ts c1")
  with Cons.prems(1) run a obtain fs where fs: "b = Inr fs" by (cases b) (auto simp: Let_def)
  have "fs = map (\<lambda>t. (mt_key t, False)) ts"
    using Cons.IH [OF rest [unfolded fs]] Cons.prems(2,3) kept by simp
  with Cons.prems(1) run a rest fs content show ?case
    by (cases "rr_code r = 0") (auto simp: Let_def is_configured_def)
qed

text \<open>
  After a reset that reports success, the sandbox holds the blank stub for all six targets, and
  the configuration check that gates fault injection reports every one of them as not configured.
\<close>

lemma reset_unconfigures:
  assumes "sandbox_laws sh cfg tmp remote"
    and "run_reset sh cfg menu_targets c = (Inr True, c1)"
    and "check_configured sh cfg tmp menu_targets c1 = (Inr flags, c2)"
  shows "map (\<lambda>t. remote t (cn_world c1)) menu_targets = map (\<lambda>t. Some (blank_content t)) menu_targets
     \<and> flags = map (\<lambda>t. (mt_key t, False)) menu_targets"
proof -
  obtain a c0 where t: "reset_targets sh cfg menu_targets True c = (a, c0)"
    by (cases "reset_targets sh cfg menu_targets True c")
  with assms(2) have a: "a = Inr True" by (cases a) (auto simp: run_reset_def Let_def)
  have "distinct menu_targets" by code_simp
  from reset_targets_blank [OF assms(1) t [unfolded a] subset_refl this]
  have blank: "\<forall>t \<in> set menu_targets. remote t (cn_world c0) = Some (blank_content t)" by blast
  obtain b c0' where run: "run_cmd sh (session_reset_argv cfg) c0 = (b, c0')"
    by (cases "run_cmd sh (session_reset_argv cfg) c0")
  have "cn_world (snd (reset_main_session sh cfg c0)) = cn_world c0'"
    using run by (simp add: reset_main_session_def split: option.split)
  with assms(2) t a have "cn_world c1 = cn_world c0'" by (auto simp: run_reset_def Let_def)
  moreover have "remote t (cn_world c0') = remote t (cn_world c0)" if "t \<in> set menu_targets" for t
    using assms(1) [unfolded sandbox_laws_def, rule_format, OF that that] run_cmd_world [OF run] by simp
  ultimately have c1: "\<forall>t \<in> set menu_targets. remote t (cn_world c1) = Some (blank_content t)" using blank by simp
  then show ?thesis
    using check_configured_flags [OF assms(1) c1 assms(3) subset_refl] by simp
qed

section \<open>A sandbox\<close>

definition demo_cfg :: ConsoleConfig where
  "demo_cfg = \<lparr>cc_sandbox_name = lit ''t1'', cc_workspace_dir = lit ''/w'', cc_nemoclaw_bin = lit ''nemoclaw'',
     cc_editor_bin = lit ''vim'', cc_editor_args = [lit ''-Z'']\<rparr>"

type_synonym demo_box = "(pystr \<Rightarrow> pystr option) \<times> (MenuTarget \<Rightarrow> pystr option)"

definition demo_tmp :: "MenuTarget \<Rightarrow> pystr" where
  "demo_tmp t = lit ''/tmp/'' @ mt_key t"

definition exited :: "int \<Rightarrow> run_result option" where
  "exited code = Some \<lparr>rr_code = code, rr_stdout = [], rr_stderr = []\<rparr>"

definition demo_sandbox_run :: "pystr list \<Rightarrow> demo_box \<Rightarrow> run_result option \<times> demo_box" where
  "demo_sandbox_run argv box =
     (case find (\<lambda>t. push_argv demo_cfg t = argv) menu_targets of
        Some t \<Rightarrow> (exited 0, fst box, (snd box)(t := fst box (edit_path t (cc_workspace_dir demo_cfg))))
      | None \<Rightarrow>
          (case find (\<lambda>t. download_argv demo_cfg t (demo_tmp t) = argv) menu_targets of
             Some t \<Rightarrow> (exited 0, (fst box)(downloaded t (demo_tmp t) := snd box t), snd box)
           | None \<Rightarrow> (exited 0, box)))"

definition demo_shell :: "demo_box shell" where
  "demo_shell = \<lparr>sh_run = demo_sandbox_run, sh_read = (\<lambda>p box. fst box p),
     sh_write = (\<lambda>p x box. ((fst box)(p := Some x), snd box)), sh_repr = (\<lambda>s. s)\<rparr>"

lemma find_distinct: "distinct (map f xs) \<Longrightarrow> x \<in> set xs \<Longrightarrow> find (\<lambda>y. f y = f x) xs = Some x"
  by (induction xs) auto

lemma demo_argvs:
  "distinct (map (push_argv demo_cfg) menu_targets)"
  "distinct (map (\<lambda>t. download_argv demo_cfg t (demo_tmp t)) menu_targets)"
  "list_all (\<lambda>t. download_argv demo_cfg t (demo_tmp t) \<notin> set (map (push_argv demo_cfg) menu_targets)) menu_targets"
  "session_reset_argv demo_cfg \<notin> set (map (push_argv demo_cfg) menu_targets)"
  "session_reset_argv demo_cfg \<notin> set (map (\<lambda>t. download_argv demo_cfg t (demo_tmp t)) menu_targets)"
  by code_simp+

lemma find_absent: "a \<notin> set (map f xs) \<Longrightarrow> find (\<lambda>t. f t = a) xs = None"
  by (auto simp: find_None_iff)

lemma demo_runs:
  "t \<in> set menu_targets \<Longrightarrow> demo_sandbox_run (push_argv demo_cfg t) box
     = (exited 0, fst box, (snd box)(t := fst box (edit_path t (cc_workspace_dir demo_cfg))))"
  "t \<in> set menu_targets \<Longrightarrow> demo_sandbox_run (download_argv demo_cfg t (demo_tmp t)) box
     = (exited 0, (fst box)(downloaded t (demo_tmp t) := snd box t), snd box)"
  "demo_sandbox_run (session_reset_argv demo_cfg) box = (exited 0, box)"
proof -
  show "demo_sandbox_run (push_argv demo_cfg t) box
     = (exited 0, fst box, (snd box)(t := fst box (edit_path t (cc_workspace_dir demo_cfg))))" if "t \<in> set menu_targets"
    using find_distinct [OF demo_argvs(1) that] by (simp add: demo_sandbox_run_def)
  show "demo_sandbox_run (download_argv demo_cfg t (demo_tmp t)) box
     = (exited 0, (fst box)(downloaded t (demo_tmp t) := snd box t), snd box)" if t: "t \<in> set menu_targets"
  proof -
    have "download_argv demo_cfg t (demo_tmp t) \<notin> set (map (push_argv demo_cfg) menu_targets)"
      using demo_argvs(3) t unfolding list_all_iff by blast
    from find_absent [OF this] find_distinct [OF demo_argvs(2) t] show ?thesis
      by (simp add: demo_sandbox_run_def)
  qed
  show "demo_sandbox_run (session_reset_argv demo_cfg) box = (exited 0, box)"
    using find_absent [OF demo_argvs(4)] find_absent [OF demo_argvs(5)] by (simp add: demo_sandbox_run_def)
qed

lemma demo_sandbox_laws: "sandbox_laws demo_shell demo_cfg demo_tmp (\<lambda>t box. snd box t)"
  unfolding sandbox_laws_def by (auto simp: demo_shell_def demo_runs exited_def)

definition filled_box :: "demo_box con" where
  "filled_box = \<lparr>cn_world = ((\<lambda>_. None), (\<lambda>_. Some (lit ''persona''))), cn_calls = [], cn_out = []\<rparr>"

lemma demo_reset_succeeds: "\<exists>c'. reset_targets demo_shell demo_cfg ts True c = (Inr True, c')" if "set ts \<subseteq> set menu_targets"
  using that
proof (induction ts arbitrary: c)
  case (Cons t ts)
  then show ?case by (auto simp: run_cmd_def demo_shell_def demo_runs exited_def)
qed simp

lemma demo_check_succeeds: "\<exists>fs c'. check_configured demo_shell demo_cfg demo_tmp ts c = (Inr fs, c')" if "set ts \<subseteq> set menu_targets"
  using that
proof (induction ts arbitrary: c)
  case (Cons t ts)
  obtain r c1 where run: "run_cmd demo_shell (download_argv demo_cfg t (demo_tmp t)) c = (Some r, c1)"
    using Cons.prems by (simp add: run_cmd_def demo_shell_def demo_runs exited_def)
  obtain fs c' where "check_configured demo_shell demo_cfg demo_tmp ts c1 = (Inr fs, c')"
    using Cons.IH [of c1] Cons.prems by auto
  with run show ?case by (simp add: Let_def)
qed simp

lemma demo_reset:
  "\<exists>c1 flags c2. run_reset demo_shell demo_cfg menu_targets filled_box = (Inr True, c1)
     \<and> check_configured demo_shell demo_cfg demo_tmp menu_targets c1 = (Inr flags, c2)
     \<and> flags = map (\<lambda>t. (mt_key t, False)) menu_targets"
proof -
  obtain c1 where r: "run_reset demo_shell demo_cfg menu_targets filled_box = (Inr True, c1)"
    using demo_reset_succeeds [OF subset_refl, of filled_box] by (auto simp: run_reset_def Let_def)
  obtain flags c2 where k: "check_configured demo_shell demo_cfg demo_tmp menu_targets c1 = (Inr flags, c2)"
    using demo_check_succeeds [OF subset_refl] by blast
  show ?thesis using r k conjunct2 [OF reset_unconfigures [OF demo_sandbox_laws r k]] by blast
qed

end
