(* ===== verification/Terminal_Chain.thy ===== *)
theory Terminal_Chain
  imports Gw_Terminal Console_Safety
begin

text \<open>
  The gateway in front of the terminal daemon: waking the agent, the wake channels of an injection,
  the browser's keystrokes, and the health probe of the daemon.
\<close>

section \<open>Waking the agent\<close>

text \<open>A daemon that may be down, and whose \<open>/wake-agent\<close> answers the gateway's request.\<close>

type_synonym wake_daemon = "((pystr list \<Rightarrow> nat option) \<times> environ \<times> pystr) option"

definition wake_http :: "wake_daemon \<Rightarrow> daemon_http" where
  "wake_http d = (\<lambda>_ _ header body. case d of
     None \<Rightarrow> None
   | Some (popen, env, token) \<Rightarrow> Some (http_of (fst (daemon_wake_agent popen env token header body))))"

text \<open>What the daemon starts for a fault.\<close>

definition wake_started :: "environ \<Rightarrow> wake_daemon \<Rightarrow> pystr \<Rightarrow> pystr \<Rightarrow> spawned" where
  "wake_started genv d scenario_id asset_id =
     (case terminal_config genv of (_, token, enabled) \<Rightarrow>
        if \<not> enabled then []
        else (case d of
          None \<Rightarrow> []
        | Some (popen, env, dtoken) \<Rightarrow>
            snd (daemon_wake_agent popen env dtoken (bearer token) (Some (wake_body scenario_id asset_id)))))"

lemma authorized_bearer_iff: "authorized (bearer token) dtoken = Inr True \<longleftrightarrow> token = dtoken \<and> is_ascii token"
proof -
  have "lit ''Bearer '' = lit ''Bearer'' @ [32]" by (simp add: lit_def)
  moreover have "(32::int) \<notin> set (lit ''Bearer'')" by (simp add: lit_def)
  ultimately have "partition_at 32 (bearer token) = (lit ''Bearer'', token)"
    using partition_at_split [of 32 "lit ''Bearer''" token] by (simp add: bearer_def)
  moreover have "lower (lit ''Bearer'') = lit ''bearer''" by (simp add: lower_def lower_char_def lit_def)
  ultimately show ?thesis by (auto simp: authorized_def compare_digest_def)
qed

lemma body_field_wake [simp]:
  "body_field (Some (wake_body x y)) ''scenario_id'' = Inr (JStr x)"
  "body_field (Some (wake_body x y)) ''asset_id'' = Inr (JStr y)"
  by (simp_all add: body_field_def wake_body_def)

lemma valid_id_JStr: "valid_id P (JStr s) = (if fullmatch_class P s then Some s else None)"
  by (simp add: valid_id_def)

lemma fault_ids_iff: "s \<in> fault_ids \<longleftrightarrow> fullmatch_class is_id_char s"
  by (auto simp: fault_ids_def fullmatch_class_def list_all_iff is_id_char_set)

text \<open>The daemon's answer to the gateway's request, over every refusal.\<close>

lemma daemon_wake_answer:
  "(\<exists>pid. daemon_wake_agent popen env dtoken header (Some (wake_body x y)) =
      (Inr (JObj [(lit ''ok'', JBool True), (lit ''status'', JStr (lit ''agent-turn-started'')), (lit ''pid'', JInt (int pid))]),
       [wake_argv (getenv_or env ''SANDBOX_NAME'' []) x y])
      \<and> popen (wake_argv (getenv_or env ''SANDBOX_NAME'' []) x y) = Some pid
      \<and> authorized header dtoken = Inr True \<and> x \<in> fault_ids \<and> y \<in> fault_ids \<and> getenv_or env ''SANDBOX_NAME'' [] \<noteq> [])
   \<or> (\<exists>e. daemon_wake_agent popen env dtoken header (Some (wake_body x y)) = (Inl e, []) \<and> 400 \<le> fst (http_of (Inl e))
      \<and> \<not> (authorized header dtoken = Inr True \<and> x \<in> fault_ids \<and> y \<in> fault_ids \<and> getenv_or env ''SANDBOX_NAME'' [] \<noteq> []
           \<and> popen (wake_argv (getenv_or env ''SANDBOX_NAME'' []) x y) \<noteq> None))"
proof (cases "authorized header dtoken")
  case (Inl e)
  then have "e = DmTypeError" by (auto simp: authorized_def split: prod.splits option.splits if_splits)
  with Inl show ?thesis by (simp add: daemon_wake_agent_def with_token_def http_of_def)
next
  case (Inr ok)
  show ?thesis
  proof (cases ok)
    case True
    then show ?thesis
      using Inr unfolding daemon_wake_agent_def with_token_def Let_def valid_id_JStr fault_ids_iff body_field_wake
      by (cases "popen (wake_argv (getenv_or env ''SANDBOX_NAME'' []) x y)") (auto simp: valid_id_JStr http_of_def)
  next
    case False
    with Inr show ?thesis by (simp add: daemon_wake_agent_def with_token_def http_of_def)
  qed
qed

lemma http_of_Inr: "http_of (Inr j) = (200, Some j)"
  by (simp add: http_of_def)

lemma wake_agent_agrees:
  "wake_agent genv (wake_http d) x y = Inr (wake_started genv d x y \<noteq> [])"
proof (cases "terminal_config genv")
  case (fields url token enabled)
  show ?thesis
  proof (cases d)
    case None
    then show ?thesis by (simp add: wake_agent_def wake_started_def fields wake_http_def)
  next
    case (Some t)
    obtain popen env dtoken where t: "t = (popen, env, dtoken)" by (cases t)
    from daemon_wake_answer [of popen env dtoken "bearer token" x y] show ?thesis
      by (elim disjE exE conjE)
        (auto simp: wake_agent_def wake_started_def fields wake_http_def Some t http_of_Inr case_prod_unfold)
  qed
qed

lemma wake_started_cases:
  "wake_started genv d x y = [] \<or>
   (\<exists>popen env dtoken pid. d = Some (popen, env, dtoken)
      \<and> wake_started genv d x y = [wake_argv (getenv_or env ''SANDBOX_NAME'' []) x y]
      \<and> popen (wake_argv (getenv_or env ''SANDBOX_NAME'' []) x y) = Some pid)"
proof (cases "terminal_config genv")
  case (fields url token enabled)
  show ?thesis
  proof (cases d)
    case (Some t)
    obtain popen env dtoken where t: "t = (popen, env, dtoken)" by (cases t)
    from daemon_wake_answer [of popen env dtoken "bearer token" x y] show ?thesis
      by (elim disjE exE conjE) (auto simp: wake_started_def fields Some t)
  qed (simp add: wake_started_def fields)
qed

text \<open>
  The gateway knows whether the agent was told. Between the two services, a fault starts at most
  one agent turn, \<open>wake_agent\<close> answers true exactly when the daemon started it, and never raises.
  The turn starts when the terminal is enabled, both services hold the same ASCII token, the ids are
  plain, the daemon has its sandbox and the program starts.
\<close>

theorem wake_confirms_started_turn:
  "wake_agent genv (wake_http d) x y = Inr (wake_started genv d x y \<noteq> []) \<and>
   wake_started genv d x y =
     (case (terminal_config genv, d) of
        ((_, token, True), Some (popen, env, dtoken)) \<Rightarrow>
          if token = dtoken \<and> is_ascii token \<and> {x, y} \<subseteq> fault_ids \<and> getenv_or env ''SANDBOX_NAME'' [] \<noteq> []
             \<and> popen (wake_argv (getenv_or env ''SANDBOX_NAME'' []) x y) \<noteq> None
          then [wake_argv (getenv_or env ''SANDBOX_NAME'' []) x y] else []
      | _ \<Rightarrow> [])"
proof
  show "wake_agent genv (wake_http d) x y = Inr (wake_started genv d x y \<noteq> [])" by (rule wake_agent_agrees)
  show "wake_started genv d x y =
     (case (terminal_config genv, d) of
        ((_, token, True), Some (popen, env, dtoken)) \<Rightarrow>
          if token = dtoken \<and> is_ascii token \<and> {x, y} \<subseteq> fault_ids \<and> getenv_or env ''SANDBOX_NAME'' [] \<noteq> []
             \<and> popen (wake_argv (getenv_or env ''SANDBOX_NAME'' []) x y) \<noteq> None
          then [wake_argv (getenv_or env ''SANDBOX_NAME'' []) x y] else []
      | _ \<Rightarrow> [])"
  proof (cases "terminal_config genv")
    case (fields url token enabled)
    show ?thesis
    proof (cases d)
      case (Some t)
      obtain popen env dtoken where t: "t = (popen, env, dtoken)" by (cases t)
      from daemon_wake_answer [of popen env dtoken "bearer token" x y] show ?thesis
        by (elim disjE exE conjE)
          (auto simp: wake_started_def fields Some t authorized_bearer_iff split: bool.split)
    qed (simp add: wake_started_def fields split: bool.split)
  qed
qed

section \<open>An injection\<close>

text \<open>The orchestrator's answer to the injection.\<close>

definition run_answer where
  "run_answer run_next run_id scenario os =
     (case scenario of Some sid \<Rightarrow> if sid \<noteq> [] then run_id sid os else run_next os | None \<Rightarrow> run_next os)"

text \<open>
  An injection tells the agent on at most one channel and survives the agent. Whatever the state
  of the daemon, \<open>presenter_inject\<close> answers what the orchestrator answered and leaves the
  orchestrator as the run left it. A wake-hook request is made only when the daemon started no turn,
  and it carries the same sentence the turn is given.
\<close>

theorem inject_tells_agent_once:
  "presenter_inject ids run_next run_id (wake_agent genv (wake_http d)) hook_url hook_token scenario os =
     (case run_answer run_next run_id scenario os of
        (Inl e, os') \<Rightarrow> (Inl (GwUpstream e), None, os')
      | (Inr data, os') \<Rightarrow>
          (Inr data,
           (case (hook_url, hook_token) of
              (Some url, Some token) \<Rightarrow>
                if url = [] \<or> token = [] \<or> fst (ids data) \<noteq> [] \<and> snd (ids data) \<noteq> []
                   \<and> wake_started genv d (fst (ids data)) (snd (ids data)) \<noteq> [] then None
                else Some \<lparr>hr_url = rstrip_chars (lit ''/'') url @ lit ''/hooks/wake'',
                           hr_authorization = bearer token, 
                           hr_text = fault_message (fst (ids data)) (snd (ids data))\<rparr>
            | _ \<Rightarrow> None),
           os'))"
  unfolding presenter_inject_def run_answer_def [symmetric] fire_agent_webhook_def wake_agent_agrees
  by (auto simp: bearer_def fault_message_def split: prod.split sum.split option.split)

section \<open>The session\<close>

lemma browser_to_daemon_takeWhile: "browser_to_daemon msgs = takeWhile (\<lambda>m. m \<noteq> WsDisconnect) msgs"
  by (induction msgs rule: browser_to_daemon.induct) auto

lemma takeWhile_weaker: "(\<And>x. P x \<Longrightarrow> Q x) \<Longrightarrow> takeWhile P (takeWhile Q xs) = takeWhile P xs"
  by (induction xs) auto

lemma relayed_frames: "takeWhile (keeps_open loads) (browser_to_daemon msgs) = takeWhile (keeps_open loads) msgs"
  unfolding browser_to_daemon_takeWhile by (rule takeWhile_weaker) (auto simp: keeps_open_def)

text \<open>A bridge to the daemon: what its \<open>/ws\<close> makes of the proxy's header and frames.\<close>

definition daemon_ws :: "environ \<Rightarrow> pystr \<Rightarrow> (pystr \<Rightarrow> json option) \<Rightarrow> pystr \<Rightarrow> pystr \<Rightarrow> pystr \<Rightarrow> ws_msg list \<Rightarrow> ws_outcome option" where
  "daemon_ws env python loads token = (\<lambda>_ header msgs. Some (terminal_ws env python loads token header msgs))"

text \<open>
  C40: the terminal is the operator's and nobody else's. Through the proxy, the browser reaches a
  process exactly when the feature is on and the two services share an ASCII token; the process is
  the restricted console whenever the daemon is in restricted mode, and the bytes it reads are the
  browser's binary frames in order, up to the frame that ends the session.
\<close>

theorem proxied_session:
  "(case terminal_proxy genv (daemon_ws env python loads dtoken) msgs of
      ProxyBridged (WsSession argv acts _) \<Rightarrow> Some (argv, pty_bytes acts)
    | _ \<Rightarrow> None) =
   (case terminal_config genv of (_, token, enabled) \<Rightarrow>
      if enabled \<and> token = dtoken \<and> is_ascii token
      then Some (if is_restricted env then [python, lit ''-m'', lit ''services.terminal.console''] else [lit ''/bin/bash'', lit ''-l''],
                 concat (map typed (takeWhile (keeps_open loads) msgs)))
      else None)"
proof (cases "terminal_config genv")
  case (fields url token enabled)
  note bytes = pump_bytes [of loads "browser_to_daemon msgs", unfolded relayed_frames]
  show ?thesis
  proof (cases "authorized (bearer token) dtoken = Inr True")
    case True
    then show ?thesis
      using bytes authorized_bearer_iff [of token dtoken]
      by (auto simp: terminal_proxy_def fields daemon_ws_def terminal_ws_def shell_argv_def case_prod_unfold Let_def)
  next
    case False
    then show ?thesis
      using authorized_bearer_iff [of token dtoken]
      by (auto simp: terminal_proxy_def fields daemon_ws_def terminal_ws_def split: sum.split bool.split)
  qed
qed

section \<open>The configuration gate\<close>

text \<open>The gateway's answer over a daemon whose check ran.\<close>

lemma config_status_gateway:
  assumes "terminal_config genv = (url, token, True)" "is_ascii token"
    and "check_configured sh cfg tmp menu_targets c = (Inr flags, c')"
  shows "terminal_config_status genv
      (\<lambda>_ _ header _. Some (http_of (fst (config_status sh (Some cfg) tmp token header c)))) =
    Inr (JObj [(lit ''ok'', JBool True), (lit ''configured'', JBool (missing_labels flags = [])),
               (lit ''missing'', JArr (map JStr (missing_labels flags)))])"
proof -
  have "authorized (bearer token) token = Inr True" using assms(2) by (simp add: authorized_bearer_iff)
  then show ?thesis
    by (simp add: terminal_config_status_def assms http_of_Inr config_status_def with_token_def dict_of_distinct)
qed

lemma reset_answer:
  "daemon_reset sh (Some cfg) token (bearer token) c = (Inr (JObj [(lit ''ok'', JBool True)]), c1)
     \<Longrightarrow> run_reset sh cfg menu_targets c = (Inr True, c1)"
  by (auto simp: daemon_reset_def with_token_def split: sum.splits prod.splits if_splits)

lemma nothing_configured: "missing_labels (map (\<lambda>t. (mt_key t, False)) menu_targets) = map mt_label menu_targets"
  by code_simp

text \<open>
  The reset closes the injection gate. Once the daemon's \<open>/reset\<close> answered that it worked, the
  gateway's configuration check answers \<open>configured: false\<close> and lists all six files as missing, if
  the sandbox keeps what is pushed to it.
\<close>

theorem reset_closes_gate:
  assumes "sandbox_laws sh cfg tmp remote"
    and "terminal_config genv = (url, token, True)" "is_ascii token"
    and "daemon_reset sh (Some cfg) token (bearer token) c = (Inr (JObj [(lit ''ok'', JBool True)]), c1)"
    and "check_configured sh cfg tmp menu_targets c1 = (Inr flags, c2)"
  shows "terminal_config_status genv
      (\<lambda>_ _ header _. Some (http_of (fst (config_status sh (Some cfg) tmp token header c1)))) =
    Inr (JObj [(lit ''ok'', JBool True), (lit ''configured'', JBool False),
               (lit ''missing'', JArr (map (JStr \<circ> mt_label) menu_targets))])"
proof -
  from reset_unconfigures [OF assms(1) reset_answer [OF assms(4)] assms(5)]
  have "missing_labels flags = map mt_label menu_targets" using nothing_configured by simp
  moreover have "map mt_label menu_targets \<noteq> []" by (simp add: menu_targets_def)
  ultimately show ?thesis using config_status_gateway [OF assms(2,3,5)] by simp
qed

definition demo_genv :: environ where
  "demo_genv = [(lit ''TERMINAL_WS_URL'', lit ''ws://host:8009/ws''), (lit ''TERMINAL_TOKEN'', lit ''s3cret'')]"

lemma demo_terminal_config: "terminal_config demo_genv = (lit ''ws://host:8009/ws'', lit ''s3cret'', True)"
  by (simp add: terminal_config_def demo_genv_def getenv_or_def getenv_def)

theorem reset_closes_gate_witness:
  "\<exists>c1. daemon_reset demo_shell (Some demo_cfg) (lit ''s3cret'') (bearer (lit ''s3cret'')) filled_box =
        (Inr (JObj [(lit ''ok'', JBool True)]), c1) \<and>
      terminal_config_status demo_genv (\<lambda>_ _ header _.
        Some (http_of (fst (config_status demo_shell (Some demo_cfg) demo_tmp (lit ''s3cret'') header c1)))) =
      Inr (JObj [(lit ''ok'', JBool True), (lit ''configured'', JBool False),
                 (lit ''missing'', JArr (map (JStr \<circ> mt_label) menu_targets))])"
proof -
  obtain c1 flags c2 where *: "run_reset demo_shell demo_cfg menu_targets filled_box = (Inr True, c1)"
    "check_configured demo_shell demo_cfg demo_tmp menu_targets c1 = (Inr flags, c2)"
    using demo_reset by blast
  have ascii: "is_ascii (lit ''s3cret'')" by (simp add: is_ascii_def lit_def)
  then have "authorized (bearer (lit ''s3cret'')) (lit ''s3cret'') = Inr True" by (simp add: authorized_bearer_iff)
  with *(1) have "daemon_reset demo_shell (Some demo_cfg) (lit ''s3cret'') (bearer (lit ''s3cret'')) filled_box =
      (Inr (JObj [(lit ''ok'', JBool True)]), c1)"
    by (simp add: daemon_reset_def with_token_def)
  with reset_closes_gate [OF demo_sandbox_laws demo_terminal_config ascii this *(2)] show ?thesis by blast
qed

end
