(* ===== verification/Hook_Relay.thy ===== *)
theory Hook_Relay
  imports Operator_Console
begin

text \<open>
  The wake-hook relay, \<open>deploy/scripts/hook-relay.py\<close>: the address it binds, the retry of the bind
  at boot, and what a connection carries. \<open>ip_addr\<close> is the output of \<open>ip addr show docker0\<close>,
  \<open>None\<close> when the command is missing or times out.
\<close>

section \<open>The address\<close>

definition default_bridge :: pystr where
  "default_bridge = lit ''172.17.0.1''"

text \<open>\<open>out[out.index("inet") + 1]\<close>; \<open>None\<close> is \<open>ValueError\<close> or \<open>IndexError\<close>.\<close>

definition word_after :: "pystr \<Rightarrow> pystr list \<Rightarrow> pystr option" where
  "word_after w ws = (case dropWhile (\<lambda>x. x \<noteq> w) ws of _ # x # _ \<Rightarrow> Some x | _ \<Rightarrow> None)"

definition bridge_addr :: "environ \<Rightarrow> pystr option \<Rightarrow> pystr" where
  "bridge_addr env ip_addr =
     (let override = getenv_or env ''HOOK_RELAY_BIND'' [] in
      if override \<noteq> [] then override
      else (case Option.bind ip_addr (\<lambda>stdout. word_after (lit ''inet'') (words_from [] stdout)) of
              None \<Rightarrow> default_bridge
            | Some cidr \<Rightarrow> takeWhile (\<lambda>c. c \<noteq> 47) cidr))"

section \<open>Binding\<close>

text \<open>
  An attempt: the address it binds (read anew each time), whether that worked, and the clock after a
  failure. \<open>BindPending\<close>: the attempts so far have neither bound nor passed the deadline.
\<close>

record bind_attempt =
  ba_addr :: pystr
  ba_ok :: bool
  ba_now :: int

datatype bind_result = Bound pystr | BindRaised | BindPending

fun bind_loop :: "int \<Rightarrow> bind_attempt list \<Rightarrow> bind_result" where
  "bind_loop deadline [] = BindPending"
| "bind_loop deadline (a # as) =
     (if ba_ok a then Bound (ba_addr a)
      else if deadline \<le> ba_now a then BindRaised
      else bind_loop deadline as)"

text \<open>\<open>asyncio.sleep(3)\<close> lies between two attempts.\<close>

fun spaced :: "int \<Rightarrow> bind_attempt list \<Rightarrow> bool" where
  "spaced t [] = True"
| "spaced t (a # as) \<longleftrightarrow> t \<le> ba_now a \<and> spaced (ba_now a + 3) as"

text \<open>
  The relay does not retry forever: with \<open>retry_secs\<close> to go at the first attempt, one more than a
  third of them is decided, and it binds as soon as an attempt works before the deadline.
\<close>

lemma bind_loop_ends:
  "spaced start as \<Longrightarrow> 0 \<le> retry_secs \<Longrightarrow> retry_secs \<le> 3 * (int (length as) - 1) \<Longrightarrow>
     bind_loop (start + retry_secs) as \<noteq> BindPending"
proof (induction as arbitrary: start retry_secs)
  case Nil
  then show ?case by simp
next
  case (Cons a as)
  show ?case
  proof (cases "ba_ok a \<or> start + retry_secs \<le> ba_now a")
    case False
    have s: "spaced (ba_now a + 3) as" "start \<le> ba_now a" using Cons.prems(1) by simp_all
    let ?left = "start + retry_secs - (ba_now a + 3)"
    have "as \<noteq> []" using Cons.prems(3) False s(2) by auto
    show ?thesis
    proof (cases "0 \<le> ?left")
      case True
      have "?left \<le> 3 * (int (length as) - 1)" using Cons.prems(3) s(2) by simp
      from Cons.IH [OF s(1) True this] False show ?thesis by simp
    next
      case less: False
      obtain b bs where "as = b # bs" using \<open>as \<noteq> []\<close> by (cases as) auto
      with s(1) less False show ?thesis by auto
    qed
  qed auto
qed

lemma bind_loop_binds:
  "list_all (\<lambda>x. \<not> ba_ok x \<and> ba_now x < deadline) before \<Longrightarrow> ba_ok a \<Longrightarrow>
     bind_loop deadline (before @ a # after) = Bound (ba_addr a)"
  by (induction before) auto

section \<open>A connection\<close>

datatype stream_read = Data "int list" | Broken

text \<open>What one direction writes: the chunks read until the end (an empty read) or a broken connection.\<close>

fun relay_pump :: "stream_read list \<Rightarrow> int list" where
  "relay_pump [] = []"
| "relay_pump (Broken # rs) = []"
| "relay_pump (Data bs # rs) = (if bs = [] then [] else bs @ relay_pump rs)"

text \<open>\<open>_handle\<close>: nothing when the target refuses, else both directions.\<close>

definition relay_handle :: "bool \<Rightarrow> stream_read list \<Rightarrow> stream_read list \<Rightarrow> (int list \<times> int list) option" where
  "relay_handle reached from_client from_target =
     (if reached then Some (relay_pump from_client, relay_pump from_target) else None)"

text \<open>Every byte up to the end arrives, in order and unchanged.\<close>

lemma relay_pump_faithful:
  "list_all (\<lambda>bs. bs \<noteq> []) chunks \<Longrightarrow> relay_pump (map Data chunks @ Data [] # rest) = concat chunks"
  by (induction chunks) auto

end
