(* ===== verification/Mcp_Server.thy ===== *)
theory Mcp_Server
  imports Kb_Index Monitor_Adapters
begin

text \<open>
  The tool server, \<open>services/mcp_tools/server.py\<close>: the eight tools as they are called over MCP,
  each on the module-level dictionary \<open>_state\<close> that the lifespan of \<open>services/mcp_tools/main.py\<close>
  fills and empties. A tool answers a decoded JSON value, which FastMCP sends as \<open>json.dumps\<close> of it,
  or leaves with an exception, which FastMCP sends as a tool error. Arguments have the types of the
  tools' signatures.
\<close>

section \<open>The state of the tools\<close>

record tool_state =
  tl_adapter :: adapter
  tl_orchestrator_url :: pystr
  tl_simulator_url :: pystr
  tl_gateway_url :: pystr
  tl_kb_index :: KBIndex
  tl_token_store :: token_store
  tl_fault_registry :: fault_registry
  tl_loaded_pack :: LoadedPack

text \<open>
  The service as its callers reach it: \<open>_state\<close> (\<open>None\<close> while it is empty), and the services
  behind it, the simulator and the gateway (\<open>'g\<close>).
\<close>

record 'g mcp_app =
  mx_state :: "tool_state option"
  mx_sim :: sim_world
  mx_gateway :: 'g

text \<open>
  How the tools reach the others: reads of the simulator's surface, the orchestrator's answers and
  the gateway's client below their base URLs, and \<open>json.loads\<close>. Behind the simulator's URL is
  \<open>mx_sim\<close>.
\<close>

record 'g tool_env =
  te_get :: "sim_world \<Rightarrow> http_get"
  te_orch :: "pystr \<Rightarrow> pystr \<Rightarrow> http_exn + nat \<times> json"
  te_gateway :: "pystr \<Rightarrow> 'g gateway_client"
  te_loads :: "pystr \<Rightarrow> json option"

datatype tool_exn = ToolKeyError pystr | ToolMonitor mon_exn | ToolHttp http_exn | ToolTypeError

datatype tool_call =
    ListEvents pystr
  | GetAsset pystr
  | ListAssets
  | GetBundle pystr
  | KbSearch pystr pystr
  | PostActivity pystr pystr pystr
  | Propose pystr "pystr list" pystr
  | Execute pystr pystr pystr

section \<open>The tools\<close>

text \<open>\<open>_state[key]\<close> raises \<open>KeyError\<close> while the state is empty.\<close>

definition with_state ::
  "string \<Rightarrow> 'g mcp_app \<Rightarrow> (tool_state \<Rightarrow> (tool_exn + json) \<times> 'g mcp_app) \<Rightarrow> (tool_exn + json) \<times> 'g mcp_app" where
  "with_state key app tool =
     (case mx_state app of None \<Rightarrow> (Inl (ToolKeyError (lit key)), app) | Some st \<Rightarrow> tool st)"

definition raising :: "('e \<Rightarrow> tool_exn) \<Rightarrow> ('a \<Rightarrow> json) \<Rightarrow> 'e + 'a \<Rightarrow> tool_exn + json" where
  "raising wrap out r = (case r of Inl e \<Rightarrow> Inl (wrap e) | Inr x \<Rightarrow> Inr (out x))"

definition tool_list_events :: "'g tool_env \<Rightarrow> pystr \<Rightarrow> 'g mcp_app \<Rightarrow> (tool_exn + json) \<times> 'g mcp_app" where
  "tool_list_events env asset_id app = with_state ''adapter'' app (\<lambda>st.
     (raising ToolMonitor JArr (monitor_list_events (tl_adapter st) (te_get env (mx_sim app)) asset_id), app))"

definition tool_get_asset :: "'g tool_env \<Rightarrow> pystr \<Rightarrow> 'g mcp_app \<Rightarrow> (tool_exn + json) \<times> 'g mcp_app" where
  "tool_get_asset env asset_id app = with_state ''adapter'' app (\<lambda>st.
     (raising ToolMonitor id (monitor_get_asset (tl_adapter st) (te_get env (mx_sim app)) asset_id), app))"

definition tool_list_assets :: "'g tool_env \<Rightarrow> 'g mcp_app \<Rightarrow> (tool_exn + json) \<times> 'g mcp_app" where
  "tool_list_assets env app = with_state ''adapter'' app (\<lambda>st.
     (raising ToolMonitor JArr (monitor_list_assets (tl_adapter st) (te_get env (mx_sim app))), app))"

definition tool_get_bundle :: "'g tool_env \<Rightarrow> pystr \<Rightarrow> 'g mcp_app \<Rightarrow> (tool_exn + json) \<times> 'g mcp_app" where
  "tool_get_bundle env asset_id app = with_state ''orchestrator_url'' app (\<lambda>st.
     (raising ToolHttp id (logs_get_bundle (te_orch env (tl_orchestrator_url st)) asset_id), app))"

definition tool_kb_search :: "pystr \<Rightarrow> pystr \<Rightarrow> 'g mcp_app \<Rightarrow> (tool_exn + json) \<times> 'g mcp_app" where
  "tool_kb_search signature fallback_kb_id app = with_state ''kb_index'' app (\<lambda>st.
     (raising ToolKeyError id (server_kb_search (tl_kb_index st) signature fallback_kb_id), app))"

definition on_gateway ::
  "'g mcp_app \<Rightarrow> (http_exn + json) \<times> 'g \<Rightarrow> (tool_exn + json) \<times> 'g mcp_app" where
  "on_gateway app r = (raising ToolHttp id (fst r), app\<lparr>mx_gateway := snd r\<rparr>)"

definition tool_post_activity ::
  "'g tool_env \<Rightarrow> pystr \<Rightarrow> pystr \<Rightarrow> pystr \<Rightarrow> 'g mcp_app \<Rightarrow> (tool_exn + json) \<times> 'g mcp_app" where
  "tool_post_activity env f stp message app = with_state ''gateway_url'' app (\<lambda>st.
     on_gateway app (notify_post_activity (te_gateway env (tl_gateway_url st)) f stp message (mx_gateway app)))"

definition tool_propose ::
  "'g tool_env \<Rightarrow> pystr \<Rightarrow> pystr list \<Rightarrow> pystr \<Rightarrow> 'g mcp_app \<Rightarrow> (tool_exn + json) \<times> 'g mcp_app" where
  "tool_propose env f step_ids summary app = with_state ''gateway_url'' app (\<lambda>st.
     on_gateway app (remediation_propose (te_gateway env (tl_gateway_url st)) f step_ids summary (mx_gateway app)))"

definition tool_execute ::
  "'g tool_env \<Rightarrow> pystr \<Rightarrow> pystr \<Rightarrow> pystr \<Rightarrow> 'g mcp_app \<Rightarrow> (tool_exn + json) \<times> 'g mcp_app" where
  "tool_execute env f approval_token step_ids app = with_state ''token_store'' app (\<lambda>st.
     (case server_remediation_execute (te_loads env) post_clear f approval_token step_ids
             (tl_fault_registry st) (tl_token_store st) (mx_sim app) of
        (answer, ts', w') \<Rightarrow>
          (case answer of None \<Rightarrow> Inl ToolTypeError | Some j \<Rightarrow> Inr j,
           app\<lparr>mx_state := Some (st\<lparr>tl_token_store := ts'\<rparr>), mx_sim := w'\<rparr>)))"

fun call_tool :: "'g tool_env \<Rightarrow> tool_call \<Rightarrow> 'g mcp_app \<Rightarrow> (tool_exn + json) \<times> 'g mcp_app" where
  "call_tool env (ListEvents a) app = tool_list_events env a app"
| "call_tool env (GetAsset a) app = tool_get_asset env a app"
| "call_tool env ListAssets app = tool_list_assets env app"
| "call_tool env (GetBundle a) app = tool_get_bundle env a app"
| "call_tool env (KbSearch q fb) app = tool_kb_search q fb app"
| "call_tool env (PostActivity f stp msg) app = tool_post_activity env f stp msg app"
| "call_tool env (Propose f ids summary) app = tool_propose env f ids summary app"
| "call_tool env (Execute f k ids) app = tool_execute env f k ids app"

text \<open>The tools in the schema the language model gets: all but \<open>remediation.execute\<close> (ADR-010).\<close>

definition agent_tool :: "tool_call \<Rightarrow> bool" where
  "agent_tool t \<longleftrightarrow> (case t of Execute _ _ _ \<Rightarrow> False | _ \<Rightarrow> True)"

section \<open>What a call can touch\<close>

lemmas tool_defs = tool_list_events_def tool_get_asset_def tool_list_assets_def tool_get_bundle_def
  tool_kb_search_def tool_post_activity_def tool_propose_def

text \<open>A tool of the agent leaves the service as it is, but for the gateway behind two of them.\<close>

lemma agent_tool_frame:
  assumes "agent_tool t" "call_tool env t app = (r, app')"
  shows "app' = app\<lparr>mx_gateway := mx_gateway app'\<rparr>"
  using assms
  by (cases t) (auto simp: tool_defs with_state_def agent_tool_def on_gateway_def split: option.splits)

lemma agent_tool_gateway:
  assumes "agent_tool t" "call_tool env t app = (r, app')"
  shows "mx_gateway app' = mx_gateway app
     \<or> (\<exists>url f stp msg. t = PostActivity f stp msg
          \<and> mx_gateway app' = snd (notify_post_activity (te_gateway env url) f stp msg (mx_gateway app)))
     \<or> (\<exists>url f ids summary. t = Propose f ids summary
          \<and> mx_gateway app' = snd (remediation_propose (te_gateway env url) f ids summary (mx_gateway app)))"
  using assms
  by (cases t) (auto simp: tool_defs with_state_def agent_tool_def on_gateway_def split: option.splits)

lemma empty_state_refuses: "mx_state app = None \<Longrightarrow> \<exists>k. call_tool env t app = (Inl (ToolKeyError k), app)"
  by (cases t) (auto simp: tool_defs tool_execute_def with_state_def)

end
