(* ===== verification/Agent_Safety.thy ===== *)
theory Agent_Safety
  imports Gw_Http_Safety Mcp_Server Monitor_Contract
begin

text \<open>
  The agent against the gateway: the tools of \<open>services/mcp_tools/server.py\<close> that post to the
  gateway, over the gateway's HTTP application, with a network that may lose a request or an answer.
  The paths of the tools carry a fault event id the agent chose freely, so where a path leads is left
  open: \<open>target\<close> is any reading of a path into segments that takes the activity path as it is.
\<close>

section \<open>The gateway behind the tools\<close>

type_synonym ('o, 'm) gw_net = "(GatewayStore, 'o, 'm) gw_app \<times> (delivery \<times> gw_draw) list"

definition reply_code :: "gw_reply \<Rightarrow> nat" where
  "reply_code r = (case r of Reply c _ \<Rightarrow> c | ErrorReply c _ \<Rightarrow> c | Streaming _ \<Rightarrow> 200 | Static c \<Rightarrow> c)"

text \<open>
  One request of a tool: what the network does with it and the ids it draws come with the state; when
  the list is empty the gateway is not reachable any more.
\<close>

definition tool_request :: "(pystr \<Rightarrow> pystr list) \<Rightarrow> pystr \<Rightarrow> pystr \<Rightarrow> json \<Rightarrow> gw_request" where
  "tool_request target m path body =
     \<lparr>rq_method = m, rq_path = target path, rq_query = [], rq_body = Some body\<rparr>"

definition net_client ::
  "(pystr \<Rightarrow> pystr list) \<Rightarrow> (GatewayStore, 'o, 'm) gw_env \<Rightarrow> ('o, 'm) gw_net gateway_client" where
  "net_client target env m path body g =
     (case g of
        (app, []) \<Rightarrow> (None, g)
      | (app, (d, dr) # rest) \<Rightarrow>
          (let (reply, app') = gw_http env dr (tool_request target m path body) app
           in case d of
                Delivered \<Rightarrow> (Some (reply_code reply), (app', rest))
              | Refused \<Rightarrow> (None, (app, rest))
              | Reply_lost \<Rightarrow> (None, (app', rest))))"

definition plain_target :: "(pystr \<Rightarrow> pystr list) \<Rightarrow> bool" where
  "plain_target target \<longleftrightarrow>
     target (lit ''/api/agent/activity'') = [lit ''api'', lit ''agent'', lit ''activity'']"

section \<open>What a proposal may change\<close>

text \<open>The status goes to \<open>awaiting_approval\<close> or stays; the analysis may change; nothing else does.\<close>

definition touched :: "FaultEvent \<Rightarrow> FaultEvent \<Rightarrow> bool" where
  "touched e e' \<longleftrightarrow> e' = e\<lparr>fe_status := fe_status e', fe_analysis := fe_analysis e'\<rparr>
     \<and> (fe_status e' = fe_status e \<or> fe_status e' = awaiting_approval)"

lemma touched_refl [simp, intro]: "touched e e"
  by (simp add: touched_def)

lemma touched_trans: "touched a b \<Longrightarrow> touched b c \<Longrightarrow> touched a c"
  by (cases a; cases b; cases c) (auto simp: touched_def)

definition agent_frame :: "GatewayStore \<Rightarrow> GatewayStore \<Rightarrow> bool" where
  "agent_frame s s' \<longleftrightarrow> gs_assets s' = gs_assets s \<and> gs_tokens s' = gs_tokens s
     \<and> gs_notifications s' = gs_notifications s
     \<and> (\<forall>f. rel_option touched (map_of (gs_faults s) f) (map_of (gs_faults s') f))"

lemma agent_frame_refl [simp, intro]: "agent_frame s s"
  by (simp add: agent_frame_def option.rel_refl)

lemma agent_frame_trans: "agent_frame s t \<Longrightarrow> agent_frame t u \<Longrightarrow> agent_frame s u"
  unfolding agent_frame_def by (metis (full_types) option.rel_transp touched_trans transpD transpI)

lemma agent_frame_publish [simp]: "agent_frame s (store_publish t d s') = agent_frame s s'"
  by (simp add: agent_frame_def store_publish_def)

lemma agent_frame_update:
  assumes "store_update_fault f upd s = (r, s')" "\<And>e. touched e (upd e)"
  shows "agent_frame s s'"
  using assms by (auto simp: agent_frame_def store_update_fault_def dict_simps option.rel_refl split: option.splits)

section \<open>The requests of the tools\<close>

definition same_app :: "(GatewayStore, 'o, 'm) gw_app \<Rightarrow> (GatewayStore, 'o, 'm) gw_app \<Rightarrow> bool" where
  "same_app app app' \<longleftrightarrow> agent_frame (ga_store app) (ga_store app') \<and> app' = app\<lparr>ga_store := ga_store app'\<rparr>"

lemma same_app_refl [simp, intro]: "same_app app app"
  by (simp add: same_app_def)

lemma same_app_trans: "same_app a b \<Longrightarrow> same_app b c \<Longrightarrow> same_app a c"
  unfolding same_app_def using agent_frame_trans [of "ga_store a" "ga_store b" "ga_store c"]
  by (cases a; cases b; cases c) simp

text \<open>The bodies the tools send, as the request models read them.\<close>

definition status_body :: json where
  "status_body = JObj [(lit ''status'', JStr (lit ''awaiting_approval''))]"

definition analysis_body :: "pystr \<Rightarrow> json" where
  "analysis_body summary = JObj [(lit ''analysis'', JStr summary)]"

lemma parse_status_body: "parse_update_status status_body = Some awaiting_approval"
  by (simp add: parse_update_status_def status_body_def get_str_def FaultEventStatus_of_def)

lemma parse_status_analysis: "parse_update_status (analysis_body s) = None"
  by (simp add: parse_update_status_def analysis_body_def get_str_def)

lemma parse_diagnosis_bodies:
  "parse_update_diagnosis fl status_body = Some \<lparr>ud_error_signature = None, ud_analysis = None,
     ud_kb_article_id = None, ud_kb_title = None, ud_kb_score = None\<rparr>"
  "parse_update_diagnosis fl (analysis_body s) = Some \<lparr>ud_error_signature = None, ud_analysis = Some s,
     ud_kb_article_id = None, ud_kb_title = None, ud_kb_score = None\<rparr>"
  by (simp_all add: parse_update_diagnosis_def status_body_def analysis_body_def get_opt_def get_number_def)

lemma touched_status: "touched e (e\<lparr>fe_status := awaiting_approval\<rparr>)"
  by (simp add: touched_def)

lemma parsed_diagnosis:
  assumes "parse_update_diagnosis fl body = Some b" "body = status_body \<or> body = analysis_body s"
  shows "b = \<lparr>ud_error_signature = None, ud_analysis = ud_analysis b, ud_kb_article_id = None,
     ud_kb_title = None, ud_kb_score = None\<rparr>"
  using assms(2)
proof
  assume "body = status_body"
  with assms(1) parse_diagnosis_bodies(1) [of fl] show ?thesis by (metis option.inject UpdateDiagnosisRequest.select_convs(2))
next
  assume "body = analysis_body s"
  with assms(1) parse_diagnosis_bodies(2) [of fl s] show ?thesis by (metis option.inject UpdateDiagnosisRequest.select_convs(2))
qed

lemma touched_analysis:
  "touched e (apply_diagnosis \<lparr>ud_error_signature = None, ud_analysis = an, ud_kb_article_id = None,
     ud_kb_title = None, ud_kb_score = None\<rparr> e)"
  by (simp add: touched_def apply_diagnosis_def or_else_def)

lemma touched_diagnosis:
  assumes "parse_update_diagnosis fl body = Some b" "body = status_body \<or> body = analysis_body s"
  shows "touched e (apply_diagnosis b e)"
  by (subst parsed_diagnosis [OF assms]) (rule touched_analysis)

lemma status_frame: "agent_frame s (snd (update_fault_status mem_ops f awaiting_approval s))"
proof (cases "store_update_fault f (\<lambda>e. e\<lparr>fe_status := awaiting_approval\<rparr>) s")
  case (Pair r s1)
  from agent_frame_update [OF this touched_status] Pair show ?thesis
    by (cases r) (simp_all add: update_fault_status_def)
qed

lemma diagnosis_frame:
  assumes "\<And>e. touched e (apply_diagnosis b e)"
  shows "agent_frame s (snd (update_fault_diagnosis mem_ops f b s))"
proof (cases "store_update_fault f (apply_diagnosis b) s")
  case (Pair r s1)
  from agent_frame_update [OF this assms] Pair show ?thesis
    by (cases r) (simp_all add: update_fault_diagnosis_def)
qed

lemma patch_route: "gw_route_of (lit ''PATCH'') path = Some r \<Longrightarrow> (\<exists>f. r = GStatus f) \<or> (\<exists>f. r = GDiagnosis f)"
  by (auto simp: gw_route_of_def get_routes_def group_routes_def fault_routes_def split: list.splits if_splits)

lemma writing_same:
  "agent_frame (ga_store app) (snd (h (ga_store app))) \<Longrightarrow> same_app app (snd (writing code h app))"
  by (simp add: same_app_def writing_def case_prod_beta)

lemma patch_frame:
  assumes "mem_env env" "body = status_body \<or> body = analysis_body s"
  shows "same_app app (snd (gw_http env dr (tool_request target (lit ''PATCH'') path body) app))"
proof (cases "gw_route_of (lit ''PATCH'') (target path)")
  case None
  then show ?thesis by (simp add: gw_http_def tool_request_def)
next
  case (Some r)
  have ops: "ge_ops env = mem_ops" using assms(1) by (simp add: mem_env_def)
  let ?rq = "tool_request target (lit ''PATCH'') path body"
  from patch_route [OF Some] show ?thesis
  proof (elim disjE exE)
    fix f assume r: "r = GStatus f"
    have "same_app app (snd (with_body parse_update_status ?rq
        (\<lambda>x. writing 200 (update_fault_status mem_ops f x)) app))"
      using assms(2) by (auto simp: with_body_def tool_request_def parse_status_body parse_status_analysis
          intro!: writing_same status_frame)
    with Some r ops show ?thesis by (simp add: gw_http_def tool_request_def)
  next
    fix f assume r: "r = GDiagnosis f"
    have "same_app app (snd (with_body (parse_update_diagnosis (ge_float env)) ?rq
        (\<lambda>b. writing 200 (update_fault_diagnosis mem_ops f b)) app))"
      using touched_diagnosis [OF _ assms(2), of "ge_float env"]
      by (auto simp: with_body_def tool_request_def intro!: writing_same diagnosis_frame split: option.split)
    with Some r ops show ?thesis by (simp add: gw_http_def tool_request_def)
  qed
qed

lemma activity_frame:
  assumes "mem_env env" "plain_target target"
  shows "same_app app (snd (gw_http env dr (tool_request target (lit ''POST'') (lit ''/api/agent/activity'') body) app))"
proof -
  have route: "gw_route_of (lit ''POST'') (target (lit ''/api/agent/activity'')) = Some GPostActivity"
    using assms(2) by (simp add: plain_target_def gw_route_of_def group_routes_def)
  have "agent_frame s (snd (post_activity mem_ops i t f stp msg s))" for s i t f stp msg
    by (simp add: post_activity_def Let_def agent_frame_def store_create_activity_def store_publish_def option.rel_refl)
  with assms(1) have "same_app app (snd (with_body parse_activity rq (activity_route env dr) app))" for rq
    by (auto simp: with_body_def activity_route_def mem_env_def case_prod_beta intro!: writing_same split: option.split)
  with route show ?thesis by (simp add: gw_http_def tool_request_def)
qed

section \<open>The tools over the network\<close>

lemma net_client_same:
  assumes "net_client target env m path body g = (code, g')"
    and "\<And>dr app. same_app app (snd (gw_http env dr (tool_request target m path body) app))"
  shows "same_app (fst g) (fst g')"
  using assms
  by (auto simp: net_client_def case_prod_beta split: list.splits delivery.splits)

lemma patch_same:
  assumes "mem_env env" "net_client target env (lit ''PATCH'') path body g = (code, g')"
    and "body = status_body \<or> body = analysis_body s"
  shows "same_app (fst g) (fst g')"
  by (rule net_client_same [OF assms(2) patch_frame [OF assms(1,3)]])

lemma activity_same:
  assumes "mem_env env" "plain_target target"
    and "net_client target env (lit ''POST'') (lit ''/api/agent/activity'') body g = (code, g')"
  shows "same_app (fst g) (fst g')"
  by (rule net_client_same [OF assms(3) activity_frame [OF assms(1,2)]])

lemma notify_same:
  assumes "mem_env env" "plain_target target"
  shows "same_app (fst g) (fst (snd (notify_post_activity (net_client target env) f stp msg g)))"
proof -
  let ?body = "activity_body f (if stp \<in> set allowed_steps then stp else lit ''diagnose'') (take max_message_len msg)"
  obtain c g1 where c: "net_client target env (lit ''POST'') (lit ''/api/agent/activity'') ?body g = (c, g1)"
    by (metis surj_pair)
  with activity_same [OF assms c] show ?thesis
    by (simp add: notify_post_activity_def split: option.split)
qed

lemma propose_request_same:
  assumes "mem_env env" "plain_target target"
  shows "same_app (fst g) (fst (snd (propose_request (net_client target env) f ids g)))"
proof -
  obtain c g1 where c: "net_client target env (lit ''PATCH'') (fault_path f (lit ''/status'')) status_body g = (c, g1)"
    by (metis surj_pair)
  obtain d g2 where d: "net_client target env (lit ''POST'') (lit ''/api/agent/activity'')
      (activity_body f (lit ''present'') (proposal_message ids)) g1 = (d, g2)" by (metis surj_pair)
  have "same_app (fst g) (fst g1)" by (rule patch_same [OF assms(1) c]) simp
  moreover have "same_app (fst g1) (fst g2)" by (rule activity_same [OF assms d])
  ultimately show ?thesis
    using same_app_trans [of "fst g" "fst g1" "fst g2"]
    by (simp add: propose_request_def c [unfolded status_body_def] d split: option.split sum.split)
qed

lemma propose_same:
  assumes "mem_env env" "plain_target target"
  shows "same_app (fst g) (fst (snd (remediation_propose (net_client target env) f ids summary g)))"
proof (cases "summary = []")
  case True
  then show ?thesis using propose_request_same [OF assms] by (simp add: remediation_propose_def)
next
  case False
  obtain c g1 where c: "net_client target env (lit ''PATCH'') (fault_path f (lit ''/diagnosis''))
      (analysis_body (take 1000 summary)) g = (c, g1)" by (metis surj_pair)
  have "same_app (fst g) (fst g1)" by (rule patch_same [where s = "take 1000 summary", OF assms(1) c]) simp
  with False show ?thesis
    using same_app_trans [OF _ propose_request_same [OF assms, of g1 f ids]]
    by (simp add: remediation_propose_def c [unfolded analysis_body_def] split: option.split)
qed

text \<open>A session of the agent: the tools it calls, one after the other.\<close>

fun agent_session :: "'g tool_env \<Rightarrow> tool_call list \<Rightarrow> 'g mcp_app \<Rightarrow> 'g mcp_app" where
  "agent_session env [] app = app"
| "agent_session env (t # ts) app = agent_session env ts (snd (call_tool env t app))"

lemma agent_call_same:
  assumes "mem_env env" "plain_target target" "te_gateway te = (\<lambda>_. net_client target env)"
    and "agent_tool t" "call_tool te t app = (r, app')"
  shows "mx_state app' = mx_state app \<and> mx_sim app' = mx_sim app
     \<and> same_app (fst (mx_gateway app)) (fst (mx_gateway app'))"
proof -
  have "app' = app\<lparr>mx_gateway := mx_gateway app'\<rparr>" by (rule agent_tool_frame [OF assms(4,5)])
  then have "mx_state app' = mx_state app" "mx_sim app' = mx_sim app" by (metis mcp_app.select_convs(1,2) mcp_app.surjective mcp_app.update_convs(3))+
  moreover have "same_app (fst (mx_gateway app)) (fst (mx_gateway app'))"
    using agent_tool_gateway [OF assms(4,5)] unfolding assms(3)
    by (elim disjE exE conjE; simp only: same_app_refl notify_same [OF assms(1,2)] propose_same [OF assms(1,2)])
  ultimately show ?thesis by simp
qed

text \<open>
  C9: The language model cannot act on its own. Whatever tools of its schema the agent calls, with
  whatever arguments, over a network that loses any requests or answers, and wherever the paths its
  arguments are put into lead: the tokens, the registry and the knowledge base of the tool server and
  the simulator are as before, and at the gateway no execution starts, no token is stored, the
  orchestrator and the MCP tools service are not called, no asset and no notification changes, no
  fault event appears or disappears, and in a fault event at most the analysis changes and the status
  goes to \<open>awaiting_approval\<close>.
\<close>

theorem agent_cannot_act:
  assumes "mem_env env" and "plain_target target" and "te_gateway te = (\<lambda>_. net_client target env)"
    and "list_all agent_tool calls"
    and "app' = agent_session te calls app"
    and "before = fst (mx_gateway app)" and "after = fst (mx_gateway app')"
  shows "mx_state app' = mx_state app \<and> mx_sim app' = mx_sim app
     \<and> after = before\<lparr>ga_store := ga_store after\<rparr>
     \<and> gs_assets (ga_store after) = gs_assets (ga_store before)
     \<and> gs_tokens (ga_store after) = gs_tokens (ga_store before)
     \<and> gs_notifications (ga_store after) = gs_notifications (ga_store before)
     \<and> (\<forall>f. rel_option touched (map_of (gs_faults (ga_store before)) f) (map_of (gs_faults (ga_store after)) f))"
proof -
  have "mx_state app' = mx_state app \<and> mx_sim app' = mx_sim app \<and> same_app before after"
    using assms(4) unfolding assms(5-7)
  proof (induction calls arbitrary: app)
    case Nil
    then show ?case by simp
  next
    case (Cons t calls)
    obtain r app1 where t: "call_tool te t app = (r, app1)" by (metis surj_pair)
    with agent_call_same [OF assms(1-3), of t app r app1] Cons.IH [of app1] Cons.prems
      same_app_trans [of "fst (mx_gateway app)" "fst (mx_gateway app1)"]
    show ?case by auto
  qed
  then show ?thesis by (auto simp: same_app_def agent_frame_def)
qed

text \<open>
  The status a proposal overwrites is not looked at: it opens a denied or resolved fault event for a
  decision again.
\<close>

lemma proposal_reopens:
  assumes "mem_env env" "map_of (gs_faults (ga_store app)) f = Some e" "f \<noteq> []"
    and "target (fault_path f (lit ''/status'')) = [lit ''api'', lit ''faults'', f, lit ''status'']"
  shows "\<exists>app'. net_client target env (lit ''PATCH'') (fault_path f (lit ''/status'')) status_body
        (app, (Delivered, dr) # rest) = (Some 200, (app', rest))
     \<and> map_of (gs_faults (ga_store app')) f = Some (e\<lparr>fe_status := awaiting_approval\<rparr>)"
proof -
  have "gw_route_of (lit ''PATCH'') (target (fault_path f (lit ''/status''))) = Some (GStatus f)"
    using assms(3,4) by (simp add: gw_route_of_def fault_routes_def)
  with assms show ?thesis
    by (auto simp: net_client_def gw_http_def tool_request_def with_body_def parse_status_body writing_def mem_env_def
        update_fault_status_def store_update_fault_def dict_simps store_publish_def reply_of_def reply_code_def)
qed

section \<open>A session\<close>

definition path_segments :: "pystr \<Rightarrow> pystr list" where
  "path_segments path = tl (split_on [47] path)"

definition demo_tools :: "(unit, nat) gw_net tool_env" where
  "demo_tools = \<lparr>te_get = (\<lambda>w. engine_get (sw_engine w)), te_orch = (\<lambda>_ _. Inl TransportError),
     te_gateway = (\<lambda>_. net_client path_segments demo_env), te_loads = (\<lambda>_. None)\<rparr>"

definition demo_tool_state :: tool_state where
  "demo_tool_state = \<lparr>tl_adapter = generic_adapter, tl_orchestrator_url = lit ''http://o'',
     tl_simulator_url = lit ''http://s'', tl_gateway_url = lit ''http://g'',
     tl_kb_index = kb_index_init (\<lambda>_. None) demo_pack default_threshold,
     tl_token_store = [], tl_fault_registry = [], tl_loaded_pack = demo_pack\<rparr>"

definition demo_mcp :: "FaultEventStatus \<Rightarrow> (unit, nat) gw_net mcp_app" where
  "demo_mcp st = \<lparr>mx_state = Some demo_tool_state,
     mx_sim = \<lparr>sw_engine = engine_init demo_pack, sw_net = [], sw_clock = (\<lambda>_. demo_time), sw_ticks = 0\<rparr>,
     mx_gateway = (demo_app\<lparr>ga_store := snd (update_fault_status mem_ops (lit ''f1'') st demo_detected)\<rparr>,
       [(Delivered, demo_draw), (Reply_lost, demo_draw)])\<rparr>"

lemma path_segments_eval:
  "path_segments (lit ''/api/agent/activity'') = [lit ''api'', lit ''agent'', lit ''activity'']"
  "path_segments (lit ''/api/faults/f1/status'') = [lit ''api'', lit ''faults'', lit ''f1'', lit ''status'']"
  unfolding path_segments_def lit_def by code_simp+

lemma demo_plain: "plain_target path_segments"
  by (simp add: plain_target_def path_segments_eval)

definition demo_calls :: "tool_call list" where
  "demo_calls = [ListAssets, Propose (lit ''f1'') [lit ''drain''] [], PostActivity (lit ''f1'') (lit ''chat'') (lit ''hello'')]"

theorem agent_cannot_act_witness:
  "\<exists>e e'. map_of (gs_faults (ga_store (fst (mx_gateway (demo_mcp denied))))) (lit ''f1'') = Some e
     \<and> map_of (gs_faults (ga_store (fst (mx_gateway (agent_session demo_tools demo_calls (demo_mcp denied)))))) (lit ''f1'') = Some e'
     \<and> touched e e'"
proof -
  have calls: "list_all agent_tool demo_calls" by (simp add: demo_calls_def agent_tool_def)
  have te: "te_gateway demo_tools = (\<lambda>_. net_client path_segments demo_env)" by (simp add: demo_tools_def)
  obtain e where e: "map_of (gs_faults (ga_store (fst (mx_gateway (demo_mcp denied))))) (lit ''f1'') = Some e"
    using demo_detected_state(1) [of "lit ''f1''"]
    by (simp add: demo_mcp_def update_fault_status_def store_update_fault_def dict_simps store_publish_def)
  from agent_cannot_act [where app = "demo_mcp denied", OF demo_mem demo_plain te calls refl refl refl] have
    "rel_option touched (map_of (gs_faults (ga_store (fst (mx_gateway (demo_mcp denied))))) (lit ''f1''))
      (map_of (gs_faults (ga_store (fst (mx_gateway (agent_session demo_tools demo_calls (demo_mcp denied)))))) (lit ''f1''))"
    by blast
  with e show ?thesis by (auto simp: rel_option_iff split: option.splits)
qed

end
