(* ===== verification/Service_Startup.thy ===== *)
theory Service_Startup
  imports Mcp_Server Orchestrator Gw_Safety Redis_Store Operator_Console
begin

text \<open>
  How the services come up and go down: \<open>_resolve_pack_dir\<close>, \<open>create_app\<close> and the lifespan of
  \<open>services/simulator/main.py\<close>, \<open>services/orchestrator/main.py\<close>, \<open>services/mcp_tools/main.py\<close> and
  \<open>services/gateway/main.py\<close>. All four load the pack themselves, from the directory the
  environment names. A start either yields the state the service serves from or the exception that
  ends it.
\<close>

datatype start_exn = StartLoad load_exn | StartRotation rotation_error | StartValueError

section \<open>The pack directory\<close>

text \<open>\<open>base\<close> is the directory above \<open>services\<close>.\<close>

definition resolve_pack_dir :: "filesystem \<Rightarrow> environ \<Rightarrow> path \<Rightarrow> path option \<Rightarrow> path" where
  "resolve_pack_dir fs env base pack_dir =
     (case pack_dir of
        Some dir \<Rightarrow> fs_resolve fs dir
      | None \<Rightarrow> fs_resolve fs (path_join (path_join base (lit ''packs''))
                  (getenv_or env ''PACK_ID'' (lit ''datacenter-xe9680''))))"

definition load_or_fail :: "filesystem \<Rightarrow> libs \<Rightarrow> path \<Rightarrow> start_exn + LoadedPack" where
  "load_or_fail fs lb dir = (case load_pack fs lb dir of Inl e \<Rightarrow> Inl (StartLoad e) | Inr lp \<Rightarrow> Inr lp)"

section \<open>Simulator and orchestrator\<close>

record simulator_app =
  si_engine :: engine
  si_loaded_pack :: LoadedPack

definition simulator_start :: "filesystem \<Rightarrow> libs \<Rightarrow> path \<Rightarrow> start_exn + simulator_app" where
  "simulator_start fs lb dir =
     bind_res (load_or_fail fs lb dir) (\<lambda>lp. Inr \<lparr>si_engine = engine_init lp, si_loaded_pack = lp\<rparr>)"

text \<open>An HTTP client that was injected, or one of the service's own at a base URL.\<close>

datatype http_client = Injected | OwnClient pystr

record orchestrator_app =
  oa_state :: orch
  oa_sim_client :: http_client

definition orchestrator_start ::
  "filesystem \<Rightarrow> libs \<Rightarrow> environ \<Rightarrow> bool \<Rightarrow> path \<Rightarrow> start_exn + orchestrator_app" where
  "orchestrator_start fs lb env client_given dir =
     bind_res (load_or_fail fs lb dir) (\<lambda>lp.
     bind_res (case orch_init lp of Inl e \<Rightarrow> Inl (StartRotation e) | Inr oc \<Rightarrow> Inr oc) (\<lambda>oc.
       Inr \<lparr>oa_state = oc,
            oa_sim_client = (if client_given then Injected
              else OwnClient (rstrip_chars (lit ''/'') (getenv_or env ''SIMULATOR_URL'' (lit ''http://localhost:8003''))))\<rparr>))"

section \<open>MCP tools\<close>

text \<open>\<open>arg or os.environ.get(name, default)\<close>\<close>

definition url_or :: "pystr option \<Rightarrow> environ \<Rightarrow> string \<Rightarrow> string \<Rightarrow> pystr" where
  "url_or arg env name dflt =
     (case arg of
        Some u \<Rightarrow> if u \<noteq> [] then u else getenv_or env name (lit dflt)
      | None \<Rightarrow> getenv_or env name (lit dflt))"

text \<open>
  What \<open>create_app\<close> fixes before the lifespan: the directory, the URLs, and the token store and the
  registry that the internal endpoints share with the tools.
\<close>

record mcp_factory =
  mf_dir :: path
  mf_sim_url :: pystr
  mf_orch_url :: pystr
  mf_gw_url :: pystr
  mf_token_store :: token_store
  mf_fault_registry :: fault_registry

definition mcp_create ::
  "filesystem \<Rightarrow> environ \<Rightarrow> path \<Rightarrow> path option \<Rightarrow> pystr option \<Rightarrow> pystr option \<Rightarrow> pystr option
     \<Rightarrow> token_store option \<Rightarrow> fault_registry option \<Rightarrow> mcp_factory" where
  "mcp_create fs env base pack_dir sim orch gw ts fr =
     \<lparr>mf_dir = resolve_pack_dir fs env base pack_dir,
      mf_sim_url = url_or sim env ''SIMULATOR_URL'' ''http://localhost:8003'',
      mf_orch_url = url_or orch env ''ORCHESTRATOR_URL'' ''http://localhost:8002'',
      mf_gw_url = url_or gw env ''GATEWAY_URL'' ''http://localhost:8001'',
      mf_token_store = (case ts of None \<Rightarrow> [] | Some x \<Rightarrow> x),
      mf_fault_registry = (case fr of None \<Rightarrow> [] | Some x \<Rightarrow> x)\<rparr>"

definition mcp_start ::
  "filesystem \<Rightarrow> libs \<Rightarrow> (pystr list \<Rightarrow> vector_search option) \<Rightarrow> mcp_factory \<Rightarrow> start_exn + tool_state" where
  "mcp_start fs lb build mf =
     bind_res (load_or_fail fs lb (mf_dir mf)) (\<lambda>lp.
       Inr \<lparr>tl_adapter = pack_adapter lp, tl_orchestrator_url = mf_orch_url mf,
            tl_simulator_url = mf_sim_url mf, tl_gateway_url = mf_gw_url mf,
            tl_kb_index = kb_index_init build lp default_threshold,
            tl_token_store = mf_token_store mf, tl_fault_registry = mf_fault_registry mf,
            tl_loaded_pack = lp\<rparr>)"

text \<open>The end of the lifespan: \<open>_state.clear()\<close>.\<close>

definition mcp_stop :: "'g mcp_app \<Rightarrow> 'g mcp_app" where
  "mcp_stop app = app\<lparr>mx_state := None\<rparr>"

section \<open>Gateway\<close>

datatype store_kind = InMemory | OnRedis pystr pystr

record gateway_factory =
  gf_dir :: path
  gf_orch_url :: pystr
  gf_mcp_url :: pystr
  gf_redis_url :: "pystr option"
  gf_redis_prefix :: pystr
  gf_delay_scale :: rat
  gf_orch_given :: bool
  gf_mcp_given :: bool

text \<open>\<open>float(...)\<close> of the delay scale; \<open>float_of\<close> reads it, nothing for what raises \<open>ValueError\<close>.\<close>

definition gateway_create ::
  "(pystr \<Rightarrow> rat option) \<Rightarrow> filesystem \<Rightarrow> environ \<Rightarrow> path \<Rightarrow> path option \<Rightarrow> bool \<Rightarrow> bool
     \<Rightarrow> start_exn + gateway_factory" where
  "gateway_create float_of fs env base pack_dir orch_given mcp_given =
     (case float_of (getenv_or env ''GATEWAY_NARRATION_DELAY_SCALE'' (lit ''1.0'')) of
        None \<Rightarrow> Inl StartValueError
      | Some scale \<Rightarrow> Inr
          \<lparr>gf_dir = resolve_pack_dir fs env base pack_dir,
           gf_orch_url = getenv_or env ''ORCHESTRATOR_URL'' (lit ''http://localhost:8002''),
           gf_mcp_url = getenv_or env ''MCP_TOOLS_URL'' (lit ''http://localhost:8004''),
           gf_redis_url = getenv env ''REDIS_URL'',
           gf_redis_prefix = getenv_or env ''REDIS_KEY_PREFIX'' (lit ''nemoclaw''),
           gf_delay_scale = scale, gf_orch_given = orch_given, gf_mcp_given = mcp_given\<rparr>)"

definition gateway_store_kind :: "gateway_factory \<Rightarrow> store_kind" where
  "gateway_store_kind gf =
     (case gf_redis_url gf of
        Some url \<Rightarrow> if url \<noteq> [] then OnRedis url (gf_redis_prefix gf) else InMemory
      | None \<Rightarrow> InMemory)"

record 's gateway_state =
  gy_store :: 's
  gy_loaded_pack :: LoadedPack
  gy_orch_client :: http_client
  gy_mcp_client :: http_client
  gy_delay_scale :: rat

text \<open>The lifespan up to its \<open>yield\<close>, over the operations and the first state of the chosen store.\<close>

definition gateway_lifespan ::
  "filesystem \<Rightarrow> libs \<Rightarrow> environ \<Rightarrow> gateway_factory \<Rightarrow> 's store_ops \<Rightarrow> 's \<Rightarrow> start_exn + 's gateway_state" where
  "gateway_lifespan fs lb env gf st s =
     bind_res (load_or_fail fs lb (gf_dir gf)) (\<lambda>lp.
       Inr \<lparr>gy_store = gateway_start st lp (gf_redis_url gf) (getenv env ''RESET_STATE_ON_START'') s,
            gy_loaded_pack = lp,
            gy_orch_client = (if gf_orch_given gf then Injected else OwnClient (gf_orch_url gf)),
            gy_mcp_client = (if gf_mcp_given gf then Injected else OwnClient (gf_mcp_url gf)),
            gy_delay_scale = gf_delay_scale gf\<rparr>)"

text \<open>
  After the \<open>yield\<close>: what is closed, in this order. A close that raises ends the shutdown, and the
  rest stays open.
\<close>

datatype closing = CloseStore | CloseOrch | CloseMcp

definition gateway_closings :: "gateway_factory \<Rightarrow> closing list" where
  "gateway_closings gf =
     (if gateway_store_kind gf \<noteq> InMemory then [CloseStore] else [])
     @ (if gf_orch_given gf then [] else [CloseOrch]) @ (if gf_mcp_given gf then [] else [CloseMcp])"

fun run_closings :: "(closing \<Rightarrow> bool) \<Rightarrow> closing list \<Rightarrow> closing list" where
  "run_closings raises [] = []"
| "run_closings raises (c # cs) = (if raises c then [] else c # run_closings raises cs)"

definition gateway_shutdown :: "(closing \<Rightarrow> bool) \<Rightarrow> gateway_factory \<Rightarrow> closing list" where
  "gateway_shutdown raises gf = run_closings raises (gateway_closings gf)"

section \<open>One pack, four services\<close>

lemma load_or_fail_simps:
  "load_pack fs lb dir = Inl e \<Longrightarrow> load_or_fail fs lb dir = Inl (StartLoad e)"
  "load_pack fs lb dir = Inr lp \<Longrightarrow> load_or_fail fs lb dir = Inr lp"
  by (simp_all add: load_or_fail_def)

lemma orch_init_Inr:
  assumes "lp_scenarios lp \<noteq> []"
  obtains oc where "orch_init lp = Inr oc" "oc_pack oc = lp" "rot_last (oc_rotation oc) = None"
    "dom (map_of (oc_active oc)) = pa_id ` set (pk_assets (lp_pack lp))" "\<And>a. active_scenario oc a = None"
proof
  let ?active = "dict_of (map (\<lambda>a. (pa_id a, None)) (pk_assets (lp_pack lp)))"
  let ?oc = "\<lparr>oc_pack = lp, oc_rotation = \<lparr>rot_ids = map sc_id (lp_scenarios lp), rot_last = None\<rparr>, oc_active = ?active\<rparr>"
  show "orch_init lp = Inr ?oc" using assms by (simp add: orch_init_def rotation_init_def)
  show "dom (map_of (oc_active ?oc)) = pa_id ` set (pk_assets (lp_pack lp))"
    by (simp add: dom_dict_of image_image)
  show "active_scenario ?oc a = None" for a
    by (auto simp: active_scenario_def map_of_dict_of split: option.split dest!: map_of_SomeD)
qed simp_all

text \<open>The assets a starting gateway shows: one healthy record for each asset of the pack.\<close>

lemma seeded:
  "map_of (gs_assets (fold (\<lambda>a. store_set_asset (seed_asset lp a)) as s)) x =
     (if x \<in> pa_id ` set as then Some \<lparr>ar_id = x, ar_type = noun_singular (pk_asset_noun (lp_pack lp)),
        ar_state = healthy, ar_active_fault = None\<rparr> else map_of (gs_assets s) x)"
proof (induction as arbitrary: s)
  case (Cons a as)
  show ?case
    unfolding fold_Cons comp_def Cons.IH
    by (auto simp: store_set_asset_def seed_asset_def dict_simps)
qed simp

lemma seeded_other:
  "gs_faults (fold (\<lambda>a. store_set_asset (seed_asset lp a)) as s) = gs_faults s"
  "gs_tokens (fold (\<lambda>a. store_set_asset (seed_asset lp a)) as s) = gs_tokens s"
  "gs_activity (fold (\<lambda>a. store_set_asset (seed_asset lp a)) as s) = gs_activity s"
  "gs_notifications (fold (\<lambda>a. store_set_asset (seed_asset lp a)) as s) = gs_notifications s"
  by (induction as arbitrary: s) (auto simp: store_set_asset_def)

lemma gateway_start_fresh:
  "map_of (gs_assets (gateway_start mem_ops lp url flag store_init)) x =
     (if x \<in> pa_id ` set (pk_assets (lp_pack lp)) then Some \<lparr>ar_id = x, ar_type = noun_singular (pk_asset_noun (lp_pack lp)),
        ar_state = healthy, ar_active_fault = None\<rparr> else None)"
  "gs_faults (gateway_start mem_ops lp url flag store_init) = []"
  "gs_tokens (gateway_start mem_ops lp url flag store_init) = []"
  "gs_activity (gateway_start mem_ops lp url flag store_init) = []"
  "gs_notifications (gateway_start mem_ops lp url flag store_init) = []"
  by (simp_all add: gateway_start_def Let_def store_reset_def store_publish_def map_of_map_value seeded seeded_other)
    (simp_all add: store_init_def healthy_record_def)

lemma engine_init_scenarios: "set (known_scenario_ids (engine_init lp)) = sc_id ` set (lp_scenarios lp)"
  by (simp add: known_scenario_ids_def engine_init_def image_image flip: dom_map_of_conv_image_fst)
    (simp add: dom_dict_of image_image)

text \<open>On a pack that loads, the orchestrator starts exactly when there is a scenario to draw.\<close>

lemma orchestrator_starts:
  assumes "load_pack fs lb dir = Inr lp"
  shows "if lp_scenarios lp = [] then orchestrator_start fs lb env given dir = Inl (StartRotation NoScenarioIds)
    else \<exists>oa. orchestrator_start fs lb env given dir = Inr oa
      \<and> dom (map_of (oc_active (oa_state oa))) = pa_id ` set (pk_assets (lp_pack lp))
      \<and> (\<forall>a. active_scenario (oa_state oa) a = None)
      \<and> ss_id ` set (fst (list_scenarios (oa_state oa))) = set (known_scenario_ids (engine_init lp))
      \<and> snd (list_scenarios (oa_state oa)) = None"
proof (cases "lp_scenarios lp = []")
  case True
  then show ?thesis
    by (simp add: orchestrator_start_def load_or_fail_simps(2) [OF assms] orch_init_def rotation_init_def)
next
  case False
  from False obtain oc where "orch_init lp = Inr oc" "oc_pack oc = lp" "rot_last (oc_rotation oc) = None"
    "dom (map_of (oc_active oc)) = pa_id ` set (pk_assets (lp_pack lp))" "\<And>a. active_scenario oc a = None"
    by (rule orch_init_Inr) blast
  with False show ?thesis
    by (simp add: orchestrator_start_def load_or_fail_simps(2) [OF assms] list_scenarios_def image_image
        engine_init_scenarios)
qed

text \<open>
  C16: The services of a lab start together or not at all, and agree on the lab they serve. On one
  installation and environment, when the pack does not load, all four fail with the error of the
  loader. When it loads, simulator, MCP tools and gateway start (the gateway given a delay scale that
  is a number, over the in-memory store), and the orchestrator starts exactly when the pack has a
  scenario. Then the same assets are known to the simulator, to the dashboard's grid and to the
  orchestrator; all are free of faults, healthy and idle; the scenarios the orchestrator draws from
  are those the simulator can inject; the dashboard holds no fault event, activity, notification or
  token; and the tools read the monitoring surface the pack declares.
\<close>

theorem services_start_together:
  assumes "dir = resolve_pack_dir fs env base None" and "mf = mcp_create fs env base None None None None None None"
    and "gateway_create float_of fs env base None False False = Inr gf"
  shows "case load_pack fs lb dir of
      Inl e \<Rightarrow> simulator_start fs lb dir = Inl (StartLoad e) \<and> orchestrator_start fs lb env False dir = Inl (StartLoad e)
        \<and> mcp_start fs lb build mf = Inl (StartLoad e)
        \<and> gateway_lifespan fs lb env gf mem_ops store_init = Inl (StartLoad e)
    | Inr lp \<Rightarrow> \<exists>si st gy. simulator_start fs lb dir = Inr si \<and> mcp_start fs lb build mf = Inr st
        \<and> gateway_lifespan fs lb env gf mem_ops store_init = Inr gy
        \<and> set (asset_ids (si_engine si)) = pa_id ` set (pk_assets (lp_pack lp))
        \<and> (\<forall>a. get_fault (si_engine si) a = None)
        \<and> dom (map_of (gs_assets (gy_store gy))) = set (asset_ids (si_engine si))
        \<and> (\<forall>a r. map_of (gs_assets (gy_store gy)) a = Some r \<longrightarrow> ar_state r = healthy \<and> ar_active_fault r = None)
        \<and> gs_faults (gy_store gy) = [] \<and> gs_tokens (gy_store gy) = []
        \<and> gs_activity (gy_store gy) = [] \<and> gs_notifications (gy_store gy) = []
        \<and> tl_adapter st = (if pk_monitoring_adapter (lp_pack lp) = Generic then generic_adapter else redfish_adapter)
        \<and> tl_token_store st = [] \<and> tl_fault_registry st = []
        \<and> (if lp_scenarios lp = [] then orchestrator_start fs lb env False dir = Inl (StartRotation NoScenarioIds)
           else \<exists>oa. orchestrator_start fs lb env False dir = Inr oa
             \<and> dom (map_of (oc_active (oa_state oa))) = set (asset_ids (si_engine si))
             \<and> (\<forall>a. active_scenario (oa_state oa) a = None)
             \<and> ss_id ` set (fst (list_scenarios (oa_state oa))) = set (known_scenario_ids (si_engine si))
             \<and> snd (list_scenarios (oa_state oa)) = None)"
proof -
  have dirs: "mf_dir mf = dir" "gf_dir gf = dir" "mf_token_store mf = []" "mf_fault_registry mf = []"
    using assms by (auto simp: mcp_create_def gateway_create_def split: option.splits)
  have given: "gf_orch_given gf = False" "gf_mcp_given gf = False"
    using assms(3) by (auto simp: gateway_create_def split: option.splits)
  show ?thesis
  proof (cases "load_pack fs lb dir")
    case (Inl e)
    then show ?thesis
      by (simp add: simulator_start_def orchestrator_start_def mcp_start_def gateway_lifespan_def dirs load_or_fail_simps)
  next
    case (Inr lp)
    note load = load_or_fail_simps(2) [OF Inr]
    let ?A = "pa_id ` set (pk_assets (lp_pack lp))"
    let ?store = "gateway_start mem_ops lp (gf_redis_url gf) (getenv env ''RESET_STATE_ON_START'') store_init"
    have assets: "set (asset_ids (engine_init lp)) = ?A" using engine_init_assets [of lp] by simp
    have grid: "dom (map_of (gs_assets ?store)) = ?A"
      by (auto simp: dom_def gateway_start_fresh split: if_splits)
    show ?thesis
      unfolding Inr sum.case
      by (rule exI [of _ "\<lparr>si_engine = engine_init lp, si_loaded_pack = lp\<rparr>"],
          rule exI [of _ "\<lparr>tl_adapter = pack_adapter lp, tl_orchestrator_url = mf_orch_url mf,
            tl_simulator_url = mf_sim_url mf, tl_gateway_url = mf_gw_url mf,
            tl_kb_index = kb_index_init build lp default_threshold, tl_token_store = mf_token_store mf,
            tl_fault_registry = mf_fault_registry mf, tl_loaded_pack = lp\<rparr>"],
          rule exI [of _ "\<lparr>gy_store = ?store, gy_loaded_pack = lp, gy_orch_client = OwnClient (gf_orch_url gf),
            gy_mcp_client = OwnClient (gf_mcp_url gf), gy_delay_scale = gf_delay_scale gf\<rparr>"])
        (use orchestrator_starts [OF Inr, of env False] assets grid in \<open>simp add: simulator_start_def mcp_start_def gateway_lifespan_def dirs load given
           engine_init_get_fault gateway_start_fresh pack_adapter_def\<close>)
  qed
qed


theorem services_start_together_witness:
  "\<exists>si st. simulator_start demo_fs demo_libs (resolve_pack_dir demo_fs [] [] None) = Inr si
     \<and> mcp_start demo_fs demo_libs (\<lambda>_. None) (mcp_create demo_fs [] [] None None None None None None) = Inr st
     \<and> get_fault (si_engine si) (lit ''gpu-1'') = None \<and> tl_adapter st = redfish_adapter"
proof -
  have load: "load_pack demo_fs demo_libs (resolve_pack_dir demo_fs [] [] None) = Inr demo_pack" by code_simp
  have "\<exists>gf. gateway_create (\<lambda>_. Some 1) demo_fs [] [] None False False = Inr gf" by (simp add: gateway_create_def)
  then obtain gf where "gateway_create (\<lambda>_. Some 1) demo_fs [] [] None False False = Inr gf" by blast
  from services_start_together [OF refl refl this, of demo_libs "\<lambda>_. None"] load show ?thesis
    by (auto simp: demo_pack_def demo_meta_def)
qed

text \<open>
  The shutdown of the gateway closes the store first and nothing catches what that raises: the
  clients the gateway made itself then stay open. Over the in-memory store there is nothing to raise
  before them.
\<close>

lemma gateway_shutdown_leaks:
  assumes "gateway_store_kind gf \<noteq> InMemory" and "raises CloseStore"
  shows "gateway_shutdown raises gf = []"
  using assms by (simp add: gateway_shutdown_def gateway_closings_def)

lemma gateway_shutdown_all:
  assumes "\<And>c. \<not> raises c"
  shows "gateway_shutdown raises gf = gateway_closings gf"
proof -
  have "run_closings raises cs = cs" for cs using assms by (induction cs) auto
  then show ?thesis by (simp add: gateway_shutdown_def)
qed

end
