(* ===== verification/Lab_Diagnosis.thy ===== *)
theory Lab_Diagnosis
  imports Orch_Http Service_Startup Monitor_Contract
begin

text \<open>
  A diagnosis across the services: the orchestrator injects a scenario into the simulator, and the
  tools of the MCP service, over the simulator's monitoring surface, the orchestrator's routes and
  the pack's knowledge base, lead from the event over the log bundle to the article.
\<close>

section \<open>Invariants of the simulator behind the orchestrator\<close>

text \<open>What every call of the client keeps, every operation of the lab keeps.\<close>

lemma clear_active_keeps:
  assumes "\<And>a w. P w \<Longrightarrow> P (snd (clear_fn a w))"
  shows "P s \<Longrightarrow> P (snd (snd (clear_active clear_fn items active s)))"
proof (induction items arbitrary: active s)
  case (Cons x items)
  obtain asset_id cur where x: "x = (asset_id, cur)" by (cases x)
  show ?case
  proof (cases "cur = None")
    case True
    with Cons x show ?thesis by simp
  next
    case False
    obtain b s1 where c: "clear_fn asset_id s = (b, s1)" by (cases "clear_fn asset_id s")
    with assms [OF Cons.prems, of asset_id] have "P s1" by simp
    with Cons.IH False x c show ?thesis by (cases b) auto
  qed
qed simp

lemma inject_scenario_keeps:
  assumes "\<And>a w. P w \<Longrightarrow> P (snd (clear_fn a w))" and "\<And>a sid w. P w \<Longrightarrow> P (snd (inject_fn a sid w))" and "P s"
  shows "P (snd (snd (inject_scenario clear_fn inject_fn sid lp active s)))"
proof -
  obtain b active1 s1 where c: "clear_active clear_fn active active s = (b, active1, s1)"
    by (cases "clear_active clear_fn active active s")
  moreover have "P (snd (snd (clear_active clear_fn active active s)))"
    by (rule clear_active_keeps [where P = P]) (use assms in auto)
  ultimately have "P s1" by simp
  with assms(2) c show ?thesis
    by (auto simp: inject_scenario_def split: bool.split option.split prod.split) (metis snd_conv)+
qed

lemma lab_step_keeps:
  assumes "\<And>a w. P w \<Longrightarrow> P (snd (http_clear a w))" and "\<And>a sid w. P w \<Longrightarrow> P (snd (http_inject a sid w))"
    and "P (snd s)"
  shows "P (snd (lab_step s op))"
proof -
  obtain oc w where s: "s = (oc, w)" by (cases s)
  have inj: "P w \<Longrightarrow> P (snd (snd (inject_scenario http_clear http_inject sid lp active w)))" for sid lp active w
    by (rule inject_scenario_keeps [where P = P]) (use assms(1,2) in auto)
  have "P w" using assms(3) s by simp
  show ?thesis
  proof (cases op)
    case (RunNext r)
    with inj [OF \<open>P w\<close>] show ?thesis
      by (simp add: s run_next_def case_prod_unfold Let_def)
  next
    case (RunSpecific sid)
    with inj [OF \<open>P w\<close>] \<open>P w\<close> show ?thesis
      by (simp add: s run_specific_def case_prod_unfold Let_def split: sum.split)
  next
    case ResetLab
    obtain b active1 s1 where c: "clear_active http_clear (oc_active oc) (oc_active oc) w = (b, active1, s1)"
      by (cases "clear_active http_clear (oc_active oc) (oc_active oc) w")
    moreover have "P (snd (snd (clear_active http_clear (oc_active oc) (oc_active oc) w)))"
      by (rule clear_active_keeps [where P = P]) (use assms(1) \<open>P w\<close> in auto)
    ultimately have "P s1" by simp
    with c ResetLab show ?thesis by (cases b) (simp_all add: s orch_reset_def)
  next
    case (Remediated a)
    with assms(1) [OF \<open>P w\<close>, of a] show ?thesis by (simp add: s)
  qed
qed

text \<open>The engine of a lab keeps its invariant and the scenarios of its pack.\<close>

definition serves :: "LoadedPack \<Rightarrow> sim_world \<Rightarrow> bool" where
  "serves lp w \<longleftrightarrow> engine_ok (sw_engine w) \<and> en_scenarios (sw_engine w) = en_scenarios (engine_init lp)
     \<and> asset_ids (sw_engine w) = asset_ids (engine_init lp)"

lemma serves_clear: "serves lp w \<Longrightarrow> serves lp (snd (http_clear a w))"
  using http_clear_cases [of a w "fst (http_clear a w)" "snd (http_clear a w)"]
  by (auto simp: serves_def engine_ok_clear clear_asset_ids) (auto simp: clear_asset_Inr_iff)

lemma serves_inject: "serves lp w \<Longrightarrow> serves lp (snd (http_inject a sid w))"
  using http_inject_cases [of a sid w "fst (http_inject a sid w)" "snd (http_inject a sid w)"]
  by (auto simp: serves_def engine_ok_inject inject_asset_ids) (auto simp: inject_Inr_iff)

lemma serves_run: "serves lp (snd s) \<Longrightarrow> serves lp (snd (foldl lab_step s ops))"
proof (induction ops arbitrary: s)
  case (Cons op ops)
  from Cons.IH [OF lab_step_keeps [where P = "serves lp", OF serves_clear serves_inject Cons.prems]] show ?case by simp
qed simp

lemma serves_start: "sw_engine w = engine_init lp \<Longrightarrow> serves lp w"
  by (simp add: serves_def engine_ok_init)

lemma lab_step_pack: "oc_pack (fst (lab_step s op)) = oc_pack (fst s)"
  by (cases s; cases op)
    (auto simp: run_next_def run_specific_def orch_reset_def case_prod_unfold Let_def split: sum.split bool.split prod.split)

lemma lab_run_pack: "oc_pack (fst (foldl lab_step s ops)) = oc_pack (fst s)"
  by (induction ops arbitrary: s) (simp_all add: lab_step_pack)

section \<open>The tools over the lab\<close>

text \<open>An asset id that is one segment of a path reaches its route.\<close>

lemma logs_route:
  assumes "segment a"
  shows "orch_get fw now oc w (lit ''/api/assets/'' @ a @ lit ''/logs'') = orch_reply fw (fst (with_json logs_json (get_logs now a oc, oc, w)))"
proof -
  have "split_on [47] (lit ''/api/assets/'' @ a @ lit ''/logs'') = [[], lit ''api'', lit ''assets'', a, lit ''logs'']"
    using split_join [of "[[], lit ''api'', lit ''assets'', a, lit ''logs'']"] assms by (simp add: lit_def segment_def)
  with assms show ?thesis
    by (simp add: orch_get_def orch_http_def orch_route_of_def segment_def case_prod_unfold Let_def)
qed

lemma fault_shown:
  assumes "engine_ok e" and "get_fault e a = Some f"
  shows "\<exists>evs. monitor_list_events (pack_adapter lp) (engine_get e) [] = Inr evs
    \<and> (\<exists>ev \<in> set evs. jget ev (lit ''asset_id'') JNull = Some (JStr a)
        \<and> jget ev (lit ''message_id'') JNull = Some (JStr (if_event_message_id f)))"
proof -
  have a: "a \<in> set (asset_ids e)" using assms(2) by (auto simp: set_asset_ids get_fault_def split: option.splits)
  have "\<exists>evs. ad_list_events (pack_adapter lp) (engine_get e) None = Inr evs \<and> (\<exists>ev \<in> set evs. event_key ev = fault_key a f)"
    by (rule pack_adapter_cases [of lp])
      (use a assms(2) generic.events_of_faults [of e] redfish.events_of_faults [of e] in
        \<open>auto simp: generic_adapter_def redfish_adapter_def\<close>)
  then obtain evs ev where evs: "ad_list_events (pack_adapter lp) (engine_get e) None = Inr evs" "ev \<in> set evs"
    "event_key ev = fault_key a f"
    by blast
  then have "monitor_list_events (pack_adapter lp) (engine_get e) [] = Inr (map event_dict evs)"
    by (simp add: monitor_list_events_def)
  moreover have "event_dict ev \<in> set (map event_dict evs)" using evs(2) by simp
  moreover have "jget (event_dict ev) (lit ''asset_id'') JNull = Some (JStr a)"
    "jget (event_dict ev) (lit ''message_id'') JNull = Some (JStr (if_event_message_id f))"
    using evs(3) by (simp_all add: event_dict_fields event_key_def fault_key_def)
  ultimately show ?thesis by blast
qed


section \<open>From the event to the article\<close>

lemma result_json_fields:
  "result_json (Some r) \<noteq> JNull" "jget (result_json (Some r)) (lit ''kb_id'') d = Some (JStr (kr_kb_id r))"
  "jget (result_json (Some r)) (lit ''via'') d = Some (JStr (kr_via r))"
  by (simp_all add: result_json_def)

text \<open>The lab after an injection: the scenario, its fault in the engine, and what the log route answers.\<close>

lemma lab_injection:
  assumes "wf_loaded lp" and "orch_init lp = Inr oc0" and "no_lost_replies w0" and "sw_engine w0 = engine_init lp"
    and "foldl lab_step (oc0, w0) ops = (oc1, w1)"
    and "run_specific http_clear http_inject sid oc1 w1 = (Inr resp, oc, w)"
  obtains sc raw f where "sc \<in> set (lp_scenarios lp)" "sc_id sc = sid" "resp = scenario_response sc"
    "map_of (lp_log_bundles lp) (sc_log_bundle_ref sc) = Some raw"
    "get_logs now (sc_target_asset sc) oc =
       Inr \<lparr>lr_asset_id = sc_target_asset sc, lr_scenario_id = sid, lr_log_text = stamp_today now raw,
         lr_log_highlight = extract_highlight (stamp_today now raw) (sc_error_signatures sc)\<rparr>"
    "engine_ok (sw_engine w)" "get_fault (sw_engine w) (sc_target_asset sc) = Some f"
    "if_event_message_id f = ee_message_id (em_event (sc_emit sc))"
proof -
  have "oc_pack oc0 = lp" using assms(2) by (auto simp: orch_init_def bind_res_eq_Inr)
  then have pack: "oc_pack oc1 = lp" using lab_run_pack [of "(oc0, w0)" ops] assms(5) by simp
  have "lab_inv (oc1, w1)" using lab_inv_run [OF lab_inv_start [OF assms(1-4)], of ops] assms(5) by simp
  then have tracked: "faults_tracked oc1 w1" by (simp add: lab_inv_def)
  from run_specific_isolates [OF tracked assms(6)] obtain sc where
    sc: "map_of (lp_scenarios_by_id lp) sid = Some sc" "resp = scenario_response sc" and
    fault: "sim_fault_of w (sc_target_asset sc) = Some sid"
    by (auto simp: pack)
  have known: "sc \<in> set (lp_scenarios lp)" "sc_id sc = sid"
    using wf_loaded_by_id [OF assms(1)] sc(1) by blast+
  from logs_after_run [OF _ tracked assms(6), of now] assms(1) pack sc obtain raw where
    raw: "map_of (lp_log_bundles lp) (sc_log_bundle_ref sc) = Some raw"
    "get_logs now (sc_target_asset sc) oc =
       Inr \<lparr>lr_asset_id = sc_target_asset sc, lr_scenario_id = sid, lr_log_text = stamp_today now raw,
         lr_log_highlight = extract_highlight (stamp_today now raw) (sc_error_signatures sc)\<rparr>"
    by (auto simp: scenario_response_def)
  have "serves lp w1" using serves_run [of lp "(oc0, w0)" ops] serves_start [OF assms(4)] assms(5) by simp
  then have "serves lp (snd (lab_step (oc1, w1) (RunSpecific sid)))"
    by (intro lab_step_keeps [where P = "serves lp"] serves_clear serves_inject) simp_all
  with assms(6) have engine: "engine_ok (sw_engine w)" "en_scenarios (sw_engine w) = index_scenarios (lp_scenarios lp)"
    by (simp_all add: serves_def engine_init_def index_scenarios_def)
  from fault obtain f where f: "get_fault (sw_engine w) (sc_target_asset sc) = Some f" "if_scenario_id f = sid"
    by (auto simp: sim_fault_of_def)
  from engine(1) f obtain sc' where sc': "map_of (en_scenarios (sw_engine w)) sid = Some sc'"
    "f = make_fault (if_injected_at f) (sc_target_asset sc) sid sc'"
    unfolding engine_ok_def by blast
  have "sc' = sc" using sc'(1) sc(1) assms(1) engine(2) by (simp add: wf_loaded_def)
  then have "if_event_message_id f = ee_message_id (em_event (sc_emit sc))"
    using arg_cong [OF sc'(2), of if_event_message_id] by (simp add: make_fault_def)
  with that known sc(2) raw engine(1) f(1) show ?thesis by blast
qed

lemma kb_tool_answers:
  assumes "load_pack fs lb dir = Inr lp"
    and "\<And>s. s \<in> set (lp_scenarios lp) \<Longrightarrow>
       path_stem (fs_resolve fs (path_join (fs_resolve fs dir) (sc_kb_article_ref s)))
         = path_stem (path_parts (sc_kb_article_ref s)) \<and> path_stem (path_parts (sc_kb_article_ref s)) \<noteq> []"
    and "sc \<in> set (lp_scenarios lp)" and "sig \<in> set (sc_error_signatures sc)"
    and "mx_state app = Some st" and "tl_kb_index st = kb_index_init build lp th"
  shows "\<exists>kb kid. call_tool env (KbSearch sig []) app = (Inr kb, app)
    \<and> jget kb (lit ''kb_id'') JNull = Some (JStr kid)
    \<and> (jget kb (lit ''via'') JNull = Some (JStr (lit ''deterministic'')) \<longrightarrow>
         (\<exists>s' \<in> set (lp_scenarios lp). sig \<in> set (sc_error_signatures s')
            \<and> kid = path_stem (path_parts (sc_kb_article_ref s'))))"
proof -
  obtain r where r: "kb_search (kb_index_init build lp th) sig None = Inr (Some r)"
    "kr_via r = lit ''deterministic'' \<longrightarrow> (\<exists>s' \<in> set (lp_scenarios lp). sig \<in> set (sc_error_signatures s')
        \<and> kr_kb_id r = path_stem (path_parts (sc_kb_article_ref s')))"
    using kb_search_answers_signature [OF assms(1-4)] by blast
  then have "call_tool env (KbSearch sig []) app = (Inr (result_json (Some r)), app)"
    by (simp add: tool_defs with_state_def raising_def assms(5,6) server_kb_search_def)
  with r(2) show ?thesis by (intro exI [of _ "result_json (Some r)"] exI [of _ "kr_kb_id r"]) (simp add: result_json_fields)
qed

lemma bundle_tool_answers:
  assumes "segment a" and "get_logs now a oc = Inr r" and "mx_state app = Some st"
    and "te_orch env (tl_orchestrator_url st) (lit ''/api/assets/'' @ a @ lit ''/logs'')
      = Inr (orch_get fw now oc w (lit ''/api/assets/'' @ a @ lit ''/logs''))"
  shows "call_tool env (GetBundle a) app = (Inr (logs_json r), app)"
  using logs_route [OF assms(1), of fw now oc w] assms(2)
  by (simp add: tool_defs with_state_def raising_def assms(3) logs_get_bundle_def assms(4) orch_reply_def with_json_def
      raise_for_status_def status_ok_def)


definition diagnosis_framework :: orch_framework where
  "diagnosis_framework = \<lparr>of_no_route = (404, JNull), of_error_body = (\<lambda>_. JNull)\<rparr>"


end
