(* ===== verification/Terminal_Session.thy ===== *)
theory Terminal_Session
  imports Terminal_Daemon
begin

text \<open>
  The life of one \<open>/ws\<close> session of \<open>services/terminal/main.py\<close>: the PTY and the process
  \<open>_spawn_shell\<close> creates, the two pumps that run as tasks of the event loop, and how
  \<open>terminal_ws\<close> takes all of it down. A state holds the descriptors the daemon has open, those its
  event loop watches, the shell, the two tasks and where the handler stands; a step is one event of
  the loop, the shell or the browser. \<open>Terminal_Daemon\<close> has the frames themselves.
\<close>

section \<open>State\<close>

datatype shell_proc = Unborn | Alive | Exited int | Killed

text \<open>
  \<open>Killed\<close>: gone after a signal of \<open>_terminate_session\<close>, with a code nobody reads.
  A task that was created runs its first step later; one that ended has run its
  \<open>finally\<close>.
\<close>

datatype pump = Unmade | Scheduled | Running | Ended

text \<open>
  Where the handler stands: before anything, in \<open>asyncio.wait\<close>, waiting for the exit code, in the
  \<open>finally\<close> block, or gone.
\<close>

datatype handler_point = Entering | Waiting | Reporting | Closing | Gone

record tsession =
  ts_point :: handler_point
  ts_master :: nat
  ts_open :: "nat list"
  ts_readers :: "nat list"
  ts_shell :: shell_proc
  ts_queue :: "int list option list"
  ts_output :: pump
  ts_input :: pump
  ts_sent :: "ws_out list"
  ts_pty :: "pty_action list"
  ts_signals :: "signal list"

definition new_session :: "nat list \<Rightarrow> nat list \<Rightarrow> tsession" where
  "new_session open_fds readers =
     \<lparr>ts_point = Entering, ts_master = 0, ts_open = open_fds, ts_readers = readers, ts_shell = Unborn, ts_queue = [],
      ts_output = Unmade, ts_input = Unmade, ts_sent = [], ts_pty = [], ts_signals = []\<rparr>"

section \<open>Steps\<close>

text \<open>
  \<open>_spawn_shell\<close>: \<open>pty\<close> is what \<open>openpty\<close> answers (nothing when it raises), \<open>popen_ok\<close> whether
  \<open>Popen\<close> returns. The slave is closed on both ways, the master when \<open>Popen\<close> raises.
\<close>

definition spawn_shell :: "(nat \<times> nat) option \<Rightarrow> bool \<Rightarrow> nat list \<Rightarrow> nat option \<times> nat list" where
  "spawn_shell pty popen_ok fds =
     (case pty of
        None \<Rightarrow> (None, fds)
      | Some (master_fd, slave_fd) \<Rightarrow>
          (let opened = master_fd # slave_fd # fds;
               kept = (if popen_ok then opened else removeAll master_fd opened) in
           (if popen_ok then Some master_fd else None, removeAll slave_fd kept)))"

text \<open>The kernel gives descriptors that are not in use.\<close>

definition fresh_pty :: "(nat \<times> nat) option \<Rightarrow> nat list \<Rightarrow> bool" where
  "fresh_pty pty fds =
     (case pty of None \<Rightarrow> True | Some (m, s) \<Rightarrow> m \<noteq> s \<and> m \<notin> set fds \<and> s \<notin> set fds)"

text \<open>The handler up to \<open>asyncio.wait\<close>; \<open>accepted\<close>: \<open>ws.accept()\<close> returned.\<close>

definition open_session ::
  "pystr \<Rightarrow> pystr \<Rightarrow> bool \<Rightarrow> (nat \<times> nat) option \<Rightarrow> bool \<Rightarrow> tsession \<Rightarrow> tsession" where
  "open_session token header accepted pty popen_ok s =
     (if authorized header token = Inr True \<and> accepted
      then (case spawn_shell pty popen_ok (ts_open s) of
              (None, fds) \<Rightarrow> s\<lparr>ts_open := fds, ts_point := Gone\<rparr>
            | (Some master_fd, fds) \<Rightarrow>
                s\<lparr>ts_open := fds, ts_master := master_fd, ts_shell := Alive, ts_output := Scheduled,
                  ts_input := Scheduled, ts_point := Waiting\<rparr>)
      else s\<lparr>ts_point := Gone\<rparr>)"

definition unwatch :: "tsession \<Rightarrow> tsession" where
  "unwatch s = s\<lparr>ts_readers := removeAll (ts_master s) (ts_readers s)\<rparr>"

text \<open>\<open>_on_readable\<close>\<close>

definition on_readable :: "pty_read \<Rightarrow> tsession \<Rightarrow> tsession" where
  "on_readable r s =
     (case r of
        Chunk bs \<Rightarrow> if bs \<noteq> [] then s\<lparr>ts_queue := ts_queue s @ [Some bs]\<rparr>
                   else (unwatch s)\<lparr>ts_queue := ts_queue s @ [None]\<rparr>
      | Eio \<Rightarrow> (unwatch s)\<lparr>ts_queue := ts_queue s @ [None]\<rparr>)"

text \<open>\<open>_pump_pty_to_ws\<close>: its first step, one turn of its loop, and its \<open>finally\<close>.\<close>

definition output_begins :: "tsession \<Rightarrow> tsession" where
  "output_begins s = s\<lparr>ts_readers := List.insert (ts_master s) (ts_readers s), ts_output := Running\<rparr>"

definition output_ends :: "tsession \<Rightarrow> tsession" where
  "output_ends s = (if ts_output s = Running then (unwatch s)\<lparr>ts_output := Ended\<rparr> else s\<lparr>ts_output := Ended\<rparr>)"

definition output_turn :: "bool \<Rightarrow> tsession \<Rightarrow> tsession" where
  "output_turn send_ok s =
     (case ts_queue s of
        [] \<Rightarrow> s
      | None # q \<Rightarrow> output_ends (s\<lparr>ts_queue := q\<rparr>)
      | Some bs # q \<Rightarrow>
          if send_ok then s\<lparr>ts_queue := q, ts_sent := ts_sent s @ [OutBytes bs]\<rparr>
          else output_ends (s\<lparr>ts_queue := q\<rparr>))"

text \<open>
  One turn of \<open>_pump_ws_to_pty\<close>; \<open>os_ok\<close>: the system call on the PTY did not raise \<open>OSError\<close>, which
  only a resize survives.
\<close>

definition input_turn :: "(pystr \<Rightarrow> json option) \<Rightarrow> ws_msg \<Rightarrow> bool \<Rightarrow> tsession \<Rightarrow> tsession" where
  "input_turn loads m os_ok s =
     (case pump_ws_to_pty loads [m] of
        ([PtyWrite bs], _) \<Rightarrow> if os_ok then s\<lparr>ts_pty := ts_pty s @ [PtyWrite bs], ts_input := Running\<rparr>
                             else s\<lparr>ts_input := Ended\<rparr>
      | ([PtyResize c r], _) \<Rightarrow> s\<lparr>ts_pty := ts_pty s @ (if os_ok then [PtyResize c r] else []), ts_input := Running\<rparr>
      | (_, fin) \<Rightarrow> s\<lparr>ts_input := (if fin = PumpOpen then Running else Ended)\<rparr>)"

text \<open>
  After \<open>asyncio.wait\<close>: the pending pump is cancelled and awaited. The exit code is reported when
  the output pump ended and the input pump had not.
\<close>

definition wait_returns :: "tsession \<Rightarrow> tsession" where
  "wait_returns s =
     (let point = (if ts_output s = Ended \<and> ts_input s \<noteq> Ended then Reporting else Closing);
          s1 = (if ts_output s \<noteq> Ended then output_ends s else s) in
      s1\<lparr>ts_input := Ended, ts_point := point\<rparr>)"

text \<open>\<open>send_ok\<close>: the socket took the exit frame.\<close>

definition report_exit :: "int \<Rightarrow> bool \<Rightarrow> tsession \<Rightarrow> tsession" where
  "report_exit code send_ok s =
     s\<lparr>ts_sent := ts_sent s @ (if send_ok
           then [OutJson (JObj [(lit ''type'', JStr (lit ''exit'')), (lit ''code'', JInt code)])] else []),
       ts_point := Closing\<rparr>"

text \<open>The \<open>finally\<close> block; \<open>dies\<close>: the shell ends within the wait after that signal.\<close>

definition close_session :: "(signal \<Rightarrow> bool) \<Rightarrow> tsession \<Rightarrow> tsession" where
  "close_session dies s =
     (let sigs = terminate_session (ts_shell s = Alive) dies in
      s\<lparr>ts_signals := sigs, ts_shell := (if \<exists>sig\<in>set sigs. dies sig then Killed else ts_shell s),
        ts_open := removeAll (ts_master s) (ts_open s), ts_point := Gone\<rparr>)"

text \<open>
  The events. \<open>CancelHandler\<close> is the cancellation of the handler's own task: in \<open>asyncio.wait\<close> it
  leaves the pumps as they are; in the \<open>finally\<close> block it ends the handler while the executor still
  terminates the shell, and the master stays open.
\<close>

datatype session_event =
    Connect pystr bool "(nat \<times> nat) option" bool
  | OutputBegins
  | Readable pty_read
  | OutputTurn bool
  | Frame ws_msg bool
  | ShellExits int
  | WaitReturns
  | ReportExit bool
  | CloseSession "signal \<Rightarrow> bool"
  | CancelHandler

definition cancel_handler :: "tsession \<Rightarrow> tsession" where
  "cancel_handler s = s\<lparr>ts_point := (if ts_point s = Closing then Gone else Closing)\<rparr>"

fun session_step :: "(pystr \<Rightarrow> json option) \<Rightarrow> pystr \<Rightarrow> session_event \<Rightarrow> tsession \<Rightarrow> tsession option" where
  "session_step loads token (Connect header accepted pty popen_ok) s =
     (if ts_point s = Entering \<and> fresh_pty pty (ts_open s)
      then Some (open_session token header accepted pty popen_ok s) else None)"
| "session_step loads token OutputBegins s =
     (if ts_output s = Scheduled then Some (output_begins s) else None)"
| "session_step loads token (Readable r) s =
     (if ts_output s = Running \<and> ts_master s \<in> set (ts_readers s) then Some (on_readable r s) else None)"
| "session_step loads token (OutputTurn send_ok) s =
     (if ts_output s = Running \<and> ts_queue s \<noteq> [] then Some (output_turn send_ok s) else None)"
| "session_step loads token (Frame m os_ok) s =
     (if ts_input s = Scheduled \<or> ts_input s = Running then Some (input_turn loads m os_ok s) else None)"
| "session_step loads token (ShellExits code) s =
     (if ts_shell s = Alive then Some (s\<lparr>ts_shell := Exited code\<rparr>) else None)"
| "session_step loads token WaitReturns s =
     (if ts_point s = Waiting \<and> (ts_output s = Ended \<or> ts_input s = Ended) then Some (wait_returns s) else None)"
| "session_step loads token (ReportExit send_ok) s =
     (case (ts_point s, ts_shell s) of (Reporting, Exited code) \<Rightarrow> Some (report_exit code send_ok s) | _ \<Rightarrow> None)"
| "session_step loads token (CloseSession dies) s =
     (if ts_point s = Closing then Some (close_session dies s) else None)"
| "session_step loads token CancelHandler s =
     (if ts_point s \<in> {Waiting, Reporting, Closing} then Some (cancel_handler s) else None)"

fun session_run ::
  "(pystr \<Rightarrow> json option) \<Rightarrow> pystr \<Rightarrow> session_event list \<Rightarrow> tsession \<Rightarrow> tsession option" where
  "session_run loads token [] s = Some s"
| "session_run loads token (e # es) s =
     (case session_step loads token e s of None \<Rightarrow> None | Some s1 \<Rightarrow> session_run loads token es s1)"

end
