(* ===== verification/Session_Safety.thy ===== *)
theory Session_Safety
  imports Terminal_Session
begin

text \<open>
  What a terminal session leaves behind and what it shows: the invariants of \<open>Terminal_Session\<close>,
  proved for every step and so for every run.
\<close>

lemma session_run_append:
  "session_run loads token (es @ fs) s = Option.bind (session_run loads token es s) (session_run loads token fs)"
  by (induction es arbitrary: s) (auto split: option.splits)

lemma session_run_induct [consumes 1, case_names start step]:
  assumes "session_run loads token evs s0 = Some s"
    and "P [] s0"
    and "\<And>es e s1 s2. session_run loads token es s0 = Some s1 \<Longrightarrow> session_step loads token e s1 = Some s2 \<Longrightarrow>
      set (es @ [e]) \<subseteq> set evs \<Longrightarrow> P es s1 \<Longrightarrow> P (es @ [e]) s2"
  shows "P evs s"
proof -
  have "session_run loads token es s0 = Some s' \<Longrightarrow> set es \<subseteq> set evs \<Longrightarrow> P es s'" for es s'
  proof (induction es arbitrary: s' rule: rev_induct)
    case Nil
    with assms(2) show ?case by simp
  next
    case (snoc e es)
    from snoc.prems(1) obtain s1 where "session_run loads token es s0 = Some s1" "session_step loads token e s1 = Some s'"
      by (auto simp: session_run_append bind_eq_Some_conv split: option.splits)
    with snoc.prems(2) snoc.IH assms(3) show ?case by auto
  qed
  with assms(1) show ?thesis by blast
qed

lemmas session_defs =
  open_session_def spawn_shell_def fresh_pty_def on_readable_def unwatch_def output_begins_def output_ends_def
  output_turn_def wait_returns_def report_exit_def close_session_def cancel_handler_def

section \<open>Nothing is left open\<close>

text \<open>
  The resources of a session that is not cancelled, by where its handler stands; \<open>fds\<close> and \<open>rds\<close>
  are the daemon's other descriptors and readers.
\<close>

definition session_ok :: "nat list \<Rightarrow> nat list \<Rightarrow> tsession \<Rightarrow> bool" where
  "session_ok fds rds s \<longleftrightarrow>
     (if ts_point s = Entering then ts_open s = fds \<and> ts_readers s = rds \<and> ts_shell s = Unborn
        \<and> ts_output s = Unmade \<and> ts_input s = Unmade
      else if ts_point s = Gone then ts_open s = fds \<and> ts_readers s = rds
        \<and> ts_output s \<notin> {Scheduled, Running} \<and> ts_input s \<notin> {Scheduled, Running}
        \<and> (ts_shell s = Alive \<longrightarrow> SIGKILL \<in> set (ts_signals s))
      else ts_master s \<notin> set fds \<and> ts_master s \<notin> set rds \<and> ts_open s = ts_master s # fds
        \<and> (ts_readers s = rds \<or> ts_readers s = ts_master s # rds \<and> ts_output s = Running)
        \<and> (ts_point s \<noteq> Waiting \<longrightarrow> ts_output s = Ended \<and> ts_input s = Ended))"

lemma terminate_session_kills: "\<exists>sig\<in>set (terminate_session True dies). dies sig \<or> sig = SIGKILL"
  by (simp add: terminate_session_def)

lemma removeAll_fresh [simp]: "x \<notin> set xs \<Longrightarrow> removeAll x xs = xs"
  by (induction xs) auto

lemma insert_Cons_same: "List.insert x (x # xs) = x # xs"
  by (simp add: List.insert_def)

lemma pump_ws_cases:
  obtains (written) bs fin where "pump_ws_to_pty loads [m] = ([PtyWrite bs], fin)"
  | (resized) c r fin where "pump_ws_to_pty loads [m] = ([PtyResize c r], fin)"
  | (other) acts fin where "pump_ws_to_pty loads [m] = (acts, fin)"
      "\<And>os_ok s. input_turn loads m os_ok s = s\<lparr>ts_input := (if fin = PumpOpen then Running else Ended)\<rparr>"
proof (cases "pump_ws_to_pty loads [m]")
  case (Pair acts fin)
  show ?thesis
  proof (cases "(\<exists>bs. acts = [PtyWrite bs]) \<or> (\<exists>c r. acts = [PtyResize c r])")
    case False
    with Pair show ?thesis
      by (intro other) (auto simp: input_turn_def split: list.splits pty_action.splits)
  qed (use Pair written resized in blast)
qed

text \<open>A frame touches the PTY and the input pump only.\<close>

lemma input_turn_frame:
  "\<exists>acts p. input_turn loads m os_ok s = s\<lparr>ts_pty := acts, ts_input := p\<rparr> \<and> p \<in> {Running, Ended}"
proof (rule pump_ws_cases [of loads m])
  fix acts fin
  assume "pump_ws_to_pty loads [m] = (acts, fin)"
    "\<And>os_ok s. input_turn loads m os_ok s = s\<lparr>ts_input := (if fin = PumpOpen then Running else Ended)\<rparr>"
  then show ?thesis by (intro exI [of _ "ts_pty s"] exI [of _ "if fin = PumpOpen then Running else Ended"]) simp
next
  fix bs fin
  assume "pump_ws_to_pty loads [m] = ([PtyWrite bs], fin)"
  then show ?thesis
    by (intro exI [of _ "if os_ok then ts_pty s @ [PtyWrite bs] else ts_pty s"] exI [of _ "if os_ok then Running else Ended"])
      (simp add: input_turn_def)
next
  fix c r fin
  assume "pump_ws_to_pty loads [m] = ([PtyResize c r], fin)"
  then show ?thesis
    by (intro exI [of _ "ts_pty s @ (if os_ok then [PtyResize c r] else [])"] exI [of _ Running])
      (simp add: input_turn_def)
qed

lemma session_ok_step:
  assumes "session_ok fds rds s" and "session_step loads token e s = Some s'" and "e \<noteq> CancelHandler" and "set rds \<subseteq> set fds"
  shows "session_ok fds rds s'"
proof (cases e)
  case (Connect header accepted pty popen_ok)
  with assms show ?thesis
    by (auto simp: session_ok_def session_defs Let_def split: if_splits option.splits prod.splits)
next
  case OutputBegins
  with assms show ?thesis
    by (auto simp: session_ok_def session_defs insert_Cons_same split: if_splits)
next
  case (Readable r)
  with assms show ?thesis
    by (auto simp: session_ok_def session_defs split: if_splits pty_read.splits)
next
  case (OutputTurn send_ok)
  with assms show ?thesis
    by (auto simp: session_ok_def session_defs split: if_splits list.splits option.splits)
next
  case (Frame m os_ok)
  obtain acts p where "input_turn loads m os_ok s = s\<lparr>ts_pty := acts, ts_input := p\<rparr>" "p \<in> {Running, Ended}"
    using input_turn_frame by blast
  with Frame assms(2) have "ts_input s \<in> {Scheduled, Running}" "s' = s\<lparr>ts_pty := acts, ts_input := p\<rparr>"
    by (auto split: if_splits)
  with assms(1) show ?thesis
    by (auto simp: session_ok_def split: if_splits)
next
  case (ShellExits code)
  with assms show ?thesis by (auto simp: session_ok_def split: if_splits)
next
  case WaitReturns
  with assms show ?thesis
    by (auto simp: session_ok_def session_defs Let_def split: if_splits)
next
  case (ReportExit send_ok)
  with assms show ?thesis
    by (auto simp: session_ok_def session_defs split: handler_point.splits shell_proc.splits)
next
  case (CloseSession dies)
  with assms terminate_session_kills [of dies] show ?thesis
    by (auto simp: session_ok_def session_defs Let_def split: if_splits)
qed (use assms in simp)

lemma session_ok_run:
  assumes "session_run loads token evs (new_session fds rds) = Some s" and "CancelHandler \<notin> set evs" and "set rds \<subseteq> set fds"
  shows "session_ok fds rds s"
  using assms(1,2)
proof (induction rule: session_run_induct)
  case start
  show ?case by (simp add: session_ok_def new_session_def)
next
  case (step es e s1 s2)
  then show ?case using session_ok_step [OF _ _ _ assms(3)] by auto
qed


section \<open>What the browser and the PTY get\<close>

fun session_frames :: "session_event list \<Rightarrow> ws_msg list" where
  "session_frames [] = []"
| "session_frames (e # es) = (case e of Frame m _ \<Rightarrow> [m] | _ \<Rightarrow> []) @ session_frames es"

fun session_reads :: "session_event list \<Rightarrow> pty_read list" where
  "session_reads [] = []"
| "session_reads (e # es) = (case e of Readable r \<Rightarrow> [r] | _ \<Rightarrow> []) @ session_reads es"

definition exit_frame :: "int \<Rightarrow> ws_out" where
  "exit_frame code = OutJson (JObj [(lit ''type'', JStr (lit ''exit'')), (lit ''code'', JInt code)])"

lemma session_frames_append [simp]: "session_frames (es @ fs) = session_frames es @ session_frames fs"
  by (induction es) auto

lemma session_reads_append [simp]: "session_reads (es @ fs) = session_reads es @ session_reads fs"
  by (induction es) auto

lemma pump_ws_append:
  "snd (pump_ws_to_pty loads ms) = PumpOpen \<Longrightarrow>
     pump_ws_to_pty loads (ms @ ns) = (fst (pump_ws_to_pty loads ms) @ fst (pump_ws_to_pty loads ns), snd (pump_ws_to_pty loads ns))"
  by (induction loads ms rule: pump_ws_to_pty.induct) (auto split: prod.splits sum.splits if_splits)

lemma pump_pty_append:
  "\<not> snd (pump_pty_to_ws rs) \<Longrightarrow>
     pump_pty_to_ws (rs @ qs) = (fst (pump_pty_to_ws rs) @ fst (pump_pty_to_ws qs), snd (pump_pty_to_ws qs))"
  by (induction rs rule: pump_pty_to_ws.induct) (auto split: prod.splits if_splits)

text \<open>The input side: the PTY has what the pump gives for the frames so far.\<close>

definition input_ok :: "(pystr \<Rightarrow> json option) \<Rightarrow> ws_msg list \<Rightarrow> tsession \<Rightarrow> bool" where
  "input_ok loads ms s \<longleftrightarrow> ts_pty s = fst (pump_ws_to_pty loads ms)
     \<and> (ts_input s \<noteq> Ended \<longrightarrow> snd (pump_ws_to_pty loads ms) = PumpOpen) \<and> (ts_point s = Entering \<longrightarrow> ts_input s = Unmade)"

lemma control_frame_Inr: "control_frame j = Inr acts \<Longrightarrow> acts = [] \<or> (\<exists>c r. acts = [PtyResize c r])"
  by (auto simp: control_frame_def resize_pty_def bind_res_eq_Inr split: if_splits sum.splits option.splits json.splits)

lemma pump_ws_single:
  "pump_ws_to_pty loads [m] = (acts, fin) \<Longrightarrow> acts \<noteq> [] \<Longrightarrow>
     fin = PumpOpen \<and> ((\<exists>bs. acts = [PtyWrite bs]) \<or> (\<exists>c r. acts = [PtyResize c r]))"
  by (cases m) (auto split: if_splits sum.splits dest: control_frame_Inr)

lemma input_turn_ok:
  "input_turn loads m True s = s\<lparr>ts_pty := ts_pty s @ fst (pump_ws_to_pty loads [m]),
     ts_input := (if snd (pump_ws_to_pty loads [m]) = PumpOpen then Running else Ended)\<rparr>"
proof (cases "pump_ws_to_pty loads [m]")
  case (Pair acts fin)
  show ?thesis
  proof (cases "acts = []")
    case True
    with Pair show ?thesis by (simp add: input_turn_def del: pump_ws_to_pty.simps)
  next
    case False
    from pump_ws_single [OF Pair False] Pair show ?thesis
      by (auto simp: input_turn_def simp del: pump_ws_to_pty.simps)
  qed
qed

lemma input_ok_step:
  assumes "input_ok loads ms s" and "session_step loads token e s = Some s'" and "\<And>m. e \<noteq> Frame m False"
  shows "input_ok loads (ms @ session_frames [e]) s'"
proof (cases e)
  case (Frame m os_ok)
  with assms have "ts_input s \<in> {Scheduled, Running}" "s' = input_turn loads m True s"
    by (auto split: if_splits)
  with assms(1) Frame show ?thesis
    by (auto simp: input_ok_def input_turn_ok pump_ws_append simp del: pump_ws_to_pty.simps)
qed (use assms in \<open>auto simp: input_ok_def session_defs Let_def
       split: if_splits option.splits prod.splits list.splits pty_read.splits handler_point.splits shell_proc.splits\<close>)

text \<open>The output side: what was sent and what is queued is what the pump gives for the reads so far.\<close>

definition queued :: "tsession \<Rightarrow> ws_out list" where
  "queued s = map OutBytes (List.map_filter id (ts_queue s))"

definition output_ok :: "pty_read list \<Rightarrow> tsession \<Rightarrow> bool" where
  "output_ok rs s \<longleftrightarrow>
     (fst (pump_pty_to_ws rs) = ts_sent s @ queued s
        \<or> (\<exists>code. ts_shell s = Exited code \<and> ts_sent s = fst (pump_pty_to_ws rs) @ [exit_frame code]
             \<and> snd (pump_pty_to_ws rs) \<and> ts_point s \<in> {Closing, Gone} \<and> ts_output s = Ended))
     \<and> (ts_output s \<in> {Unmade, Scheduled} \<or> ts_output s = Running \<and> ts_master s \<in> set (ts_readers s)
          \<longrightarrow> \<not> snd (pump_pty_to_ws rs) \<and> None \<notin> set (ts_queue s))
     \<and> None \<notin> set (butlast (ts_queue s)) \<and> (None \<in> set (ts_queue s) \<longrightarrow> snd (pump_pty_to_ws rs))
     \<and> (ts_output s = Ended \<and> ts_point s \<in> {Waiting, Reporting} \<longrightarrow> ts_queue s = [] \<and> snd (pump_pty_to_ws rs))
     \<and> (ts_point s = Reporting \<longrightarrow> ts_output s = Ended) \<and> (ts_point s = Entering \<longrightarrow> ts_output s = Unmade)"

lemma output_ok_turn:
  assumes "output_ok rs s" and "ts_output s = Running" and "ts_queue s \<noteq> []"
  shows "output_ok rs (output_turn True s)"
proof (cases "ts_queue s")
  case (Cons x q)
  show ?thesis
  proof (cases x)
    case None
    with Cons assms have "q = []" by (auto simp: output_ok_def split: if_splits)
    with None Cons assms show ?thesis
      by (auto simp: output_ok_def session_defs queued_def map_filter_simps)
  next
    case (Some bs)
    with Cons assms show ?thesis
      by (cases "q = []") (auto simp: output_ok_def output_turn_def queued_def map_filter_simps)
  qed
qed (use assms in simp)

lemma output_ok_readable:
  assumes "output_ok rs s" and "ts_output s = Running" and "ts_master s \<in> set (ts_readers s)"
  shows "output_ok (rs @ [r]) (on_readable r s)"
proof -
  from assms have "\<not> snd (pump_pty_to_ws rs)" "None \<notin> set (ts_queue s)"
    "fst (pump_pty_to_ws rs) = ts_sent s @ queued s"
    by (auto simp: output_ok_def)
  moreover have "fst (pump_pty_to_ws [r]) = (case r of Chunk bs \<Rightarrow> if bs = [] then [] else [OutBytes bs] | Eio \<Rightarrow> [])"
    "snd (pump_pty_to_ws [r]) \<longleftrightarrow> (case r of Chunk bs \<Rightarrow> bs = [] | Eio \<Rightarrow> True)"
    by (simp_all split: pty_read.split)
  ultimately show ?thesis
    using assms by (auto simp: output_ok_def pump_pty_append on_readable_def unwatch_def queued_def map_filter_def
        simp del: pump_pty_to_ws.simps split: pty_read.splits)
qed

lemma close_session_frame:
  "ts_sent (close_session dies s) = ts_sent s" "ts_queue (close_session dies s) = ts_queue s"
  "ts_output (close_session dies s) = ts_output s" "ts_point (close_session dies s) = Gone"
  "ts_readers (close_session dies s) = ts_readers s" "ts_master (close_session dies s) = ts_master s"
  "ts_shell s = Exited code \<Longrightarrow> ts_shell (close_session dies s) = Exited code"
  by (simp_all add: close_session_def terminate_session_def Let_def)

lemma output_ok_step:
  assumes "output_ok rs s" and "session_step loads token e s = Some s'" and "e \<noteq> OutputTurn False"
  shows "output_ok (rs @ session_reads [e]) s'"
proof (cases e)
  case (Connect header accepted pty popen_ok)
  with assms show ?thesis
    by (auto simp: output_ok_def session_defs queued_def Let_def split: if_splits option.splits prod.splits)
next
  case OutputBegins
  with assms show ?thesis by (auto simp: output_ok_def session_defs queued_def split: if_splits)
next
  case (Readable r)
  with assms output_ok_readable show ?thesis by (auto split: if_splits)
next
  case (OutputTurn send_ok)
  with assms output_ok_turn show ?thesis by (auto split: if_splits)
next
  case (Frame m os_ok)
  obtain acts p where "input_turn loads m os_ok s = s\<lparr>ts_pty := acts, ts_input := p\<rparr>"
    using input_turn_frame by blast
  with Frame assms(2) have "s' = s\<lparr>ts_pty := acts, ts_input := p\<rparr>"
    by (auto split: if_splits)
  with assms(1) Frame show ?thesis by (simp add: output_ok_def queued_def)
next
  case (ShellExits code)
  with assms(2) have "ts_shell s = Alive" "s' = s\<lparr>ts_shell := Exited code\<rparr>"
    by (auto split: if_splits)
  with assms(1) ShellExits show ?thesis by (simp add: output_ok_def queued_def)
next
  case WaitReturns
  with assms show ?thesis by (auto simp: output_ok_def session_defs queued_def Let_def split: if_splits)
next
  case (ReportExit send_ok)
  with assms obtain code where "ts_point s = Reporting" "ts_shell s = Exited code" "s' = report_exit code send_ok s"
    by (auto split: handler_point.splits shell_proc.splits)
  with assms(1) ReportExit show ?thesis
    by (auto simp: output_ok_def session_defs queued_def exit_frame_def map_filter_simps)
next
  case (CloseSession dies)
  with assms(2) have "ts_point s = Closing" "s' = close_session dies s" by (auto split: if_splits)
  with assms(1) CloseSession show ?thesis by (auto simp: output_ok_def queued_def close_session_frame)
next
  case CancelHandler
  with assms(2) have "ts_point s \<in> {Waiting, Reporting, Closing}" "s' = cancel_handler s" by (auto split: if_splits)
  with assms(1) CancelHandler show ?thesis by (auto simp: output_ok_def queued_def cancel_handler_def)
qed

lemma session_pumps:
  assumes "session_run loads token evs (new_session fds rds) = Some s"
    and "OutputTurn False \<notin> set evs" and "\<forall>m. Frame m False \<notin> set evs"
  shows "input_ok loads (session_frames evs) s \<and> output_ok (session_reads evs) s"
  using assms
proof (induction rule: session_run_induct)
  case start
  show ?case by (simp add: input_ok_def output_ok_def new_session_def queued_def map_filter_simps)
next
  case (step es e s1 s2)
  from step(3-6) have "e \<noteq> OutputTurn False" "\<And>m. e \<noteq> Frame m False" "input_ok loads (session_frames es) s1"
    "output_ok (session_reads es) s1" by auto
  with input_ok_step [OF _ step(2)] output_ok_step [OF _ step(2)] show ?case by simp
qed

section \<open>Properties\<close>

text \<open>A session from the connection to its end: the browser types, the shell answers and exits.\<close>

definition demo_session :: "session_event list" where
  "demo_session = [Connect (lit ''Bearer t'') True (Some (7, 8)) True, OutputBegins, Frame (WsBytes [108, 115]) True,
     Readable (Chunk [97]), Readable (Chunk [98]), OutputTurn True, ShellExits 3, Readable Eio, OutputTurn True,
     OutputTurn True, WaitReturns, ReportExit True, CloseSession (\<lambda>_. False)]"

text \<open>
  C17: A terminal session leaves nothing behind. Whatever the kernel, the shell, the browser and the
  scheduling of the two pumps do (\<open>openpty\<close> or \<open>Popen\<close> failing, a refused token, a send or a write
  that raises, a crashed pump, a disconnect, the shell's own exit, in any interleaving), once the
  handler of a session that was not cancelled is gone, the daemon has exactly the descriptors open
  and watched that it had before, neither pump runs any more, and the shell was never started, has
  ended, or its process group was sent \<open>SIGKILL\<close>. Until then the master of a started session is open.
\<close>

theorem session_leaves_nothing:
  assumes "session_run loads token evs (new_session fds rds) = Some s" and "CancelHandler \<notin> set evs" and "set rds \<subseteq> set fds"
  shows "(ts_point s = Gone \<longrightarrow> ts_open s = fds \<and> ts_readers s = rds
      \<and> ts_output s \<notin> {Scheduled, Running} \<and> ts_input s \<notin> {Scheduled, Running}
      \<and> (ts_shell s = Alive \<longrightarrow> SIGKILL \<in> set (ts_signals s)))
    \<and> (ts_point s \<in> {Waiting, Reporting, Closing} \<longrightarrow> ts_open s = ts_master s # fds \<and> ts_master s \<notin> set fds)"
  using session_ok_run [OF assms] by (auto simp: session_ok_def)

theorem session_leaves_nothing_witness:
  "(case session_run (\<lambda>_. None) (lit ''t'') demo_session (new_session [0, 1] []) of
     None \<Rightarrow> False
   | Some s \<Rightarrow> ts_point s = Gone \<and> ts_open s = [0, 1] \<and> ts_readers s = [])"
proof -
  have "case session_run (\<lambda>_. None) (lit ''t'') demo_session (new_session [0, 1] []) of
      None \<Rightarrow> False | Some s \<Rightarrow> ts_point s = Gone"
    by code_simp
  then obtain s where s: "session_run (\<lambda>_. None) (lit ''t'') demo_session (new_session [0, 1] []) = Some s" "ts_point s = Gone"
    by (auto split: option.splits)
  have "CancelHandler \<notin> set demo_session" by (simp add: demo_session_def)
  from session_leaves_nothing [OF s(1) this] s show ?thesis by simp
qed

text \<open>
  C18: However the loop interleaves the two pumps, the browser and the PTY get what the pumps give run
  one after the other. While no send and no write fails, the PTY has received the actions of
  \<open>_pump_ws_to_pty\<close> for the frames taken so far, in order; the browser has received a prefix of what
  \<open>_pump_pty_to_ws\<close> sends for the reads so far; and when the exit frame is sent, everything that was
  read from the PTY went out before it, with the exit code of the shell in it.
\<close>

theorem session_refines_pumps:
  assumes "session_run loads token evs (new_session fds rds) = Some s"
    and "OutputTurn False \<notin> set evs" and "\<forall>m. Frame m False \<notin> set evs"
  shows "ts_pty s = fst (pump_ws_to_pty loads (session_frames evs))
    \<and> ((\<exists>later. ts_sent s @ later = fst (pump_pty_to_ws (session_reads evs)))
       \<or> (\<exists>code. ts_shell s = Exited code \<and> ts_sent s = session_output (session_reads evs) False code
            \<and> last (ts_sent s) = exit_frame code))"
proof -
  from session_pumps [OF assms] have pty: "ts_pty s = fst (pump_ws_to_pty loads (session_frames evs))"
    and out: "output_ok (session_reads evs) s"
    by (simp_all add: input_ok_def)
  from out consider "fst (pump_pty_to_ws (session_reads evs)) = ts_sent s @ queued s"
    | code where "ts_shell s = Exited code" "ts_sent s = fst (pump_pty_to_ws (session_reads evs)) @ [exit_frame code]"
        "snd (pump_pty_to_ws (session_reads evs))"
    by (auto simp: output_ok_def)
  then show ?thesis
  proof cases
    case 1
    with pty show ?thesis by metis
  next
    case 2
    then have "ts_sent s = session_output (session_reads evs) False code" "last (ts_sent s) = exit_frame code"
      by (simp_all add: session_output_def exit_frame_def case_prod_unfold)
    with 2 pty show ?thesis by blast
  qed
qed

theorem session_refines_pumps_witness:
  "case session_run (\<lambda>_. None) (lit ''t'') demo_session (new_session [] []) of
     None \<Rightarrow> False
   | Some s \<Rightarrow> ts_pty s = [PtyWrite [108, 115]] \<and> ts_sent s = [OutBytes [97], OutBytes [98], exit_frame 3]"
proof -
  have "case session_run (\<lambda>_. None) (lit ''t'') demo_session (new_session [] []) of
      None \<Rightarrow> False | Some s \<Rightarrow> length (ts_sent s) = 3 \<and> ts_shell s = Exited 3"
    by code_simp
  then obtain s where s: "session_run (\<lambda>_. None) (lit ''t'') demo_session (new_session [] []) = Some s"
      "length (ts_sent s) = 3" "ts_shell s = Exited 3"
    by (auto split: option.splits)
  have evs: "OutputTurn False \<notin> set demo_session" "\<forall>m. Frame m False \<notin> set demo_session"
    "session_frames demo_session = [WsBytes [108, 115]]"
    "session_reads demo_session = [Chunk [97], Chunk [98], Eio]"
    by (simp_all add: demo_session_def)
  from session_refines_pumps [OF s(1) evs(1,2)] s evs(3,4) show ?thesis
    by (auto simp: session_output_def exit_frame_def dest!: arg_cong [where f = length])
qed

text \<open>
  C19: A send that fails is taken for the exit of the shell. When \<open>send_bytes\<close> raises while the input
  pump has not ended, \<open>asyncio.wait\<close> returns with the output pump alone, and the handler waits for the
  exit code of a shell that is still running: nothing reads the PTY any more, no signal was sent, and
  whatever happens next, as long as the shell does not end by itself and the handler is not
  cancelled, the session stays there.
\<close>

theorem failed_send_strands_shell:
  assumes "ts_point s = Waiting" and "ts_shell s = Alive" and "ts_input s \<noteq> Ended"
    and "ts_output s = Running" and "ts_queue s = Some bs # q"
  shows "\<exists>s1. session_run loads token [OutputTurn False, WaitReturns] s = Some s1
    \<and> (\<forall>evs s2. session_run loads token evs s1 = Some s2 \<and> CancelHandler \<notin> set evs \<and> (\<forall>code. ShellExits code \<notin> set evs)
        \<longrightarrow> ts_point s2 = Reporting \<and> ts_shell s2 = Alive \<and> ts_signals s2 = ts_signals s \<and> ts_open s2 = ts_open s
            \<and> ts_master s2 \<notin> set (ts_readers s2))"
proof (intro exI conjI allI impI)
  let ?s1 = "wait_returns (output_turn False s)"
  let ?P = "\<lambda>s2. ts_point s2 = Reporting \<and> ts_shell s2 = Alive \<and> ts_signals s2 = ts_signals s
    \<and> ts_open s2 = ts_open s \<and> ts_output s2 = Ended \<and> ts_input s2 = Ended \<and> ts_master s2 \<notin> set (ts_readers s2)"
  show "session_run loads token [OutputTurn False, WaitReturns] s = Some ?s1"
    using assms by (simp add: session_defs)
  fix evs s2
  assume *: "session_run loads token evs ?s1 = Some s2 \<and> CancelHandler \<notin> set evs \<and> (\<forall>code. ShellExits code \<notin> set evs)"
  then have "session_run loads token evs ?s1 = Some s2" "CancelHandler \<notin> set evs" "\<forall>code. ShellExits code \<notin> set evs"
    by simp_all
  then have "?P s2"
  proof (induction rule: session_run_induct)
    case start
    show ?case using assms by (simp add: session_defs)
  next
    case (step es e s1 s2)
    from step(3-6) have "?P s1" "e \<noteq> CancelHandler" "\<forall>code. e \<noteq> ShellExits code" by auto
    with step(2) show ?case by (cases e) (auto split: if_splits)
  qed
  then show "ts_point s2 = Reporting" "ts_shell s2 = Alive" "ts_signals s2 = ts_signals s" "ts_open s2 = ts_open s"
    "ts_master s2 \<notin> set (ts_readers s2)"
    by simp_all
qed

theorem failed_send_strands_shell_witness:
  "\<exists>s1. session_run (\<lambda>_. None) (lit ''t'') (take 4 demo_session @ [OutputTurn False, WaitReturns]) (new_session [] []) = Some s1
     \<and> ts_point s1 = Reporting \<and> ts_shell s1 = Alive \<and> ts_signals s1 = []"
proof -
  have "case session_run (\<lambda>_. None) (lit ''t'') (take 4 demo_session) (new_session [] []) of
      None \<Rightarrow> False
    | Some s \<Rightarrow> ts_point s = Waiting \<and> ts_shell s = Alive \<and> ts_input s \<noteq> Ended \<and> ts_output s = Running
        \<and> ts_queue s = [Some [97]] \<and> ts_signals s = []"
    by code_simp
  then obtain s where s: "session_run (\<lambda>_. None) (lit ''t'') (take 4 demo_session) (new_session [] []) = Some s"
      "ts_point s = Waiting" "ts_shell s = Alive" "ts_input s \<noteq> Ended" "ts_output s = Running"
      "ts_queue s = Some [97] # []" "ts_signals s = []"
    by (auto split: option.splits)
  from failed_send_strands_shell [OF s(2-6), of "\<lambda>_. None" "lit ''t''"] obtain s1 where
    s1: "session_run (\<lambda>_. None) (lit ''t'') [OutputTurn False, WaitReturns] s = Some s1"
    and stays: "\<And>evs s2. session_run (\<lambda>_. None) (lit ''t'') evs s1 = Some s2 \<Longrightarrow> CancelHandler \<notin> set evs \<Longrightarrow>
        \<forall>code. ShellExits code \<notin> set evs \<Longrightarrow> ts_point s2 = Reporting \<and> ts_shell s2 = Alive \<and> ts_signals s2 = ts_signals s"
    by blast
  have "session_run (\<lambda>_. None) (lit ''t'') (take 4 demo_session @ [OutputTurn False, WaitReturns]) (new_session [] []) = Some s1"
    unfolding session_run_append s(1) bind.simps by (rule s1)
  with stays [of "[]" s1] s(7) show ?thesis by simp
qed

text \<open>A handler that is cancelled while it waits closes the master under a pump that still watches it.\<close>

lemma cancelled_session_keeps_reader:
  "case session_run (\<lambda>_. None) (lit ''t'') (take 2 demo_session @ [CancelHandler, CloseSession (\<lambda>_. True)])
      (new_session [] []) of
     None \<Rightarrow> False
   | Some s \<Rightarrow> ts_point s = Gone \<and> ts_open s = [] \<and> ts_readers s = [7] \<and> ts_output s = Running"
  by code_simp

end
