(* ===== verification/Orch_Client.thy ===== *)
theory Orch_Client
  imports Gw_Http Wire_Formats
begin

text \<open>
  The gateway's client of the orchestrator: the requests \<open>services/gateway/router.py\<close> makes for an
  approval and for the presenter's controls, over the orchestrator's HTTP application and the
  simulator behind it. The network between gateway and orchestrator is one host's; the network
  between orchestrator and simulator is that of \<open>Sim_Engine\<close>, which may lose requests and answers.
\<close>

section \<open>Requests\<close>

text \<open>
  What one request finds: \<open>oe_url\<close> is what \<open>httpx\<close> and the server make of a path, \<open>oe_now\<close> the
  clock and \<open>oe_random\<close> the random number of a rotation.
\<close>

record orch_env =
  oe_framework :: orch_framework
  oe_url :: "pystr \<Rightarrow> pystr"
  oe_now :: datetime
  oe_random :: nat

type_synonym orch_side = "orch \<times> sim_world"

text \<open>A request, \<open>raise_for_status\<close>, and the JSON of the answer.\<close>

definition orch_call :: "orch_env \<Rightarrow> string \<Rightarrow> pystr \<Rightarrow> orch_side \<Rightarrow> (http_exn + json) \<times> orch_side" where
  "orch_call oe m path os =
     (let ((code, j), os') = orch_http (oe_framework oe) http_clear http_inject (oe_now oe) (oe_random oe)
            (lit m) (oe_url oe path) (fst os) (snd os)
      in (bind_res (raise_for_status code) (\<lambda>_. Inr j), os'))"

text \<open>
  The steps an approval allows. Every 2xx answer of the orchestrator reads as a list of steps (the
  lemma \<open>answers_have_steps\<close>), so \<open>None\<close> does not arise.
\<close>

definition client_steps :: "orch_env \<Rightarrow> orch_side \<Rightarrow> pystr \<Rightarrow> http_exn + RemediationStep list" where
  "client_steps oe os asset_id =
     (case fst (orch_call oe ''GET'' (lit ''/api/assets/'' @ asset_id @ lit ''/scenario'') os) of
        Inl e \<Rightarrow> Inl e
      | Inr j \<Rightarrow> Inr (case steps_of_json j of None \<Rightarrow> [] | Some xs \<Rightarrow> xs))"

definition client_scenarios :: "orch_env \<Rightarrow> orch_side \<Rightarrow> http_exn + json" where
  "client_scenarios oe os = fst (orch_call oe ''GET'' (lit ''/api/scenarios'') os)"

definition client_run_next :: "orch_env \<Rightarrow> orch_side \<Rightarrow> (http_exn + json) \<times> orch_side" where
  "client_run_next oe = orch_call oe ''POST'' (lit ''/api/run'')"

definition client_run :: "orch_env \<Rightarrow> pystr \<Rightarrow> orch_side \<Rightarrow> (http_exn + json) \<times> orch_side" where
  "client_run oe scenario = orch_call oe ''POST'' (lit ''/api/run/'' @ scenario)"

definition client_reset :: "orch_env \<Rightarrow> orch_side \<Rightarrow> (http_exn + unit) \<times> orch_side" where
  "client_reset oe os =
     (let (r, os') = orch_call oe ''POST'' (lit ''/api/reset'') os in (bind_res r (\<lambda>_. Inr ()), os'))"

text \<open>\<open>data.get("scenario_id", "")\<close> and \<open>data.get("target_asset", "")\<close> of a run's answer.\<close>

definition text_of :: "json \<Rightarrow> string \<Rightarrow> pystr" where
  "text_of j k = (case jget j (lit k) (JStr []) of Some (JStr s) \<Rightarrow> s | _ \<Rightarrow> [])"

definition run_ids :: "json \<Rightarrow> pystr \<times> pystr" where
  "run_ids j = (text_of j ''scenario_id'', text_of j ''target_asset'')"

text \<open>A gateway whose orchestrator is this one.\<close>

definition uses_orch :: "orch_env \<Rightarrow> ('s, orch_side, 'm) gw_env \<Rightarrow> bool" where
  "uses_orch oe env \<longleftrightarrow> ge_steps env = client_steps oe \<and> ge_scenarios env = client_scenarios oe
     \<and> ge_ids env = run_ids \<and> ge_run_next env = client_run_next oe \<and> ge_run env = client_run oe
     \<and> ge_orch_reset env = client_reset oe"

section \<open>What a request does\<close>

text \<open>A request to the orchestrator is an operation of the lab or changes nothing.\<close>

lemma orch_handle_steps:
  "\<exists>op. snd (orch_handle http_clear http_inject now r route oc w) \<in> {(oc, w), lab_step (oc, w) op}"
proof (cases route)
  case ORunNext
  then show ?thesis by (intro exI [of _ "RunNext r"]) (simp add: with_json_def)
next
  case (ORun sid)
  then show ?thesis by (intro exI [of _ "RunSpecific sid"]) (simp add: with_json_def)
next
  case OReset
  then show ?thesis by (intro exI [of _ ResetLab]) (simp add: with_json_def)
qed (simp_all add: with_json_def)

lemma orch_http_steps:
  "\<exists>op. snd (orch_http fw http_clear http_inject now r m path oc w) \<in> {(oc, w), lab_step (oc, w) op}"
  using orch_handle_steps [of now r _ oc w] by (auto simp: orch_http_def case_prod_beta split: list.split option.split)

lemma orch_call_snd:
  "snd (orch_call oe m path os) = snd (orch_http (oe_framework oe) http_clear http_inject (oe_now oe) (oe_random oe)
     (lit m) (oe_url oe path) (fst os) (snd os))"
  by (simp add: orch_call_def case_prod_beta)

lemma orch_call_steps: "\<exists>op. snd (orch_call oe m path os) \<in> {os, lab_step os op}"
  unfolding orch_call_snd using orch_http_steps by (cases os) simp

lemma client_calls_step:
  "\<exists>op. snd (client_run_next oe os) \<in> {os, lab_step os op}"
  "\<exists>op. snd (client_run oe sid os) \<in> {os, lab_step os op}"
  "\<exists>op. snd (client_reset oe os) \<in> {os, lab_step os op}"
  using orch_call_steps by (simp_all add: client_run_next_def client_run_def client_reset_def case_prod_beta)

text \<open>The answers of the orchestrator, as the gateway reads them.\<close>

lemma answers_have_steps:
  assumes "fst (orch_handle sim_clear sim_inject now r route oc w) = Inr j"
  shows "steps_of_json j \<noteq> None"
proof -
  have "steps_of_json (run_json x) \<noteq> None" for x by (simp add: steps_of_run_json)
  then show ?thesis
    using assms by (cases route) (auto simp: with_json_def steps_of_json_def current_json_def scenarios_json_def
        logs_json_def split: sum.splits)
qed

lemma run_ids_json: "run_ids (run_json r) = (rr_scenario_id r, rr_target_asset r)"
  by (simp add: run_ids_def text_of_def run_json_def)

lemma call_route:
  assumes "oe_url oe path = path" and "split_on [47] path = [] # segs" and "orch_route_of (lit m) segs = Some route"
  shows "orch_call oe m path os =
     (let (res, os') = orch_handle http_clear http_inject (oe_now oe) (oe_random oe) route (fst os) (snd os)
      in (bind_res (raise_for_status (fst (orch_reply (oe_framework oe) res))) (\<lambda>_. Inr (snd (orch_reply (oe_framework oe) res))), os'))"
  using assms by (simp add: orch_call_def orch_http_def case_prod_beta Let_def)

text \<open>A run of a scenario whose id is one path segment, and the scenario of an asset.\<close>

lemma client_run_segment:
  assumes "segment sid" and "oe_url oe (lit ''/api/run/'' @ sid) = lit ''/api/run/'' @ sid"
    and "run_specific http_clear http_inject sid (fst os) (snd os) = (Inr resp, os')"
  shows "client_run oe sid os = (Inr (run_json resp), os')"
proof -
  have "split_on [47] (lit ''/api/run/'' @ sid) = [[], lit ''api'', lit ''run'', sid]"
    using split_join [of "[[], lit ''api'', lit ''run'', sid]"] assms(1) by (simp add: lit_def segment_def)
  with assms(1,2) have "client_run oe sid os = (let (res, os') = orch_handle http_clear http_inject (oe_now oe) (oe_random oe) (ORun sid) (fst os) (snd os)
      in (bind_res (raise_for_status (fst (orch_reply (oe_framework oe) res))) (\<lambda>_. Inr (snd (orch_reply (oe_framework oe) res))), os'))"
    unfolding client_run_def by (intro call_route) (auto simp: orch_route_of_def segment_def)
  with assms(3) show ?thesis
    by (simp add: with_json_def orch_reply_def raise_for_status_def status_ok_def)
qed

lemma client_steps_segment:
  assumes "segment a" and "oe_url oe (lit ''/api/assets/'' @ a @ lit ''/scenario'') = lit ''/api/assets/'' @ a @ lit ''/scenario''"
    and "get_asset_scenario a (fst os) = Inr resp"
  shows "client_steps oe os a = Inr (rr_remediation_steps resp)"
proof -
  have "split_on [47] (lit ''/api/assets/'' @ a @ lit ''/scenario'') = [[], lit ''api'', lit ''assets'', a, lit ''scenario'']"
    using split_join [of "[[], lit ''api'', lit ''assets'', a, lit ''scenario'']"] assms(1)
    by (simp add: lit_def segment_def)
  with assms(1,2) have "orch_call oe ''GET'' (lit ''/api/assets/'' @ a @ lit ''/scenario'') os =
     (let (res, os') = orch_handle http_clear http_inject (oe_now oe) (oe_random oe) (OAssetScenario a) (fst os) (snd os)
      in (bind_res (raise_for_status (fst (orch_reply (oe_framework oe) res))) (\<lambda>_. Inr (snd (orch_reply (oe_framework oe) res))), os'))"
    by (intro call_route) (auto simp: orch_route_of_def segment_def)
  with assms(3) show ?thesis
    by (simp add: client_steps_def with_json_def orch_reply_def raise_for_status_def status_ok_def steps_of_run_json)
qed

end
