(* ===== verification/Lab_Network.thy ===== *)
theory Lab_Network
  imports Orch_Client Lab_Http
begin

text \<open>
  All services of the lab in one transition system: the gateway's HTTP application with its clients of
  the orchestrator and of the MCP tools service, the orchestrator's HTTP application, the executions of
  the MCP tools service, and the one simulator that both of them drive. A request is one step; the
  executions are interleaved at every await.
\<close>

section \<open>State and steps\<close>

text \<open>
  The simulator is the one in the state of the MCP tools service. \<open>wl_answered\<close> is history: the
  gateway requests answered, each with the fault events at that time.
\<close>

record whole_lab =
  wl_store :: GatewayStore
  wl_orch :: orch
  wl_mcp :: mcp_state
  wl_answered :: "(gw_request \<times> FaultEvent dict) list"

abbreviation wl_sim :: "whole_lab \<Rightarrow> sim_world" where
  "wl_sim x \<equiv> ms_sim (wl_mcp x)"

text \<open>What a request finds, with the token string it may draw, and what it leaves.\<close>

definition lab_app :: "whole_lab \<Rightarrow> pystr \<Rightarrow> (GatewayStore, orch_side, lab) gw_app" where
  "lab_app x k = \<lparr>ga_store = wl_store x, ga_orch = (wl_orch x, wl_sim x), ga_mcp = (wl_mcp x, [k]),
     ga_jobs = [], ga_hooks = []\<rparr>"

text \<open>
  The internal endpoints of the MCP tools service do not reach the simulator (the lemma
  \<open>request_sim\<close>), so a request leaves it as the orchestrator's part of the request did.
\<close>

definition after_request ::
  "whole_lab \<Rightarrow> gw_request \<Rightarrow> (GatewayStore, orch_side, lab) gw_app \<Rightarrow> whole_lab" where
  "after_request x rq app =
     \<lparr>wl_store = ga_store app, wl_orch = fst (ga_orch app), wl_mcp = (fst (ga_mcp app))\<lparr>ms_sim := snd (ga_orch app)\<rparr>,
      wl_answered = (rq, gs_faults (wl_store x)) # wl_answered x\<rparr>"

definition lab_env :: "LoadedPack \<Rightarrow> orch_env \<Rightarrow> datetime \<Rightarrow> (GatewayStore, orch_side, lab) gw_env \<Rightarrow> bool" where
  "lab_env lp oe now env \<longleftrightarrow> mem_env env \<and> ge_pack env = lp \<and> ge_mcp env = wire_client now \<and> uses_orch oe env"

text \<open>One execution of \<open>remediation.execute\<close>, from any caller, between its awaits.\<close>

inductive tool_step :: "mcp_state \<Rightarrow> mcp_state \<Rightarrow> bool" where
  start: "exec_check f (Some k) steps (ms_tokens s) (ms_registry s) = Inr (rcd, sids) \<Longrightarrow>
     tool_step s (s\<lparr>ms_calls := begin_call f k rcd sids # ms_calls s\<rparr>)"
| clear: "c \<in> set (ms_calls s) \<Longrightarrow> ec_answer c = None \<Longrightarrow>
     http_clear (fr_asset_id (ec_record c)) (ms_sim s) = (b, w') \<Longrightarrow>
     tool_step s (s\<lparr>ms_sim := w', ms_calls := (c\<lparr>ec_answer := Some b\<rparr>) # remove1 c (ms_calls s)\<rparr>)"
| finish: "c \<in> set (ms_calls s) \<Longrightarrow> ec_answer c = Some b \<Longrightarrow> tool_step s (snd (finish_call c b s))"

datatype lab_label = Asked gw_request | Asked_orch pystr pystr | Executor | Streams | Tools

text \<open>
  A request to the gateway; one made to the orchestrator directly; a write of the executor; the event
  streams; an execution.
\<close>

inductive whole_step :: "LoadedPack \<Rightarrow> whole_lab \<Rightarrow> lab_label \<Rightarrow> whole_lab \<Rightarrow> bool" for lp where
  request: "lab_env lp oe now env \<Longrightarrow> map_of (gs_faults (wl_store x)) (dr_id dr) = None \<Longrightarrow> k \<notin> set (ms_issued (wl_mcp x)) \<Longrightarrow>
     whole_step lp x (Asked rq) (after_request x rq (snd (gw_http env dr rq (lab_app x k))))"
| orchestrator: "orch_http fw http_clear http_inject now r m path (wl_orch x) (wl_sim x) = (reply, oc, w) \<Longrightarrow>
     whole_step lp x (Asked_orch m path) (x\<lparr>wl_orch := oc, wl_mcp := (wl_mcp x)\<lparr>ms_sim := w\<rparr>\<rparr>)"
| executor_status: "whole_step lp x Executor (x\<lparr>wl_store := snd (set_status mem_ops f a st (wl_store x))\<rparr>)"
| executor_narrates: "whole_step lp x Executor (x\<lparr>wl_store := narrate mem_ops aid t f stp msg (wl_store x)\<rparr>)"
| stream: "whole_step lp x Streams (x\<lparr>wl_store := (wl_store x)\<lparr>gs_sse := b\<rparr>\<rparr>)"
| tools: "tool_step (wl_mcp x) m \<Longrightarrow> whole_step lp x Tools (x\<lparr>wl_mcp := m\<rparr>)"

text \<open>The services started on one pack, the simulator behind the network \<open>sw_net w\<close>.\<close>

inductive whole_reachable :: "LoadedPack \<Rightarrow> sim_world \<Rightarrow> whole_lab \<Rightarrow> bool" for lp w where
  start: "orch_init lp = Inr oc \<Longrightarrow> sw_engine w = engine_init lp \<Longrightarrow>
     whole_reachable lp w \<lparr>wl_store = gateway_start mem_ops lp redis_url flag store_init, wl_orch = oc,
       wl_mcp = mcp_init w, wl_answered = []\<rparr>"
| step: "whole_reachable lp w x \<Longrightarrow> whole_step lp x l y \<Longrightarrow> whole_reachable lp w y"

section \<open>What a request does to the orchestrator\<close>

lemma orch_with_body:
  "(\<And>b. ga_orch (snd (handler b app)) = ga_orch app) \<Longrightarrow> ga_orch (snd (with_body parse rq handler app)) = ga_orch app"
  using with_body_cases [of parse rq handler app] by auto

lemma orch_moves:
  assumes "uses_orch oe env" and "ga_orch (snd (gw_handle env dr rq r app)) \<noteq> ga_orch app"
  shows "(r = GInject \<or> r = GReset) \<and> (\<exists>op. ga_orch (snd (gw_handle env dr rq r app)) = lab_step (ga_orch app) op)"
proof (cases r)
  case GInject
  have "\<exists>op. ga_orch (snd (inject_route env rq app)) \<in> {ga_orch app, lab_step (ga_orch app) op}"
    using assms(1) client_calls_step(1) [of oe "ga_orch app"] client_calls_step(2) [of oe _ "ga_orch app"]
    by (auto simp: uses_orch_def inject_route_def presenter_inject_def case_prod_beta
        split: option.split sum.split prod.split)
  with assms(2) GInject show ?thesis by auto
next
  case GReset
  have "\<exists>op. ga_orch (snd (reset_route env app)) \<in> {ga_orch app, lab_step (ga_orch app) op}"
    using assms(1) client_calls_step(3) [of oe "ga_orch app"]
    by (auto simp: uses_orch_def reset_route_def presenter_reset_def Let_def
        split: option.split sum.split prod.split)
  with assms(2) GReset show ?thesis by auto
qed (use assms(2) in \<open>auto simp: orch_with_body decision_route_def activity_route_def case_prod_beta\<close>)

lemma presenter_paths:
  "gw_route_of m path = Some GInject \<Longrightarrow> m = lit ''POST'' \<and> path = [lit ''api'', lit ''presenter'', lit ''inject'']"
  "gw_route_of m path = Some GReset \<Longrightarrow> m = lit ''POST'' \<and> path = [lit ''api'', lit ''presenter'', lit ''reset'']"
  by (auto simp: gw_route_of_def get_routes_def group_routes_def fault_routes_def split: list.splits if_splits)

section \<open>What a request does to the lab\<close>

definition presenter_request :: "gw_request \<Rightarrow> bool" where
  "presenter_request rq \<longleftrightarrow> rq_method rq = lit ''POST''
     \<and> rq_path rq \<in> {[lit ''api'', lit ''presenter'', lit ''inject''], [lit ''api'', lit ''presenter'', lit ''reset'']}"

lemma request_store:
  assumes "lab_env lp oe now env" "map_of (gs_faults (wl_store x)) (dr_id dr) = None"
    and "y = after_request x rq (snd (gw_http env dr rq (lab_app x k)))"
  shows "wl_store y = wl_store x \<or> gw_step lp (wl_store x) (wl_store y)"
proof (cases "gw_route_of (rq_method rq) (rq_path rq)")
  case None
  then show ?thesis by (simp add: assms(3) after_request_def gw_http_def lab_app_def)
next
  case (Some r)
  with assms route_step [of env "lab_app x k" dr rq r] show ?thesis
    by (simp add: after_request_def gw_http_def lab_env_def) (simp add: lab_app_def)
qed

lemma request_orch:
  assumes "lab_env lp oe now env"
    and "y = after_request x rq (snd (gw_http env dr rq (lab_app x k)))"
  shows "wl_orch y = wl_orch x \<and> wl_sim y = wl_sim x
     \<or> presenter_request rq \<and> (\<exists>op. (wl_orch y, wl_sim y) = lab_step (wl_orch x, wl_sim x) op)"
proof -
  have y: "(wl_orch y, wl_sim y) = ga_orch (snd (gw_http env dr rq (lab_app x k)))"
    by (simp add: assms(2) after_request_def)
  have app: "ga_orch (lab_app x k) = (wl_orch x, wl_sim x)" by (simp add: lab_app_def)
  show ?thesis
  proof (cases "ga_orch (snd (gw_http env dr rq (lab_app x k))) = ga_orch (lab_app x k)")
    case True
    with y app show ?thesis by simp
  next
    case False
    then obtain r where r: "gw_route_of (rq_method rq) (rq_path rq) = Some r"
      and moved: "ga_orch (snd (gw_handle env dr rq r (lab_app x k))) \<noteq> ga_orch (lab_app x k)"
      by (cases "gw_route_of (rq_method rq) (rq_path rq)") (auto simp: gw_http_def)
    from assms(1) have "uses_orch oe env" by (simp add: lab_env_def)
    from orch_moves [OF this moved] have "r = GInject \<or> r = GReset"
      "\<exists>op. ga_orch (snd (gw_handle env dr rq r (lab_app x k))) = lab_step (ga_orch (lab_app x k)) op" by auto
    with r presenter_paths [of "rq_method rq" "rq_path rq"] y app show ?thesis
      by (auto simp: presenter_request_def gw_http_def)
  qed
qed

section \<open>The gate\<close>

text \<open>Every record the MCP tools service took was approved by a request, for that asset.\<close>

definition gate_inv :: "whole_lab \<Rightarrow> bool" where
  "gate_inv x \<longleftrightarrow> mcp_inv (wl_mcp x) \<and> (\<forall>rcd \<in> set (ms_registered (wl_mcp x)).
     \<exists>h \<in> set (wl_answered x). approves h (fr_fault_event_id rcd) (fr_asset_id rcd))"

lemma mcp_inv_sim [simp]: "mcp_inv (m\<lparr>ms_sim := w\<rparr>) = mcp_inv m"
  by (simp add: mcp_inv_def covered_def)

lemma approved_state_inv:
  assumes "mcp_inv m" "k \<notin> set (ms_issued m)"
  shows "mcp_inv (approved_state now e f ids k m)"
proof -
  have "mcp_inv (snd (register_fault_event f (fe_asset_id e) (fe_scenario_id e) ids m))"
    by (rule mcp_inv_step [OF mcp_step.register assms(1)])
  then show ?thesis
    unfolding approved_state_def
    by (rule mcp_inv_step [rotated]) (intro mcp_step.mint, use assms(2) in \<open>simp add: register_fault_event_eq\<close>)
qed

lemma request_gate:
  assumes "lab_env lp oe now env" "map_of (gs_faults (wl_store x)) (dr_id dr) = None" "k \<notin> set (ms_issued (wl_mcp x))"
    and "gate_inv x"
  shows "gate_inv (after_request x rq (snd (gw_http env dr rq (lab_app x k))))"
proof -
  let ?app = "snd (gw_http env dr rq (lab_app x k))"
  have env: "mem_env env" "ge_mcp env = lab_client now" using assms(1) by (simp_all add: lab_env_def wire_client_lab)
  have fresh: "map_of (gs_faults (ga_store (lab_app x k))) (dr_id dr) = None" and mcp: "ga_mcp (lab_app x k) = (wl_mcp x, [k])"
    using assms(2) by (simp_all add: lab_app_def)
  from env fresh mcp refl show ?thesis
  proof (cases rule: request_cases [of env now "lab_app x k" dr "wl_mcp x" k ?app rq])
    case plain
    have "mcp_inv (snd (reset_state (wl_mcp x)))"
      using assms(4) by (intro mcp_inv_step [OF mcp_step.reset]) (simp add: gate_inv_def)
    with plain(1) assms(4) show ?thesis by (auto simp: gate_inv_def after_request_def reset_state_def)
  next
    case (decided f d e orch r job)
    obtain m' ks where m': "ga_mcp ?app = (m', ks)" by fastforce
    from decided(1) have e: "map_of (gs_faults (wl_store x)) f = Some e" by (simp add: lab_app_def)
    from decision_on_lab [OF decided(1) decided(3) [unfolded m']] show ?thesis
      using assms(3,4) decided(2) m'
      by (auto simp: gate_inv_def after_request_def lab_app_def approved_state_inv approved_state_registered)
  qed
qed

section \<open>Executions and requests to the orchestrator\<close>

lemma tool_step_mcp: "tool_step m m' \<Longrightarrow> mcp_step False m m'"
  by (induction rule: tool_step.induct) (auto intro: mcp_step.intros)

lemma tool_step_history:
  "tool_step m m' \<Longrightarrow> ms_issued m' = ms_issued m \<and> ms_registered m' = ms_registered m"
  by (induction rule: tool_step.induct) (simp_all add: finish_call_eq)

lemma tool_step_sim:
  "tool_step m m' \<Longrightarrow> ms_sim m' = ms_sim m \<or> (\<exists>a. ms_sim m' = snd (http_clear a (ms_sim m)))"
  by (induction rule: tool_step.induct) (simp_all add: finish_call_eq, metis snd_conv)

lemma orch_post_moves:
  assumes "orch_http fw http_clear http_inject now r m path oc w = (reply, oc', w')" "(oc', w') \<noteq> (oc, w)"
  shows "m = lit ''POST''"
proof (rule ccontr)
  assume "m \<noteq> lit ''POST''"
  then have "route \<noteq> ORunNext \<and> (\<forall>sid. route \<noteq> ORun sid) \<and> route \<noteq> OReset" if "orch_route_of m segs = Some route" for segs route
    using that by (auto simp: orch_route_of_def split: list.splits if_splits)
  then have "snd (orch_handle http_clear http_inject now r route oc w) = (oc, w)"
    if "orch_route_of m segs = Some route" for segs route
    using that by (cases route) (auto simp: with_json_def)
  with assms show False
    by (auto simp: orch_http_def case_prod_beta split: list.splits option.splits if_splits)
qed

text \<open>Every step moves orchestrator and simulator by an operation of the lab, or not at all.\<close>

lemma whole_step_lab:
  assumes "whole_step lp x l y"
  shows "\<exists>op. (wl_orch y, wl_sim y) \<in> {(wl_orch x, wl_sim x), lab_step (wl_orch x, wl_sim x) op}"
  using assms
proof (cases rule: whole_step.cases)
  case (request oe now env dr k rq)
  from request_orch [OF request(3) request(2)] show ?thesis by auto
next
  case (orchestrator fw now r m path reply oc w)
  with orch_http_steps [of fw now r m path "wl_orch x" "wl_sim x"] show ?thesis by auto
next
  case (tools m)
  from tool_step_sim [OF tools(3)] show ?thesis
  proof
    assume "\<exists>a. ms_sim m = snd (http_clear a (wl_sim x))"
    then obtain a where "ms_sim m = snd (http_clear a (wl_sim x))" ..
    with tools(2) show ?thesis by (intro exI [of _ "Remediated a"]) simp
  qed (use tools(2) in simp)
qed simp_all

section \<open>Invariants\<close>

lemma gate_inv_step:
  assumes "whole_step lp x l y" "gate_inv x"
  shows "gate_inv y"
  using assms(1)
proof (cases rule: whole_step.cases)
  case (request oe now env dr k rq)
  from request_gate [OF request(3-5) assms(2)] request(2) show ?thesis by simp
next
  case (tools m)
  with assms(2) tool_step_history [OF tools(3)] mcp_inv_step [OF tool_step_mcp] show ?thesis by (auto simp: gate_inv_def)
qed (use assms(2) in \<open>simp_all add: gate_inv_def\<close>)

lemma store_step:
  assumes "whole_step lp x l y"
  shows "wl_store y = wl_store x \<or> gw_step lp (wl_store x) (wl_store y)"
  using assms
proof (cases rule: whole_step.cases)
  case (request oe now env dr k rq)
  from request_store [OF request(3,4,2)] show ?thesis .
qed (auto intro: gw_step.exec_status gw_step.exec_narrate gw_step.stream)

lemma whole_reachable_gate: "whole_reachable lp w x \<Longrightarrow> gate_inv x"
proof (induction rule: whole_reachable.induct)
  case (start oc redis_url flag)
  have "ms_registered (mcp_init w) = []" by (simp add: mcp_init_def)
  then show ?case by (simp add: gate_inv_def mcp_inv_init)
qed (rule gate_inv_step)

lemma whole_reachable_store: "whole_reachable lp w x \<Longrightarrow> gw_reachable lp (wl_store x)"
proof (induction rule: whole_reachable.induct)
  case (step x l y)
  with store_step [OF step.hyps(2)] show ?case by (auto intro: gw_reachable.next_step)
qed (simp add: gw_reachable.start)

lemma whole_reachable_lab:
  assumes "whole_reachable lp w x" "wf_loaded lp" "no_lost_replies w"
  shows "lab_inv (wl_orch x, wl_sim x)"
  using assms(1)
proof (induction rule: whole_reachable.induct)
  case (start oc redis_url flag)
  with lab_inv_start [OF assms(2) start(1) assms(3)] show ?case by (simp add: mcp_init_def)
next
  case (step x l y)
  from whole_step_lab [OF step.hyps(2)] obtain op where
    "(wl_orch y, wl_sim y) \<in> {(wl_orch x, wl_sim x), lab_step (wl_orch x, wl_sim x) op}" ..
  with step.IH lab_inv_step [OF step.IH, of op] show ?case by auto
qed

end
