(* ===== verification/Network_Safety.thy ===== *)
theory Network_Safety
  imports Lab_Network Lab_Diagnosis
begin

text \<open>
  What holds of the whole lab, whatever requests, executions and streams are interleaved: who can
  change the simulator's faults, and how the states of the services agree.
\<close>

section \<open>Who changes the simulator\<close>

text \<open>An execution in flight was approved, for the asset it clears.\<close>

lemma gate_call:
  assumes "gate_inv x" "c \<in> set (ms_calls (wl_mcp x))"
  shows "\<exists>h \<in> set (wl_answered x). approves h (ec_fault c) (fr_asset_id (ec_record c))"
proof -
  from assms have "ec_record c \<in> set (ms_registered (wl_mcp x))" "fr_fault_event_id (ec_record c) = ec_fault c"
    by (auto simp: gate_inv_def mcp_inv_def covered_def)
  with assms(1) show ?thesis unfolding gate_inv_def by metis
qed

lemma tool_step_changes:
  assumes "tool_step m m'" "sim_fault_of (ms_sim m') a \<noteq> sim_fault_of (ms_sim m) a"
  shows "sim_fault_of (ms_sim m') a = None \<and> (\<exists>c \<in> set (ms_calls m). fr_asset_id (ec_record c) = a)"
  using assms
proof (induction rule: tool_step.induct)
  case (clear c s b w')
  have a: "fr_asset_id (ec_record c) = a"
  proof (rule ccontr)
    assume "fr_asset_id (ec_record c) \<noteq> a"
    with sim.clear_frame [OF clear.hyps(3), of a] clear.prems show False by simp
  qed
  from sim.clear_never_faults [OF clear.hyps(3), of a] clear.prems have "sim_fault_of w' a = None" by simp
  with a clear.hyps(1) show ?case by auto
qed (simp_all add: finish_call_eq split: if_splits)

text \<open>
  C2: Every change of the simulator is accounted for. In the whole lab, with every request of anyone
  (malformed ones, decisions, resets, proposals), direct requests to the orchestrator, tool calls with
  any tokens, writes of the executor and streams interleaved, and with requests and answers lost at
  will: when the fault of an asset changes, then either the presenter asked for it (\<open>POST\<close> to
  \<open>/api/presenter/inject\<close>, to \<open>/api/presenter/reset\<close>, or to the orchestrator itself); or it is a
  repair by an execution, and an earlier request was a \<open>POST /api/faults/{id}/decision\<close> whose body
  says \<open>approved\<close>, for a fault event the gateway then knew and that is of this very asset.
\<close>

theorem simulator_changes_accounted:
  assumes "whole_reachable lp w x" and "whole_step lp x l y"
    and "sim_fault_of (wl_sim y) a \<noteq> sim_fault_of (wl_sim x) a"
  shows "(\<exists>rq. l = Asked rq \<and> rq_method rq = lit ''POST''
        \<and> rq_path rq \<in> {[lit ''api'', lit ''presenter'', lit ''inject''], [lit ''api'', lit ''presenter'', lit ''reset'']})
    \<or> (\<exists>path. l = Asked_orch (lit ''POST'') path)
    \<or> l = Tools \<and> sim_fault_of (wl_sim y) a = None
        \<and> (\<exists>(rq, faults) \<in> set (wl_answered x). \<exists>f body e.
             rq_method rq = lit ''POST'' \<and> rq_path rq = [lit ''api'', lit ''faults'', f, lit ''decision'']
             \<and> rq_body rq = Some body \<and> jget body (lit ''decision'') JNull = Some (JStr (lit ''approved''))
             \<and> map_of faults f = Some e \<and> fe_asset_id e = a)"
  using assms(2)
proof (cases rule: whole_step.cases)
  case (request oe now env dr k rq)
  from request_orch [OF request(3) request(2)] assms(3) request(1) show ?thesis
    by (auto simp: presenter_request_def)
next
  case (orchestrator fw now r m path reply oc w')
  from assms(3) orchestrator(2) have "(oc, w') \<noteq> (wl_orch x, wl_sim x)" by auto
  from orch_post_moves [OF orchestrator(3) this] orchestrator(1) show ?thesis by simp
next
  case (tools m)
  with tool_step_changes [OF tools(3)] assms(3) obtain c where
    c: "c \<in> set (ms_calls (wl_mcp x))" "fr_asset_id (ec_record c) = a" "sim_fault_of (wl_sim y) a = None" by auto
  from gate_call [OF whole_reachable_gate [OF assms(1)] c(1)] c(2) obtain h where
    "h \<in> set (wl_answered x)" "approves h (ec_fault c) a" by auto
  with tools(1) c(3) show ?thesis by (intro disjI2) (cases h, fastforce simp: approves_def)
qed (use assms(3) in simp_all)

section \<open>The states of the services\<close>

lemma lab_step_serves: "serves lp (snd s) \<Longrightarrow> serves lp (snd (lab_step s op))"
  by (rule lab_step_keeps [where P = "serves lp", OF serves_clear serves_inject])

lemma whole_reachable_serves: "whole_reachable lp w x \<Longrightarrow> serves lp (wl_sim x) \<and> oc_pack (wl_orch x) = lp"
proof (induction rule: whole_reachable.induct)
  case (start oc redis_url flag)
  moreover have "ms_sim (mcp_init w) = w" by (simp add: mcp_init_def)
  ultimately show ?case by (auto simp: serves_start orch_init_def bind_res_eq_Inr)
next
  case (step x l y)
  from whole_step_lab [OF step.hyps(2)] obtain op where
    "(wl_orch y, wl_sim y) \<in> {(wl_orch x, wl_sim x), lab_step (wl_orch x, wl_sim x) op}" ..
  with step.IH lab_step_serves [of lp "(wl_orch x, wl_sim x)" op] lab_step_pack [of "(wl_orch x, wl_sim x)" op]
  show ?case by (auto simp: prod_eq_iff)
qed

lemma serves_scenarios: "wf_loaded lp \<Longrightarrow> serves lp w \<Longrightarrow> en_scenarios (sw_engine w) = lp_scenarios_by_id lp"
  by (simp add: serves_def engine_init_def index_scenarios_def wf_loaded_def)

lemma serves_fault:
  assumes "wf_loaded lp" "serves lp w" "get_fault (sw_engine w) a = Some f"
    and "map_of (lp_scenarios_by_id lp) (if_scenario_id f) = Some sc"
  shows "f = make_fault (if_injected_at f) a (if_scenario_id f) sc"
proof -
  from assms(2) have "engine_ok (sw_engine w)" by (simp add: serves_def)
  with assms(3,4) serves_scenarios [OF assms(1,2)] show ?thesis by (fastforce simp: engine_ok_def)
qed

lemma serves_asset:
  assumes "serves lp w" "get_fault (sw_engine w) a = Some f"
  shows "a \<in> set (map pa_id (pk_assets (lp_pack lp)))"
proof -
  have "a \<in> set (asset_ids (sw_engine w))" using dom_get_fault [of "sw_engine w" a] assms(2) by (simp add: set_asset_ids)
  with assms(1) show ?thesis by (simp add: serves_def engine_init_assets del: set_map)
qed


end
