(* ===== verification/Lab_Story.thy ===== *)
theory Lab_Story
  imports Network_Safety
begin

text \<open>
  One incident in the whole lab, request by request: the presenter injects a scenario, the agent
  reports the fault, the operator approves, and the execution repairs the asset.
\<close>

section \<open>The requests\<close>

definition asks_injection :: "gw_request \<Rightarrow> pystr \<Rightarrow> bool" where
  "asks_injection rq sid \<longleftrightarrow> rq_method rq = lit ''POST''
     \<and> rq_path rq = [lit ''api'', lit ''presenter'', lit ''inject''] \<and> map_of (rq_query rq) (lit ''scenario'') = Some sid"

definition reports :: "gw_request \<Rightarrow> pystr \<Rightarrow> pystr \<Rightarrow> bool" where
  "reports rq sid a \<longleftrightarrow> rq_method rq = lit ''POST'' \<and> rq_path rq = [lit ''api'', lit ''faults'']
     \<and> (\<exists>b. Option.bind (rq_body rq) parse_create_fault = Some b \<and> cf_scenario_id b = sid \<and> cf_asset_id b = a)"

definition approves_event :: "gw_request \<Rightarrow> pystr \<Rightarrow> bool" where
  "approves_event rq f \<longleftrightarrow> rq_method rq = lit ''POST''
     \<and> rq_path rq = [lit ''api'', lit ''faults'', f, lit ''decision''] \<and> f \<noteq> []
     \<and> Option.bind (rq_body rq) parse_decision = Some decision_approved"

lemma story_routes:
  "asks_injection rq sid \<Longrightarrow> gw_route_of (rq_method rq) (rq_path rq) = Some GInject"
  "reports rq sid a \<Longrightarrow> gw_route_of (rq_method rq) (rq_path rq) = Some GCreateFault"
  "approves_event rq f \<Longrightarrow> gw_route_of (rq_method rq) (rq_path rq) = Some (GDecision f)"
  by (auto simp: asks_injection_def reports_def approves_event_def gw_route_of_def group_routes_def fault_routes_def)

section \<open>What each of them leaves\<close>

abbreviation asked :: "whole_lab \<Rightarrow> gw_request \<Rightarrow> whole_lab" where
  "asked x rq \<equiv> x\<lparr>wl_answered := (rq, gs_faults (wl_store x)) # wl_answered x\<rparr>"

text \<open>The gateway handles a request: \<open>y\<close> is the lab afterwards, \<open>app\<close> what the application was left with.\<close>

definition handled ::
  "LoadedPack \<Rightarrow> orch_env \<Rightarrow> gw_draw \<Rightarrow> pystr \<Rightarrow> gw_request \<Rightarrow> whole_lab \<Rightarrow> (GatewayStore, orch_side, lab) gw_app
     \<Rightarrow> whole_lab \<Rightarrow> bool" where
  "handled lp oe dr k rq x app y \<longleftrightarrow> (\<exists>now env. lab_env lp oe now env
     \<and> app = snd (gw_http env dr rq (lab_app x k)) \<and> y = after_request x rq app)"

lemma handled_step:
  "handled lp oe dr k rq x app y \<Longrightarrow> map_of (gs_faults (wl_store x)) (dr_id dr) = None \<Longrightarrow>
     k \<notin> set (ms_issued (wl_mcp x)) \<Longrightarrow> whole_step lp x (Asked rq) y"
  by (auto simp: handled_def intro: whole_step.request)

lemma injection_phase:
  assumes "lab_env lp oe now env" and "asks_injection rq sid" and "segment sid"
    and "oe_url oe (lit ''/api/run/'' @ sid) = lit ''/api/run/'' @ sid"
    and "run_specific http_clear http_inject sid (wl_orch x) (wl_sim x) = (Inr resp, oc, w')"
  shows "after_request x rq (snd (gw_http env dr rq (lab_app x k))) =
    (asked x rq)\<lparr>wl_orch := oc, wl_mcp := (wl_mcp x)\<lparr>ms_sim := w'\<rparr>\<rparr>"
proof -
  have run: "ge_run env sid (wl_orch x, wl_sim x) = (Inr (run_json resp), (oc, w'))"
    using assms(1) client_run_segment [OF assms(3,4), of "(wl_orch x, wl_sim x)"] assms(5)
    by (simp add: lab_env_def uses_orch_def)
  from assms(2,3) have q: "map_of (rq_query rq) (lit ''scenario'') = Some sid" "sid \<noteq> []"
    by (simp_all add: asks_injection_def segment_def)
  show ?thesis
    using run q by (simp add: gw_http_def story_routes(1) [OF assms(2)] inject_route_def presenter_inject_def lab_app_def
        after_request_def split: prod.split sum.split)
qed

lemma report_phase:
  assumes "lab_env lp oe now env" and "reports rq sid a"
  shows "\<exists>b. cf_scenario_id b = sid \<and> cf_asset_id b = a \<and> after_request x rq (snd (gw_http env dr rq (lab_app x k))) =
    (asked x rq)\<lparr>wl_store := snd (create_fault mem_ops lp (dr_id dr) (dr_now dr) (dr_id2 dr) (dr_now2 dr) b (wl_store x))\<rparr>"
proof -
  obtain b where b: "Option.bind (rq_body rq) parse_create_fault = Some b" "cf_scenario_id b = sid" "cf_asset_id b = a"
    using assms(2) by (auto simp: reports_def)
  have "ge_ops env = mem_ops" "ge_pack env = lp" using assms(1) by (simp_all add: lab_env_def mem_env_def)
  with b show ?thesis
    by (intro exI [of _ b]) (simp add: gw_http_def story_routes(2) [OF assms(2)] with_body_def writing_def lab_app_def
        after_request_def case_prod_beta)
qed

lemma approval_phase:
  assumes "lab_env lp oe now env" and "approves_event rq f" and "map_of (gs_faults (wl_store x)) f = Some e"
  defines "orch \<equiv> client_steps oe (wl_orch x, wl_sim x)"
  shows "ga_jobs (snd (gw_http env dr rq (lab_app x k))) = [decision_job orch f e k]"
    and "after_request x rq (snd (gw_http env dr rq (lab_app x k))) = (asked x rq)
      \<lparr>wl_store := store_publish (lit ''decision'') (decision_event f decision_approved) (store_set_pending_token f k (wl_store x)),
       wl_mcp := approved_state now e f (map rs_id (orch_steps orch e)) k (wl_mcp x)\<rparr>"
proof -
  have env: "ge_ops env = mem_ops" "ge_mcp env = lab_client now" "ge_steps env = client_steps oe"
    using assms(1) by (simp_all add: lab_env_def mem_env_def uses_orch_def wire_client_lab)
  have body: "Option.bind (rq_body rq) parse_decision = Some decision_approved"
    using assms(2) by (simp add: approves_event_def)
  have http: "snd (gw_http env dr rq (lab_app x k)) = snd (decision_route env f decision_approved (lab_app x k))"
    using body by (simp add: gw_http_def story_routes(3) [OF assms(2)] with_body_def)
  note dec = lab_decision [OF assms(3), of orch now "wl_mcp x" k "[]"]
  show "ga_jobs (snd (gw_http env dr rq (lab_app x k))) = [decision_job orch f e k]"
    using dec unfolding http by (simp add: decision_route_def env lab_app_def orch_def)
  show "after_request x rq (snd (gw_http env dr rq (lab_app x k))) = (asked x rq)
      \<lparr>wl_store := store_publish (lit ''decision'') (decision_event f decision_approved) (store_set_pending_token f k (wl_store x)),
       wl_mcp := approved_state now e f (map rs_id (orch_steps orch e)) k (wl_mcp x)\<rparr>"
    using dec approved_state_fields(1) [of now e f "map rs_id (orch_steps orch e)" k "wl_mcp x"] unfolding http
    by (simp add: decision_route_def env lab_app_def orch_def after_request_def)
qed

section \<open>On a network that delivers\<close>

lemma lab_step_ids: "rot_ids (oc_rotation (fst (lab_step s op))) = rot_ids (oc_rotation (fst s))"
  by (cases s; cases op)
    (auto simp: run_next_def run_specific_def orch_reset_def rotation_next_def rotation_force_def rotation_reset_def
      case_prod_unfold Let_def split: sum.split bool.split prod.split)

lemma whole_reachable_ids: "whole_reachable lp w x \<Longrightarrow> rot_ids (oc_rotation (wl_orch x)) = map sc_id (lp_scenarios lp)"
proof (induction rule: whole_reachable.induct)
  case (start oc redis_url flag)
  then show ?case by (auto simp: orch_init_def rotation_init_def bind_res_eq_Inr split: if_splits)
next
  case (step x l y)
  from whole_step_lab [OF step.hyps(2)] obtain op where
    "(wl_orch y, wl_sim y) \<in> {(wl_orch x, wl_sim x), lab_step (wl_orch x, wl_sim x) op}" ..
  with step.IH lab_step_ids [of "(wl_orch x, wl_sim x)" op] show ?case by (auto simp: prod_eq_iff)
qed

lemma delivering_step: "sw_net (snd s) = [] \<Longrightarrow> sw_net (snd (lab_step s op)) = []"
  by (rule lab_step_keeps [where P = "\<lambda>w. sw_net w = []"])
    (use http_clear_net http_inject_net in \<open>auto simp: prod_eq_iff\<close>)

lemma delivering_run:
  "sw_net w = [] \<Longrightarrow> run_specific http_clear http_inject sid oc w = (res, oc', w') \<Longrightarrow> sw_net w' = []"
  using delivering_step [of "(oc, w)" "RunSpecific sid"] by simp

lemma injection_works:
  assumes "wf_loaded lp" "no_lost_replies w" "whole_reachable lp w x" "sw_net (wl_sim x) = []"
    and "map_of (lp_scenarios_by_id lp) sid = Some sc"
  obtains oc w' where
    "run_specific http_clear http_inject sid (wl_orch x) (wl_sim x) = (Inr (scenario_response sc), oc, w')"
    "sw_net w' = []" "serves lp w'"
    "\<And>a. sim_fault_of w' a = (if a = sc_target_asset sc then Some sid else None)"
    "get_asset_scenario (sc_target_asset sc) oc = Inr (scenario_response sc)"
proof -
  have lab: "faults_tracked (wl_orch x) (wl_sim x)" "orch_ok (wl_orch x)"
    using whole_reachable_lab [OF assms(3,1,2)] by (simp_all add: lab_inv_def)
  from whole_reachable_serves [OF assms(3)] have srv: "serves lp (wl_sim x)" and pack: "oc_pack (wl_orch x) = lp" by auto
  have sc: "sc \<in> set (lp_scenarios lp)" "sc_id sc = sid" using wf_loaded_by_id(1) [OF assms(1,5)] by auto
  have targets: "s \<in> set (lp_scenarios lp) \<Longrightarrow> sc_target_asset s \<in> set (asset_ids (sw_engine (wl_sim x)))" for s
    using srv assms(1) by (simp add: serves_def engine_init_assets wf_loaded_def del: set_map)
  have "a \<in> set (asset_ids (sw_engine (wl_sim x)))" if "(a, Some s) \<in> set (oc_active (wl_orch x))" for a s
    using that lab(2) pack wf_loaded_by_id(1) [OF assms(1)] targets unfolding orch_ok_def by blast
  moreover have "sid \<in> set (known_scenario_ids (sw_engine (wl_sim x)))"
    using map_of_SomeD [OF assms(5)] serves_scenarios [OF assms(1) srv] by (force simp: known_scenario_ids_def)
  moreover have "sid \<in> set (rot_ids (oc_rotation (wl_orch x)))"
    using sc whole_reachable_ids [OF assms(3)] by auto
  ultimately obtain oc w' where
    run: "run_specific http_clear http_inject sid (wl_orch x) (wl_sim x) = (Inr (scenario_response sc), oc, w')"
    using run_specific_succeeds [OF assms(4), of "wl_orch x" sid sc] pack assms(5) targets [OF sc(1)] by blast
  from run_specific_isolates [OF lab(1) run] pack assms(5) have
    "\<And>a. sim_fault_of w' a = (if a = sc_target_asset sc then Some sid else None)"
    "\<And>a. active_scenario oc a = (if a = sc_target_asset sc then Some sid else None)" by auto
  moreover have "oc_pack oc = lp" using lab_step_pack [of "(wl_orch x, wl_sim x)" "RunSpecific sid"] run pack by simp
  moreover have "serves lp w'" using lab_step_serves [of lp "(wl_orch x, wl_sim x)" "RunSpecific sid"] run srv by simp
  ultimately show ?thesis
    using that [OF run delivering_run [OF assms(4) run]] assms(5) by (simp add: get_asset_scenario_def run_response_def)
qed

section \<open>One incident\<close>

lemma reported:
  assumes "gw_reachable lp s" "map_of (gs_faults s) f = None" "map_of (gs_notifications s) n = None"
    and "cf_asset_id b \<in> fleet s"
  obtains r where "map_of (gs_faults (snd (create_fault mem_ops lp f t n t' b s))) f = Some (new_fault_event lp f t b)"
    "map_of (gs_assets (snd (create_fault mem_ops lp f t n t' b s))) (cf_asset_id b) = Some r"
    "gw_reachable lp (snd (create_fault mem_ops lp f t n t' b s))"
proof -
  from assms(4) obtain r where "map_of (gs_assets s) (cf_asset_id b) = Some r" by (auto simp: fleet_def)
  with create_fault_changes [OF assms(1-3), of t t' b] that
    gw_reachable.next_step [OF assms(1) gw_step.create [OF assms(2), of lp t n t' b]] show ?thesis by fastforce
qed

text \<open>The lab when the approval has been answered.\<close>

lemma incident_approved:
  assumes "wf_loaded lp" "no_lost_replies w" "whole_reachable lp w x" "sw_net (wl_sim x) = []"
    and "map_of (lp_scenarios_by_id lp) sid = Some sc" "segment sid" "segment (sc_target_asset sc)"
    and "handled lp oe1 dr1 k1 rq1 x app1 x1" "asks_injection rq1 sid" "oe_url oe1 (lit ''/api/run/'' @ sid) = lit ''/api/run/'' @ sid"
    and "handled lp oe2 dr2 k2 rq2 x1 app2 x2" "reports rq2 sid (sc_target_asset sc)"
    and "map_of (gs_faults (wl_store x)) (dr_id dr2) = None" "map_of (gs_notifications (wl_store x)) (dr_id2 dr2) = None"
    and "handled lp oe3 dr3 k3 rq3 x2 app3 x3" "approves_event rq3 (dr_id dr2)"
    and "oe_url oe3 (lit ''/api/assets/'' @ sc_target_asset sc @ lit ''/scenario'')
      = lit ''/api/assets/'' @ sc_target_asset sc @ lit ''/scenario''"
  obtains e r orch now w'' where
    "fe_asset_id e = sc_target_asset sc" "fe_scenario_id e = sid"
    "map rs_id (orch_steps orch e) = map rs_id (sc_remediation_steps sc)"
    "gw_reachable lp (wl_store x2)" "map_of (gs_faults (wl_store x2)) (dr_id dr2) = Some e"
    "map_of (gs_assets (wl_store x2)) (sc_target_asset sc) = Some r"
    "ga_jobs app3 = [decision_job orch (dr_id dr2) e k3]"
    "wl_store x3 = store_publish (lit ''decision'') (decision_event (dr_id dr2) decision_approved)
       (store_set_pending_token (dr_id dr2) k3 (wl_store x2))"
    "wl_mcp x3 = approved_state now e (dr_id dr2) (map rs_id (orch_steps orch e)) k3 (wl_mcp x2)"
    "wl_mcp x2 = (wl_mcp x)\<lparr>ms_sim := wl_sim x1\<rparr>"
    "\<And>a. sim_fault_of (wl_sim x1) a = (if a = sc_target_asset sc then Some sid else None)"
    "http_clear (sc_target_asset sc) (wl_sim x1) = (True, w'')"
proof -
  let ?a = "sc_target_asset sc" and ?f = "dr_id dr2"
  from assms(8,11,15) obtain n1 env1 n2 env2 n3 env3 where
    h1: "lab_env lp oe1 n1 env1" "x1 = after_request x rq1 (snd (gw_http env1 dr1 rq1 (lab_app x k1)))" and
    h2: "lab_env lp oe2 n2 env2" "x2 = after_request x1 rq2 (snd (gw_http env2 dr2 rq2 (lab_app x1 k2)))" and
    h3: "lab_env lp oe3 n3 env3" "app3 = snd (gw_http env3 dr3 rq3 (lab_app x2 k3))" "x3 = after_request x2 rq3 app3"
    by (auto simp: handled_def)
  obtain oc w' where run: "run_specific http_clear http_inject sid (wl_orch x) (wl_sim x) = (Inr (scenario_response sc), oc, w')"
    and w': "sw_net w' = []" "serves lp w'" "\<And>a. sim_fault_of w' a = (if a = ?a then Some sid else None)"
    and act: "get_asset_scenario ?a oc = Inr (scenario_response sc)"
    by (rule injection_works [OF assms(1-5)]) blast
  have x1: "x1 = (asked x rq1)\<lparr>wl_orch := oc, wl_mcp := (wl_mcp x)\<lparr>ms_sim := w'\<rparr>\<rparr>"
    unfolding h1(2) by (rule injection_phase [OF h1(1) assms(9,6,10) run])
  obtain b where b: "cf_scenario_id b = sid" "cf_asset_id b = ?a" and x2: "x2 = (asked x1 rq2)
      \<lparr>wl_store := snd (create_fault mem_ops lp ?f (dr_now dr2) (dr_id2 dr2) (dr_now2 dr2) b (wl_store x1))\<rparr>"
    using report_phase [OF h2(1) assms(12), of x1 dr2 k2] unfolding h2(2) by blast
  note reach = whole_reachable_store [OF assms(3)]
  have target: "?a \<in> set (map pa_id (pk_assets (lp_pack lp)))"
    using assms(1) wf_loaded_by_id(1) [OF assms(1,5)] by (simp add: wf_loaded_def)
  then have in_fleet: "cf_asset_id b \<in> fleet (wl_store x)" using fleet_reachable [OF reach] b(2) by simp
  let ?e = "new_fault_event lp ?f (dr_now dr2) b"
  obtain r where e: "map_of (gs_faults (wl_store x2)) ?f = Some ?e" "map_of (gs_assets (wl_store x2)) ?a = Some r"
    and reach2: "gw_reachable lp (wl_store x2)"
    using reported [OF reach assms(13,14) in_fleet, of "dr_now dr2" "dr_now2 dr2"] by (auto simp: x1 x2 b(2))
  have orch2: "(wl_orch x2, wl_sim x2) = (oc, w')" by (simp add: x1 x2)
  have steps: "map rs_id (orch_steps (client_steps oe3 (wl_orch x2, wl_sim x2)) ?e) = map rs_id (sc_remediation_steps sc)"
    unfolding orch2 orch_steps_def
    using client_steps_segment [OF assms(7,17), of "(oc, w')"] act b(2) by (simp add: scenario_response_def)
  note app = approval_phase [OF h3(1) assms(16) e(1), of dr3 k3, folded h3(2), folded h3(3)]
  have "?a \<in> set (asset_ids (sw_engine w'))"
    using w'(2) target by (simp add: serves_def engine_init_assets del: set_map)
  from http_clear_delivered [OF w'(1) this] obtain w'' where clr: "http_clear ?a w' = (True, w'')" by auto
  show ?thesis
    by (rule that [of ?e "client_steps oe3 (wl_orch x2, wl_sim x2)" r n3 w''])
      (use b steps reach2 e app clr w'(3) in \<open>simp_all add: x1 x2\<close>)
qed

text \<open>
  C1: An incident, from the injection to the repaired asset, through the HTTP interfaces of all
  services. In any state of the lab that was reached without lost answers, with the network to the
  simulator delivering from now on: the presenter injects a scenario of the pack, the agent reports
  its fault with a fresh id, and the operator approves the event. Then after the injection the
  simulator has this fault and no other; the approval starts exactly one execution, of the event, with
  exactly the remediation steps of the scenario; and the execution ends \<open>resolved\<close>, with the event
  resolved, its asset healthy on the grid, no fault left in the simulator, and the token spent. The
  ids in the two paths are read by the server as they were written, and other requests served during
  the execution leave this event and asset alone.
\<close>

theorem incident_resolved:
  assumes "wf_loaded lp" "no_lost_replies w" "whole_reachable lp w x" "sw_net (wl_sim x) = []"
    and "map_of (lp_scenarios_by_id lp) sid = Some sc" "segment sid" "segment (sc_target_asset sc)"
    and "handled lp oe1 dr1 k1 rq1 x app1 x1" "asks_injection rq1 sid" "oe_url oe1 (lit ''/api/run/'' @ sid) = lit ''/api/run/'' @ sid"
    and "handled lp oe2 dr2 k2 rq2 x1 app2 x2" "reports rq2 sid (sc_target_asset sc)"
    and "map_of (gs_faults (wl_store x)) (dr_id dr2) = None" "map_of (gs_notifications (wl_store x)) (dr_id2 dr2) = None"
    and "handled lp oe3 dr3 k3 rq3 x2 app3 x3" "approves_event rq3 (dr_id dr2)"
    and "oe_url oe3 (lit ''/api/assets/'' @ sc_target_asset sc @ lit ''/scenario'')
      = lit ''/api/assets/'' @ sc_target_asset sc @ lit ''/scenario''"
    and "k3 \<noteq> []" "quiet (dr_id dr2) (sc_target_asset sc) (xe_others xenv)" "json_codec loads dumps"
  shows "(\<forall>a. sim_fault_of (wl_sim x1) a = (if a = sc_target_asset sc then Some sid else None))
    \<and> (\<exists>job s m e r. ga_jobs app3 = [job] \<and> ej_fault_id job = dr_id dr2 \<and> ej_step_ids job = map rs_id (sc_remediation_steps sc)
      \<and> run_remediation mem_ops xenv shw (lab_execute loads dumps) job (wl_store x3) (wl_mcp x3, []) = (lit ''resolved'', s, (m, []))
      \<and> map_of (gs_faults s) (dr_id dr2) = Some e \<and> fe_status e = resolved
      \<and> fe_scenario_id e = sid \<and> fe_asset_id e = sc_target_asset sc
      \<and> map_of (gs_assets s) (sc_target_asset sc) = Some r \<and> ar_state r = healthy \<and> ar_active_fault r = None
      \<and> (\<forall>a. sim_fault_of (ms_sim m) a = None) \<and> map_option at_consumed (token_get (ms_tokens m) k3) = Some True)"
proof -
  let ?a = "sc_target_asset sc" and ?f = "dr_id dr2"
  obtain e r orch now w'' where e: "fe_asset_id e = ?a" "fe_scenario_id e = sid"
      "map rs_id (orch_steps orch e) = map rs_id (sc_remediation_steps sc)"
    and x2: "gw_reachable lp (wl_store x2)" "map_of (gs_faults (wl_store x2)) ?f = Some e" "map_of (gs_assets (wl_store x2)) ?a = Some r"
    and app: "ga_jobs app3 = [decision_job orch ?f e k3]" "wl_store x3 = store_publish (lit ''decision'')
       (decision_event ?f decision_approved) (store_set_pending_token ?f k3 (wl_store x2))"
       "wl_mcp x3 = approved_state now e ?f (map rs_id (orch_steps orch e)) k3 (wl_mcp x2)"
    and sim: "wl_mcp x2 = (wl_mcp x)\<lparr>ms_sim := wl_sim x1\<rparr>" "\<And>a. sim_fault_of (wl_sim x1) a = (if a = ?a then Some sid else None)"
       "http_clear ?a (wl_sim x1) = (True, w'')"
    by (rule incident_approved [OF assms(1-17)]) blast
  have clr: "http_clear (fe_asset_id e) (wl_sim x2) = (True, w'')" using sim(1,3) e(1) by simp
  obtain s m where exec: "run_remediation mem_ops xenv shw (lab_execute loads dumps)
      (decision_job orch ?f e k3) (wl_store x3) (wl_mcp x3, []) = (lit ''resolved'', s, (m, []))"
    and ends: "map_of (gs_faults s) ?f = Some (e\<lparr>fe_status := resolved\<rparr>)"
      "map_of (gs_assets s) ?a = Some (healthy_record r)" "map_option at_consumed (token_get (ms_tokens m) k3) = Some True"
    and after: "sim_fault_of (ms_sim m) ?a = None" "\<And>a. a \<noteq> ?a \<Longrightarrow> sim_fault_of (ms_sim m) a = sim_fault_of (wl_sim x2) a"
    using approved_execution [OF x2(1,2) _ assms(20,18) clr, where orch = orch and now = now and shw = shw and ks = "[]"
        and env = xenv] assms(7,19) e(1) x2(3) app(2,3) by (auto simp: segment_def)
  have "sim_fault_of (ms_sim m) a = None" for a
    using after sim(1,2) by (cases "a = ?a") auto
  with exec ends app(1) e sim(2) show ?thesis
    by (auto simp: decision_job_fields healthy_record_def)
qed

section \<open>The incident of a small lab\<close>

definition story_orch :: orch_env where
  "story_orch = \<lparr>oe_framework = diagnosis_framework, oe_url = (\<lambda>p. p), oe_now = demo_time, oe_random = 0\<rparr>"

definition story_env :: "(GatewayStore, orch_side, lab) gw_env" where
  "story_env = \<lparr>ge_ops = mem_ops, ge_subscribe = mem_subscribe, ge_pack = demo_pack, ge_environ = [],
     ge_net = quiet_net 200, ge_daemon = (\<lambda>_ _ _ _. None), ge_steps = client_steps story_orch,
     ge_scenarios = client_scenarios story_orch, ge_ids = run_ids, ge_run_next = client_run_next story_orch,
     ge_run = client_run story_orch, ge_orch_reset = client_reset story_orch, ge_mcp = wire_client demo_time,
     ge_float = (\<lambda>_. None), ge_static = (\<lambda>_. 404)\<rparr>"

definition story_start :: whole_lab where
  "story_start = \<lparr>wl_store = demo_gateway, wl_orch = demo_orch, wl_mcp = mcp_init (demo_lab []), wl_answered = []\<rparr>"

definition inject_request :: gw_request where
  "inject_request = \<lparr>rq_method = lit ''POST'', rq_path = [lit ''api'', lit ''presenter'', lit ''inject''],
     rq_query = [(lit ''scenario'', lit ''s1'')], rq_body = None\<rparr>"

text \<open>The three requests, each with its token string.\<close>

definition story_app :: "pystr \<Rightarrow> gw_draw \<Rightarrow> gw_request \<Rightarrow> whole_lab \<Rightarrow> (GatewayStore, orch_side, lab) gw_app" where
  "story_app k dr rq x = snd (gw_http story_env dr rq (lab_app x k))"

definition story_after :: "pystr \<Rightarrow> gw_draw \<Rightarrow> gw_request \<Rightarrow> whole_lab \<Rightarrow> whole_lab" where
  "story_after k dr rq x = after_request x rq (story_app k dr rq x)"

abbreviation "story_injected \<equiv> story_after (lit ''k1'') demo_draw inject_request story_start"
abbreviation "story_reported \<equiv> story_after (lit ''k2'') demo_draw create_request story_injected"
abbreviation "story_approved \<equiv> story_after (lit ''tok'') (demo_draw\<lparr>dr_id := lit ''f2''\<rparr>) approve_request story_reported"

lemma story_handled: "handled demo_pack story_orch dr k rq x (story_app k dr rq x) (story_after k dr rq x)"
proof -
  have "lab_env demo_pack story_orch demo_time story_env"
    by (simp add: lab_env_def mem_env_def uses_orch_def story_env_def)
  then show ?thesis unfolding handled_def story_after_def story_app_def by blast
qed

lemma story_requests:
  "asks_injection inject_request (lit ''s1'')" "reports create_request (lit ''s1'') (lit ''gpu-1'')"
  "approves_event approve_request (lit ''f1'')"
  by (simp_all add: asks_injection_def inject_request_def reports_def create_request_def approves_event_def approve_request_def
      post_def parse_create_fault_def parse_decision_def get_str_def get_opt_def get_strs_def ApprovalDecision_of_def)

lemma story_start_reachable: "whole_reachable demo_pack (demo_lab []) story_start"
  unfolding story_start_def demo_gateway_def
  by (rule whole_reachable.start [OF demo_orch_init]) (simp add: demo_lab_def)

lemma story_facts:
  "no_lost_replies (demo_lab [])" "sw_net (wl_sim story_start) = []"
  "map_of (lp_scenarios_by_id demo_pack) (lit ''s1'') = Some (backfill_log_extract demo_scenario)"
  "segment (lit ''s1'')" "sc_target_asset (backfill_log_extract demo_scenario) = lit ''gpu-1''" "segment (lit ''gpu-1'')"
  "oe_url story_orch p = p" "dr_id demo_draw = lit ''f1''"
  "map_of (gs_faults (wl_store story_start)) f = None" "map_of (gs_notifications (wl_store story_start)) n = None"
  using demo_lookup demo_fresh
  by (simp_all add: no_lost_replies_def demo_lab_def story_start_def mcp_init_def demo_orch_def segment_def story_orch_def
      demo_draw_def demo_gateway_def start_faults) (simp_all add: lit_def)

lemmas story_incident = story_facts(1) story_start_reachable story_facts(2,3,4)

lemma story_urls:
  "oe_url story_orch (lit ''/api/run/'' @ lit ''s1'') = lit ''/api/run/'' @ lit ''s1''"
  "oe_url story_orch (lit ''/api/assets/'' @ lit ''gpu-1'' @ lit ''/scenario'') = lit ''/api/assets/'' @ lit ''gpu-1'' @ lit ''/scenario''"
  by (simp_all add: story_facts)

lemma story_lab:
  obtains e r orch now w'' where
    "fe_asset_id e = lit ''gpu-1''" "map_of (gs_faults (wl_store story_reported)) (lit ''f1'') = Some e"
    "wl_mcp story_approved = approved_state now e (lit ''f1'') (map rs_id (orch_steps orch e)) (lit ''tok'') (wl_mcp story_reported)"
    "wl_mcp story_reported = (wl_mcp story_start)\<lparr>ms_sim := wl_sim story_injected\<rparr>"
    "\<And>a. sim_fault_of (wl_sim story_injected) a = (if a = lit ''gpu-1'' then Some (lit ''s1'') else None)"
    "http_clear (lit ''gpu-1'') (wl_sim story_injected) = (True, w'')"
  by (rule incident_approved [where lp = demo_pack and w = "demo_lab []" and x = story_start and sid = "lit ''s1''"
        and sc = "backfill_log_extract demo_scenario" and ?oe1.0 = story_orch and ?oe2.0 = story_orch and ?oe3.0 = story_orch
        and ?dr1.0 = demo_draw and ?dr2.0 = demo_draw and ?dr3.0 = "demo_draw\<lparr>dr_id := lit ''f2''\<rparr>"
        and ?k1.0 = "lit ''k1''" and ?k2.0 = "lit ''k2''" and ?k3.0 = "lit ''tok''"
        and ?x1.0 = story_injected and ?x2.0 = story_reported and ?x3.0 = story_approved,
        unfolded story_facts(5,8), OF demo_wf story_incident story_facts(6) story_handled story_requests(1) story_urls(1) story_handled story_requests(2)
          story_facts(9,10) story_handled story_requests(3) story_urls(2)])
    (rule that)

theorem incident_resolved_witness:
  "\<exists>job s m. ga_jobs (story_app (lit ''tok'') (demo_draw\<lparr>dr_id := lit ''f2''\<rparr>) approve_request story_reported) = [job]
     \<and> ej_step_ids job = [lit ''drain'']
     \<and> run_remediation mem_ops Approval_Gate.demo_env (\<lambda>_. []) (lab_execute number_loads number_dumps) job
          (wl_store story_approved) (wl_mcp story_approved, []) = (lit ''resolved'', s, (m, []))
     \<and> (\<forall>a. sim_fault_of (ms_sim m) a = None)"
proof -
  have tok: "lit ''tok'' \<noteq> []" by simp
  have quiet: "quiet (lit ''f1'') (lit ''gpu-1'') (xe_others Approval_Gate.demo_env)"
    by (simp add: quiet_def Approval_Gate.demo_env_def)
  have steps: "map rs_id (sc_remediation_steps (backfill_log_extract demo_scenario)) = [lit ''drain'']"
    by (simp add: demo_scenario_def)
  show ?thesis
    using incident_resolved [where lp = demo_pack and w = "demo_lab []" and x = story_start and sid = "lit ''s1''"
        and sc = "backfill_log_extract demo_scenario" and ?oe1.0 = story_orch and ?oe2.0 = story_orch and ?oe3.0 = story_orch
        and ?dr1.0 = demo_draw and ?dr2.0 = demo_draw and ?dr3.0 = "demo_draw\<lparr>dr_id := lit ''f2''\<rparr>"
        and ?k1.0 = "lit ''k1''" and ?k2.0 = "lit ''k2''" and ?k3.0 = "lit ''tok''"
        and ?x1.0 = story_injected and ?x2.0 = story_reported and ?x3.0 = story_approved
        and shw = "\<lambda>_. []" and xenv = Approval_Gate.demo_env, unfolded story_facts(5,8) steps,
        OF demo_wf story_incident story_facts(6) story_handled story_requests(1) story_urls(1) story_handled story_requests(2)
          story_facts(9,10) story_handled story_requests(3) story_urls(2) tok quiet number_codec]
    by blast
qed

lemma story_lab_env: "lab_env demo_pack story_orch demo_time story_env"
  by (simp add: lab_env_def mem_env_def uses_orch_def story_env_def)

lemma story_fresh:
  "wl_store story_injected = demo_gateway" "map_of (gs_faults (wl_store story_reported)) (lit ''f2'') = None"
  "ms_issued (wl_mcp story_injected) = []" "ms_issued (wl_mcp story_reported) = []"
proof -
  obtain oc w' where run: "run_specific http_clear http_inject (lit ''s1'') (wl_orch story_start) (wl_sim story_start)
      = (Inr (scenario_response (backfill_log_extract demo_scenario)), oc, w')"
    using demo_run_ok by (auto simp: demo_run_def story_start_def mcp_init_def)
  have inj: "story_injected = (asked story_start inject_request)\<lparr>wl_orch := oc, wl_mcp := (wl_mcp story_start)\<lparr>ms_sim := w'\<rparr>\<rparr>"
    unfolding story_after_def story_app_def
    by (rule injection_phase [OF story_lab_env story_requests(1) story_facts(4) story_urls(1) run])
  then show store: "wl_store story_injected = demo_gateway" and issued: "ms_issued (wl_mcp story_injected) = []"
    by (simp_all add: story_start_def mcp_init_def)
  obtain b where rep: "story_reported = (asked story_injected create_request)
      \<lparr>wl_store := snd (create_fault mem_ops demo_pack (lit ''f1'') demo_time (lit ''n1'') demo_time b demo_gateway)\<rparr>"
    using report_phase [OF story_lab_env story_requests(2), of story_injected demo_draw "lit ''k2''"] store
    by (auto simp: story_after_def story_app_def demo_draw_def)
  then show "ms_issued (wl_mcp story_reported) = []" using issued by simp
  show "map_of (gs_faults (wl_store story_reported)) (lit ''f2'') = None"
    using create_fault_changes [OF demo_reachable(1) demo_fresh(1) demo_fresh(2), of "lit ''f1''" demo_time "lit ''n1''" demo_time b]
    by (auto simp: rep demo_fresh)
qed

lemma story_reachable:
  "whole_reachable demo_pack (demo_lab []) story_injected" "whole_reachable demo_pack (demo_lab []) story_approved"
proof -
  have "map_of (gs_faults (wl_store story_start)) (dr_id demo_draw) = None" "ms_issued (wl_mcp story_start) = []"
    using story_facts(9) by (simp_all add: story_start_def mcp_init_def)
  from handled_step [OF story_handled this(1), of "lit ''k1''"] this(2)
  show inj: "whole_reachable demo_pack (demo_lab []) story_injected"
    by (auto intro: whole_reachable.step [OF story_start_reachable])
  have "whole_step demo_pack story_injected (Asked create_request) story_reported"
    by (rule handled_step [OF story_handled]) (simp_all add: story_fresh demo_fresh)
  then have rep: "whole_reachable demo_pack (demo_lab []) story_reported" by (rule whole_reachable.step [OF inj])
  have "whole_step demo_pack story_reported (Asked approve_request) story_approved"
    by (rule handled_step [OF story_handled]) (simp_all add: story_fresh)
  then show "whole_reachable demo_pack (demo_lab []) story_approved" by (rule whole_reachable.step [OF rep])
qed


theorem simulator_changes_accounted_witness:
  "\<exists>x y. whole_reachable demo_pack (demo_lab []) x \<and> whole_step demo_pack x Tools y
     \<and> sim_fault_of (wl_sim x) (lit ''gpu-1'') = Some (lit ''s1'') \<and> sim_fault_of (wl_sim y) (lit ''gpu-1'') = None
     \<and> (\<exists>(rq, faults) \<in> set (wl_answered x). \<exists>f body. rq_path rq = [lit ''api'', lit ''faults'', f, lit ''decision'']
          \<and> rq_body rq = Some body \<and> jget body (lit ''decision'') JNull = Some (JStr (lit ''approved'')))"
proof (rule story_lab)
  fix e r orch now w''
  assume e: "fe_asset_id e = lit ''gpu-1''"
    and m: "wl_mcp story_approved = approved_state now e (lit ''f1'') (map rs_id (orch_steps orch e)) (lit ''tok'') (wl_mcp story_reported)"
      "wl_mcp story_reported = (wl_mcp story_start)\<lparr>ms_sim := wl_sim story_injected\<rparr>"
    and sim: "\<And>a. sim_fault_of (wl_sim story_injected) a = (if a = lit ''gpu-1'' then Some (lit ''s1'') else None)"
      "http_clear (lit ''gpu-1'') (wl_sim story_injected) = (True, w'')"
  let ?ids = "map rs_id (orch_steps orch e)"
  let ?rcd = "fst (registry_register (lit ''f1'') (fe_asset_id e) (fe_scenario_id e) ?ids (ms_registry (wl_mcp story_reported)))"
  let ?c = "begin_call (lit ''f1'') (lit ''tok'') ?rcd (map JStr ?ids)"
  let ?m = "(wl_mcp story_approved)\<lparr>ms_calls := ?c # ms_calls (wl_mcp story_approved)\<rparr>"
  let ?x = "story_approved\<lparr>wl_mcp := ?m\<rparr>"
  have "tool_step (wl_mcp story_approved) ?m"
    unfolding m(1) by (rule tool_step.start [OF approved_check]) simp
  from whole_reachable.step [OF story_reachable(2) whole_step.tools [OF this]]
  have x: "whole_reachable demo_pack (demo_lab []) ?x" .
  have same: "wl_sim ?x = wl_sim story_injected" using m by (simp add: approved_state_fields)
  have c: "fr_asset_id (ec_record ?c) = lit ''gpu-1''" "ec_answer ?c = None"
    by (simp_all add: begin_call_def registry_register_def e Let_def)
  have "tool_step (wl_mcp ?x) (?m\<lparr>ms_sim := w'', ms_calls := (?c\<lparr>ec_answer := Some True\<rparr>) # remove1 ?c (ms_calls ?m)\<rparr>)"
    (is "tool_step _ ?m'")
    using tool_step.clear [of ?c ?m True w''] c sim(2) same by simp
  from whole_step.tools [OF this] have step: "whole_step demo_pack ?x Tools (?x\<lparr>wl_mcp := ?m'\<rparr>)" .
  have after: "sim_fault_of (wl_sim (?x\<lparr>wl_mcp := ?m'\<rparr>)) (lit ''gpu-1'') = None" using sim.clear_ok [OF sim(2)] by simp
  have before: "sim_fault_of (wl_sim ?x) (lit ''gpu-1'') = Some (lit ''s1'')" using sim(1) same by simp
  from simulator_changes_accounted [OF x step, of "lit ''gpu-1''"] before after
  have "\<exists>(rq, faults) \<in> set (wl_answered ?x). \<exists>f body. rq_path rq = [lit ''api'', lit ''faults'', f, lit ''decision'']
          \<and> rq_body rq = Some body \<and> jget body (lit ''decision'') JNull = Some (JStr (lit ''approved''))" by fastforce
  with x step before after show ?thesis by blast
qed

end
