(* ===== verification/Fake_Client.thy ===== *)
theory Fake_Client
  imports Lab_Story
begin

text \<open>
  \<open>FakeSimulatorClient\<close> of \<open>services/orchestrator/simulator_client.py\<close>, the stand-in for the HTTP
  client, and what the orchestrator does over it compared with the simulator behind a network that
  delivers.
\<close>

section \<open>The client\<close>

record fake_client =
  fk_injected :: "(pystr \<times> pystr) list"
  fk_cleared :: "pystr list"

definition fake_init :: fake_client where
  "fake_init = \<lparr>fk_injected = [], fk_cleared = []\<rparr>"

definition fake_inject :: "pystr \<Rightarrow> pystr \<Rightarrow> fake_client \<Rightarrow> bool \<times> fake_client" where
  "fake_inject asset_id scenario_id c = (True, c\<lparr>fk_injected := fk_injected c @ [(asset_id, scenario_id)]\<rparr>)"

definition fake_clear :: "pystr \<Rightarrow> fake_client \<Rightarrow> bool \<times> fake_client" where
  "fake_clear asset_id c = (True, c\<lparr>fk_cleared := fk_cleared c @ [asset_id]\<rparr>)"

definition fake_reset_history :: "fake_client \<Rightarrow> fake_client" where
  "fake_reset_history c = c\<lparr>fk_injected := [], fk_cleared := []\<rparr>"

section \<open>Two clients that acknowledge everything\<close>

lemma clear_active_unique:
  "clear_active c items active s = (True, active1, s1) \<Longrightarrow> clear_active c' items active s' = (True, active2, s2) \<Longrightarrow>
     active1 = active2"
  by (induction items arbitrary: active s s') (auto split: if_splits prod.splits bool.splits)

lemma fake_clear_active: "fst (clear_active fake_clear items active c)"
  by (induction items arbitrary: active c) (auto simp: fake_clear_def)

lemma fake_clear_injected:
  "clear_active fake_clear items active c = (b, active', c') \<Longrightarrow> fk_injected c' = fk_injected c"
proof (induction items arbitrary: active c)
  case (Cons x items)
  obtain a cur where x: "x = (a, cur)" by (cases x)
  show ?case
  proof (cases cur)
    case None
    with Cons x show ?thesis by simp
  next
    case (Some sid)
    with Cons.prems x have "clear_active fake_clear items (dict_set a None active) (c\<lparr>fk_cleared := fk_cleared c @ [a]\<rparr>) = (b, active', c')"
      by (simp add: fake_clear_def [of a])
    from Cons.IH [OF this] show ?thesis by simp
  qed
qed simp

text \<open>The lab as it is over the delivering network: everything the orchestrator names exists.\<close>

definition lab_serving :: "LoadedPack \<Rightarrow> orch \<Rightarrow> sim_world \<Rightarrow> bool" where
  "lab_serving lp oc w \<longleftrightarrow> wf_loaded lp \<and> lab_inv (oc, w) \<and> oc_pack oc = lp \<and> serves lp w \<and> sw_net w = []"

lemma serving_targets:
  assumes "lab_serving lp oc w" "map_of (lp_scenarios_by_id lp) sid = Some sc"
  shows "sc_target_asset sc \<in> set (asset_ids (sw_engine w))" "sid \<in> set (known_scenario_ids (sw_engine w))"
proof -
  from assms(1) have wf: "wf_loaded lp" and srv: "serves lp w" by (simp_all add: lab_serving_def)
  show "sc_target_asset sc \<in> set (asset_ids (sw_engine w))"
    using srv wf wf_loaded_by_id(1) [OF wf assms(2)] by (simp add: serves_def engine_init_assets wf_loaded_def del: set_map)
  show "sid \<in> set (known_scenario_ids (sw_engine w))"
    using map_of_SomeD [OF assms(2)] serves_scenarios [OF wf srv] by (force simp: known_scenario_ids_def)
qed

lemma serving_clear:
  assumes "lab_serving lp oc w"
  obtains active' w' where "clear_active http_clear (oc_active oc) (oc_active oc) w = (True, active', w')"
    "sw_net w' = []" "asset_ids (sw_engine w') = asset_ids (sw_engine w)" "en_scenarios (sw_engine w') = en_scenarios (sw_engine w)"
proof -
  from assms have "orch_ok oc" "oc_pack oc = lp" "sw_net w = []" by (simp_all add: lab_serving_def lab_inv_def)
  then have "a \<in> set (asset_ids (sw_engine w))" if "(a, Some sid) \<in> set (oc_active oc)" for a sid
    using that serving_targets(1) [OF assms] unfolding orch_ok_def by blast
  with clear_active_delivered [OF \<open>sw_net w = []\<close>, of "oc_active oc" "oc_active oc"] that show ?thesis by blast
qed

lemma serving_reset:
  assumes "lab_serving lp oc w"
  obtains active' w1 c1 where "clear_active http_clear (oc_active oc) (oc_active oc) w = (True, active', w1)"
    "clear_active fake_clear (oc_active oc) (oc_active oc) c = (True, active', c1)"
    "fk_injected c1 = fk_injected c" "\<forall>a. sim_fault_of w1 a = None"
proof -
  have tracked: "sim.tracks (oc_active oc) w" using assms by (simp add: lab_serving_def lab_inv_def faults_tracked_iff)
  obtain active1 w1 where r: "clear_active http_clear (oc_active oc) (oc_active oc) w = (True, active1, w1)"
    by (rule serving_clear [OF assms])
  obtain active2 c1 where f: "clear_active fake_clear (oc_active oc) (oc_active oc) c = (True, active2, c1)"
    using fake_clear_active [of "oc_active oc" "oc_active oc" c] by (metis prod.collapse)
  with that r clear_active_unique [OF f r] fake_clear_injected [OF f] sim.clear_active_complete(2) [OF tracked r]
  show ?thesis by simp
qed

lemma serving_inject:
  assumes "lab_serving lp oc w" "map_of (lp_scenarios_by_id lp) sid = Some sc"
  obtains active' w1 c1 where
    "inject_scenario http_clear http_inject sid lp (oc_active oc) w = (Inr (scenario_response sc), active', w1)"
    "inject_scenario fake_clear fake_inject sid lp (oc_active oc) c = (Inr (scenario_response sc), active', c1)"
    "fk_injected c1 = fk_injected c @ [(sc_target_asset sc, sid)]"
    "\<forall>a. sim_fault_of w1 a = (if a = sc_target_asset sc then Some sid else None)"
proof -
  have tracked: "sim.tracks (oc_active oc) w" using assms(1) by (simp add: lab_serving_def lab_inv_def faults_tracked_iff)
  obtain active3 w3 where r: "clear_active http_clear (oc_active oc) (oc_active oc) w = (True, active3, w3)"
    and w3: "sw_net w3 = []" "asset_ids (sw_engine w3) = asset_ids (sw_engine w)" "en_scenarios (sw_engine w3) = en_scenarios (sw_engine w)"
    by (rule serving_clear [OF assms(1)])
  obtain c3 where f: "clear_active fake_clear (oc_active oc) (oc_active oc) c = (True, active3, c3)" "fk_injected c3 = fk_injected c"
    by (rule serving_reset [OF assms(1), of c]) (use r that in auto)
  obtain w4 where "http_inject (sc_target_asset sc) sid w3 = (True, w4)"
    using http_inject_delivered [OF w3(1)] serving_targets [OF assms] w3(2,3) by (auto simp: known_scenario_ids_def)
  with assms(2) r have real: "inject_scenario http_clear http_inject sid lp (oc_active oc) w
      = (Inr (scenario_response sc), dict_set (sc_target_asset sc) (Some sid) active3, w4)"
    by (simp add: inject_scenario_def run_response_def)
  moreover have "inject_scenario fake_clear fake_inject sid lp (oc_active oc) c = (Inr (scenario_response sc),
      dict_set (sc_target_asset sc) (Some sid) active3, c3\<lparr>fk_injected := fk_injected c3 @ [(sc_target_asset sc, sid)]\<rparr>)"
    using assms(2) f(1) by (simp add: inject_scenario_def run_response_def fake_inject_def)
  moreover have "sim_fault_of w4 a = (if a = sc_target_asset sc then Some sid else None)" for a
    using sim.inject_scenario_Inr [OF tracked real, of a] assms(2) by simp
  ultimately show ?thesis using that f(2) by simp
qed

section \<open>A session\<close>

lemma lab_step_serving:
  assumes "lab_serving lp oc w" "(oc1, w1) = lab_step (oc, w) op"
  shows "lab_serving lp oc1 w1"
proof -
  from assms(1) have inv: "lab_inv (oc, w)" and pack: "oc_pack oc = lp" and wf: "wf_loaded lp" and srv: "serves lp w" and net: "sw_net w = []"
    by (simp_all add: lab_serving_def)
  show ?thesis
    using wf pack lab_step_pack [of "(oc, w)" op] lab_step_serves [of lp "(oc, w)" op] srv lab_inv_step [OF inv, of op]
      delivering_step [of "(oc, w)" op] net assms(2) [symmetric] by (simp add: lab_serving_def)
qed

text \<open>A fault of the simulator is the last injection the stand-in recorded.\<close>

definition recorded :: "fake_client \<Rightarrow> sim_world \<Rightarrow> bool" where
  "recorded c w \<longleftrightarrow> (\<forall>a sid. sim_fault_of w a = Some sid \<longrightarrow> fk_injected c \<noteq> [] \<and> last (fk_injected c) = (a, sid))"

text \<open>One request: the same answer and the same orchestrator, and the real lab stays complete.\<close>

lemma fake_handle:
  assumes "lab_serving lp oc w"
    and "orch_handle http_clear http_inject now r route oc w = (res, oc1, w1)"
    and "orch_handle fake_clear fake_inject now r route oc c = (res', oc2, c1)"
    and "recorded c w"
  shows "res' = res \<and> oc2 = oc1 \<and> lab_serving lp oc1 w1 \<and> recorded c1 w1
    \<and> (\<forall>e. res = Inl e \<longrightarrow> (\<exists>d. e = OrchHttp (HTTPException 404 d)))"
proof -
  from assms(1) have ok: "orch_ok oc" and pack: "oc_pack oc = lp" by (simp_all add: lab_serving_def lab_inv_def)
  have srv: "lab_serving lp oc1 w1"
    using orch_handle_steps [of now r route oc w] lab_step_serving [OF assms(1)] assms(1,2) by auto
  have known: "\<exists>sc. map_of (lp_scenarios_by_id lp) sid = Some sc" if "sid \<in> set (rot_ids (oc_rotation oc))" for sid
    using that ok pack unfolding orch_ok_def by blast
  show ?thesis
  proof (cases route)
    case ORunNext
    obtain sid rot' where n: "rotation_next r (oc_rotation oc) = (sid, rot')" by (cases "rotation_next r (oc_rotation oc)")
    have "sid \<in> set (rot_ids (oc_rotation oc))" using rotation_next_in [OF _ n] ok by (simp add: orch_ok_def)
    with known obtain sc where "map_of (lp_scenarios_by_id lp) sid = Some sc" by blast
    from serving_inject [OF assms(1) this, of c] obtain active' w2 c2 where
      "inject_scenario http_clear http_inject sid lp (oc_active oc) w = (Inr (scenario_response sc), active', w2)"
      "inject_scenario fake_clear fake_inject sid lp (oc_active oc) c = (Inr (scenario_response sc), active', c2)"
      "fk_injected c2 = fk_injected c @ [(sc_target_asset sc, sid)]"
      "\<forall>a. sim_fault_of w2 a = (if a = sc_target_asset sc then Some sid else None)" .
    with assms(2,3) ORunNext n pack srv show ?thesis by (auto simp: recorded_def with_json_def run_next_def)
  next
    case (ORun sid)
    show ?thesis
    proof (cases "sid \<in> set (rot_ids (oc_rotation oc))")
      case True
      with known obtain sc where "map_of (lp_scenarios_by_id lp) sid = Some sc" by blast
      from serving_inject [OF assms(1) this, of c] obtain active' w2 c2 where
        "inject_scenario http_clear http_inject sid lp (oc_active oc) w = (Inr (scenario_response sc), active', w2)"
        "inject_scenario fake_clear fake_inject sid lp (oc_active oc) c = (Inr (scenario_response sc), active', c2)"
      "fk_injected c2 = fk_injected c @ [(sc_target_asset sc, sid)]"
      "\<forall>a. sim_fault_of w2 a = (if a = sc_target_asset sc then Some sid else None)" .
      with assms(2,3) ORun True pack srv show ?thesis by (auto simp: recorded_def with_json_def run_specific_def rotation_force_def)
    qed (use assms(2-4) ORun srv in \<open>auto simp: with_json_def run_unknown_scenario\<close>)
  next
    case OReset
    from serving_reset [OF assms(1), of c] obtain active' w2 c2 where
      "clear_active http_clear (oc_active oc) (oc_active oc) w = (True, active', w2)"
      "clear_active fake_clear (oc_active oc) (oc_active oc) c = (True, active', c2)" "\<forall>a. sim_fault_of w2 a = None" .
    with assms(2,3) OReset srv show ?thesis by (auto simp: recorded_def with_json_def orch_reset_def)
  next
    case (OLogs a)
    with assms(2-4) srv orch_ok_lookups(2) [OF ok, of now a] show ?thesis
      by (cases "get_logs now a oc") (auto simp: with_json_def)
  next
    case (OAssetScenario a)
    with assms(2-4) srv orch_ok_lookups(3) [OF ok, of a] show ?thesis
      by (cases "get_asset_scenario a oc") (auto simp: with_json_def)
  qed (use assms(2-4) srv orch_ok_lookups(1) [OF ok] in \<open>auto simp: with_json_def\<close>)
qed

text \<open>Any number of requests, each with its clock, its random number and its route: the answers.\<close>

fun orch_session ::
  "(pystr \<Rightarrow> 's \<Rightarrow> bool \<times> 's) \<Rightarrow> (pystr \<Rightarrow> pystr \<Rightarrow> 's \<Rightarrow> bool \<times> 's) \<Rightarrow> (datetime \<times> nat \<times> orch_route) list
     \<Rightarrow> orch \<Rightarrow> 's \<Rightarrow> (orch_exn + json) list \<times> orch \<times> 's" where
  "orch_session clear_fn inject_fn [] oc s = ([], oc, s)"
| "orch_session clear_fn inject_fn ((now, r, route) # rqs) oc s =
     (let (res, oc1, s1) = orch_handle clear_fn inject_fn now r route oc s;
          (rest, oc2, s2) = orch_session clear_fn inject_fn rqs oc1 s1
      in (res # rest, oc2, s2))"

lemma fake_session:
  "lab_serving lp oc w \<Longrightarrow> recorded c w \<Longrightarrow> orch_session http_clear http_inject rqs oc w = (answers, oc1, w1) \<Longrightarrow>
     orch_session fake_clear fake_inject rqs oc c = (answers', oc2, c1) \<Longrightarrow>
     answers' = answers \<and> oc2 = oc1 \<and> recorded c1 w1 \<and> (\<forall>e. Inl e \<in> set answers \<longrightarrow> (\<exists>d. e = OrchHttp (HTTPException 404 d)))"
proof (induction rqs arbitrary: oc w c answers answers')
  case (Cons rq rqs)
  obtain now r route where rq: "rq = (now, r, route)" by (cases rq)
  obtain res oc3 w3 where h: "orch_handle http_clear http_inject now r route oc w = (res, oc3, w3)" by (metis surj_pair)
  obtain res' oc4 c3 where k: "orch_handle fake_clear fake_inject now r route oc c = (res', oc4, c3)" by (metis surj_pair)
  obtain as oc5 w5 where hs: "orch_session http_clear http_inject rqs oc3 w3 = (as, oc5, w5)" by (metis surj_pair)
  obtain as' oc6 c5 where ks: "orch_session fake_clear fake_inject rqs oc4 c3 = (as', oc6, c5)" by (metis surj_pair)
  note one = fake_handle [OF Cons.prems(1) h k Cons.prems(2)]
  from Cons.prems(3,4) h k hs ks one have eqs: "answers = res # as" "oc1 = oc5" "w1 = w5" "answers' = res' # as'" "oc2 = oc6" "c1 = c5"
    by (auto simp: rq)
  from Cons.IH [of oc3 w3 c3 as as'] one hs ks eqs show ?case by auto
qed simp

text \<open>
  C15: The stand-in tells the truth. Over \<open>FakeSimulatorClient\<close>, which acknowledges every call, the
  orchestrator answers every sequence of requests exactly as over the HTTP client and a simulator that
  started on the same pack behind a network that delivers, and ends in the same state; a fault that is
  then in the simulator is the last injection the stand-in recorded; and over either of them no
  request fails but with a 404 of the orchestrator itself. So what is observed of the orchestrator
  with the stand-in holds of the real lab, as long as no request or answer is lost.
\<close>

theorem fake_client_faithful:
  assumes "wf_loaded lp" and "orch_init lp = Inr oc0" and "sw_engine w0 = engine_init lp" and "sw_net w0 = []"
    and "orch_session http_clear http_inject rqs oc0 w0 = (answers, oc, w)"
    and "orch_session fake_clear fake_inject rqs oc0 c0 = (answers', oc', c)"
  shows "answers' = answers \<and> oc' = oc
    \<and> (\<forall>a sid. sim_fault_of w a = Some sid \<longrightarrow> fk_injected c \<noteq> [] \<and> last (fk_injected c) = (a, sid))
    \<and> (\<forall>e. Inl e \<in> set answers \<longrightarrow> (\<exists>d. e = OrchHttp (HTTPException 404 d)))"
proof -
  have "lab_serving lp oc0 w0"
    using assms(1,4) orch_ok_init [OF assms(1,2)] serves_start [OF assms(3)] lab_inv_start [OF assms(1,2) _ assms(3)]
    by (simp add: lab_serving_def no_lost_replies_def)
  moreover have "recorded c0 w0" by (simp add: recorded_def sim_fault_of_def assms(3) engine_init_get_fault)
  ultimately show ?thesis using fake_session [OF _ _ assms(5,6)] by (simp add: recorded_def)
qed

theorem fake_client_faithful_witness:
  "fst (orch_session fake_clear fake_inject [(demo_time, 0, ORunNext), (demo_time, 0, OCurrent), (demo_time, 0, ORun (lit ''s9''))]
      demo_orch fake_init)
   = fst (orch_session http_clear http_inject [(demo_time, 0, ORunNext), (demo_time, 0, OCurrent), (demo_time, 0, ORun (lit ''s9''))]
      demo_orch (demo_lab []))"
proof -
  let ?rqs = "[(demo_time, 0, ORunNext), (demo_time, 0, OCurrent), (demo_time, 0, ORun (lit ''s9''))]"
  obtain answers oc w where h: "orch_session http_clear http_inject ?rqs demo_orch (demo_lab []) = (answers, oc, w)" by (metis surj_pair)
  obtain answers' oc' c where k: "orch_session fake_clear fake_inject ?rqs demo_orch fake_init = (answers', oc', c)" by (metis surj_pair)
  have "sw_engine (demo_lab []) = engine_init demo_pack" "sw_net (demo_lab []) = []" by (simp_all add: demo_lab_def)
  from fake_client_faithful [OF demo_wf demo_orch_init this h k] show ?thesis unfolding h k by simp
qed

end
