(* ===== verification/Spec2Isabelle.thy ===== *)
theory Spec2Isabelle
  imports Lab_Safety Lab_Http Orchestrator Redis_Replicas Redis_Store Gw_Health Kb_Index Terminal_Chain Hook_Relay
    Agent_Safety Lab_Diagnosis Wire_Formats Session_Safety
    Fake_Client
begin

text \<open>
  The NemoClaw lab, its Python services as a verification development.

  The lab injects faults into simulated infrastructure and lets an agent diagnose them, under human
  approval. Paths are under \<open>src/\<close>.

  \<^bold>\<open>The program.\<close> The \<^emph>\<open>simulator\<close> (\<open>services/simulator\<close>) keeps which asset has which fault and
  shows it on a generic or a Redfish surface. The \<^emph>\<open>orchestrator\<close> (\<open>services/orchestrator\<close>) draws
  scenarios, injects them through its simulator client, and serves the log bundles. The \<^emph>\<open>MCP
  tools service\<close> (\<open>services/mcp_tools\<close>) gives the agent monitoring, logs, knowledge-base search,
  notification and remediation; the last one needs a single-use approval token. The \<^emph>\<open>gateway\<close>
  (\<open>services/gateway\<close>) holds the fault events, notifications and activity the dashboard shows,
  takes the operator's decision, mints the token and runs the approved remediation in the
  background. The \<^emph>\<open>terminal daemon\<close> and its \<^emph>\<open>operator console\<close> (\<open>services/terminal\<close>) run on the
  host; the gateway proxies the browser to them. All services share the models and the pack loader
  in \<open>libs/common\<close>.

  \<^bold>\<open>Theories and code.\<close>
  \<^item> \<open>Prelude\<close>, \<open>Py_Text\<close>, \<open>Py_Values\<close>: Python strings as lists of code points, dicts as
    association lists in insertion order, JSON values, exceptions as the left of a sum, UTC times,
    the string methods and built-ins the code calls.
  \<^item> \<open>Models\<close>, \<open>Model_Json\<close>: \<open>libs/common/models.py\<close>, one record per model, one datatype per enum;
    the JSON dumps and the parsers that read them back.
  \<^item> \<open>Pack_Loader\<close>: \<open>libs/common/pack_loader.py\<close>, from the parsed files of a pack to a
    \<open>LoadedPack\<close>.
  \<^item> \<open>Sim_Engine\<close>: \<open>engine.py\<close> and \<open>control.py\<close> of the simulator and the orchestrator's
    \<open>simulator_client.py\<close>. \<open>Service_Contracts\<close> states as locales what the callers rely on; they
    are interpreted on the engine behind the client. \<open>Sim_Surfaces\<close>: \<open>surfaces/generic.py\<close> and
    \<open>surfaces/redfish.py\<close>, every route and the dispatch by path.
  \<^item> \<open>Log_Text\<close>, \<open>Orchestrator\<close>: \<open>rotation.py\<close> and \<open>router.py\<close>. \<open>Orch_Http\<close>: the same as an HTTP
    application, with the JSON of its response models.
  \<^item> \<open>Token_Store\<close>, \<open>Remediation\<close>, \<open>Mcp_Service\<close>: \<open>token_store.py\<close>, \<open>fault_registry.py\<close>,
    \<open>tools/remediation.py\<close>, \<open>tools/notify.py\<close>, the internal endpoints of \<open>main.py\<close> and
    \<open>remediation.execute\<close> of \<open>server.py\<close>. The tool awaits the simulator in the middle, so it is two
    steps, and \<open>Mcp_Service\<close> interleaves the steps of any number of executions as an inductive
    relation. \<open>Mcp_Server\<close>: the eight tools of \<open>server.py\<close> over its module-level state.
  \<^item> \<open>Monitor_Adapters\<close>, \<open>Monitor_Contract\<close>: \<open>adapters/\<close> and \<open>tools/monitor.py\<close>; the locale
    \<open>monitoring_adapter\<close> is the protocol of \<open>adapters/base.py\<close> with its meaning over a simulator,
    interpreted on both adapters.
  \<^item> \<open>Kb_Index\<close>: \<open>kb_index.py\<close>, \<open>tools/kb.py\<close>, \<open>tools/logs.py\<close>.
  \<^item> \<open>Gw_Store\<close>, \<open>Gw_Router\<close>, \<open>Step_Labels\<close>, \<open>Gw_Executor\<close>, \<open>Gw_Safety\<close>: \<open>store.py\<close>, the routes of
    \<open>router.py\<close>, the step labels it derives from the pack, \<open>executor.py\<close>, the start-up of \<open>main.py\<close>.
    Handlers take the store as a record of operations; the locale \<open>gateway_store\<close> of
    \<open>Store_Contract\<close> says when a store behaves as the in-memory one, and is interpreted on that and,
    in \<open>Redis_Store\<close>, on \<open>redis_store.py\<close>.
  \<^item> \<open>Sse_Stream\<close>: the broker and the subscribers of \<open>GET /api/events\<close>. \<open>Redis_Replicas\<close>: the same
    with one broker per gateway replica and Redis pub/sub between them (\<open>redis_store.py\<close>).
    \<open>Gw_Health\<close>: the two health routes of \<open>router.py\<close>.
  \<^item> \<open>Gw_Http\<close>, \<open>Gw_Http_Safety\<close>: the gateway as an HTTP application, from method, path and body to the
    handler and its answer.
  \<^item> \<open>Operator_Console\<close>, \<open>Console_Safety\<close>: \<open>services/terminal/console.py\<close>. \<open>Terminal_Daemon\<close>,
    \<open>Terminal_Safety\<close>: \<open>services/terminal/main.py\<close>; \<open>Terminal_Session\<close>, \<open>Session_Safety\<close>: the life of
    one of its sessions, as steps of the event loop, the shell and the browser. \<open>Gw_Terminal\<close>, \<open>Terminal_Chain\<close>:
    \<open>services/gateway/terminal.py\<close>, alone and in front of the daemon. \<open>Hook_Relay\<close>:
    \<open>deploy/scripts/hook-relay.py\<close>.
  \<^item> \<open>Lab_System\<close>, \<open>Lab_Safety\<close>: the gateway over the MCP tools service over the simulator, one
    remediation and all interleavings. \<open>Agent_Safety\<close>: the tools the agent has over the gateway's HTTP
    application. \<open>Lab_Diagnosis\<close>: the tools over orchestrator, simulator and pack. \<open>Wire_Formats\<close>: the
    internal endpoints and control routes with their request models, and the clients that call them.
  \<^item> \<open>Lab_Http\<close>: the composed lab as it is reached over HTTP, every request of anyone and every tool
    call interleaved, and its simulation by the relation of \<open>Lab_Safety\<close>.
  \<^item> \<open>Orch_Client\<close>: the gateway as client of the orchestrator (\<open>/api/run\<close>, \<open>/api/reset\<close>, the scenario
    steps). \<open>Lab_Network\<close>, \<open>Network_Safety\<close>: all services as one transition system, with one
    simulator shared by the orchestrator and the tools. A gateway request is one step, an
    execution is interleaved at its awaits, and the requests and answers between orchestrator and
    simulator may be lost. \<open>Lab_Story\<close>: one incident from injection to repair in that system.
  \<^item> \<open>Fake_Client\<close>: the \<open>FakeSimulatorClient\<close> of \<open>simulator_client.py\<close>, beside the engine it stands for.
  \<^item> \<open>Service_Startup\<close>: \<open>create_app\<close> and the lifespans of the four services.

  \<^bold>\<open>What is shown.\<close>
  \<^item> The whole way: one approval at the dashboard ends with the asset repaired in the simulator,
    the event resolved and the token spent, or with the error reported and the token unspent
    (\<open>Lab_System\<close>); with the orchestrator in the same system, every change of the simulator is a
    request of the presenter or an approved execution, and grid, events, tokens and active
    scenarios stay coherent (\<open>Network_Safety\<close>); a scenario started over HTTP, proposed by the agent
    and approved ends with the fault gone and the event resolved (\<open>Lab_Story\<close>).
  \<^item> The approval gate: a remediation resolves only with an approved, unspent token of that fault
    event and allowlisted steps, in every interleaving; a token reaches no dashboard event; refused
    calls change nothing; what a decision does on each branch (\<open>Remediation\<close>, \<open>Mcp_Service\<close>,
    \<open>Approval_Gate\<close>).
  \<^item> The agent: no sequence of its tool calls starts an execution, mints a token, touches the
    simulator or ends a fault event (\<open>Agent_Safety\<close>); over HTTP an execution starts only by an
    approving decision (\<open>Gw_Http_Safety\<close>); the evidence its tools return is that of the injected
    scenario (\<open>Lab_Diagnosis\<close>).
  \<^item> Composition: the gateway's HTTP requests are steps of the relation its invariants are proved
    for; the clients of the internal endpoints have the effect of direct calls (\<open>Wire_Formats\<close>); the
    services start on one pack together or not at all (\<open>Service_Startup\<close>).
  \<^item> Refinement: the engine is a map from assets to faults; the Redis store is the in-memory store
    for every write route and the executor; the Redfish adapter is the generic one; the orchestrator
    cannot tell the stand-in client from the engine on assets the engine has (\<open>Fake_Client\<close>).
  \<^item> Invariants over all reachable states: the grid, the fault events and the tokens of the gateway
    agree; the orchestrator knows every fault of the simulator; a loaded pack is referentially
    complete.
  \<^item> The host side: the console and the daemon start only fixed command lines; keystrokes reach the
    process unchanged; the gateway knows whether the agent was told; a session that is not cancelled
    leaves no descriptor, reader, pump or unsignalled shell, and its two pumps do under any
    interleaving what they do one after the other (\<open>Session_Safety\<close>).
  \<^item> Behaviour that contradicts a comment or loses a request is stated as it is:
    overlapping executions share a token, a lost reply orphans a fault, an older resolution hides a
    newer fault, a decision is not final, a proposal reopens a closed event, Redis cannot reset, a malformed resize ends a session, a
    failed send strands a running shell, a stream on a fresh replica misses what is published before its listener is registered.

  \<^bold>\<open>Bounds.\<close> No definition needs fuel: every loop is structural or has a measure (\<open>str_of_nat\<close> and
  the console's loop, whose input is a finite list of lines). What a process does over time (frames,
  reads, bind attempts) is a function of the finite list of what has arrived so far; a terminal
  session is a run over any finite list of events, and what is shown holds for every such list. The wake-up,
  clear and health requests are single calls; the retry of the health probe is the list of its two attempts. Widths matter
  once, in the 16-bit window size, and are written out there.

  \<^bold>\<open>Parameters.\<close> YAML, the embedding model and vector index, HTTP transports, Redis, \<open>subprocess\<close>,
  the editor, the clock and generated ids are arguments; \<open>oe_url\<close> is what \<open>httpx\<close>
  and the server make of a path. Hypotheses on them are named where they are used
  (\<open>sandbox_laws\<close>, \<open>paths_ok\<close>, \<open>redis_feed\<close>, \<open>valid_datetime\<close>) and every such property has a witness.

  \<^bold>\<open>Not modelled.\<close> FastAPI, FastMCP and pydantic internals (what a request model accepts is
  written out, the text of its error is not), CORS, static files and logging, the scheduling policy
  of \<open>asyncio\<close> (a session takes any order of its events), what the forked child does before it runs
  the shell, and everything that is not Python: the dashboard, shell scripts, charts and pack data.
\<close>

end
